(* ===== verification/Vmlinux_Hooks.thy ===== *)
theory Vmlinux_Hooks
  imports Main
begin

text \<open>
  The table of the kernel's security hooks, \<open>union security_list_options\<close> of \<open>bpf/vmlinux.h\<close>, and
  the places where the LSM programs attach: the section name and the parameters of each
  \<open>BPF_PROG\<close>.
\<close>

section \<open>Hook signatures\<close>

text \<open>
  A parameter is an integer of some width in bytes and signedness, a pointer with what it points
  to, or a typedef or enumeration passed by value.
\<close>

datatype hook_param = IntParam nat bool | PtrParam string | NamedParam string

text \<open>Hooks by name, with result and parameters.\<close>

type_synonym hook_table = "(string \<times> string \<times> hook_param list) list"

definition security_hooks_first :: hook_table where
  "security_hooks_first = [
     (''binder_set_context_mgr'', ''int'', [PtrParam ''const struct cred'']),
     (''binder_transaction'', ''int'', [PtrParam ''const struct cred'', PtrParam ''const struct cred'']),
     (''binder_transfer_binder'', ''int'', [PtrParam ''const struct cred'', PtrParam ''const struct cred'']),
     (''binder_transfer_file'', ''int'', [PtrParam ''const struct cred'', PtrParam ''const struct cred'', PtrParam ''const struct file'']),
     (''ptrace_access_check'', ''int'', [PtrParam ''struct task_struct'', IntParam 4 False]),
     (''ptrace_traceme'', ''int'', [PtrParam ''struct task_struct'']),
     (''capget'', ''int'', [PtrParam ''const struct task_struct'', PtrParam ''kernel_cap_t'', PtrParam ''kernel_cap_t'', PtrParam ''kernel_cap_t'']),
     (''capset'', ''int'', [PtrParam ''struct cred'', PtrParam ''const struct cred'', PtrParam ''const kernel_cap_t'', PtrParam ''const kernel_cap_t'', PtrParam ''const kernel_cap_t'']),
     (''capable'', ''int'', [PtrParam ''const struct cred'', PtrParam ''struct user_namespace'', IntParam 4 True, IntParam 4 False]),
     (''quotactl'', ''int'', [IntParam 4 True, IntParam 4 True, IntParam 4 True, PtrParam ''const struct super_block'']),
     (''quota_on'', ''int'', [PtrParam ''struct dentry'']),
     (''syslog'', ''int'', [IntParam 4 True]),
     (''settime'', ''int'', [PtrParam ''const struct timespec64'', PtrParam ''const struct timezone'']),
     (''vm_enough_memory'', ''int'', [PtrParam ''struct mm_struct'', IntParam 8 True]),
     (''bprm_creds_for_exec'', ''int'', [PtrParam ''struct linux_binprm'']),
     (''bprm_creds_from_file'', ''int'', [PtrParam ''struct linux_binprm'', PtrParam ''const struct file'']),
     (''bprm_check_security'', ''int'', [PtrParam ''struct linux_binprm'']),
     (''bprm_committing_creds'', ''void'', [PtrParam ''const struct linux_binprm'']),
     (''bprm_committed_creds'', ''void'', [PtrParam ''const struct linux_binprm'']),
     (''fs_context_submount'', ''int'', [PtrParam ''struct fs_context'', PtrParam ''struct super_block'']),
     (''fs_context_dup'', ''int'', [PtrParam ''struct fs_context'', PtrParam ''struct fs_context'']),
     (''fs_context_parse_param'', ''int'', [PtrParam ''struct fs_context'', PtrParam ''struct fs_parameter'']),
     (''sb_alloc_security'', ''int'', [PtrParam ''struct super_block'']),
     (''sb_delete'', ''void'', [PtrParam ''struct super_block'']),
     (''sb_free_security'', ''void'', [PtrParam ''struct super_block'']),
     (''sb_free_mnt_opts'', ''void'', [PtrParam ''void'']),
     (''sb_eat_lsm_opts'', ''int'', [PtrParam ''char'', PtrParam ''void *'']),
     (''sb_mnt_opts_compat'', ''int'', [PtrParam ''struct super_block'', PtrParam ''void'']),
     (''sb_remount'', ''int'', [PtrParam ''struct super_block'', PtrParam ''void'']),
     (''sb_kern_mount'', ''int'', [PtrParam ''const struct super_block'']),
     (''sb_show_options'', ''int'', [PtrParam ''struct seq_file'', PtrParam ''struct super_block'']),
     (''sb_statfs'', ''int'', [PtrParam ''struct dentry'']),
     (''sb_mount'', ''int'', [PtrParam ''const char'', PtrParam ''const struct path'', PtrParam ''const char'', IntParam 8 False, PtrParam ''void'']),
     (''sb_umount'', ''int'', [PtrParam ''struct vfsmount'', IntParam 4 True]),
     (''sb_pivotroot'', ''int'', [PtrParam ''const struct path'', PtrParam ''const struct path'']),
     (''sb_set_mnt_opts'', ''int'', [PtrParam ''struct super_block'', PtrParam ''void'', IntParam 8 False, PtrParam ''long unsigned int'']),
     (''sb_clone_mnt_opts'', ''int'', [PtrParam ''const struct super_block'', PtrParam ''struct super_block'', IntParam 8 False, PtrParam ''long unsigned int'']),
     (''move_mount'', ''int'', [PtrParam ''const struct path'', PtrParam ''const struct path'']),
     (''dentry_init_security'', ''int'', [PtrParam ''struct dentry'', IntParam 4 True, PtrParam ''const struct qstr'', PtrParam ''const char *'', PtrParam ''struct lsm_context'']),
     (''dentry_create_files_as'', ''int'', [PtrParam ''struct dentry'', IntParam 4 True, PtrParam ''const struct qstr'', PtrParam ''const struct cred'', PtrParam ''struct cred'']),
     (''path_notify'', ''int'', [PtrParam ''const struct path'', NamedParam ''u64'', IntParam 4 False]),
     (''inode_alloc_security'', ''int'', [PtrParam ''struct inode'']),
     (''inode_free_security'', ''void'', [PtrParam ''struct inode'']),
     (''inode_free_security_rcu'', ''void'', [PtrParam ''void'']),
     (''inode_init_security'', ''int'', [PtrParam ''struct inode'', PtrParam ''struct inode'', PtrParam ''const struct qstr'', PtrParam ''struct xattr'', PtrParam ''int'']),
     (''inode_init_security_anon'', ''int'', [PtrParam ''struct inode'', PtrParam ''const struct qstr'', PtrParam ''const struct inode'']),
     (''inode_create'', ''int'', [PtrParam ''struct inode'', PtrParam ''struct dentry'', NamedParam ''umode_t'']),
     (''inode_post_create_tmpfile'', ''void'', [PtrParam ''struct mnt_idmap'', PtrParam ''struct inode'']),
     (''inode_link'', ''int'', [PtrParam ''struct dentry'', PtrParam ''struct inode'', PtrParam ''struct dentry'']),
     (''inode_unlink'', ''int'', [PtrParam ''struct inode'', PtrParam ''struct dentry'']),
     (''inode_symlink'', ''int'', [PtrParam ''struct inode'', PtrParam ''struct dentry'', PtrParam ''const char'']),
     (''inode_mkdir'', ''int'', [PtrParam ''struct inode'', PtrParam ''struct dentry'', NamedParam ''umode_t'']),
     (''inode_rmdir'', ''int'', [PtrParam ''struct inode'', PtrParam ''struct dentry'']),
     (''inode_mknod'', ''int'', [PtrParam ''struct inode'', PtrParam ''struct dentry'', NamedParam ''umode_t'', NamedParam ''dev_t'']),
     (''inode_rename'', ''int'', [PtrParam ''struct inode'', PtrParam ''struct dentry'', PtrParam ''struct inode'', PtrParam ''struct dentry'']),
     (''inode_readlink'', ''int'', [PtrParam ''struct dentry'']),
     (''inode_follow_link'', ''int'', [PtrParam ''struct dentry'', PtrParam ''struct inode'', NamedParam ''bool'']),
     (''inode_permission'', ''int'', [PtrParam ''struct inode'', IntParam 4 True]),
     (''inode_setattr'', ''int'', [PtrParam ''struct mnt_idmap'', PtrParam ''struct dentry'', PtrParam ''struct iattr'']),
     (''inode_post_setattr'', ''void'', [PtrParam ''struct mnt_idmap'', PtrParam ''struct dentry'', IntParam 4 True]),
     (''inode_getattr'', ''int'', [PtrParam ''const struct path'']),
     (''inode_xattr_skipcap'', ''int'', [PtrParam ''const char'']),
     (''inode_setxattr'', ''int'', [PtrParam ''struct mnt_idmap'', PtrParam ''struct dentry'', PtrParam ''const char'', PtrParam ''const void'', NamedParam ''size_t'', IntParam 4 True]),
     (''inode_post_setxattr'', ''void'', [PtrParam ''struct dentry'', PtrParam ''const char'', PtrParam ''const void'', NamedParam ''size_t'', IntParam 4 True]),
     (''inode_getxattr'', ''int'', [PtrParam ''struct dentry'', PtrParam ''const char'']),
     (''inode_listxattr'', ''int'', [PtrParam ''struct dentry'']),
     (''inode_removexattr'', ''int'', [PtrParam ''struct mnt_idmap'', PtrParam ''struct dentry'', PtrParam ''const char'']),
     (''inode_post_removexattr'', ''void'', [PtrParam ''struct dentry'', PtrParam ''const char'']),
     (''inode_file_setattr'', ''int'', [PtrParam ''struct dentry'', PtrParam ''struct file_kattr'']),
     (''inode_file_getattr'', ''int'', [PtrParam ''struct dentry'', PtrParam ''struct file_kattr'']),
     (''inode_set_acl'', ''int'', [PtrParam ''struct mnt_idmap'', PtrParam ''struct dentry'', PtrParam ''const char'', PtrParam ''struct posix_acl'']),
     (''inode_post_set_acl'', ''void'', [PtrParam ''struct dentry'', PtrParam ''const char'', PtrParam ''struct posix_acl'']),
     (''inode_get_acl'', ''int'', [PtrParam ''struct mnt_idmap'', PtrParam ''struct dentry'', PtrParam ''const char'']),
     (''inode_remove_acl'', ''int'', [PtrParam ''struct mnt_idmap'', PtrParam ''struct dentry'', PtrParam ''const char'']),
     (''inode_post_remove_acl'', ''void'', [PtrParam ''struct mnt_idmap'', PtrParam ''struct dentry'', PtrParam ''const char'']),
     (''inode_need_killpriv'', ''int'', [PtrParam ''struct dentry'']),
     (''inode_killpriv'', ''int'', [PtrParam ''struct mnt_idmap'', PtrParam ''struct dentry'']),
     (''inode_getsecurity'', ''int'', [PtrParam ''struct mnt_idmap'', PtrParam ''struct inode'', PtrParam ''const char'', PtrParam ''void *'', NamedParam ''bool'']),
     (''inode_setsecurity'', ''int'', [PtrParam ''struct inode'', PtrParam ''const char'', PtrParam ''const void'', NamedParam ''size_t'', IntParam 4 True]),
     (''inode_listsecurity'', ''int'', [PtrParam ''struct inode'', PtrParam ''char'', NamedParam ''size_t'']),
     (''inode_getlsmprop'', ''void'', [PtrParam ''struct inode'', PtrParam ''struct lsm_prop'']),
     (''inode_copy_up'', ''int'', [PtrParam ''struct dentry'', PtrParam ''struct cred *'']),
     (''inode_copy_up_xattr'', ''int'', [PtrParam ''struct dentry'', PtrParam ''const char'']),
     (''inode_setintegrity'', ''int'', [PtrParam ''const struct inode'', NamedParam ''enum lsm_integrity_type'', PtrParam ''const void'', NamedParam ''size_t'']),
     (''kernfs_init_security'', ''int'', [PtrParam ''struct kernfs_node'', PtrParam ''struct kernfs_node'']),
     (''file_permission'', ''int'', [PtrParam ''struct file'', IntParam 4 True]),
     (''file_alloc_security'', ''int'', [PtrParam ''struct file'']),
     (''file_release'', ''void'', [PtrParam ''struct file'']),
     (''file_free_security'', ''void'', [PtrParam ''struct file'']),
     (''file_ioctl'', ''int'', [PtrParam ''struct file'', IntParam 4 False, IntParam 8 False]),
     (''file_ioctl_compat'', ''int'', [PtrParam ''struct file'', IntParam 4 False, IntParam 8 False]),
     (''mmap_addr'', ''int'', [IntParam 8 False]),
     (''mmap_file'', ''int'', [PtrParam ''struct file'', IntParam 8 False, IntParam 8 False, IntParam 8 False]),
     (''file_mprotect'', ''int'', [PtrParam ''struct vm_area_struct'', IntParam 8 False, IntParam 8 False]),
     (''file_lock'', ''int'', [PtrParam ''struct file'', IntParam 4 False]),
     (''file_fcntl'', ''int'', [PtrParam ''struct file'', IntParam 4 False, IntParam 8 False])]"

definition security_hooks_rest :: hook_table where
  "security_hooks_rest = [
     (''file_set_fowner'', ''void'', [PtrParam ''struct file'']),
     (''file_send_sigiotask'', ''int'', [PtrParam ''struct task_struct'', PtrParam ''struct fown_struct'', IntParam 4 True]),
     (''file_receive'', ''int'', [PtrParam ''struct file'']),
     (''file_open'', ''int'', [PtrParam ''struct file'']),
     (''file_post_open'', ''int'', [PtrParam ''struct file'', IntParam 4 True]),
     (''file_truncate'', ''int'', [PtrParam ''struct file'']),
     (''task_alloc'', ''int'', [PtrParam ''struct task_struct'', NamedParam ''u64'']),
     (''task_free'', ''void'', [PtrParam ''struct task_struct'']),
     (''cred_alloc_blank'', ''int'', [PtrParam ''struct cred'', NamedParam ''gfp_t'']),
     (''cred_free'', ''void'', [PtrParam ''struct cred'']),
     (''cred_prepare'', ''int'', [PtrParam ''struct cred'', PtrParam ''const struct cred'', NamedParam ''gfp_t'']),
     (''cred_transfer'', ''void'', [PtrParam ''struct cred'', PtrParam ''const struct cred'']),
     (''cred_getsecid'', ''void'', [PtrParam ''const struct cred'', PtrParam ''u32'']),
     (''cred_getlsmprop'', ''void'', [PtrParam ''const struct cred'', PtrParam ''struct lsm_prop'']),
     (''kernel_act_as'', ''int'', [PtrParam ''struct cred'', NamedParam ''u32'']),
     (''kernel_create_files_as'', ''int'', [PtrParam ''struct cred'', PtrParam ''struct inode'']),
     (''kernel_module_request'', ''int'', [PtrParam ''char'']),
     (''kernel_load_data'', ''int'', [NamedParam ''enum kernel_load_data_id'', NamedParam ''bool'']),
     (''kernel_post_load_data'', ''int'', [PtrParam ''char'', NamedParam ''loff_t'', NamedParam ''enum kernel_load_data_id'', PtrParam ''char'']),
     (''kernel_read_file'', ''int'', [PtrParam ''struct file'', NamedParam ''enum kernel_read_file_id'', NamedParam ''bool'']),
     (''kernel_post_read_file'', ''int'', [PtrParam ''struct file'', PtrParam ''char'', NamedParam ''loff_t'', NamedParam ''enum kernel_read_file_id'']),
     (''task_fix_setuid'', ''int'', [PtrParam ''struct cred'', PtrParam ''const struct cred'', IntParam 4 True]),
     (''task_fix_setgid'', ''int'', [PtrParam ''struct cred'', PtrParam ''const struct cred'', IntParam 4 True]),
     (''task_fix_setgroups'', ''int'', [PtrParam ''struct cred'', PtrParam ''const struct cred'']),
     (''task_setpgid'', ''int'', [PtrParam ''struct task_struct'', NamedParam ''pid_t'']),
     (''task_getpgid'', ''int'', [PtrParam ''struct task_struct'']),
     (''task_getsid'', ''int'', [PtrParam ''struct task_struct'']),
     (''current_getlsmprop_subj'', ''void'', [PtrParam ''struct lsm_prop'']),
     (''task_getlsmprop_obj'', ''void'', [PtrParam ''struct task_struct'', PtrParam ''struct lsm_prop'']),
     (''task_setnice'', ''int'', [PtrParam ''struct task_struct'', IntParam 4 True]),
     (''task_setioprio'', ''int'', [PtrParam ''struct task_struct'', IntParam 4 True]),
     (''task_getioprio'', ''int'', [PtrParam ''struct task_struct'']),
     (''task_prlimit'', ''int'', [PtrParam ''const struct cred'', PtrParam ''const struct cred'', IntParam 4 False]),
     (''task_setrlimit'', ''int'', [PtrParam ''struct task_struct'', IntParam 4 False, PtrParam ''struct rlimit'']),
     (''task_setscheduler'', ''int'', [PtrParam ''struct task_struct'']),
     (''task_getscheduler'', ''int'', [PtrParam ''struct task_struct'']),
     (''task_movememory'', ''int'', [PtrParam ''struct task_struct'']),
     (''task_kill'', ''int'', [PtrParam ''struct task_struct'', PtrParam ''struct kernel_siginfo'', IntParam 4 True, PtrParam ''const struct cred'']),
     (''task_prctl'', ''int'', [IntParam 4 True, IntParam 8 False, IntParam 8 False, IntParam 8 False, IntParam 8 False]),
     (''task_to_inode'', ''void'', [PtrParam ''struct task_struct'', PtrParam ''struct inode'']),
     (''userns_create'', ''int'', [PtrParam ''const struct cred'']),
     (''ipc_permission'', ''int'', [PtrParam ''struct kern_ipc_perm'', IntParam 2 True]),
     (''ipc_getlsmprop'', ''void'', [PtrParam ''struct kern_ipc_perm'', PtrParam ''struct lsm_prop'']),
     (''msg_msg_alloc_security'', ''int'', [PtrParam ''struct msg_msg'']),
     (''msg_msg_free_security'', ''void'', [PtrParam ''struct msg_msg'']),
     (''msg_queue_alloc_security'', ''int'', [PtrParam ''struct kern_ipc_perm'']),
     (''msg_queue_free_security'', ''void'', [PtrParam ''struct kern_ipc_perm'']),
     (''msg_queue_associate'', ''int'', [PtrParam ''struct kern_ipc_perm'', IntParam 4 True]),
     (''msg_queue_msgctl'', ''int'', [PtrParam ''struct kern_ipc_perm'', IntParam 4 True]),
     (''msg_queue_msgsnd'', ''int'', [PtrParam ''struct kern_ipc_perm'', PtrParam ''struct msg_msg'', IntParam 4 True]),
     (''msg_queue_msgrcv'', ''int'', [PtrParam ''struct kern_ipc_perm'', PtrParam ''struct msg_msg'', PtrParam ''struct task_struct'', IntParam 8 True, IntParam 4 True]),
     (''shm_alloc_security'', ''int'', [PtrParam ''struct kern_ipc_perm'']),
     (''shm_free_security'', ''void'', [PtrParam ''struct kern_ipc_perm'']),
     (''shm_associate'', ''int'', [PtrParam ''struct kern_ipc_perm'', IntParam 4 True]),
     (''shm_shmctl'', ''int'', [PtrParam ''struct kern_ipc_perm'', IntParam 4 True]),
     (''shm_shmat'', ''int'', [PtrParam ''struct kern_ipc_perm'', PtrParam ''char'', IntParam 4 True]),
     (''sem_alloc_security'', ''int'', [PtrParam ''struct kern_ipc_perm'']),
     (''sem_free_security'', ''void'', [PtrParam ''struct kern_ipc_perm'']),
     (''sem_associate'', ''int'', [PtrParam ''struct kern_ipc_perm'', IntParam 4 True]),
     (''sem_semctl'', ''int'', [PtrParam ''struct kern_ipc_perm'', IntParam 4 True]),
     (''sem_semop'', ''int'', [PtrParam ''struct kern_ipc_perm'', PtrParam ''struct sembuf'', IntParam 4 False, IntParam 4 True]),
     (''netlink_send'', ''int'', [PtrParam ''struct sock'', PtrParam ''struct sk_buff'']),
     (''d_instantiate'', ''void'', [PtrParam ''struct dentry'', PtrParam ''struct inode'']),
     (''getselfattr'', ''int'', [IntParam 4 False, PtrParam ''struct lsm_ctx'', PtrParam ''u32'', NamedParam ''u32'']),
     (''setselfattr'', ''int'', [IntParam 4 False, PtrParam ''struct lsm_ctx'', NamedParam ''u32'', NamedParam ''u32'']),
     (''getprocattr'', ''int'', [PtrParam ''struct task_struct'', PtrParam ''const char'', PtrParam ''char *'']),
     (''setprocattr'', ''int'', [PtrParam ''const char'', PtrParam ''void'', NamedParam ''size_t'']),
     (''ismaclabel'', ''int'', [PtrParam ''const char'']),
     (''secid_to_secctx'', ''int'', [NamedParam ''u32'', PtrParam ''struct lsm_context'']),
     (''lsmprop_to_secctx'', ''int'', [PtrParam ''struct lsm_prop'', PtrParam ''struct lsm_context'']),
     (''secctx_to_secid'', ''int'', [PtrParam ''const char'', NamedParam ''u32'', PtrParam ''u32'']),
     (''release_secctx'', ''void'', [PtrParam ''struct lsm_context'']),
     (''inode_invalidate_secctx'', ''void'', [PtrParam ''struct inode'']),
     (''inode_notifysecctx'', ''int'', [PtrParam ''struct inode'', PtrParam ''void'', NamedParam ''u32'']),
     (''inode_setsecctx'', ''int'', [PtrParam ''struct dentry'', PtrParam ''void'', NamedParam ''u32'']),
     (''inode_getsecctx'', ''int'', [PtrParam ''struct inode'', PtrParam ''struct lsm_context'']),
     (''bpf'', ''int'', [IntParam 4 True, PtrParam ''union bpf_attr'', IntParam 4 False, NamedParam ''bool'']),
     (''bpf_map'', ''int'', [PtrParam ''struct bpf_map'', NamedParam ''fmode_t'']),
     (''bpf_prog'', ''int'', [PtrParam ''struct bpf_prog'']),
     (''bpf_map_create'', ''int'', [PtrParam ''struct bpf_map'', PtrParam ''union bpf_attr'', PtrParam ''struct bpf_token'', NamedParam ''bool'']),
     (''bpf_map_free'', ''void'', [PtrParam ''struct bpf_map'']),
     (''bpf_prog_load'', ''int'', [PtrParam ''struct bpf_prog'', PtrParam ''union bpf_attr'', PtrParam ''struct bpf_token'', NamedParam ''bool'']),
     (''bpf_prog_free'', ''void'', [PtrParam ''struct bpf_prog'']),
     (''bpf_token_create'', ''int'', [PtrParam ''struct bpf_token'', PtrParam ''union bpf_attr'', PtrParam ''const struct path'']),
     (''bpf_token_free'', ''void'', [PtrParam ''struct bpf_token'']),
     (''bpf_token_cmd'', ''int'', [PtrParam ''const struct bpf_token'', NamedParam ''enum bpf_cmd'']),
     (''bpf_token_capable'', ''int'', [PtrParam ''const struct bpf_token'', IntParam 4 True]),
     (''locked_down'', ''int'', [NamedParam ''enum lockdown_reason'']),
     (''perf_event_open'', ''int'', [IntParam 4 True]),
     (''perf_event_alloc'', ''int'', [PtrParam ''struct perf_event'']),
     (''perf_event_read'', ''int'', [PtrParam ''struct perf_event'']),
     (''perf_event_write'', ''int'', [PtrParam ''struct perf_event'']),
     (''initramfs_populated'', ''void'', []),
     (''bdev_alloc_security'', ''int'', [PtrParam ''struct block_device'']),
     (''bdev_free_security'', ''void'', [PtrParam ''struct block_device'']),
     (''bdev_setintegrity'', ''int'', [PtrParam ''struct block_device'', NamedParam ''enum lsm_integrity_type'', PtrParam ''const void'', NamedParam ''size_t''])]"

definition security_list_options :: hook_table where
  "security_list_options = security_hooks_first @ security_hooks_rest"

section \<open>Attached programs\<close>

text \<open>A program: its name, the hook of its section, and its parameters.\<close>

type_synonym attachment = "string \<times> string \<times> hook_param list"

definition lsm_exec_attach :: attachment where
  "lsm_exec_attach = (''lsm_exec_check'', ''bprm_check_security'',
     [PtrParam ''struct linux_binprm'', IntParam 4 True])"

definition lsm_file_attach :: attachment where
  "lsm_file_attach = (''lsm_file_check'', ''file_open'',
     [PtrParam ''struct file''])"

definition lsm_connect_attach :: attachment where
  "lsm_connect_attach = (''lsm_connect_check'', ''socket_connect'',
     [PtrParam ''struct socket'', PtrParam ''struct sockaddr'', IntParam 4 True])"

definition lsm_bind_attach :: attachment where
  "lsm_bind_attach = (''lsm_bind_check'', ''socket_bind'',
     [PtrParam ''struct socket'', PtrParam ''struct sockaddr'', IntParam 4 True])"

definition lsm_listen_attach :: attachment where
  "lsm_listen_attach = (''lsm_listen_check'', ''socket_listen'',
     [PtrParam ''struct socket'', IntParam 4 True])"

definition lsm_ptrace_attach :: attachment where
  "lsm_ptrace_attach = (''lsm_ptrace_check'', ''ptrace_access_check'',
     [PtrParam ''struct task_struct'', IntParam 4 False])"

definition lsm_mount_attach :: attachment where
  "lsm_mount_attach = (''lsm_mount_check'', ''sb_mount'',
     [PtrParam ''const char'', PtrParam ''const struct path'', PtrParam ''const char'', IntParam 8 False, PtrParam ''void''])"

definition lsm_attachments :: "attachment list" where
  "lsm_attachments =
     [lsm_exec_attach,
      lsm_file_attach,
      lsm_connect_attach,
      lsm_bind_attach,
      lsm_listen_attach,
      lsm_ptrace_attach,
      lsm_mount_attach]"

text \<open>
  A program fits its hook when the hook exists, returns an \<open>int\<close>, and takes the program's
  parameters; a BPF program may take the result of the programs before it as one more \<open>int\<close>.
\<close>

definition fits_hook :: "hook_table \<Rightarrow> attachment \<Rightarrow> bool" where
  "fits_hook hooks prog =
     (case prog of (name, hook, params) \<Rightarrow>
        (case map_of hooks hook of
           None \<Rightarrow> False
         | Some (result, ps) \<Rightarrow>
             result = ''int'' \<and> (params = ps \<or> params = ps @ [IntParam 4 True])))"

text \<open>
  Four of the programs have the signature of their hook; the table has no hooks for sockets, so
  the other three have none.
\<close>

lemma programs_fit:
  "list_all (fits_hook security_list_options)
     [lsm_exec_attach, lsm_file_attach, lsm_ptrace_attach, lsm_mount_attach]"
  "list_all (\<lambda>(name, hook, params). map_of security_list_options hook = None)
     [lsm_connect_attach, lsm_bind_attach, lsm_listen_attach]"
  by code_simp+

end
