(* ===== verification/Lsm_Loader.thy ===== *)
theory Lsm_Loader
  imports Vmlinux_Hooks
begin

text \<open>
  The loader of the LSM programs, \<open>internal/ebpf/lsm_loader.go\<close>: the check for BPF LSM support,
  the loading and attaching of the seven programs, and \<open>Close\<close>. What the machine answers (files,
  the loading of an object, the attaching of a program) is a parameter; the kernel resources that
  the process holds are a set.
\<close>

section \<open>Go string functions\<close>

definition go_space :: "char \<Rightarrow> bool" where
  "go_space c \<longleftrightarrow> c \<in> {CHR '' '', CHR 0x09, CHR 0x0A, CHR 0x0B, CHR 0x0C, CHR 0x0D}"

definition go_trim :: "string \<Rightarrow> string" where
  "go_trim s = rev (dropWhile go_space (rev (dropWhile go_space s)))"

text \<open>\<open>strings.Split\<close> on one separator: always at least one part.\<close>

fun go_split :: "char \<Rightarrow> string \<Rightarrow> string list" where
  "go_split sep [] = [[]]"
| "go_split sep (c # cs) =
     (if c = sep then [] # go_split sep cs
      else case go_split sep cs of part # parts \<Rightarrow> (c # part) # parts | [] \<Rightarrow> [[c]])"

text \<open>\<open>strings.Fields\<close>: the parts between white space.\<close>

definition go_fields :: "string \<Rightarrow> string list" where
  "go_fields s =
     filter (\<lambda>f. f \<noteq> []) (go_split (CHR '' '') (map (\<lambda>c. if go_space c then CHR '' '' else c) s))"

section \<open>The machine\<close>

record machine =
  securityfs_lsm :: "string option"
  proc_cmdline :: "string option"
  memlock_removed :: bool
  btf_present :: bool
  loads :: "string \<Rightarrow> bool"
  attaches :: "attachment \<Rightarrow> bool"
  reader_opens :: bool

datatype resource = ObjsOf string | LinkOf string | RingReader

section \<open>Support\<close>

definition IsLSMSupported :: "machine \<Rightarrow> bool" where
  "IsLSMSupported m =
     (case securityfs_lsm m of
        Some content \<Rightarrow> (\<exists>l \<in> set (go_split (CHR '','') (go_trim content)). go_trim l = ''bpf'')
      | None \<Rightarrow>
          (case proc_cmdline m of
             Some content \<Rightarrow>
               (\<exists>field \<in> set (go_fields content).
                  take 4 field = ''lsm='' \<and> ''bpf'' \<in> set (go_split (CHR '','') (drop 4 field)))
           | None \<Rightarrow> False))"

section \<open>Loading and closing\<close>

text \<open>
  The loader's pointers: the object structs that were allocated, whether or not their loading
  succeeded, the links, and the ring buffer reader.
\<close>

record LSMLoader =
  l_objs :: "string list"
  l_links :: "string list"
  l_reader :: bool

datatype load_error =
    MemlockFailed
  | NoKernelBTF
  | LoadFailed string
  | AttachFailed string
  | ReaderFailed

definition Close :: "LSMLoader \<Rightarrow> resource set \<Rightarrow> resource set" where
  "Close l held =
     (let held = (if l_reader l then held - {RingReader} else held);
          held = held - LinkOf ` set (l_links l)
      in held - ObjsOf ` set (l_objs l))"

text \<open>
  One program after the other: allocate its objects, load them, attach the program. The first
  failure closes what was opened; a failure to load the very first object returns at once.
\<close>

fun load_programs ::
  "machine \<Rightarrow> attachment list \<Rightarrow> LSMLoader \<Rightarrow> resource set \<Rightarrow> (load_error + LSMLoader) \<times> resource set" where
  "load_programs m [] l held = (Inr l, held)"
| "load_programs m ((name, hook, params) # ps) l held =
     (let first = (l_objs l = []);
          l = l\<lparr>l_objs := l_objs l @ [name]\<rparr>
      in if \<not> loads m name then (Inl (LoadFailed name), if first then held else Close l held)
         else let held = insert (ObjsOf name) held
              in if \<not> attaches m (name, hook, params) then (Inl (AttachFailed hook), Close l held)
                 else load_programs m ps (l\<lparr>l_links := l_links l @ [name]\<rparr>) (insert (LinkOf name) held))"

text \<open>\<open>Inr None\<close> is a nil loader without an error.\<close>

definition LoadLSM :: "machine \<Rightarrow> (load_error + LSMLoader option) \<times> resource set" where
  "LoadLSM m =
     (if \<not> IsLSMSupported m then (Inr None, {})
      else if \<not> memlock_removed m then (Inl MemlockFailed, {})
      else if \<not> btf_present m then (Inl NoKernelBTF, {})
      else case load_programs m lsm_attachments \<lparr> l_objs = [], l_links = [], l_reader = False \<rparr> {} of
             (Inl e, held) \<Rightarrow> (Inl e, held)
           | (Inr l, held) \<Rightarrow>
               if \<not> reader_opens m then (Inl ReaderFailed, Close l held)
               else (Inr (Some (l\<lparr>l_reader := True\<rparr>)), insert RingReader held))"

section \<open>All or nothing\<close>

definition resources :: "LSMLoader \<Rightarrow> resource set" where
  "resources l =
     ObjsOf ` set (l_objs l) \<union> LinkOf ` set (l_links l) \<union> (if l_reader l then {RingReader} else {})"

lemma Close_all: "held \<subseteq> resources l \<Longrightarrow> Close l held = {}"
  by (auto simp: Close_def resources_def Let_def)

lemma load_programs_spec:
  assumes "held = resources l" and "l_links l = l_objs l" and "\<not> l_reader l"
  shows "case load_programs m ps l held of
      (Inl e, held') \<Rightarrow> held' = {}
    | (Inr l', held') \<Rightarrow>
        held' = resources l' \<and> l_objs l' = l_objs l @ map fst ps \<and> l_links l' = l_objs l' \<and>
        \<not> l_reader l' \<and> list_all (\<lambda>p. loads m (fst p) \<and> attaches m p) ps"
  using assms
proof (induction m ps l held rule: load_programs.induct)
  case (2 m name hook params ps l held)
  let ?l = "l\<lparr>l_objs := l_objs l @ [name]\<rparr>"
  let ?l' = "?l\<lparr>l_links := l_links l @ [name]\<rparr>"
  show ?case
  proof (cases "loads m name \<and> attaches m (name, hook, params)")
    case True
    have "insert (LinkOf name) (insert (ObjsOf name) held) = resources ?l'"
      using "2.prems" by (auto simp: resources_def)
    then show ?thesis
      using True "2.IH" [OF refl refl] "2.prems" by (simp add: Let_def split: prod.splits sum.splits)
  next
    case False
    have "held \<subseteq> resources ?l" and "insert (ObjsOf name) held \<subseteq> resources ?l"
      using "2.prems" by (auto simp: resources_def)
    moreover have "l_objs l = [] \<Longrightarrow> held = {}"
      using "2.prems" by (simp add: resources_def)
    ultimately show ?thesis
      using False Close_all by (auto simp: Let_def)
  qed
qed simp

lemma load_programs_ok:
  "list_all (\<lambda>p. loads m (fst p) \<and> attaches m p) ps \<Longrightarrow>
   \<exists>l' held'. load_programs m ps l held = (Inr l', held')"
  by (induction m ps l held rule: load_programs.induct) (auto simp: Let_def)

lemma LoadLSM_outcome:
  assumes "LoadLSM m = (result, held)"
  shows "(case result of
      Inl e \<Rightarrow> held = {}
    | Inr None \<Rightarrow> \<not> IsLSMSupported m \<and> held = {}
    | Inr (Some l) \<Rightarrow>
        IsLSMSupported m \<and> list_all (\<lambda>p. loads m (fst p) \<and> attaches m p) lsm_attachments \<and>
        l_links l = map fst lsm_attachments \<and> held = resources l \<and> Close l held = {}) \<and>
    (IsLSMSupported m \<and> memlock_removed m \<and> btf_present m \<and> reader_opens m \<and>
     list_all (\<lambda>p. loads m (fst p) \<and> attaches m p) lsm_attachments \<longrightarrow>
     (\<exists>l. result = Inr (Some l)))"
proof -
  let ?l = "\<lparr> l_objs = [], l_links = [], l_reader = False \<rparr>"
  have "case load_programs m lsm_attachments ?l {} of
      (Inl e, held') \<Rightarrow> held' = {}
    | (Inr l', held') \<Rightarrow>
        held' = resources l' \<and> l_objs l' = l_objs ?l @ map fst lsm_attachments \<and>
        l_links l' = l_objs l' \<and> \<not> l_reader l' \<and>
        list_all (\<lambda>p. loads m (fst p) \<and> attaches m p) lsm_attachments"
    by (rule load_programs_spec) (simp_all add: resources_def)
  then have "case result of
      Inl e \<Rightarrow> held = {}
    | Inr None \<Rightarrow> \<not> IsLSMSupported m \<and> held = {}
    | Inr (Some l) \<Rightarrow>
        IsLSMSupported m \<and> list_all (\<lambda>p. loads m (fst p) \<and> attaches m p) lsm_attachments \<and>
        l_links l = map fst lsm_attachments \<and> held = resources l \<and> Close l held = {}"
    using assms Close_all
    by (auto simp: LoadLSM_def resources_def split: prod.splits sum.splits if_splits)
  moreover have "\<exists>l. result = Inr (Some l)"
    if "IsLSMSupported m \<and> memlock_removed m \<and> btf_present m \<and> reader_opens m \<and>
      list_all (\<lambda>p. loads m (fst p) \<and> attaches m p) lsm_attachments"
    using that assms load_programs_ok [of m lsm_attachments ?l "{}"] by (auto simp: LoadLSM_def)
  ultimately show ?thesis by blast
qed

text \<open>
  Loading is all or nothing: a loader that \<open>LoadLSM\<close> returns has every program loaded and
  attached and holds exactly their resources, which \<open>Close\<close> releases; a nil loader without an
  error means that BPF LSM is not supported; and an error leaves no resource behind. On a machine
  where every step works it returns a loader.
\<close>

lemma load_all_or_nothing:
  assumes "LoadLSM m = (result, held)"
  shows "(case result of
      Inl e \<Rightarrow> held = {}
    | Inr None \<Rightarrow> \<not> IsLSMSupported m \<and> held = {}
    | Inr (Some l) \<Rightarrow>
        IsLSMSupported m \<and> list_all (\<lambda>p. loads m (fst p) \<and> attaches m p) lsm_attachments \<and>
        l_links l = map fst lsm_attachments \<and> held = resources l \<and> Close l held = {}) \<and>
    (IsLSMSupported m \<and> memlock_removed m \<and> btf_present m \<and> reader_opens m \<and>
     list_all (\<lambda>p. loads m (fst p) \<and> attaches m p) lsm_attachments \<longrightarrow>
     (\<exists>l. result = Inr (Some l)))"
  using assms by (rule LoadLSM_outcome)

text \<open>A machine with BPF LSM on which everything works that the given hooks allow.\<close>

definition machine_with :: "hook_table \<Rightarrow> machine" where
  "machine_with hooks =
     \<lparr> securityfs_lsm = Some ''capability,landlock,bpf'', proc_cmdline = None, memlock_removed = True,
       btf_present = True, loads = (\<lambda>_. True), attaches = fits_hook hooks, reader_opens = True \<rparr>"

lemma machine_with_supported: "IsLSMSupported (machine_with hooks)"
  by (simp add: IsLSMSupported_def machine_with_def go_trim_def go_space_def)

lemmas attach_defs =
  lsm_exec_attach_def lsm_file_attach_def lsm_connect_attach_def lsm_bind_attach_def
  lsm_listen_attach_def lsm_ptrace_attach_def lsm_mount_attach_def

text \<open>
  The socket hooks, which kernels built with network security hooks have in addition.
\<close>

definition socket_hooks :: hook_table where
  "socket_hooks =
     [(''socket_bind'', ''int'', [PtrParam ''struct socket'', PtrParam ''struct sockaddr'', IntParam 4 True]),
      (''socket_connect'', ''int'', [PtrParam ''struct socket'', PtrParam ''struct sockaddr'', IntParam 4 True]),
      (''socket_listen'', ''int'', [PtrParam ''struct socket'', IntParam 4 True])]"

lemma all_fit_with_sockets:
  "list_all (fits_hook (socket_hooks @ security_list_options)) lsm_attachments"
  using programs_fit(1)
  by (simp add: lsm_attachments_def attach_defs fits_hook_def socket_hooks_def)

text \<open>
  The programs against the kernel that \<open>vmlinux.h\<close> was dumped from: the exec, file, ptrace and
  mount programs have the signatures of their hooks, but that kernel declares no socket hooks, and
  since loading is all or nothing \<open>LoadLSM\<close> fails there at \<open>socket_connect\<close> although the programs
  before it were attached, and no program stays attached.
\<close>

lemma header_kernel_load_fails:
  assumes "IsLSMSupported m" and "memlock_removed m" and "btf_present m" and "loads m = (\<lambda>_. True)"
    and "attaches m = fits_hook security_list_options"
  shows "list_all (fits_hook security_list_options)
      [lsm_exec_attach, lsm_file_attach, lsm_ptrace_attach, lsm_mount_attach] \<and>
    LoadLSM m = (Inl (AttachFailed ''socket_connect''), {})"
proof -
  have "fits_hook security_list_options lsm_exec_attach"
    and "fits_hook security_list_options lsm_file_attach"
    and "\<not> fits_hook security_list_options lsm_connect_attach"
    using programs_fit by (simp_all add: fits_hook_def lsm_connect_attach_def)
  then show ?thesis
    using assms programs_fit(1)
    by (simp add: LoadLSM_def lsm_attachments_def attach_defs Close_def Let_def) blast
qed

end
