(* ===== verification/Warmor_Prelude.thy ===== *)
theory Warmor_Prelude
  imports Main "HOL-Library.Word" "HOL-Library.AList"
begin

text \<open>
  Shared ground of the development: the fixed-width integer types of the C sources
  (\<open>__u8\<close> to \<open>__u64\<close>), byte buffers with loads and stores at an offset, the little-endian
  reading of multi-byte fields (the objects are built for \<open>bpfel\<close>), NUL-terminated
  strings, and the collections of facts that the component theories fill.
\<close>

unbundle bit_operations_syntax

type_synonym u8 = "8 word"
type_synonym u16 = "16 word"
type_synonym u32 = "32 word"
type_synonym u64 = "64 word"
type_synonym byte = "8 word"
type_synonym bytes = "byte list"

named_theorems buf_simps \<open>loads and stores on byte buffers\<close>
named_theorems offset_simps \<open>evaluated sizes and field offsets of the event and key structs\<close>
named_theorems hook_simps \<open>unfolding rules of the BPF programs\<close>

section \<open>Byte buffers\<close>

definition load :: "nat \<Rightarrow> nat \<Rightarrow> bytes \<Rightarrow> bytes" where
  "load off n bs = take n (drop off bs)"

definition store :: "nat \<Rightarrow> bytes \<Rightarrow> bytes \<Rightarrow> bytes" where
  "store off xs bs = take off bs @ xs @ drop (off + length xs) bs"

text \<open>A helper that fills a buffer field in place, e.g. \<open>bpf_get_current_comm(&e->comm, n)\<close>.\<close>

definition modify :: "nat \<Rightarrow> nat \<Rightarrow> (bytes \<Rightarrow> bytes) \<Rightarrow> bytes \<Rightarrow> bytes" where
  "modify off n f bs = store off (f (load off n bs)) bs"

lemma length_load [buf_simps]: "off + n \<le> length bs \<Longrightarrow> length (load off n bs) = n"
  by (simp add: load_def)

lemma length_store [buf_simps]:
  "off + length xs \<le> length bs \<Longrightarrow> length (store off xs bs) = length bs"
  by (simp add: store_def)

lemma length_modify [buf_simps]:
  "off + n \<le> length bs \<Longrightarrow> length (f (load off n bs)) = n \<Longrightarrow>
   length (modify off n f bs) = length bs"
  by (simp add: modify_def length_store)

lemma load_store_same [buf_simps]:
  "off \<le> length bs \<Longrightarrow> length xs = n \<Longrightarrow> load off n (store off xs bs) = xs"
  by (simp add: load_def store_def)

lemma load_store_before [buf_simps]:
  assumes "o2 + n \<le> off" and "off \<le> length bs"
  shows "load o2 n (store off xs bs) = load o2 n bs"
proof -
  have "take n (drop o2 (take off bs)) = take n (drop o2 bs)"
    using assms by (simp add: drop_take min_def)
  moreover have "length (drop o2 (take off bs)) \<ge> n"
    using assms by simp
  ultimately show ?thesis
    using assms by (simp add: load_def store_def)
qed

lemma load_store_after [buf_simps]:
  assumes "off + length xs \<le> o2" and "off \<le> length bs"
  shows "load o2 n (store off xs bs) = load o2 n bs"
proof -
  have "drop (o2 - off - length xs) (drop (off + length xs) bs) = drop o2 bs"
    using assms by simp
  then show ?thesis
    using assms by (simp add: load_def store_def)
qed

text \<open>A load inside a store reads the stored bytes.\<close>

lemma load_store_within [buf_simps]:
  assumes "off \<le> o2" and "o2 + n \<le> off + length xs" and "off \<le> length bs"
  shows "load o2 n (store off xs bs) = load (o2 - off) n xs"
proof -
  have "take n (drop (o2 - off) (xs @ ys)) = take n (drop (o2 - off) xs)" for ys
    using assms by (simp add: take_append)
  then show ?thesis
    using assms by (simp add: load_def store_def)
qed

lemma load_modify_same [buf_simps]:
  "off \<le> length bs \<Longrightarrow> length (f (load off n bs)) = n \<Longrightarrow>
   load off n (modify off n f bs) = f (load off n bs)"
  by (simp add: modify_def load_store_same)

lemma load_modify_before [buf_simps]:
  "o2 + m \<le> off \<Longrightarrow> off \<le> length bs \<Longrightarrow> load o2 m (modify off n f bs) = load o2 m bs"
  by (simp add: modify_def load_store_before)

lemma load_modify_after [buf_simps]:
  "off + n \<le> o2 \<Longrightarrow> off \<le> length bs \<Longrightarrow> length (f (load off n bs)) = n \<Longrightarrow>
   load o2 m (modify off n f bs) = load o2 m bs"
  by (simp add: modify_def load_store_after)

lemma load_take: "off + n \<le> m \<Longrightarrow> load off n (take m bs) = load off n bs"
  by (simp add: load_def drop_take min_def)

lemma load_append_left: "off + n \<le> length xs \<Longrightarrow> load off n (xs @ ys) = load off n xs"
  by (simp add: load_def)

lemma load_append_right:
  "length xs \<le> off \<Longrightarrow> load off n (xs @ ys) = load (off - length xs) n ys"
  by (simp add: load_def)

lemma load_all [simp]: "length bs = n \<Longrightarrow> load 0 n bs = bs"
  by (simp add: load_def)

text \<open>Filling a buffer from left to right.\<close>

lemma store_append: "length xs = n \<Longrightarrow> store n ys (xs @ bs) = (xs @ ys) @ drop (length ys) bs"
  by (simp add: store_def)

section \<open>Sequences of field writes\<close>

text \<open>
  A record that is filled member by member is a list of writes (offset and bytes, latest first)
  over the memory it was reserved with. \<open>wload\<close> reads a member of such a record without looking
  at the buffer unless a write overlaps the member in part.
\<close>

primrec writes :: "(nat \<times> bytes) list \<Rightarrow> bytes \<Rightarrow> bytes" where
  "writes [] bs = bs"
| "writes (w # ws) bs = store (fst w) (snd w) (writes ws bs)"

definition writes_fit :: "nat \<Rightarrow> (nat \<times> bytes) list \<Rightarrow> bool" where
  "writes_fit n ws \<longleftrightarrow> list_all (\<lambda>w. fst w + length (snd w) \<le> n) ws"

fun wload :: "nat \<Rightarrow> nat \<Rightarrow> (nat \<times> bytes) list \<Rightarrow> bytes \<Rightarrow> bytes" where
  "wload off n [] bs = load off n bs"
| "wload off n ((o2, xs) # ws) bs =
     (if o2 = off \<and> length xs = n then xs
      else if o2 + length xs \<le> off \<or> off + n \<le> o2 then wload off n ws bs
      else load off n (writes ((o2, xs) # ws) bs))"

lemma length_writes: "writes_fit (length bs) ws \<Longrightarrow> length (writes ws bs) = length bs"
  by (induction ws) (auto simp: writes_fit_def length_store)

lemma load_writes:
  "writes_fit (length bs) ws \<Longrightarrow> load off n (writes ws bs) = wload off n ws bs"
proof (induction off n ws bs rule: wload.induct)
  case (2 off n o2 xs ws bs)
  then have fit: "writes_fit (length bs) ws" and o2: "o2 \<le> length (writes ws bs)"
    using length_writes [of bs ws] by (auto simp: writes_fit_def)
  show ?case
    using 2 fit o2 by (auto simp: load_store_same load_store_before load_store_after)
qed simp

lemma store_as_write: "store off xs bs = writes [(off, xs)] bs"
  by simp

lemma writes_writes: "writes ws (writes ws' bs) = writes (ws @ ws') bs"
  by (induction ws) auto

text \<open>Filling a member in place.\<close>

lemma modify_writes:
  "writes_fit (length bs) ws \<Longrightarrow>
   modify off n f (writes ws bs) = writes ((off, f (wload off n ws bs)) # ws) bs"
  by (simp add: modify_def load_writes)

lemma load_split: "load off (m + n) bs = load off m bs @ load (off + m) n bs"
  by (simp add: load_def take_add add.commute)

declare writes.simps [simp del]

lemmas write_simps = store_as_write writes_writes modify_writes

section \<open>Little-endian fields\<close>

definition le_bytes :: "nat \<Rightarrow> 'a::len word \<Rightarrow> bytes" where
  "le_bytes n w = map (\<lambda>i. ucast (drop_bit (8 * i) w)) [0..<n]"

primrec le_word :: "bytes \<Rightarrow> 'a::len word" where
  "le_word [] = 0"
| "le_word (b # bs) = ucast b OR push_bit 8 (le_word bs)"

primrec be_word :: "bytes \<Rightarrow> 'a::len word" where
  "be_word [] = 0"
| "be_word (b # bs) = push_bit (8 * length bs) (ucast b) OR be_word bs"

lemma length_le_bytes [simp]: "length (le_bytes n w) = n"
  by (simp add: le_bytes_def)

lemma nth_le_bytes: "i < n \<Longrightarrow> le_bytes n w ! i = ucast (drop_bit (8 * i) w)"
  by (simp add: le_bytes_def)

lemma bit_le_word:
  "bit (le_word bs :: 'a::len word) i \<longleftrightarrow>
     i < LENGTH('a) \<and> i div 8 < length bs \<and> bit (bs ! (i div 8)) (i mod 8)"
proof (induction bs arbitrary: i)
  case Nil
  then show ?case by simp
next
  case (Cons b bs)
  show ?case
  proof (cases "i < 8")
    case True
    then show ?thesis by (auto simp: bit_or_iff bit_ucast_iff bit_push_bit_iff)
  next
    case False
    then have i: "i div 8 = Suc ((i - 8) div 8)" "i mod 8 = (i - 8) mod 8" "8 \<le> i"
      by (simp_all add: le_div_geq le_mod_geq)
    have "\<not> bit b i"
      using False bit_imp_le_length [of b i] by auto
    with i show ?thesis
      by (auto simp: bit_or_iff bit_ucast_iff bit_push_bit_iff Cons.IH)
  qed
qed

lemma le_word_le_bytes [simp]:
  assumes "LENGTH('a) \<le> 8 * n"
  shows "le_word (le_bytes n w) = (w :: 'a::len word)"
proof (rule bit_word_eqI)
  fix i assume i: "i < LENGTH('a)"
  then have "i div 8 < n"
    using assms by (metis less_le_trans less_mult_imp_div_less mult.commute)
  then show "bit (le_word (le_bytes n w) :: 'a word) i = bit w i"
    using i by (simp add: bit_le_word nth_le_bytes bit_ucast_iff bit_drop_bit_eq)
qed

lemma le_bytes_le_word [simp]:
  assumes "length bs = n" and "8 * n \<le> LENGTH('a)"
  shows "le_bytes n (le_word bs :: 'a::len word) = bs"
proof (rule nth_equalityI)
  show "length (le_bytes n (le_word bs :: 'a word)) = length bs"
    using assms by simp
next
  fix i assume "i < length (le_bytes n (le_word bs :: 'a word))"
  then have i: "i < n" by simp
  show "le_bytes n (le_word bs :: 'a word) ! i = bs ! i"
  proof (rule bit_word_eqI)
    fix j assume "j < LENGTH(8)"
    then have j: "j < 8" by simp
    have "8 * i + j < LENGTH('a)" using i j assms by linarith
    then show "bit (le_bytes n (le_word bs :: 'a word) ! i) j = bit (bs ! i) j"
      using i j assms(1) by (simp add: nth_le_bytes bit_ucast_iff bit_drop_bit_eq bit_le_word)
  qed
qed

lemma le_word_inject:
  assumes "length xs = length ys" and "8 * length xs \<le> LENGTH('a)"
  shows "(le_word xs :: 'a::len word) = le_word ys \<longleftrightarrow> xs = ys"
  using assms by (metis le_bytes_le_word)

section \<open>NUL-terminated strings\<close>

definition cstr :: "bytes \<Rightarrow> bytes" where
  "cstr bs = takeWhile (\<lambda>b. b \<noteq> 0) bs"

lemma cstr_prefix [simp]: "0 \<notin> set s \<Longrightarrow> cstr (s @ 0 # rest) = s"
  by (induction s) (auto simp: cstr_def)

lemma cstr_no_nul [simp]: "0 \<notin> set s \<Longrightarrow> cstr s = s"
  by (metis (mono_tags, lifting) cstr_def takeWhile_eq_all_conv)

lemma zero_notin_cstr [simp]: "0 \<notin> set (cstr bs)"
  by (auto simp: cstr_def dest: set_takeWhileD)

lemma length_cstr_le: "length (cstr bs) \<le> length bs"
  by (simp add: cstr_def length_takeWhile_le)

lemma cstr_shorter: "0 \<in> set bs \<Longrightarrow> length (cstr bs) < length bs"
  by (induction bs) (auto simp: cstr_def)

lemma nth_length_cstr: "0 \<in> set bs \<Longrightarrow> bs ! length (cstr bs) = 0"
  unfolding cstr_def by (metis (mono_tags, lifting) cstr_def cstr_shorter nth_length_takeWhile)

lemma cstr_split:
  assumes "0 \<in> set bs"
  obtains rest where "bs = cstr bs @ 0 # rest"
proof -
  obtain ys zs where "bs = ys @ 0 # zs" and "0 \<notin> set ys"
    using split_list_first [OF assms] by blast
  then show ?thesis using that by simp
qed

section \<open>Association lists with distinct keys\<close>

lemma length_update_le: "length (AList.update k v m) \<le> Suc (length m)"
  by (induction m) auto

lemma length_update_present:
  "map_of m k \<noteq> None \<Longrightarrow> length (AList.update k v m) = length m"
  by (induction m) (auto split: if_splits)

lemma length_delete_le: "length (AList.delete k m) \<le> length m"
  by (simp add: AList.delete_eq)

end
