(* ===== verification/C_Layout.thy ===== *)
theory C_Layout
  imports Warmor_Prelude "HOL-Library.Code_Target_Nat"
begin

text \<open>
  The memory layout of C aggregates on the BPF target (LP64, little-endian), as clang lays
  them out: scalars are aligned to their size, a bit-field is placed at the next free bit
  unless it would cross a boundary of its storage unit, \<open>__attribute__((packed))\<close> drops
  the alignment of the members, an unnamed bit-field does not raise the alignment of the
  struct, and the struct is padded to a multiple of its alignment. The struct declarations of
  the headers are values of \<open>ctype\<close>; sizes and field offsets are computed from them, and
  general lemmas show that the members of a struct are aligned, disjoint and inside it.
\<close>

section \<open>C types\<close>

text \<open>
  \<open>CInt n\<close> is a scalar of \<open>n\<close> bytes (integers, enums, \<open>bool\<close>); \<open>CPtr t\<close> points to the
  type named \<open>t\<close>; the flag of an aggregate says whether it is packed. A bit-field carries the
  size of its declared type in bytes and its width in bits; \<open>BitPad\<close> is an unnamed one.
\<close>

datatype ctype =
    CInt nat
  | CPtr string
  | CArr ctype nat
  | CStruct bool "member list"
  | CUnion bool "member list"
and member =
    Field string ctype
  | Anon ctype
  | BitField string nat nat
  | BitPad nat nat

abbreviation c_char :: ctype where "c_char \<equiv> CInt 1"
abbreviation c_short :: ctype where "c_short \<equiv> CInt 2"
abbreviation c_int :: ctype where "c_int \<equiv> CInt 4"
abbreviation c_long :: ctype where "c_long \<equiv> CInt 8"
abbreviation c_enum :: ctype where "c_enum \<equiv> CInt 4"

text \<open>What the placement of a member depends on, in bits: size and alignment, or the storage
  unit and width of a bit-field and whether it is named.\<close>

datatype slot = Slot nat nat | Bits nat nat bool

section \<open>Placement\<close>

definition round_up :: "nat \<Rightarrow> nat \<Rightarrow> nat" where
  "round_up x a = (if a = 0 then x else (x + (a - 1)) div a * a)"

fun slot_size :: "slot \<Rightarrow> nat" where
  "slot_size (Slot s a) = s"
| "slot_size (Bits u w named) = w"

fun slot_align :: "bool \<Rightarrow> slot \<Rightarrow> nat" where
  "slot_align packed (Slot s a) = (if packed then 8 else a)"
| "slot_align packed (Bits u w named) = (if named \<and> \<not> packed then u else 8)"

fun slot_start :: "bool \<Rightarrow> nat \<Rightarrow> slot \<Rightarrow> nat" where
  "slot_start packed b (Slot s a) = round_up b (if packed then 8 else a)"
| "slot_start packed b (Bits u w named) =
     (if packed then b
      else if w = 0 then round_up b u
      else if b div u = (b + w - 1) div u then b
      else round_up b u)"

fun place :: "bool \<Rightarrow> nat \<Rightarrow> slot list \<Rightarrow> nat list \<times> nat" where
  "place packed b [] = ([], b)"
| "place packed b (x # xs) =
     (let start = slot_start packed b x;
          (rest, end) = place packed (start + slot_size x) xs
      in (start # rest, end))"

definition max_align :: "bool \<Rightarrow> slot list \<Rightarrow> nat" where
  "max_align packed xs = foldr (\<lambda>x. max (slot_align packed x)) xs 8"

definition max_size :: "slot list \<Rightarrow> nat" where
  "max_size xs = foldr (\<lambda>x. max (slot_size x)) xs 0"

section \<open>Size, alignment and member offsets of a type\<close>

text \<open>\<open>layout t\<close> is the size and the alignment of \<open>t\<close> in bytes.\<close>

fun layout :: "ctype \<Rightarrow> nat \<times> nat" and slot_of :: "member \<Rightarrow> slot" where
  "layout (CInt n) = (n, n)"
| "layout (CPtr t) = (8, 8)"
| "layout (CArr t n) = (let (s, a) = layout t in (s * n, a))"
| "layout (CStruct packed ms) =
     (let xs = map slot_of ms; a = max_align packed xs
      in (round_up (snd (place packed 0 xs)) a div 8, a div 8))"
| "layout (CUnion packed ms) =
     (let xs = map slot_of ms; a = max_align packed xs
      in (round_up (max_size xs) a div 8, a div 8))"
| "slot_of (Field f t) = (let (s, a) = layout t in Slot (8 * s) (8 * a))"
| "slot_of (Anon t) = (let (s, a) = layout t in Slot (8 * s) (8 * a))"
| "slot_of (BitField f u w) = Bits (8 * u) w True"
| "slot_of (BitPad u w) = Bits (8 * u) w False"

definition size_of :: "ctype \<Rightarrow> nat" where
  "size_of t = fst (layout t)"

definition align_of :: "ctype \<Rightarrow> nat" where
  "align_of t = snd (layout t)"

definition member_offsets :: "ctype \<Rightarrow> nat list" where
  "member_offsets t =
     (case t of
        CStruct packed ms \<Rightarrow> fst (place packed 0 (map slot_of ms))
      | CUnion packed ms \<Rightarrow> map (\<lambda>_. 0) ms
      | _ \<Rightarrow> [])"

text \<open>
  Lookup of a member by name, through anonymous members: its offset and width in bits and its
  type. The first declaration of the name in source order is the one found.
\<close>

fun field :: "ctype \<Rightarrow> string \<Rightarrow> (nat \<times> nat \<times> ctype) option"
  and field_in :: "member list \<Rightarrow> nat list \<Rightarrow> string \<Rightarrow> (nat \<times> nat \<times> ctype) option"
  and field_of :: "member \<Rightarrow> string \<Rightarrow> (nat \<times> nat \<times> ctype) option" where
  "field (CStruct packed ms) f = field_in ms (fst (place packed 0 (map slot_of ms))) f"
| "field (CUnion packed ms) f = field_in ms (map (\<lambda>_. 0) ms) f"
| "field (CInt n) f = None"
| "field (CPtr t) f = None"
| "field (CArr t n) f = None"
| "field_in (m # ms) (b # bs) f =
     (case field_of m f of
        Some (b', w, t) \<Rightarrow> Some (b + b', w, t)
      | None \<Rightarrow> field_in ms bs f)"
| "field_in [] bs f = None"
| "field_in (m # ms) [] f = None"
| "field_of (Field g t) f = (if g = f then Some (0, 8 * fst (layout t), t) else None)"
| "field_of (Anon t) f = field t f"
| "field_of (BitField g u w) f = (if g = f then Some (0, w, CInt u) else None)"
| "field_of (BitPad u w) f = None"

text \<open>An accessor such as \<open>f_path.dentry\<close>: a chain of member names.\<close>

fun access :: "ctype \<Rightarrow> string list \<Rightarrow> (nat \<times> nat \<times> ctype) option" where
  "access t [] = Some (0, 8 * size_of t, t)"
| "access t (f # fs) =
     (case field t f of
        None \<Rightarrow> None
      | Some (b, w, t') \<Rightarrow>
          (if fs = [] then Some (b, w, t')
           else case access t' fs of
                  None \<Rightarrow> None
                | Some (b', w', u) \<Rightarrow> Some (b + b', w', u)))"

definition offset_of :: "ctype \<Rightarrow> string \<Rightarrow> nat" where
  "offset_of t f = (case field t f of Some (b, w, u) \<Rightarrow> b div 8 | None \<Rightarrow> 0)"

section \<open>One-pass evaluation\<close>

text \<open>
  The definitions above follow the ABI rules; large structs are evaluated in one pass over the
  members with the bit position and the alignment so far as accumulators. The congruence rules
  keep the simplifier from rewriting the members that are still to come.
\<close>

named_theorems layout_eval \<open>evaluated sizes and alignments of the declared types\<close>
named_theorems typedef_defs \<open>definitions of the header's typedefs\<close>

fun scan_struct :: "bool \<Rightarrow> member list \<Rightarrow> nat \<Rightarrow> nat \<Rightarrow> nat \<times> nat"
  and scan_slot :: "bool \<Rightarrow> slot \<Rightarrow> member list \<Rightarrow> nat \<Rightarrow> nat \<Rightarrow> nat \<times> nat" where
  "scan_struct packed [] b a = (b, a)"
| "scan_struct packed (m # ms) b a = scan_slot packed (slot_of m) ms b a"
| "scan_slot packed x ms b a =
     scan_struct packed ms (slot_start packed b x + slot_size x) (max a (slot_align packed x))"

fun scan_union :: "bool \<Rightarrow> member list \<Rightarrow> nat \<Rightarrow> nat \<Rightarrow> nat \<times> nat"
  and scan_arm :: "bool \<Rightarrow> slot \<Rightarrow> member list \<Rightarrow> nat \<Rightarrow> nat \<Rightarrow> nat \<times> nat" where
  "scan_union packed [] b a = (b, a)"
| "scan_union packed (m # ms) b a = scan_arm packed (slot_of m) ms b a"
| "scan_arm packed x ms b a =
     scan_union packed ms (max b (slot_size x)) (max a (slot_align packed x))"

fun scan_field :: "bool \<Rightarrow> member list \<Rightarrow> string \<Rightarrow> nat \<Rightarrow> (nat \<times> nat \<times> ctype) option"
  and scan_hit :: "bool \<Rightarrow> (nat \<times> nat \<times> ctype) option \<Rightarrow> slot \<Rightarrow> member list \<Rightarrow> string \<Rightarrow> nat \<Rightarrow>
    (nat \<times> nat \<times> ctype) option" where
  "scan_field packed [] f b = None"
| "scan_field packed (m # ms) f b = scan_hit packed (field_of m f) (slot_of m) ms f b"
| "scan_hit packed (Some (b', w, t)) x ms f b = Some (slot_start packed b x + b', w, t)"
| "scan_hit packed None x ms f b = scan_field packed ms f (slot_start packed b x + slot_size x)"

lemma scan_struct_place:
  "scan_struct packed ms b a =
     (snd (place packed b (map slot_of ms)),
      foldr (\<lambda>x. max (slot_align packed x)) (map slot_of ms) a)"
proof (induction ms arbitrary: b a)
  case (Cons m ms)
  have "foldr (\<lambda>x. max (slot_align packed x)) xs (max a c) =
        max c (foldr (\<lambda>x. max (slot_align packed x)) xs a)" for xs c
    by (induction xs) (auto simp: max.left_commute max.commute)
  then show ?case by (simp add: Cons.IH Let_def split: prod.splits)
qed simp

lemma scan_union_max:
  "scan_union packed ms b a =
     (foldr (\<lambda>x. max (slot_size x)) (map slot_of ms) b,
      foldr (\<lambda>x. max (slot_align packed x)) (map slot_of ms) a)"
proof (induction ms arbitrary: b a)
  case (Cons m ms)
  have "foldr (\<lambda>x. max (g x)) xs (max a c) = max c (foldr (\<lambda>x. max (g x)) xs a)"
    for xs and a c :: nat and g :: "slot \<Rightarrow> nat"
    by (induction xs) (auto simp: max.left_commute max.commute)
  then show ?case by (simp add: Cons.IH Let_def)
qed simp

lemma scan_field_in:
  "field_in ms (fst (place packed b (map slot_of ms))) f = scan_field packed ms f b"
proof (induction ms arbitrary: b)
  case (Cons m ms)
  show ?case
    by (cases "field_of m f") (auto simp: Let_def Cons.IH [symmetric] split: prod.splits)
qed simp

lemma layout_struct_scan:
  "layout (CStruct packed ms) =
     (let (b, a) = scan_struct packed ms 0 8 in (round_up b a div 8, a div 8))"
  by (simp add: scan_struct_place max_align_def Let_def)

lemma layout_union_scan:
  "layout (CUnion packed ms) =
     (let (b, a) = scan_union packed ms 0 8 in (round_up b a div 8, a div 8))"
  by (simp add: scan_union_max max_align_def max_size_def Let_def)

lemma field_struct_scan: "field (CStruct packed ms) f = scan_field packed ms f 0"
  by (simp add: scan_field_in)

lemma scan_congs:
  "b = b' \<Longrightarrow> a = a' \<Longrightarrow> scan_struct packed ms b a = scan_struct packed ms b' a'"
  "x = x' \<Longrightarrow> scan_slot packed x ms b a = scan_slot packed x' ms b a"
  "b = b' \<Longrightarrow> a = a' \<Longrightarrow> scan_union packed ms b a = scan_union packed ms b' a'"
  "x = x' \<Longrightarrow> scan_arm packed x ms b a = scan_arm packed x' ms b a"
  "b = b' \<Longrightarrow> scan_field packed ms f b = scan_field packed ms f b'"
  "r = r' \<Longrightarrow> x = x' \<Longrightarrow> scan_hit packed r x ms f b = scan_hit packed r' x' ms f b"
  by simp_all

text \<open>The members still to come are not rewritten: each step takes one member apart.\<close>

lemma scan_struct_steps:
  "scan_slot packed (Slot s al) ms b a =
     scan_struct packed ms (round_up b (if packed then 8 else al) + s)
       (max a (if packed then 8 else al))"
  "scan_slot packed (Bits u w named) ms b a =
     scan_struct packed ms (slot_start packed b (Bits u w named) + w)
       (max a (if named \<and> \<not> packed then u else 8))"
  by simp_all

lemma scan_union_steps:
  "scan_arm packed (Slot s al) ms b a =
     scan_union packed ms (max b s) (max a (if packed then 8 else al))"
  "scan_arm packed (Bits u w named) ms b a =
     scan_union packed ms (max b w) (max a (if named \<and> \<not> packed then u else 8))"
  by simp_all

lemmas scan_simps =
  layout_struct_scan layout_union_scan field_struct_scan
  scan_struct.simps scan_struct_steps scan_union.simps scan_union_steps
  scan_field.simps scan_hit.simps round_up_def

section \<open>Members are aligned, disjoint and inside the struct\<close>

lemma round_up_ge: "x \<le> round_up x a"
proof (cases "a = 0")
  case False
  have "(x + (a - 1)) div a * a + (x + (a - 1)) mod a = x + (a - 1)"
    by simp
  moreover have "(x + (a - 1)) mod a \<le> a - 1"
    using False by (metis Suc_pred' gr0I less_Suc_eq_le mod_less_divisor)
  ultimately have "x \<le> (x + (a - 1)) div a * a"
    by linarith
  then show ?thesis
    using False by (simp add: round_up_def)
qed (simp add: round_up_def)

lemma round_up_dvd: "0 < a \<Longrightarrow> a dvd round_up x a"
  by (simp add: round_up_def)

lemma slot_start_ge: "b \<le> slot_start packed b x"
  by (cases x) (auto simp: round_up_ge)

lemma place_bounds:
  "place packed b xs = (os, e) \<Longrightarrow>
   length os = length xs \<and> b \<le> e \<and>
   (\<forall>i<length xs. b \<le> os ! i \<and> os ! i + slot_size (xs ! i) \<le> e)"
proof (induction xs arbitrary: b os)
  case Nil
  then show ?case by simp
next
  case (Cons x xs)
  obtain rest where rest: "place packed (slot_start packed b x + slot_size x) xs = (rest, e)"
    and os: "os = slot_start packed b x # rest"
    using Cons.prems by (auto simp: Let_def split: prod.splits)
  note IH = Cons.IH [OF rest]
  have b: "b \<le> slot_start packed b x" by (rule slot_start_ge)
  show ?case
  proof (intro conjI allI impI)
    fix i assume "i < length (x # xs)"
    then show "b \<le> os ! i" and "os ! i + slot_size ((x # xs) ! i) \<le> e"
      using IH b os by (cases i; force)+
  qed (use IH b os in auto)
qed

lemma place_disjoint:
  "place packed b xs = (os, e) \<Longrightarrow> i < j \<Longrightarrow> j < length xs \<Longrightarrow>
   os ! i + slot_size (xs ! i) \<le> os ! j"
proof (induction xs arbitrary: b os i j)
  case Nil
  then show ?case by simp
next
  case (Cons x xs)
  obtain rest where rest: "place packed (slot_start packed b x + slot_size x) xs = (rest, e)"
    and os: "os = slot_start packed b x # rest"
    using Cons.prems by (auto simp: Let_def split: prod.splits)
  obtain j' where j: "j = Suc j'" "j' < length xs"
    using Cons.prems by (cases j) auto
  show ?case
  proof (cases i)
    case 0
    then show ?thesis
      using place_bounds [OF rest] j os by simp
  next
    case (Suc i')
    then show ?thesis
      using Cons.IH [OF rest, of i' j'] Cons.prems j os by simp
  qed
qed

lemma place_aligned:
  "place False b xs = (os, e) \<Longrightarrow> i < length xs \<Longrightarrow> xs ! i = Slot s a \<Longrightarrow> 0 < a \<Longrightarrow> a dvd os ! i"
proof (induction xs arbitrary: b os i)
  case Nil
  then show ?case by simp
next
  case (Cons x xs)
  obtain rest where rest: "place False (slot_start False b x + slot_size x) xs = (rest, e)"
    and os: "os = slot_start False b x # rest"
    using Cons.prems by (auto simp: Let_def split: prod.splits)
  show ?case
  proof (cases i)
    case 0
    then show ?thesis using Cons.prems os by (simp add: round_up_dvd)
  next
    case (Suc i')
    then show ?thesis using Cons.IH [OF rest, of i'] Cons.prems os by simp
  qed
qed

lemma max_align_ge: "x \<in> set xs \<Longrightarrow> slot_align packed x \<le> max_align packed xs"
  by (induction xs) (auto simp: max_align_def)

lemma max_size_ge: "x \<in> set xs \<Longrightarrow> slot_size x \<le> max_size xs"
  by (induction xs) (auto simp: max_size_def)

text \<open>Alignments are whole bytes, so the padded size of an aggregate is exact.\<close>

lemma eight_dvd_align:
  "8 dvd slot_align packed (slot_of m)"
  by (cases m) (auto split: prod.splits)

lemma eight_dvd_max_align: "8 dvd max_align packed (map slot_of ms)"
  by (induction ms) (auto simp: max_align_def max_def eight_dvd_align)

lemma max_align_pos: "0 < max_align packed xs"
  by (induction xs) (auto simp: max_align_def)

lemma size_of_struct_bits:
  "8 * size_of (CStruct packed ms) =
   round_up (snd (place packed 0 (map slot_of ms))) (max_align packed (map slot_of ms))"
proof -
  have "8 dvd round_up (snd (place packed 0 (map slot_of ms))) (max_align packed (map slot_of ms))"
    using eight_dvd_max_align round_up_dvd [OF max_align_pos] by (rule dvd_trans)
  then show ?thesis by (simp add: size_of_def Let_def)
qed

lemma size_of_union_bits:
  "8 * size_of (CUnion packed ms) =
   round_up (max_size (map slot_of ms)) (max_align packed (map slot_of ms))"
proof -
  have "8 dvd round_up (max_size (map slot_of ms)) (max_align packed (map slot_of ms))"
    using eight_dvd_max_align round_up_dvd [OF max_align_pos] by (rule dvd_trans)
  then show ?thesis by (simp add: size_of_def Let_def)
qed

lemma slot_size_field: "slot_size (slot_of (Field f t)) = 8 * size_of t"
  and slot_size_anon: "slot_size (slot_of (Anon t)) = 8 * size_of t"
  by (simp_all add: size_of_def split: prod.splits)

text \<open>
  Every direct member of a struct lies inside it, and two different members do not overlap.
\<close>

lemma struct_member_inside:
  assumes "i < length ms"
  shows "member_offsets (CStruct packed ms) ! i + slot_size (slot_of (ms ! i))
           \<le> 8 * size_of (CStruct packed ms)"
proof -
  obtain os e where p: "place packed 0 (map slot_of ms) = (os, e)"
    by (cases "place packed 0 (map slot_of ms)")
  have "os ! i + slot_size (slot_of (ms ! i)) \<le> e"
    using place_bounds [OF p] assms by auto
  also have "e \<le> 8 * size_of (CStruct packed ms)"
    using p round_up_ge by (simp add: size_of_struct_bits)
  finally show ?thesis by (simp add: member_offsets_def p)
qed

lemma struct_members_disjoint:
  assumes "i < j" and "j < length ms"
  shows "member_offsets (CStruct packed ms) ! i + slot_size (slot_of (ms ! i))
           \<le> member_offsets (CStruct packed ms) ! j"
proof -
  obtain os e where p: "place packed 0 (map slot_of ms) = (os, e)"
    by (cases "place packed 0 (map slot_of ms)")
  show ?thesis
    using place_disjoint [OF p assms(1)] assms by (simp add: member_offsets_def p)
qed

text \<open>A member found by name, through any number of anonymous aggregates, lies inside the type.\<close>

lemma field_inside:
  "field t f = Some (b, w, u) \<Longrightarrow> b + w \<le> 8 * size_of t"
  "length os = length ms \<Longrightarrow> field_in ms os f = Some (b, w, u) \<Longrightarrow>
     \<exists>i<length ms. \<exists>b'. b = os ! i + b' \<and> b' + w \<le> slot_size (slot_of (ms ! i))"
  "field_of m f = Some (b, w, u) \<Longrightarrow> b + w \<le> slot_size (slot_of m)"
proof (induction t f and ms os f and m f arbitrary: b w u and b w u and b w u
    rule: field_field_in_field_of.induct)
  case (1 packed ms f)
  obtain os e where p: "place packed 0 (map slot_of ms) = (os, e)"
    by (cases "place packed 0 (map slot_of ms)")
  have len: "length os = length ms" using place_bounds [OF p] by simp
  obtain i b' where i: "i < length ms" "b = os ! i + b'" "b' + w \<le> slot_size (slot_of (ms ! i))"
    using "1.IH" [of b w u] "1.prems" len p by auto
  have "member_offsets (CStruct packed ms) ! i = os ! i"
    by (simp add: member_offsets_def p)
  then show ?case using struct_member_inside [OF i(1), of packed] i by simp
next
  case (2 packed ms f)
  obtain i b' where i: "i < length ms" "b = map (\<lambda>_. 0) ms ! i + b'"
      "b' + w \<le> slot_size (slot_of (ms ! i))"
    using "2.IH" [of b w u] "2.prems" by auto
  have "slot_size (slot_of (ms ! i)) \<le> max_size (map slot_of ms)"
    using i(1) by (intro max_size_ge) auto
  also have "\<dots> \<le> 8 * size_of (CUnion packed ms)"
    by (simp add: size_of_union_bits round_up_ge)
  finally show ?case using i by simp
next
  case (6 m ms b0 bs f)
  show ?case
  proof (cases "field_of m f")
    case None
    then obtain i b' where "i < length ms" "b = bs ! i + b'" "b' + w \<le> slot_size (slot_of (ms ! i))"
      using "6.IH"(2) [of b w u] "6.prems" by auto
    then show ?thesis by (intro exI [of _ "Suc i"]) simp
  next
    case (Some r)
    then obtain b1 where "field_of m f = Some (b1, w, u)" "b = b0 + b1"
      using "6.prems" by (cases r) auto
    then show ?thesis using "6.IH"(1) [of b1 w u] by (intro exI [of _ 0]) simp
  qed
next
  case (9 g t f)
  then have "b + w = slot_size (slot_of (Field g t))"
    by (auto simp: slot_size_field size_of_def simp del: slot_of.simps split: if_splits)
  then show ?case by simp
next
  case (10 t f)
  then show ?case by (simp add: slot_size_anon del: slot_of.simps)
qed (auto split: if_splits)

text \<open>Only a bit-field is narrower than its type, and it has no members of its own.\<close>

lemma field_width:
  "field t f = Some (b, w, u) \<Longrightarrow> w = 8 * size_of u \<or> (\<exists>n. u = CInt n)"
  "field_in ms os f = Some (b, w, u) \<Longrightarrow> w = 8 * size_of u \<or> (\<exists>n. u = CInt n)"
  "field_of m f = Some (b, w, u) \<Longrightarrow> w = 8 * size_of u \<or> (\<exists>n. u = CInt n)"
  by (induction t f and ms os f and m f arbitrary: b w u and b w u and b w u
      rule: field_field_in_field_of.induct)
    (auto simp: size_of_def split: if_splits option.splits)

lemma access_inside:
  "access t fs = Some (b, w, u) \<Longrightarrow> b + w \<le> 8 * size_of t"
proof (induction t fs arbitrary: b w u rule: access.induct)
  case (1 t)
  then show ?case by auto
next
  case (2 t f fs)
  obtain b1 w1 t1 where f: "field t f = Some (b1, w1, t1)"
    using "2.prems" by (auto split: option.splits)
  note inside = field_inside(1) [OF f]
  show ?case
  proof (cases "fs = []")
    case True
    then show ?thesis using "2.prems" f inside by simp
  next
    case False
    then obtain b2 where a: "access t1 fs = Some (b2, w, u)" and b: "b = b1 + b2"
      using "2.prems" f by (auto split: option.splits)
    have "b2 + w \<le> 8 * size_of t1" using "2.IH" [OF f refl refl False a] by simp
    moreover have "\<nexists>n. t1 = CInt n"
      using a False by (cases fs) auto
    then have "8 * size_of t1 = w1"
      using field_width(1) [OF f] by auto
    ultimately show ?thesis using inside b by linarith
  qed
qed

text \<open>From here on aggregates are evaluated by the one-pass scan.\<close>

declare layout.simps(4,5) [simp del] field.simps(1) [simp del]
  scan_struct.simps [simp del] scan_slot.simps [simp del]
  scan_union.simps [simp del] scan_arm.simps [simp del]
  scan_field.simps [simp del] scan_hit.simps [simp del]

end
