(* ===== verification/Vmlinux_Base.thy ===== *)
theory Vmlinux_Base
  imports C_Layout
begin

text \<open>
  The kernel types of \<open>bpf/vmlinux.h\<close> that several of the programs share: list, tree and
  lock primitives, atomic counters, timers and the integer typedefs. Each definition is one
  declaration of the header; a pointer keeps the name of what it points to. The theories
  \<open>Vmlinux_*\<close> together hold every struct and union of the header that the type information of
  the seven compiled LSM objects carries.
\<close>

definition type_bool :: ctype where [typedef_defs]:
  "type_bool = c_char"

definition type___s32 :: ctype where [typedef_defs]:
  "type___s32 = c_int"

definition type___s64 :: ctype where [typedef_defs]:
  "type___s64 = c_long"

definition type_s64 :: ctype where [typedef_defs]:
  "type_s64 = type___s64"

definition type_ktime_t :: ctype where [typedef_defs]:
  "type_ktime_t = type_s64"

definition type___u64 :: ctype where [typedef_defs]:
  "type___u64 = c_long"

definition type_u64 :: ctype where [typedef_defs]:
  "type_u64 = type___u64"

definition type___kernel_ulong_t :: ctype where [typedef_defs]:
  "type___kernel_ulong_t = c_long"

definition type___u16 :: ctype where [typedef_defs]:
  "type___u16 = c_short"

definition type_u16 :: ctype where [typedef_defs]:
  "type_u16 = type___u16"

definition type___u8 :: ctype where [typedef_defs]:
  "type___u8 = c_char"

definition type_u8 :: ctype where [typedef_defs]:
  "type_u8 = type___u8"

definition type___u32 :: ctype where [typedef_defs]:
  "type___u32 = c_int"

definition type_u32 :: ctype where [typedef_defs]:
  "type_u32 = type___u32"

definition type___kernel_uid32_t :: ctype where [typedef_defs]:
  "type___kernel_uid32_t = c_int"

definition type_uid_t :: ctype where [typedef_defs]:
  "type_uid_t = type___kernel_uid32_t"

definition type_arch_spinlock_t :: ctype where [typedef_defs]:
  "type_arch_spinlock_t = CStruct False []"

definition type_atomic64_t :: ctype where [typedef_defs]:
  "type_atomic64_t = CStruct False [
       Field ''counter'' type_s64]"

definition type_atomic_long_t :: ctype where [typedef_defs]:
  "type_atomic_long_t = type_atomic64_t"

definition type_atomic_t :: ctype where [typedef_defs]:
  "type_atomic_t = CStruct False [
       Field ''counter'' c_int]"

definition struct_raw_spinlock :: ctype where
  "struct_raw_spinlock = CStruct False [
     Field ''raw_lock'' type_arch_spinlock_t]"

definition type_raw_spinlock_t :: ctype where [typedef_defs]:
  "type_raw_spinlock_t = struct_raw_spinlock"

definition struct_spinlock :: ctype where
  "struct_spinlock = CStruct False [
     Anon (CUnion False [
       Field ''rlock'' struct_raw_spinlock])]"

definition type_spinlock_t :: ctype where [typedef_defs]:
  "type_spinlock_t = struct_spinlock"

definition type_kuid_t :: ctype where [typedef_defs]:
  "type_kuid_t = CStruct False [
       Field ''val'' type_uid_t]"

definition struct_list_head :: ctype where
  "struct_list_head = CStruct False [
     Field ''next'' (CPtr ''struct list_head''),
     Field ''prev'' (CPtr ''struct list_head'')]"

definition struct_mutex :: ctype where
  "struct_mutex = CStruct False [
     Field ''owner'' type_atomic_long_t,
     Field ''wait_lock'' type_raw_spinlock_t,
     Field ''wait_list'' struct_list_head]"

definition struct_wait_queue_head :: ctype where
  "struct_wait_queue_head = CStruct False [
     Field ''lock'' type_spinlock_t,
     Field ''head'' struct_list_head]"

definition type_wait_queue_head_t :: ctype where [typedef_defs]:
  "type_wait_queue_head_t = struct_wait_queue_head"

definition struct_hlist_node :: ctype where
  "struct_hlist_node = CStruct False [
     Field ''next'' (CPtr ''struct hlist_node''),
     Field ''pprev'' (CPtr ''struct hlist_node *'')]"

definition struct_refcount_struct :: ctype where
  "struct_refcount_struct = CStruct False [
     Field ''refs'' type_atomic_t]"

definition type_refcount_t :: ctype where [typedef_defs]:
  "type_refcount_t = struct_refcount_struct"

definition struct_callback_head :: ctype where
  "struct_callback_head = CStruct False [
     Field ''next'' (CPtr ''struct callback_head''),
     Field ''func'' (CPtr ''function'')]"

definition struct_llist_node :: ctype where
  "struct_llist_node = CStruct False [
     Field ''next'' (CPtr ''struct llist_node'')]"

definition struct_rb_node :: ctype where
  "struct_rb_node = CStruct False [
     Field ''__rb_parent_color'' c_long,
     Field ''rb_right'' (CPtr ''struct rb_node''),
     Field ''rb_left'' (CPtr ''struct rb_node'')]"

definition struct_timer_list :: ctype where
  "struct_timer_list = CStruct False [
     Field ''entry'' struct_hlist_node,
     Field ''expires'' c_long,
     Field ''function'' (CPtr ''function''),
     Field ''flags'' type_u32]"

definition struct_page_frag :: ctype where
  "struct_page_frag = CStruct False [
     Field ''page'' (CPtr ''struct page''),
     Field ''offset'' type___u32,
     Field ''size'' type___u32]"

section \<open>Sizes and alignments\<close>

lemma layout_struct_raw_spinlock [layout_eval]: "layout struct_raw_spinlock = (0, 1)"
  by (simp add: struct_raw_spinlock_def layout_eval typedef_defs scan_simps cong: scan_congs)

lemma layout_struct_spinlock [layout_eval]: "layout struct_spinlock = (0, 1)"
  by (simp add: struct_spinlock_def layout_eval typedef_defs scan_simps cong: scan_congs)

lemma layout_struct_list_head [layout_eval]: "layout struct_list_head = (16, 8)"
  by (simp add: struct_list_head_def layout_eval typedef_defs scan_simps cong: scan_congs)

lemma layout_struct_mutex [layout_eval]: "layout struct_mutex = (24, 8)"
  by (simp add: struct_mutex_def layout_eval typedef_defs scan_simps cong: scan_congs)

lemma layout_struct_wait_queue_head [layout_eval]: "layout struct_wait_queue_head = (16, 8)"
  by (simp add: struct_wait_queue_head_def layout_eval typedef_defs scan_simps cong: scan_congs)

lemma layout_struct_hlist_node [layout_eval]: "layout struct_hlist_node = (16, 8)"
  by (simp add: struct_hlist_node_def layout_eval typedef_defs scan_simps cong: scan_congs)

lemma layout_struct_refcount_struct [layout_eval]: "layout struct_refcount_struct = (4, 4)"
  by (simp add: struct_refcount_struct_def layout_eval typedef_defs scan_simps cong: scan_congs)

lemma layout_struct_callback_head [layout_eval]: "layout struct_callback_head = (16, 8)"
  by (simp add: struct_callback_head_def layout_eval typedef_defs scan_simps cong: scan_congs)

lemma layout_struct_llist_node [layout_eval]: "layout struct_llist_node = (8, 8)"
  by (simp add: struct_llist_node_def layout_eval typedef_defs scan_simps cong: scan_congs)

lemma layout_struct_rb_node [layout_eval]: "layout struct_rb_node = (24, 8)"
  by (simp add: struct_rb_node_def layout_eval typedef_defs scan_simps cong: scan_congs)

lemma layout_struct_timer_list [layout_eval]: "layout struct_timer_list = (40, 8)"
  by (simp add: struct_timer_list_def layout_eval typedef_defs scan_simps cong: scan_congs)

lemma layout_struct_page_frag [layout_eval]: "layout struct_page_frag = (16, 8)"
  by (simp add: struct_page_frag_def layout_eval typedef_defs scan_simps cong: scan_congs)

end
