(* ===== verification/Bpf_Runtime.thy ===== *)
theory Bpf_Runtime
  imports Warmor_Prelude
begin

text \<open>
  What the BPF programs rely on outside the repository. The kernel helpers are a parameter of
  every program: a \<open>helpers\<close> record of what they return for the task the program runs for.
  The locale \<open>bpf_helpers\<close> states the documented behaviour the programs depend on, and
  \<open>mem_helpers\<close> is an implementation over a byte-addressed memory that satisfies it. BPF maps
  are association lists with the lookup, update and delete operations of a hash map of bounded
  size; the locale \<open>bpf_map\<close> is the interface that the userspace manager uses.
\<close>

section \<open>Helpers\<close>

type_synonym addr = u64

text \<open>A string helper reads from a kernel address or from a buffer on the program's own stack.\<close>

datatype src = Kmem addr | Stack bytes

text \<open>
  A helper that fills a buffer maps the buffer's old contents to a return code and its new
  contents. \<open>bpf_ringbuf_reserve\<close> sees the records already submitted and answers with the
  uninitialised memory of a new record, or with NULL. \<open>core_offset\<close> is the offset in bytes to
  which the loader relocates a field access of a kernel struct; \<open>stack_bytes n\<close> are the
  contents of an uninitialised stack buffer of \<open>n\<close> bytes.
\<close>

record helpers =
  bpf_get_current_cgroup_id :: u64
  bpf_get_current_pid_tgid :: u64
  bpf_get_current_uid_gid :: u64
  bpf_ktime_get_ns :: u64
  bpf_get_current_comm :: "bytes \<Rightarrow> bytes"
  bpf_probe_read_kernel :: "bytes \<Rightarrow> addr \<Rightarrow> int \<times> bytes"
  bpf_probe_read_kernel_str :: "bytes \<Rightarrow> src \<Rightarrow> int \<times> bytes"
  bpf_probe_read_user :: "bytes \<Rightarrow> addr \<Rightarrow> int \<times> bytes"
  bpf_probe_read_user_str :: "bytes \<Rightarrow> addr \<Rightarrow> int \<times> bytes"
  bpf_ringbuf_reserve :: "bytes list \<Rightarrow> nat \<Rightarrow> bytes option"
  core_offset :: "string \<Rightarrow> string list \<Rightarrow> nat"
  stack_bytes :: "nat \<Rightarrow> bytes"

text \<open>
  A string read either fails (a negative code) or stores a NUL-terminated string and returns
  its length with the NUL; bytes of the buffer behind the string keep their value. A buffer on
  the stack that holds a terminated string is always readable.
\<close>

definition str_read_ok :: "bytes \<Rightarrow> int \<times> bytes \<Rightarrow> bool" where
  "str_read_ok dst r \<longleftrightarrow>
     length (snd r) = length dst \<and>
     (0 < fst r \<longrightarrow>
        nat (fst r) \<le> length dst \<and>
        snd r ! (nat (fst r) - 1) = 0 \<and>
        0 \<notin> set (take (nat (fst r) - 1) (snd r)) \<and>
        drop (nat (fst r)) (snd r) = drop (nat (fst r)) dst)"

locale bpf_helpers =
  fixes h :: helpers
  assumes comm_length: "length (bpf_get_current_comm h dst) = length dst"
    and comm_terminated: "dst \<noteq> [] \<Longrightarrow> 0 \<in> set (bpf_get_current_comm h dst)"
    and read_kernel_length: "length (snd (bpf_probe_read_kernel h dst a)) = length dst"
    and read_user_length: "length (snd (bpf_probe_read_user h dst a)) = length dst"
    and read_kernel_str: "str_read_ok dst (bpf_probe_read_kernel_str h dst s)"
    and read_user_str: "str_read_ok dst (bpf_probe_read_user_str h dst a)"
    and read_stack_str:
      "0 \<in> set buf \<Longrightarrow> length (cstr buf) < length dst \<Longrightarrow>
       bpf_probe_read_kernel_str h dst (Stack buf) =
         (int (length (cstr buf)) + 1, store 0 (cstr buf @ [0]) dst)"
    and reserve_length: "bpf_ringbuf_reserve h q n = Some r \<Longrightarrow> length r = n"
    and stack_length: "length (stack_bytes h n) = n"
begin

lemma kernel_str_length: "length (snd (bpf_probe_read_kernel_str h dst s)) = length dst"
  using read_kernel_str [of dst s] by (simp add: str_read_ok_def)

lemma user_str_length: "length (snd (bpf_probe_read_user_str h dst a)) = length dst"
  using read_user_str [of dst a] by (simp add: str_read_ok_def)

lemma str_read_cstr:
  assumes "str_read_ok dst r" and "0 < fst r"
  shows "cstr (snd r) = take (nat (fst r) - 1) (snd r)" and "0 \<in> set (snd r)"
proof -
  let ?k = "nat (fst r) - 1"
  have k: "?k < length (snd r)" and z: "snd r ! ?k = 0" and nz: "0 \<notin> set (take ?k (snd r))"
    using assms by (auto simp: str_read_ok_def)
  have "snd r = take ?k (snd r) @ 0 # drop (Suc ?k) (snd r)"
    using id_take_nth_drop [OF k] z by simp
  then show "cstr (snd r) = take ?k (snd r)"
    using cstr_prefix [OF nz] by metis
  show "0 \<in> set (snd r)"
    using k z nth_mem by metis
qed

text \<open>A positive return code is the length of the string read, with its NUL.\<close>

lemma str_read_length:
  assumes "str_read_ok dst r" and "0 < fst r"
  shows "int (length (cstr (snd r))) + 1 = fst r" and "length (cstr (snd r)) < length dst"
proof -
  have le: "nat (fst r) \<le> length (snd r)" and len: "length (snd r) = length dst"
    using assms by (auto simp: str_read_ok_def)
  have "length (cstr (snd r)) = nat (fst r) - 1"
    using str_read_cstr(1) [OF assms] le by simp
  then show "int (length (cstr (snd r))) + 1 = fst r" and "length (cstr (snd r)) < length dst"
    using assms(2) le len by auto
qed

end

section \<open>Helpers over a byte-addressed memory\<close>

text \<open>
  \<open>mem a = None\<close> is an address that faults. A failed read clears the destination and returns
  \<open>-EFAULT\<close>; a string read stops after the NUL or after \<open>n - 1\<close> bytes.
\<close>

type_synonym memory = "addr \<Rightarrow> byte option"

text \<open>The memory that holds the given byte strings at the given addresses.\<close>

fun mem_of :: "(addr \<times> bytes) list \<Rightarrow> memory" where
  "mem_of [] a = None"
| "mem_of ((base, bs) # regions) a =
     (let i = unat (a - base) in if i < length bs then Some (bs ! i) else mem_of regions a)"

definition EFAULT :: int where "EFAULT = 14"

fun mem_bytes :: "memory \<Rightarrow> addr \<Rightarrow> nat \<Rightarrow> bytes option" where
  "mem_bytes mem a 0 = Some []"
| "mem_bytes mem a (Suc n) =
     (case mem a of
        None \<Rightarrow> None
      | Some b \<Rightarrow> map_option (Cons b) (mem_bytes mem (a + 1) n))"

definition mem_read :: "memory \<Rightarrow> bytes \<Rightarrow> addr \<Rightarrow> int \<times> bytes" where
  "mem_read mem dst a =
     (case mem_bytes mem a (length dst) of
        None \<Rightarrow> (- EFAULT, replicate (length dst) 0)
      | Some bs \<Rightarrow> (0, bs))"

text \<open>The string at \<open>a\<close>, at most \<open>n\<close> bytes without its NUL; \<open>None\<close> on a fault.\<close>

fun mem_string :: "memory \<Rightarrow> addr \<Rightarrow> nat \<Rightarrow> bytes option" where
  "mem_string mem a 0 = Some []"
| "mem_string mem a (Suc n) =
     (case mem a of
        None \<Rightarrow> None
      | Some b \<Rightarrow> if b = 0 then Some [] else map_option (Cons b) (mem_string mem (a + 1) n))"

definition put_string :: "bytes \<Rightarrow> bytes \<Rightarrow> int \<times> bytes" where
  "put_string dst s = (int (length s) + 1, store 0 (s @ [0]) dst)"

definition mem_read_str :: "memory \<Rightarrow> bytes \<Rightarrow> addr \<Rightarrow> int \<times> bytes" where
  "mem_read_str mem dst a =
     (if dst = [] then (0, [])
      else case mem_string mem a (length dst - 1) of
             None \<Rightarrow> (- EFAULT, replicate (length dst) 0)
           | Some s \<Rightarrow> put_string dst s)"

definition stack_read_str :: "bytes \<Rightarrow> bytes \<Rightarrow> int \<times> bytes" where
  "stack_read_str dst buf =
     (if dst = [] then (0, []) else put_string dst (take (length dst - 1) (cstr buf)))"

text \<open>A ring buffer that can hold \<open>room\<close> records; new records are cleared memory.\<close>

definition ring_reserve :: "nat \<Rightarrow> bytes list \<Rightarrow> nat \<Rightarrow> bytes option" where
  "ring_reserve room q n = (if length q < room then Some (replicate n 0) else None)"

definition put_comm :: "bytes \<Rightarrow> bytes \<Rightarrow> bytes" where
  "put_comm name dst =
     (if dst = [] then []
      else let s = take (length dst - 1) name in s @ replicate (length dst - length s) 0)"

definition mem_helpers ::
  "memory \<Rightarrow> memory \<Rightarrow> (string \<Rightarrow> string list \<Rightarrow> nat) \<Rightarrow> nat \<Rightarrow>
   u64 \<Rightarrow> u64 \<Rightarrow> u64 \<Rightarrow> u64 \<Rightarrow> bytes \<Rightarrow> helpers" where
  "mem_helpers kmem umem offs room cgid pid_tgid uid_gid now comm =
     \<lparr> bpf_get_current_cgroup_id = cgid,
       bpf_get_current_pid_tgid = pid_tgid,
       bpf_get_current_uid_gid = uid_gid,
       bpf_ktime_get_ns = now,
       bpf_get_current_comm = put_comm comm,
       bpf_probe_read_kernel = mem_read kmem,
       bpf_probe_read_kernel_str =
         (\<lambda>dst s. case s of Kmem a \<Rightarrow> mem_read_str kmem dst a | Stack buf \<Rightarrow> stack_read_str dst buf),
       bpf_probe_read_user = mem_read umem,
       bpf_probe_read_user_str = mem_read_str umem,
       bpf_ringbuf_reserve = ring_reserve room,
       core_offset = offs,
       stack_bytes = (\<lambda>n. replicate n 0) \<rparr>"

lemma mem_bytes_length: "mem_bytes mem a n = Some bs \<Longrightarrow> length bs = n"
  by (induction mem a n arbitrary: bs rule: mem_bytes.induct) (auto split: option.splits)

lemma mem_read_length: "length (snd (mem_read mem dst a)) = length dst"
  using mem_bytes_length by (auto simp: mem_read_def split: option.split)

text \<open>Unfolding rules that evaluate reads of concrete memories.\<close>

lemma mem_bytes_numeral:
  "mem_bytes mem a (numeral n) =
     (case mem a of
        None \<Rightarrow> None
      | Some b \<Rightarrow> map_option (Cons b) (mem_bytes mem (a + 1) (pred_numeral n)))"
  by (simp add: numeral_eq_Suc)

lemma mem_string_numeral:
  "mem_string mem a (numeral n) =
     (case mem a of
        None \<Rightarrow> None
      | Some b \<Rightarrow>
          if b = 0 then Some [] else map_option (Cons b) (mem_string mem (a + 1) (pred_numeral n)))"
  by (simp add: numeral_eq_Suc)

lemmas mem_eval =
  mem_helpers_def mem_read_def mem_read_str_def stack_read_str_def put_string_def ring_reserve_def
  mem_bytes_numeral mem_string_numeral Let_def

lemma mem_string_length: "mem_string mem a n = Some s \<Longrightarrow> length s \<le> n \<and> 0 \<notin> set s"
  by (induction mem a n arbitrary: s rule: mem_string.induct) (auto split: option.splits if_splits)

lemma put_string_ok:
  assumes "length s < length dst" and "0 \<notin> set s"
  shows "str_read_ok dst (put_string dst s)"
proof -
  have "nat (int (length s) + 1) = Suc (length s)" by simp
  with assms show ?thesis
    by (auto simp: str_read_ok_def put_string_def store_def nth_append)
qed

lemma failed_read_ok: "str_read_ok dst (- EFAULT, replicate (length dst) 0)"
  by (simp add: str_read_ok_def EFAULT_def)

lemma mem_read_str_ok: "str_read_ok dst (mem_read_str mem dst a)"
proof (cases "dst = []")
  case True
  then show ?thesis by (simp add: mem_read_str_def str_read_ok_def)
next
  case False
  show ?thesis
  proof (cases "mem_string mem a (length dst - 1)")
    case None
    with False show ?thesis by (simp add: mem_read_str_def failed_read_ok)
  next
    case (Some s)
    then have "length s < length dst" and "0 \<notin> set s"
      using mem_string_length [OF Some] False by (auto simp: le_diff_conv2 Suc_le_eq)
    then show ?thesis
      using False Some by (simp add: mem_read_str_def put_string_ok)
  qed
qed

lemma stack_read_str_ok: "str_read_ok dst (stack_read_str dst buf)"
proof (cases "dst = []")
  case False
  have "0 \<notin> set (take (length dst - 1) (cstr buf))"
    by (meson in_set_takeD zero_notin_cstr)
  moreover have "length (take (length dst - 1) (cstr buf)) < length dst"
    using False by (cases dst) auto
  ultimately show ?thesis
    using False by (simp add: stack_read_str_def put_string_ok)
qed (simp add: stack_read_str_def str_read_ok_def)

lemma length_put_comm: "length (put_comm name dst) = length dst"
  by (auto simp: put_comm_def Let_def)

lemma put_comm_terminated: "dst \<noteq> [] \<Longrightarrow> 0 \<in> set (put_comm name dst)"
  by (cases dst) (auto simp: put_comm_def Let_def)

interpretation mem: bpf_helpers "mem_helpers kmem umem offs room cgid pid_tgid uid_gid now comm"
proof
  fix dst buf :: bytes
  assume "0 \<in> set buf" and "length (cstr buf) < length dst"
  then show "bpf_probe_read_kernel_str
      (mem_helpers kmem umem offs room cgid pid_tgid uid_gid now comm) dst (Stack buf) =
      (int (length (cstr buf)) + 1, store 0 (cstr buf @ [0]) dst)"
    by (auto simp: mem_helpers_def stack_read_str_def put_string_def)
qed (auto simp: mem_helpers_def length_put_comm put_comm_terminated mem_read_length
    mem_read_str_ok stack_read_str_ok ring_reserve_def split: src.splits if_splits)

section \<open>BPF maps\<close>

type_synonym ('k, 'v) bpf_map = "('k \<times> 'v) list"

datatype errno = E2BIG | ENOENT

definition bpf_map_lookup_elem :: "('k, 'v) bpf_map \<Rightarrow> 'k \<Rightarrow> 'v option" where
  "bpf_map_lookup_elem m k = map_of m k"

text \<open>An update of a present key replaces its value; a new key needs a free entry.\<close>

definition bpf_map_update_elem ::
  "nat \<Rightarrow> ('k, 'v) bpf_map \<Rightarrow> 'k \<Rightarrow> 'v \<Rightarrow> errno + ('k, 'v) bpf_map" where
  "bpf_map_update_elem max_entries m k v =
     (if map_of m k = None \<and> max_entries \<le> length m then Inl E2BIG else Inr (AList.update k v m))"

definition bpf_map_delete_elem :: "('k, 'v) bpf_map \<Rightarrow> 'k \<Rightarrow> errno + ('k, 'v) bpf_map" where
  "bpf_map_delete_elem m k =
     (if map_of m k = None then Inl ENOENT else Inr (AList.delete k m))"

definition bpf_map_keys :: "('k, 'v) bpf_map \<Rightarrow> 'k list" where
  "bpf_map_keys m = map fst m"

definition wf_map :: "nat \<Rightarrow> ('k, 'v) bpf_map \<Rightarrow> bool" where
  "wf_map max_entries m \<longleftrightarrow> distinct (map fst m) \<and> length m \<le> max_entries"

text \<open>
  Userspace writes a list of entries one by one and stops at the first error; it empties a map
  by deleting the keys an iteration returns, ignoring errors.
\<close>

fun put_all :: "('m \<Rightarrow> 'k \<Rightarrow> 'v \<Rightarrow> 'e + 'm) \<Rightarrow> 'm \<Rightarrow> ('k \<times> 'v) list \<Rightarrow> 'e \<times> 'm + 'm" where
  "put_all put m [] = Inr m"
| "put_all put m ((k, v) # kvs) =
     (case put m k v of Inl e \<Rightarrow> Inl (e, m) | Inr m' \<Rightarrow> put_all put m' kvs)"

fun delete_all :: "('m \<Rightarrow> 'k \<Rightarrow> 'e + 'm) \<Rightarrow> 'm \<Rightarrow> 'k list \<Rightarrow> 'm" where
  "delete_all del m [] = m"
| "delete_all del m (k # ks) =
     (case del m k of Inl e \<Rightarrow> delete_all del m ks | Inr m' \<Rightarrow> delete_all del m' ks)"

text \<open>The interface of a BPF hash map.\<close>

locale bpf_map =
  fixes lookup :: "'m \<Rightarrow> 'k \<Rightarrow> 'v option"
    and put :: "'m \<Rightarrow> 'k \<Rightarrow> 'v \<Rightarrow> 'e + 'm"
    and del :: "'m \<Rightarrow> 'k \<Rightarrow> 'e + 'm"
    and keys :: "'m \<Rightarrow> 'k list"
    and capacity :: nat
    and wf :: "'m \<Rightarrow> bool"
  assumes put_lookup: "wf m \<Longrightarrow> put m k v = Inr m' \<Longrightarrow> lookup m' = (lookup m)(k \<mapsto> v)"
    and put_wf: "wf m \<Longrightarrow> put m k v = Inr m' \<Longrightarrow> wf m'"
    and put_present: "wf m \<Longrightarrow> lookup m k \<noteq> None \<Longrightarrow> \<exists>m'. put m k v = Inr m'"
    and put_room: "wf m \<Longrightarrow> length (keys m) < capacity \<Longrightarrow> \<exists>m'. put m k v = Inr m'"
    and del_lookup: "wf m \<Longrightarrow> del m k = Inr m' \<Longrightarrow> lookup m' = (lookup m)(k := None)"
    and del_wf: "wf m \<Longrightarrow> del m k = Inr m' \<Longrightarrow> wf m'"
    and del_fail: "wf m \<Longrightarrow> del m k = Inl e \<Longrightarrow> lookup m k = None"
    and keys_dom: "wf m \<Longrightarrow> set (keys m) = dom (lookup m)"
    and keys_distinct: "wf m \<Longrightarrow> distinct (keys m)"
begin

lemma keys_card: "wf m \<Longrightarrow> length (keys m) = card (dom (lookup m))"
  using keys_dom [of m] keys_distinct [of m] distinct_card by metis

lemma delete_all_spec:
  "wf m \<Longrightarrow> wf (delete_all del m ks) \<and> lookup (delete_all del m ks) = (lookup m) |` (- set ks)"
proof (induction ks arbitrary: m)
  case Nil
  then show ?case by (simp add: restrict_map_def)
next
  case (Cons k ks)
  show ?case
  proof (cases "del m k")
    case (Inl e)
    then have "lookup m k = None" using del_fail Cons.prems by blast
    then show ?thesis
      using Cons.IH [OF Cons.prems] Inl by (auto simp: restrict_map_def fun_eq_iff)
  next
    case (Inr m')
    then have "wf m'" and "lookup m' = (lookup m)(k := None)"
      using del_wf del_lookup Cons.prems by blast+
    then show ?thesis
      using Cons.IH [of m'] Inr by (auto simp: restrict_map_def fun_eq_iff)
  qed
qed

text \<open>Deleting every key that an iteration returned empties the map.\<close>

lemma delete_all_keys: "wf m \<Longrightarrow> lookup (delete_all del m (keys m)) = Map.empty"
  using delete_all_spec [of m "keys m"] keys_dom [of m]
  by (auto simp: restrict_map_def fun_eq_iff domIff)

lemma put_all_lookup:
  "wf m \<Longrightarrow> put_all put m kvs = Inr m' \<Longrightarrow> wf m' \<and> lookup m' = lookup m ++ map_of (rev kvs)"
proof (induction kvs arbitrary: m)
  case Nil
  then show ?case by simp
next
  case (Cons kv kvs)
  obtain k v where kv: "kv = (k, v)" by (cases kv)
  obtain m1 where m1: "put m k v = Inr m1" and rest: "put_all put m1 kvs = Inr m'"
    using Cons.prems kv by (auto split: sum.splits)
  have "wf m1" "lookup m1 = (lookup m)(k \<mapsto> v)"
    using put_wf put_lookup Cons.prems(1) m1 by blast+
  then show ?case
    using Cons.IH [OF _ rest] kv by (auto simp: map_add_def fun_eq_iff split: option.splits)
qed

text \<open>A list of entries fits as soon as the map could hold all the keys.\<close>

lemma put_all_fits:
  assumes "wf m" and "card (dom (lookup m) \<union> fst ` set kvs) \<le> capacity"
    and "finite (dom (lookup m))"
  shows "\<exists>m'. put_all put m kvs = Inr m'"
  using assms
proof (induction kvs arbitrary: m)
  case Nil
  then show ?case by simp
next
  case (Cons kv kvs)
  obtain k v where kv: "kv = (k, v)" by (cases kv)
  let ?D = "dom (lookup m)"
  have "\<exists>m1. put m k v = Inr m1"
  proof (cases "lookup m k")
    case None
    then have "card ?D < card (insert k ?D)"
      using Cons.prems(3) by (auto simp: domIff card_insert_if)
    also have "\<dots> \<le> card (?D \<union> fst ` set (kv # kvs))"
      using Cons.prems(3) kv by (intro card_mono) auto
    finally show ?thesis
      using Cons.prems(1,2) put_room keys_card by fastforce
  qed (use put_present Cons.prems(1) in blast)
  then obtain m1 where m1: "put m k v = Inr m1" by blast
  have wf1: "wf m1" and lk1: "lookup m1 = (lookup m)(k \<mapsto> v)"
    using put_wf put_lookup Cons.prems(1) m1 by blast+
  have "dom (lookup m1) \<union> fst ` set kvs = ?D \<union> fst ` set (kv # kvs)"
    using lk1 kv by auto
  moreover have "finite (dom (lookup m1))"
    using Cons.prems(3) by (simp add: lk1)
  ultimately have "\<exists>m'. put_all put m1 kvs = Inr m'"
    using Cons.IH [OF wf1] Cons.prems(2) by metis
  then show ?case using m1 kv by simp
qed

end

lemma bpf_map_axioms:
  "bpf_map bpf_map_lookup_elem (bpf_map_update_elem n) bpf_map_delete_elem bpf_map_keys n (wf_map n)"
proof
  fix m :: "('k, 'v) bpf_map" and k :: 'k and v :: 'v and m'
  assume wf: "wf_map n m"
  {
    assume "bpf_map_update_elem n m k v = Inr m'"
    then have m': "m' = AList.update k v m" and room: "map_of m k = None \<Longrightarrow> length m < n"
      by (auto simp: bpf_map_update_elem_def split: if_splits)
    show "bpf_map_lookup_elem m' = (bpf_map_lookup_elem m)(k \<mapsto> v)"
      by (simp add: bpf_map_lookup_elem_def [abs_def] m' update_conv')
    show "wf_map n m'"
    proof (cases "map_of m k")
      case None
      then show ?thesis
        using wf room length_update_le [of k v m] by (auto simp: wf_map_def m' distinct_update)
    next
      case (Some w)
      then show ?thesis
        using wf length_update_present [of m k v] by (auto simp: wf_map_def m' distinct_update)
    qed
  }
  {
    assume "bpf_map_delete_elem m k = Inr m'"
    then have m': "m' = AList.delete k m"
      by (auto simp: bpf_map_delete_elem_def split: if_splits)
    show "bpf_map_lookup_elem m' = (bpf_map_lookup_elem m)(k := None)"
      by (simp add: bpf_map_lookup_elem_def [abs_def] m' delete_conv')
    show "wf_map n m'"
      using wf length_delete_le [of k m] by (auto simp: wf_map_def m' distinct_delete)
  }
qed (auto simp: bpf_map_update_elem_def bpf_map_delete_elem_def bpf_map_lookup_elem_def [abs_def]
    bpf_map_keys_def wf_map_def dom_map_of_conv_image_fst split: if_splits)

interpretation bm: bpf_map bpf_map_lookup_elem "bpf_map_update_elem n" bpf_map_delete_elem
  bpf_map_keys n "wf_map n"
  by (rule bpf_map_axioms)

end
