(* ===== verification/Lsm_Common.thy ===== *)
theory Lsm_Common
  imports Vmlinux_Base Bpf_Runtime
begin

text \<open>
  \<open>bpf/warmor_lsm.h\<close>: the constants, the policy map with its key and value, the event record
  that goes to userspace, the cgroup filter, the enforce switch, the FNV-1a hash of names, and
  the inline functions that every LSM program uses.
\<close>

section \<open>Constants and structs\<close>

definition EVENT_TYPE_EXEC :: u8 where "EVENT_TYPE_EXEC = 0"
definition EVENT_TYPE_FILE :: u8 where "EVENT_TYPE_FILE = 1"
definition EVENT_TYPE_NETWORK :: u8 where "EVENT_TYPE_NETWORK = 2"
definition EVENT_TYPE_BIND :: u8 where "EVENT_TYPE_BIND = 3"
definition EVENT_TYPE_LISTEN :: u8 where "EVENT_TYPE_LISTEN = 4"
definition EVENT_TYPE_PTRACE :: u8 where "EVENT_TYPE_PTRACE = 5"
definition EVENT_TYPE_MOUNT :: u8 where "EVENT_TYPE_MOUNT = 6"

lemmas event_type_defs =
  EVENT_TYPE_EXEC_def EVENT_TYPE_FILE_def EVENT_TYPE_NETWORK_def EVENT_TYPE_BIND_def
  EVENT_TYPE_LISTEN_def EVENT_TYPE_PTRACE_def EVENT_TYPE_MOUNT_def

definition ACTION_ALLOW :: u8 where "ACTION_ALLOW = 0"
definition ACTION_DENY :: u8 where "ACTION_DENY = 1"

definition POLICY_MAP_MAX_ENTRIES :: nat where "POLICY_MAP_MAX_ENTRIES = 65536"
definition LSM_RINGBUF_SIZE :: nat where "LSM_RINGBUF_SIZE = 256 * 1024"
definition LSM_CGROUP_FILTER_MAX_ENTRIES :: nat where "LSM_CGROUP_FILTER_MAX_ENTRIES = 1024"

record policy_key =
  cgroup_id :: u64
  rule_hash :: u32
  event_type :: u8
  key_pad :: bytes

record policy_value =
  action :: u8
  audit :: u8
  val_pad :: u16
  hit_count :: u32

definition struct_policy_key :: ctype where
  "struct_policy_key = CStruct False [
     Field ''cgroup_id'' type___u64,
     Field ''rule_hash'' type___u32,
     Field ''event_type'' type___u8,
     Field ''pad'' (CArr type___u8 3)]"

definition struct_policy_value :: ctype where
  "struct_policy_value = CStruct False [
     Field ''action'' type___u8,
     Field ''audit'' type___u8,
     Field ''pad'' type___u16,
     Field ''hit_count'' type___u32]"

definition struct_warmor_event :: ctype where
  "struct_warmor_event = CStruct False [
     Field ''pid'' type___u32,
     Field ''uid'' type___u32,
     Field ''gid'' type___u32,
     Field ''comm'' (CArr c_char 16),
     Field ''filename'' (CArr c_char 256),
     Field ''timestamp'' type___u64,
     Field ''cgroup_id'' type___u64,
     Field ''event_type'' type___u8,
     Field ''decision'' type___u8,
     Field ''remote_port'' type___u16,
     Field ''remote_addr_v4'' type___u32,
     Field ''remote_addr_v6'' (CArr type___u8 16)]"

lemma warmor_event_offsets [offset_simps]:
  "size_of struct_warmor_event = 328"
  "offset_of struct_warmor_event ''pid'' = 0"
  "offset_of struct_warmor_event ''uid'' = 4"
  "offset_of struct_warmor_event ''gid'' = 8"
  "offset_of struct_warmor_event ''comm'' = 12"
  "offset_of struct_warmor_event ''filename'' = 28"
  "offset_of struct_warmor_event ''timestamp'' = 288"
  "offset_of struct_warmor_event ''cgroup_id'' = 296"
  "offset_of struct_warmor_event ''event_type'' = 304"
  "offset_of struct_warmor_event ''decision'' = 305"
  "offset_of struct_warmor_event ''remote_port'' = 306"
  "offset_of struct_warmor_event ''remote_addr_v4'' = 308"
  "offset_of struct_warmor_event ''remote_addr_v6'' = 312"
  by (simp_all add: size_of_def offset_of_def struct_warmor_event_def typedef_defs scan_simps
      cong: scan_congs)

lemma policy_key_offsets [offset_simps]:
  "size_of struct_policy_key = 16"
  "offset_of struct_policy_key ''cgroup_id'' = 0"
  "offset_of struct_policy_key ''rule_hash'' = 8"
  "offset_of struct_policy_key ''event_type'' = 12"
  "offset_of struct_policy_key ''pad'' = 13"
  by (simp_all add: size_of_def offset_of_def struct_policy_key_def typedef_defs scan_simps
      cong: scan_congs)

lemma policy_value_offsets [offset_simps]:
  "size_of struct_policy_value = 8"
  "offset_of struct_policy_value ''action'' = 0"
  "offset_of struct_policy_value ''audit'' = 1"
  "offset_of struct_policy_value ''pad'' = 2"
  "offset_of struct_policy_value ''hit_count'' = 4"
  by (simp_all add: size_of_def offset_of_def struct_policy_value_def typedef_defs scan_simps
      cong: scan_congs)

text \<open>The bytes of a key in the map: each member stored at its offset in the struct.\<close>

definition policy_key_bytes :: "policy_key \<Rightarrow> bytes" where
  "policy_key_bytes k =
     store (offset_of struct_policy_key ''pad'') (key_pad k)
    (store (offset_of struct_policy_key ''event_type'') [event_type k]
    (store (offset_of struct_policy_key ''rule_hash'') (le_bytes 4 (rule_hash k))
    (store (offset_of struct_policy_key ''cgroup_id'') (le_bytes 8 (cgroup_id k))
    (replicate (size_of struct_policy_key) 0))))"

section \<open>Maps shared by the LSM programs\<close>

record lsm_state =
  policy_map :: "(policy_key, policy_value) bpf_map"
  lsm_events :: "bytes list"
  lsm_cgroup_filter :: "(u64, u8) bpf_map"
  lsm_enforce :: "u8 list"

text \<open>\<open>lsm_enforce\<close> is an array map of one entry; a lookup outside the array gives NULL.\<close>

definition array_lookup_elem :: "'v list \<Rightarrow> u32 \<Rightarrow> 'v option" where
  "array_lookup_elem xs k = (if unat k < length xs then Some (xs ! unat k) else None)"

definition wf_state :: "lsm_state \<Rightarrow> bool" where
  "wf_state st \<longleftrightarrow>
     wf_map POLICY_MAP_MAX_ENTRIES (policy_map st) \<and>
     wf_map LSM_CGROUP_FILTER_MAX_ENTRIES (lsm_cgroup_filter st) \<and>
     length (lsm_enforce st) = 1"

section \<open>FNV-1a\<close>

definition FNV_OFFSET :: u32 where "FNV_OFFSET = 2166136261"

definition fnv_mix :: "u32 \<Rightarrow> u32 \<Rightarrow> u32" where
  "fnv_mix hash x = (hash XOR x) * 16777619"

text \<open>
  The loop of \<open>fnv1a_hash\<close>: at most 16 bytes, stopping at \<open>len\<close> or at a NUL. \<open>data[i]\<close> is a
  plain \<open>char\<close>, which is signed on the BPF target, so its conversion to \<open>__u32\<close> extends the sign.
\<close>

function fnv1a_loop :: "bytes \<Rightarrow> int \<Rightarrow> nat \<Rightarrow> u32 \<Rightarrow> u32" where
  "fnv1a_loop data len i hash =
     (if i < 16 then
        (if len \<le> int i \<or> data ! i = 0 then hash
         else fnv1a_loop data len (Suc i) (fnv_mix hash (scast (data ! i))))
      else hash)"
  by pat_completeness auto
termination
  by (relation "measure (\<lambda>(data, len, i, hash). 16 - i)") auto

declare fnv1a_loop.simps [simp del]

definition fnv1a_hash :: "bytes \<Rightarrow> int \<Rightarrow> u32" where
  "fnv1a_hash data len = fnv1a_loop data len 0 FNV_OFFSET"

section \<open>Filter and enforce switch\<close>

definition should_skip_cgroup :: "lsm_state \<Rightarrow> u64 \<Rightarrow> bool" where
  "should_skip_cgroup st cgid =
     (case bpf_map_lookup_elem (lsm_cgroup_filter st) cgid of
        Some val \<Rightarrow> False
      | None \<Rightarrow>
          (case bpf_map_lookup_elem (lsm_cgroup_filter st) 0 of
             Some sentinel_val \<Rightarrow> True
           | None \<Rightarrow> False))"

definition is_enforce_enabled :: "lsm_state \<Rightarrow> bool" where
  "is_enforce_enabled st =
     (case array_lookup_elem (lsm_enforce st) 0 of Some val \<Rightarrow> val = 1 | None \<Rightarrow> False)"

section \<open>Events\<close>

text \<open>
  \<open>emit_lsm_event\<close> reserves a record, fills it member by member and submits it; when the ring
  buffer has no room the event is dropped. \<open>filename\<close> and \<open>remote_addr_v6\<close> may be NULL.
\<close>

definition fill_lsm_event ::
  "helpers \<Rightarrow> u8 \<Rightarrow> u8 \<Rightarrow> bytes option \<Rightarrow> int \<Rightarrow> u64 \<Rightarrow> u16 \<Rightarrow> u32 \<Rightarrow> bytes option \<Rightarrow> bytes \<Rightarrow> bytes"
where
  "fill_lsm_event h etype decision filename filename_len cgid remote_port
     remote_addr_v4 remote_addr_v6 event =
     (let off = offset_of struct_warmor_event;
          pid_tgid = bpf_get_current_pid_tgid h;
          uid_gid = bpf_get_current_uid_gid h;
          event = store (off ''pid'') (le_bytes 4 (ucast (drop_bit 32 pid_tgid) :: u32)) event;
          event = store (off ''uid'') (le_bytes 4 (ucast uid_gid :: u32)) event;
          event = store (off ''gid'') (le_bytes 4 (ucast (drop_bit 32 uid_gid) :: u32)) event;
          event = store (off ''timestamp'') (le_bytes 8 (bpf_ktime_get_ns h)) event;
          event = store (off ''cgroup_id'') (le_bytes 8 cgid) event;
          event = store (off ''event_type'') [etype] event;
          event = store (off ''decision'') [decision] event;
          event = store (off ''remote_port'') (le_bytes 2 remote_port) event;
          event = store (off ''remote_addr_v4'') (le_bytes 4 remote_addr_v4) event;
          event = modify (off ''comm'') 16 (bpf_get_current_comm h) event;
          event =
            (case filename of
               Some buf \<Rightarrow>
                 (if 0 < filename_len
                  then modify (off ''filename'') 256
                         (\<lambda>dst. snd (bpf_probe_read_kernel_str h dst (Stack buf))) event
                  else store (off ''filename'') [0] event)
             | None \<Rightarrow> store (off ''filename'') [0] event)
      in case remote_addr_v6 of
           Some v6 \<Rightarrow> store (off ''remote_addr_v6'') (take 16 v6) event
         | None \<Rightarrow> store (off ''remote_addr_v6'') (replicate 16 0) event)"

definition emit_lsm_event ::
  "helpers \<Rightarrow> lsm_state \<Rightarrow> u8 \<Rightarrow> u8 \<Rightarrow> bytes option \<Rightarrow> int \<Rightarrow> u64 \<Rightarrow> u16 \<Rightarrow> u32 \<Rightarrow> bytes option \<Rightarrow>
   lsm_state" where
  "emit_lsm_event h st etype decision filename filename_len cgid remote_port
     remote_addr_v4 remote_addr_v6 =
     (case bpf_ringbuf_reserve h (lsm_events st) (size_of struct_warmor_event) of
        None \<Rightarrow> st
      | Some event \<Rightarrow>
          st\<lparr>lsm_events := lsm_events st @
             [fill_lsm_event h etype decision filename filename_len cgid remote_port
                remote_addr_v4 remote_addr_v6 event]\<rparr>)"

section \<open>Hash lemmas\<close>

text \<open>The names the loop hashes: at most 16 bytes, at most \<open>len\<close>, up to the first NUL.\<close>

definition hashed_prefix :: "bytes \<Rightarrow> int \<Rightarrow> bytes" where
  "hashed_prefix data len = cstr (take (min 16 (nat len)) data)"

lemma fnv1a_loop_prefix:
  assumes "16 \<le> length data"
  shows "fnv1a_loop data len i hash =
     foldl (\<lambda>h b. fnv_mix h (scast b)) hash (cstr (drop i (take (min 16 (nat len)) data)))"
  using assms
proof (induction data len i hash rule: fnv1a_loop.induct)
  case (1 data len i hash)
  show ?case
  proof (cases "i < 16 \<and> \<not> len \<le> int i")
    case False
    then have "min 16 (nat len) \<le> i" by auto
    then have "drop i (take (min 16 (nat len)) data) = []" by simp
    moreover have "fnv1a_loop data len i hash = hash"
      using False by (subst fnv1a_loop.simps) auto
    ultimately show ?thesis by (simp add: cstr_def)
  next
    case True
    then have i: "i < min 16 (nat len)" by auto
    then have "i < length (take (min 16 (nat len)) data)" using "1.prems" by auto
    then have d: "drop i (take (min 16 (nat len)) data) =
        data ! i # drop (Suc i) (take (min 16 (nat len)) data)"
      using i by (subst Cons_nth_drop_Suc [symmetric]) auto
    show ?thesis
    proof (cases "data ! i = 0")
      case True
      have "fnv1a_loop data len i hash = hash"
        using True by (subst fnv1a_loop.simps) auto
      then show ?thesis using d True by (simp add: cstr_def)
    next
      case nz: False
      have "fnv1a_loop data len i hash =
            fnv1a_loop data len (Suc i) (fnv_mix hash (scast (data ! i)))"
        using True nz by (subst fnv1a_loop.simps) auto
      then show ?thesis
        using "1.IH" True nz "1.prems" d by (simp add: cstr_def)
    qed
  qed
qed

lemma fnv1a_hash_prefix:
  "16 \<le> length data \<Longrightarrow>
   fnv1a_hash data len = foldl (\<lambda>h b. fnv_mix h (scast b)) FNV_OFFSET (hashed_prefix data len)"
  by (simp add: fnv1a_hash_def fnv1a_loop_prefix hashed_prefix_def)

text \<open>The published FNV-1a, over bytes; it agrees with the loop on bytes below 128.\<close>

definition fnv1a32 :: "bytes \<Rightarrow> u32" where
  "fnv1a32 bs = foldl (\<lambda>hash b. fnv_mix hash (ucast b)) FNV_OFFSET bs"

lemma signed_char_ascii: "b < 128 \<Longrightarrow> (scast (b :: u8) :: u32) = ucast b"
proof -
  assume "b < 128"
  then have "uint b < 128" by (simp add: word_less_def)
  moreover have "0 \<le> uint b" by simp
  ultimately have "sint b = uint b"
    using order_trans [of "- 128" 0 "uint b"]
    by (simp add: sint_uint signed_take_bit_int_eq_self_iff)
  then show ?thesis by (simp only: scast_eq ucast_eq)
qed

lemma foldl_signed_ascii:
  "\<forall>b \<in> set bs. b < 128 \<Longrightarrow>
   foldl (\<lambda>h b. fnv_mix h (scast (b :: u8))) hash bs = foldl (\<lambda>h b. fnv_mix h (ucast b)) hash bs"
  by (induction bs arbitrary: hash) (auto simp: signed_char_ascii)

lemma fnv1a_hash_ascii:
  "16 \<le> length data \<Longrightarrow> \<forall>b \<in> set (hashed_prefix data len). b < 128 \<Longrightarrow>
   fnv1a_hash data len = fnv1a32 (hashed_prefix data len)"
  by (simp add: fnv1a_hash_prefix fnv1a32_def foldl_signed_ascii)

text \<open>What the loop sees of a string that a string read left in a buffer of 16 or more bytes.\<close>

lemma hashed_prefix_string:
  assumes "data = s @ 0 # rest" and "0 \<notin> set s"
  shows "hashed_prefix data (int (length s) + 1) = take 16 s"
proof (cases "length s < 16")
  case True
  then have "take (min 16 (nat (int (length s) + 1))) data = s @ [0]"
    using assms(1) by (cases "length s = 15") (auto simp: nat_add_distrib min_def)
  then show ?thesis using assms(2) True by (simp add: hashed_prefix_def)
next
  case False
  then have "take (min 16 (nat (int (length s) + 1))) data = take 16 s"
    using assms(1) by (simp add: nat_add_distrib min_def)
  then show ?thesis
    using assms(2) by (simp add: hashed_prefix_def) (meson cstr_no_nul in_set_takeD)
qed

section \<open>Event contents\<close>

record warmor_event =
  ev_pid :: u32
  ev_uid :: u32
  ev_gid :: u32
  ev_comm :: bytes
  ev_filename :: bytes
  ev_timestamp :: u64
  ev_cgroup_id :: u64
  ev_event_type :: u8
  ev_decision :: u8
  ev_remote_port :: u16
  ev_remote_addr_v4 :: u32
  ev_remote_addr_v6 :: bytes

text \<open>The members of a submitted record, read back at their offsets.\<close>

definition warmor_event_of :: "bytes \<Rightarrow> warmor_event" where
  "warmor_event_of ev =
     (let off = offset_of struct_warmor_event in
      \<lparr> ev_pid = le_word (load (off ''pid'') 4 ev),
        ev_uid = le_word (load (off ''uid'') 4 ev),
        ev_gid = le_word (load (off ''gid'') 4 ev),
        ev_comm = load (off ''comm'') 16 ev,
        ev_filename = load (off ''filename'') 256 ev,
        ev_timestamp = le_word (load (off ''timestamp'') 8 ev),
        ev_cgroup_id = le_word (load (off ''cgroup_id'') 8 ev),
        ev_event_type = le_word (load (off ''event_type'') 1 ev),
        ev_decision = le_word (load (off ''decision'') 1 ev),
        ev_remote_port = le_word (load (off ''remote_port'') 2 ev),
        ev_remote_addr_v4 = le_word (load (off ''remote_addr_v4'') 4 ev),
        ev_remote_addr_v6 = load (off ''remote_addr_v6'') 16 ev \<rparr>)"

text \<open>The writes that fill an event, latest first; \<open>name\<close> is what is stored in \<open>filename\<close>.\<close>

definition lsm_event_writes ::
  "helpers \<Rightarrow> u8 \<Rightarrow> u8 \<Rightarrow> bytes \<Rightarrow> u64 \<Rightarrow> u16 \<Rightarrow> u32 \<Rightarrow> bytes \<Rightarrow> bytes \<Rightarrow> (nat \<times> bytes) list" where
  "lsm_event_writes h etype decision name cgid remote_port remote_addr_v4 v6 event =
     [(312, v6),
      (28, name),
      (12, bpf_get_current_comm h (load 12 16 event)),
      (308, le_bytes 4 remote_addr_v4),
      (306, le_bytes 2 remote_port),
      (305, [decision]),
      (304, [etype]),
      (296, le_bytes 8 cgid),
      (288, le_bytes 8 (bpf_ktime_get_ns h)),
      (8, le_bytes 4 (ucast (drop_bit 32 (bpf_get_current_uid_gid h)) :: u32)),
      (4, le_bytes 4 (ucast (bpf_get_current_uid_gid h) :: u32)),
      (0, le_bytes 4 (ucast (drop_bit 32 (bpf_get_current_pid_tgid h)) :: u32))]"

definition filename_bytes :: "helpers \<Rightarrow> bytes option \<Rightarrow> int \<Rightarrow> bytes \<Rightarrow> bytes" where
  "filename_bytes h filename filename_len event =
     (case filename of
        Some buf \<Rightarrow>
          (if 0 < filename_len
           then snd (bpf_probe_read_kernel_str h (load 28 256 event) (Stack buf))
           else [0])
      | None \<Rightarrow> [0])"

definition v6_bytes :: "bytes option \<Rightarrow> bytes" where
  "v6_bytes v6 = (case v6 of Some bs \<Rightarrow> take 16 bs | None \<Rightarrow> replicate 16 0)"

context bpf_helpers
begin

lemma fill_lsm_event_writes:
  assumes "length event = 328"
  shows "fill_lsm_event h etype decision filename filename_len cgid remote_port remote_addr_v4
           remote_addr_v6 event =
         writes (lsm_event_writes h etype decision (filename_bytes h filename filename_len event)
           cgid remote_port remote_addr_v4 (v6_bytes remote_addr_v6) event) event"
  using assms
  by (simp add: fill_lsm_event_def filename_bytes_def v6_bytes_def Let_def offset_simps
      lsm_event_writes_def write_simps writes_fit_def comm_length length_load split: option.split)

lemma lsm_event_writes_fit:
  assumes "length event = 328" and "length name \<le> 256" and "length v6 \<le> 16"
  shows "writes_fit 328 (lsm_event_writes h etype decision name cgid remote_port remote_addr_v4
           v6 event)"
  using assms by (simp add: writes_fit_def lsm_event_writes_def comm_length length_load)

lemma filename_bytes_length:
  "length event = 328 \<Longrightarrow>
   length (filename_bytes h filename n event) = 256 \<or> filename_bytes h filename n event = [0]"
  by (auto simp: filename_bytes_def kernel_str_length length_load split: option.splits)

lemma fill_lsm_event_length:
  assumes "length event = 328"
  shows "length (fill_lsm_event h etype decision filename filename_len cgid remote_port
           remote_addr_v4 remote_addr_v6 event) = 328"
proof -
  have "length (filename_bytes h filename filename_len event) \<le> 256"
    using filename_bytes_length [OF assms, of filename filename_len] by auto
  moreover have "length (v6_bytes remote_addr_v6) \<le> 16"
    by (simp add: v6_bytes_def split: option.split)
  ultimately show ?thesis
    using lsm_event_writes_fit assms by (simp add: fill_lsm_event_writes length_writes)
qed

lemma lsm_event_members:
  assumes "length event = 328" and "length name = 256 \<or> length name = 1" and "length v6 = 16"
  shows "warmor_event_of (writes (lsm_event_writes h etype decision name cgid remote_port
           remote_addr_v4 v6 event) event) =
    \<lparr> ev_pid = ucast (drop_bit 32 (bpf_get_current_pid_tgid h)),
      ev_uid = ucast (bpf_get_current_uid_gid h),
      ev_gid = ucast (drop_bit 32 (bpf_get_current_uid_gid h)),
      ev_comm = bpf_get_current_comm h (load 12 16 event),
      ev_filename = name @ load (28 + length name) (256 - length name) event,
      ev_timestamp = bpf_ktime_get_ns h,
      ev_cgroup_id = cgid,
      ev_event_type = etype,
      ev_decision = decision,
      ev_remote_port = remote_port,
      ev_remote_addr_v4 = remote_addr_v4,
      ev_remote_addr_v6 = v6 \<rparr>"
proof -
  let ?ws = "lsm_event_writes h etype decision name cgid remote_port remote_addr_v4 v6 event"
  have fit: "writes_fit (length event) ?ws"
    using lsm_event_writes_fit assms by auto
  have "load 28 (length name + (256 - length name)) (writes ?ws event) =
        name @ load (28 + length name) (256 - length name) event"
    using fit assms
    by (simp only: load_split load_writes) (auto simp: lsm_event_writes_def comm_length length_load)
  then have name: "load 28 256 (writes ?ws event) =
      name @ load (28 + length name) (256 - length name) event"
    using assms(2) by auto
  show ?thesis
    using fit assms(1,2,3)
    by (simp add: warmor_event_of_def Let_def offset_simps name)
      (auto simp: load_writes lsm_event_writes_def comm_length length_load)
qed

text \<open>
  The contents of a submitted event. The filename member holds the NUL-terminated name; the
  bytes behind its NUL, and the four bytes of padding before the timestamp, keep what the
  reserved memory held.
\<close>

lemma fill_lsm_event_contents:
  assumes "length event = 328" and "\<And>v6. remote_addr_v6 = Some v6 \<Longrightarrow> length v6 = 16"
  shows "warmor_event_of (fill_lsm_event h etype decision filename filename_len cgid remote_port
           remote_addr_v4 remote_addr_v6 event) =
    \<lparr> ev_pid = ucast (drop_bit 32 (bpf_get_current_pid_tgid h)),
      ev_uid = ucast (bpf_get_current_uid_gid h),
      ev_gid = ucast (drop_bit 32 (bpf_get_current_uid_gid h)),
      ev_comm = bpf_get_current_comm h (load 12 16 event),
      ev_filename =
        (let name = filename_bytes h filename filename_len event
         in name @ load (28 + length name) (256 - length name) event),
      ev_timestamp = bpf_ktime_get_ns h,
      ev_cgroup_id = cgid,
      ev_event_type = etype,
      ev_decision = decision,
      ev_remote_port = remote_port,
      ev_remote_addr_v4 = remote_addr_v4,
      ev_remote_addr_v6 = v6_bytes remote_addr_v6 \<rparr>"
proof -
  have "length (v6_bytes remote_addr_v6) = 16"
    using assms(2) by (auto simp: v6_bytes_def split: option.splits)
  moreover have "length (filename_bytes h filename filename_len event) = 256 \<or>
      length (filename_bytes h filename filename_len event) = 1"
    using filename_bytes_length [OF assms(1), of filename filename_len] by auto
  ultimately show ?thesis
    using lsm_event_members assms(1) by (simp add: fill_lsm_event_writes Let_def)
qed

text \<open>The name that userspace reads from the record is the string the program passed.\<close>

lemma filename_cstr:
  assumes "length event = 328" and "0 \<in> set buf" and "length (cstr buf) < 256"
  shows "cstr (filename_bytes h (Some buf) n event @ rest) = (if 0 < n then cstr buf else [])"
proof (cases "0 < n")
  case True
  have "snd (bpf_probe_read_kernel_str h (load 28 256 event) (Stack buf)) =
        store 0 (cstr buf @ [0]) (load 28 256 event)"
    using read_stack_str [OF assms(2), of "load 28 256 event"] assms by (simp add: length_load)
  then show ?thesis
    using True by (simp add: filename_bytes_def store_def)
qed (simp add: filename_bytes_def cstr_def)

end

end
