(* ===== verification/Lsm_Contract.thy ===== *)
theory Lsm_Contract
  imports Lsm_Common
begin

text \<open>
  The contract that the seven LSM programs share. A program turns the arguments of its hook into
  a request (an event type, a rule hash and what goes into the event); the request is decided by
  the policy map. \<open>abs_state\<close> forgets counters and buffers, \<open>decide\<close> is the decision procedure
  over that abstract policy, and the locale \<open>lsm_hook\<close> derives what a program that follows the
  contract does: return code, submitted event, counter and unchanged policy.
\<close>

section \<open>Requests\<close>

record request =
  rq_type :: u8
  rq_hash :: u32
  rq_name :: "bytes option"
  rq_len :: int
  rq_port :: u16
  rq_v4 :: u32
  rq_v6 :: "bytes option"

definition rule_key :: "u64 \<Rightarrow> u8 \<Rightarrow> u32 \<Rightarrow> policy_key" where
  "rule_key cgid etype hash =
     \<lparr> cgroup_id = cgid, rule_hash = hash, event_type = etype, key_pad = [0, 0, 0] \<rparr>"

text \<open>\<open>__sync_fetch_and_add(&val->hit_count, 1)\<close> on the value of a key; the counter wraps.\<close>

definition incr_hit_count :: "lsm_state \<Rightarrow> policy_key \<Rightarrow> lsm_state" where
  "incr_hit_count st key =
     st\<lparr>policy_map :=
          AList.map_entry key (\<lambda>val. val\<lparr>hit_count := hit_count val + 1\<rparr>) (policy_map st)\<rparr>"

text \<open>The rule of a cgroup is consulted first, then the global rule, which has cgroup 0.\<close>

definition matching_rule ::
  "lsm_state \<Rightarrow> u64 \<Rightarrow> u8 \<Rightarrow> u32 \<Rightarrow> (policy_key \<times> policy_value) option" where
  "matching_rule st cgid etype hash =
     (case bpf_map_lookup_elem (policy_map st) (rule_key cgid etype hash) of
        Some val \<Rightarrow> Some (rule_key cgid etype hash, val)
      | None \<Rightarrow> map_option (Pair (rule_key 0 etype hash))
                  (bpf_map_lookup_elem (policy_map st) (rule_key 0 etype hash)))"

definition emit_request :: "helpers \<Rightarrow> lsm_state \<Rightarrow> u64 \<Rightarrow> u8 \<Rightarrow> request \<Rightarrow> lsm_state" where
  "emit_request h st cgid decision rq =
     emit_lsm_event h st (rq_type rq) decision (rq_name rq) (rq_len rq) cgid
       (rq_port rq) (rq_v4 rq) (rq_v6 rq)"

definition serve_request :: "helpers \<Rightarrow> lsm_state \<Rightarrow> u64 \<Rightarrow> request \<Rightarrow> int \<times> lsm_state" where
  "serve_request h st cgid rq =
     (case matching_rule st cgid (rq_type rq) (rq_hash rq) of
        None \<Rightarrow> (0, emit_request h st cgid 0 rq)
      | Some (key, val) \<Rightarrow>
          (let st = incr_hit_count st key in
           if action val = ACTION_DENY
           then (if is_enforce_enabled st then - 1 else 0, emit_request h st cgid 1 rq)
           else (0, if audit val \<noteq> 0 then emit_request h st cgid 0 rq else st)))"

definition lsm_run :: "helpers \<Rightarrow> lsm_state \<Rightarrow> request option \<Rightarrow> int \<times> lsm_state" where
  "lsm_run h st req =
     (if should_skip_cgroup st (bpf_get_current_cgroup_id h) then (0, st)
      else case req of
             None \<Rightarrow> (0, st)
           | Some rq \<Rightarrow> serve_request h st (bpf_get_current_cgroup_id h) rq)"

section \<open>The abstract policy\<close>

record abs_policy =
  rules :: "u64 \<Rightarrow> u8 \<Rightarrow> u32 \<Rightarrow> (bool \<times> bool) option"
  cgroups :: "u64 set"
  enforcing :: bool

definition abs_state :: "lsm_state \<Rightarrow> abs_policy" where
  "abs_state st =
     \<lparr> rules = (\<lambda>cgid etype hash.
         map_option (\<lambda>val. (action val = ACTION_DENY, audit val \<noteq> 0))
           (bpf_map_lookup_elem (policy_map st) (rule_key cgid etype hash))),
       cgroups = fst ` set (lsm_cgroup_filter st),
       enforcing = (lsm_enforce st \<noteq> [] \<and> hd (lsm_enforce st) = 1) \<rparr>"

datatype verdict = Skipped | Unknown | Allowed bool | Denied bool

text \<open>
  A non-empty filter that has the sentinel 0 and not the cgroup skips the event. Otherwise the
  cgroup's rule decides, then the global rule; without a rule the event is left to userspace.
\<close>

definition decide :: "abs_policy \<Rightarrow> u64 \<Rightarrow> u8 \<Rightarrow> u32 \<Rightarrow> verdict" where
  "decide pol cgid etype hash =
     (if 0 \<in> cgroups pol \<and> cgid \<notin> cgroups pol then Skipped
      else let rule = (case rules pol cgid etype hash of
                         Some r \<Rightarrow> Some r
                       | None \<Rightarrow> rules pol 0 etype hash)
           in case rule of
                None \<Rightarrow> Unknown
              | Some (deny, log) \<Rightarrow> if deny then Denied (enforcing pol) else Allowed log)"

fun verdict_code :: "verdict \<Rightarrow> int" where
  "verdict_code (Denied enforce) = (if enforce then - 1 else 0)"
| "verdict_code _ = 0"

text \<open>The decision byte of the event that a verdict submits, if it submits one.\<close>

fun verdict_event :: "verdict \<Rightarrow> u8 option" where
  "verdict_event Skipped = None"
| "verdict_event Unknown = Some 0"
| "verdict_event (Allowed log) = (if log then Some 0 else None)"
| "verdict_event (Denied enforce) = Some 1"

definition submitted :: "helpers \<Rightarrow> lsm_state \<Rightarrow> u64 \<Rightarrow> u8 option \<Rightarrow> request \<Rightarrow> bytes list" where
  "submitted h st cgid decision rq =
     (case (decision, bpf_ringbuf_reserve h (lsm_events st) (size_of struct_warmor_event)) of
        (Some d, Some event) \<Rightarrow>
          [fill_lsm_event h (rq_type rq) d (rq_name rq) (rq_len rq) cgid
             (rq_port rq) (rq_v4 rq) (rq_v6 rq) event]
      | _ \<Rightarrow> [])"

definition counted :: "policy_key option \<Rightarrow> lsm_state \<Rightarrow> (policy_key, policy_value) bpf_map" where
  "counted key st =
     (case key of None \<Rightarrow> policy_map st | Some k \<Rightarrow> policy_map (incr_hit_count st k))"

section \<open>Lemmas on the steps of a program\<close>

lemma incr_hit_count_lookup:
  "bpf_map_lookup_elem (policy_map (incr_hit_count st key)) k =
     (if k = key
      then map_option (\<lambda>val. val\<lparr>hit_count := hit_count val + 1\<rparr>)
             (bpf_map_lookup_elem (policy_map st) k)
      else bpf_map_lookup_elem (policy_map st) k)"
  by (simp add: incr_hit_count_def bpf_map_lookup_elem_def map_of_map_entry split: option.split)

lemma keys_map_entry: "map fst (AList.map_entry k f m) = map fst m"
  by (induction m) auto

lemma length_map_entry: "length (AList.map_entry k f m) = length m"
  by (induction m) auto

lemma incr_hit_count_frame [simp]:
  "lsm_events (incr_hit_count st key) = lsm_events st"
  "lsm_cgroup_filter (incr_hit_count st key) = lsm_cgroup_filter st"
  "lsm_enforce (incr_hit_count st key) = lsm_enforce st"
  "map fst (policy_map (incr_hit_count st key)) = map fst (policy_map st)"
  "length (policy_map (incr_hit_count st key)) = length (policy_map st)"
  by (simp_all add: incr_hit_count_def keys_map_entry length_map_entry)

lemma emit_lsm_event_frame [simp]:
  "policy_map (emit_lsm_event h st ty d nm n cg p a v) = policy_map st"
  "lsm_cgroup_filter (emit_lsm_event h st ty d nm n cg p a v) = lsm_cgroup_filter st"
  "lsm_enforce (emit_lsm_event h st ty d nm n cg p a v) = lsm_enforce st"
  by (simp_all add: emit_lsm_event_def split: option.split)

lemma emit_request_frame [simp]:
  "policy_map (emit_request h st cgid d rq) = policy_map st"
  "lsm_cgroup_filter (emit_request h st cgid d rq) = lsm_cgroup_filter st"
  "lsm_enforce (emit_request h st cgid d rq) = lsm_enforce st"
  by (simp_all add: emit_request_def)

lemma emit_request_events:
  "lsm_events (emit_request h st cgid d rq) = lsm_events st @ submitted h st cgid (Some d) rq"
  by (simp add: emit_request_def emit_lsm_event_def submitted_def split: option.split)

lemma submitted_incr [simp]:
  "submitted h (incr_hit_count st key) cgid d rq = submitted h st cgid d rq"
  by (simp add: submitted_def)

lemma submitted_none [simp]: "submitted h st cgid None rq = []"
  by (simp add: submitted_def)

lemma is_enforce_enabled_frame:
  "lsm_enforce st = lsm_enforce st' \<Longrightarrow> is_enforce_enabled st = is_enforce_enabled st'"
  by (simp add: is_enforce_enabled_def)

lemma enforcing_iff: "enforcing (abs_state st) = is_enforce_enabled st"
  by (cases "lsm_enforce st") (auto simp: abs_state_def is_enforce_enabled_def array_lookup_elem_def)

lemma should_skip_iff:
  "should_skip_cgroup st cgid \<longleftrightarrow>
   0 \<in> cgroups (abs_state st) \<and> cgid \<notin> cgroups (abs_state st)"
  by (auto simp: should_skip_cgroup_def abs_state_def bpf_map_lookup_elem_def map_of_eq_None_iff
      split: option.splits) (metis map_of_eq_None_iff option.distinct(1))+

lemma abs_state_cong:
  assumes "\<And>k. map_option (\<lambda>v. (action v, audit v)) (bpf_map_lookup_elem (policy_map st') k) =
               map_option (\<lambda>v. (action v, audit v)) (bpf_map_lookup_elem (policy_map st) k)"
    and "lsm_cgroup_filter st' = lsm_cgroup_filter st" and "lsm_enforce st' = lsm_enforce st"
  shows "abs_state st' = abs_state st"
proof -
  have "map_option (\<lambda>v. (action v = ACTION_DENY, audit v \<noteq> 0)) (bpf_map_lookup_elem (policy_map st') k) =
        map_option (\<lambda>v. (action v = ACTION_DENY, audit v \<noteq> 0)) (bpf_map_lookup_elem (policy_map st) k)"
    for k
    using assms(1) [of k]
    by (cases "bpf_map_lookup_elem (policy_map st) k";
        cases "bpf_map_lookup_elem (policy_map st') k") auto
  then show ?thesis using assms(2,3) by (simp add: abs_state_def)
qed

lemma abs_state_incr [simp]: "abs_state (incr_hit_count st key) = abs_state st"
  by (rule abs_state_cong) (auto simp: incr_hit_count_lookup option.map_comp comp_def)

lemma abs_state_emit [simp]: "abs_state (emit_request h st cgid d rq) = abs_state st"
  by (rule abs_state_cong) auto

text \<open>The decision of the abstract policy, by the matching rule.\<close>

lemma decide_matching:
  assumes "\<not> should_skip_cgroup st cgid"
  shows "decide (abs_state st) cgid etype hash =
     (case matching_rule st cgid etype hash of
        None \<Rightarrow> Unknown
      | Some (key, val) \<Rightarrow>
          if action val = ACTION_DENY then Denied (is_enforce_enabled st) else Allowed (audit val \<noteq> 0))"
proof -
  have "rules (abs_state st) cg etype hash =
        map_option (\<lambda>val. (action val = ACTION_DENY, audit val \<noteq> 0))
          (bpf_map_lookup_elem (policy_map st) (rule_key cg etype hash))" for cg
    by (simp add: abs_state_def)
  then show ?thesis
    using assms
    by (auto simp: decide_def matching_rule_def Let_def should_skip_iff enforcing_iff
        split: option.split)
qed

lemma decide_skipped:
  "should_skip_cgroup st cgid \<Longrightarrow> decide (abs_state st) cgid etype hash = Skipped"
  by (simp add: decide_def should_skip_iff)

text \<open>What serving a request does, in terms of the verdict.\<close>

definition counted_key :: "helpers \<Rightarrow> lsm_state \<Rightarrow> request \<Rightarrow> policy_key option" where
  "counted_key h st rq =
     (let cgid = bpf_get_current_cgroup_id h in
      if should_skip_cgroup st cgid then None
      else map_option fst (matching_rule st cgid (rq_type rq) (rq_hash rq)))"

lemma lsm_run_spec:
  fixes h st rq
  defines "cgid \<equiv> bpf_get_current_cgroup_id h"
  defines "v \<equiv> decide (abs_state st) cgid (rq_type rq) (rq_hash rq)"
  defines "r \<equiv> lsm_run h st (Some rq)"
  shows "fst r = verdict_code v"
    and "lsm_events (snd r) = lsm_events st @ submitted h st cgid (verdict_event v) rq"
    and "policy_map (snd r) = counted (counted_key h st rq) st"
    and "abs_state (snd r) = abs_state st"
    and "lsm_cgroup_filter (snd r) = lsm_cgroup_filter st"
    and "lsm_enforce (snd r) = lsm_enforce st"
proof -
  show "fst r = verdict_code v"
    and "lsm_events (snd r) = lsm_events st @ submitted h st cgid (verdict_event v) rq"
    and "policy_map (snd r) = counted (counted_key h st rq) st"
    and "abs_state (snd r) = abs_state st"
    and "lsm_cgroup_filter (snd r) = lsm_cgroup_filter st"
    and "lsm_enforce (snd r) = lsm_enforce st"
    by (cases "should_skip_cgroup st cgid";
        auto simp: r_def v_def cgid_def lsm_run_def serve_request_def Let_def decide_matching
          decide_skipped emit_request_events counted_def counted_key_def
          is_enforce_enabled_frame [of "incr_hit_count st _" st] split: option.splits)+
qed

section \<open>The contract\<close>

text \<open>
  A program of event type \<open>etype\<close> whose run on the arguments \<open>a\<close> of its hook is the policy
  decision on \<open>request h a\<close>; the arguments from which no request can be read are allowed.
\<close>

locale lsm_hook =
  fixes hook :: "helpers \<Rightarrow> lsm_state \<Rightarrow> 'a \<Rightarrow> int \<times> lsm_state"
    and etype :: u8
    and req :: "helpers \<Rightarrow> 'a \<Rightarrow> request option"
  assumes run: "hook h st a = lsm_run h st (req h a)"
    and req_type: "req h a = Some rq \<Longrightarrow> rq_type rq = etype"
begin

lemma no_request: "req h a = None \<Longrightarrow> hook h st a = (0, st)"
  by (simp add: run lsm_run_def)

lemma code:
  "req h a = Some rq \<Longrightarrow>
   fst (hook h st a) =
     verdict_code (decide (abs_state st) (bpf_get_current_cgroup_id h) etype (rq_hash rq))"
  using lsm_run_spec(1) [of h st rq] req_type [of h a rq] by (simp add: run)

lemma event:
  "req h a = Some rq \<Longrightarrow>
   lsm_events (snd (hook h st a)) =
     lsm_events st @ submitted h st (bpf_get_current_cgroup_id h)
       (verdict_event (decide (abs_state st) (bpf_get_current_cgroup_id h) etype (rq_hash rq))) rq"
  using lsm_run_spec(2) [of h st rq] req_type [of h a rq] by (simp add: run)

lemma counter:
  "req h a = Some rq \<Longrightarrow> policy_map (snd (hook h st a)) = counted (counted_key h st rq) st"
  using lsm_run_spec(3) [of h st rq] by (simp add: run)

lemma policy_kept:
  "abs_state (snd (hook h st a)) = abs_state st"
  "lsm_cgroup_filter (snd (hook h st a)) = lsm_cgroup_filter st"
  "lsm_enforce (snd (hook h st a)) = lsm_enforce st"
  using lsm_run_spec(4,5,6) [of h st] no_request [of h a st]
  by (cases "req h a"; simp add: run)+

lemma wf_kept: "wf_state st \<Longrightarrow> wf_state (snd (hook h st a))"
proof (cases "req h a")
  case (Some rq)
  assume "wf_state st"
  then show ?thesis
    by (auto simp: wf_state_def wf_map_def policy_kept counter [OF Some] counted_def
        split: option.splits)
qed (simp add: no_request)

end

end
