(* ===== verification/Policy_Manager.thy ===== *)
theory Policy_Manager
  imports Lsm_Contract
begin

text \<open>
  The userspace manager of the LSM maps, \<open>internal/ebpf/policy_map.go\<close>, and the filter loop of
  \<open>internal/ebpf/loader.go\<close>. An operation returns the error of the map call that failed, if any,
  with the new contents of the maps; a batch that stops half-way keeps what it wrote.
\<close>

section \<open>Hashes and keys\<close>

definition HashPattern :: "bytes \<Rightarrow> u32" where
  "HashPattern pattern = fnv1a32 pattern"

definition HashIPv4Endpoint :: "u32 \<Rightarrow> u16 \<Rightarrow> u32" where
  "HashIPv4Endpoint addr port =
     (let hash = FNV_OFFSET;
          hash = fnv_mix hash (addr AND 255);
          hash = fnv_mix hash (drop_bit 8 addr AND 255);
          hash = fnv_mix hash (drop_bit 16 addr AND 255);
          hash = fnv_mix hash (drop_bit 24 addr AND 255);
          hash = fnv_mix hash (ucast (port AND 255));
          hash = fnv_mix hash (ucast (drop_bit 8 port AND 255))
      in hash)"

definition HashIPv6Endpoint :: "bytes \<Rightarrow> u16 \<Rightarrow> u32" where
  "HashIPv6Endpoint addr port =
     (let hash = foldl (\<lambda>hash i. fnv_mix hash (ucast (addr ! i))) FNV_OFFSET [0..<16];
          hash = fnv_mix hash (ucast (port AND 255));
          hash = fnv_mix hash (ucast (drop_bit 8 port AND 255))
      in hash)"

definition HashPort :: "u16 \<Rightarrow> u32" where
  "HashPort port =
     (let hash = FNV_OFFSET;
          hash = fnv_mix hash (ucast (port AND 255));
          hash = fnv_mix hash (ucast (drop_bit 8 port AND 255))
      in hash)"

definition MarshalBinary :: "policy_key \<Rightarrow> bytes" where
  "MarshalBinary k =
     (let buf = replicate 16 0;
          buf = store 0 (le_bytes 8 (cgroup_id k)) buf;
          buf = store 8 (le_bytes 4 (rule_hash k)) buf;
          buf = store 12 [event_type k] buf;
          buf = store 13 [0] buf;
          buf = store 14 [0] buf
      in store 15 [0] buf)"

section \<open>Rules\<close>

record CachedDecision =
  cd_CgroupID :: u64
  cd_EventType :: u8
  cd_Pattern :: bytes
  cd_Action :: u8
  cd_Audit :: bool

definition rule_value :: "u8 \<Rightarrow> bool \<Rightarrow> policy_value" where
  "rule_value act log = \<lparr> action = act, audit = (if log then 1 else 0), val_pad = 0, hit_count = 0 \<rparr>"

definition put_rule :: "lsm_state \<Rightarrow> policy_key \<Rightarrow> policy_value \<Rightarrow> errno option \<times> lsm_state" where
  "put_rule st key val =
     (case bpf_map_update_elem POLICY_MAP_MAX_ENTRIES (policy_map st) key val of
        Inl e \<Rightarrow> (Some e, st)
      | Inr m \<Rightarrow> (None, st\<lparr>policy_map := m\<rparr>))"

definition SetRule :: "lsm_state \<Rightarrow> u64 \<Rightarrow> u8 \<Rightarrow> bytes \<Rightarrow> u8 \<Rightarrow> bool \<Rightarrow> errno option \<times> lsm_state" where
  "SetRule st cgid etype pattern act log =
     (let key = \<lparr> cgroup_id = cgid, rule_hash = HashPattern pattern, event_type = etype,
                  key_pad = [0, 0, 0] \<rparr>
      in put_rule st key (rule_value act log))"

definition SetNetworkRule :: "lsm_state \<Rightarrow> u64 \<Rightarrow> u32 \<Rightarrow> u8 \<Rightarrow> bool \<Rightarrow> errno option \<times> lsm_state" where
  "SetNetworkRule st cgid addrHash act log =
     (let key = \<lparr> cgroup_id = cgid, rule_hash = addrHash, event_type = EVENT_TYPE_NETWORK,
                  key_pad = [0, 0, 0] \<rparr>
      in put_rule st key (rule_value act log))"

definition DeleteRule :: "lsm_state \<Rightarrow> u64 \<Rightarrow> u8 \<Rightarrow> bytes \<Rightarrow> errno option \<times> lsm_state" where
  "DeleteRule st cgid etype pattern =
     (let key = \<lparr> cgroup_id = cgid, rule_hash = HashPattern pattern, event_type = etype,
                  key_pad = [0, 0, 0] \<rparr>
      in case bpf_map_delete_elem (policy_map st) key of
           Inl e \<Rightarrow> (Some e, st)
         | Inr m \<Rightarrow> (None, st\<lparr>policy_map := m\<rparr>))"

text \<open>\<open>Clear\<close> collects the keys first and then deletes them, ignoring errors.\<close>

definition Clear :: "lsm_state \<Rightarrow> errno option \<times> lsm_state" where
  "Clear st =
     (let keysToDelete = bpf_map_keys (policy_map st)
      in (None, st\<lparr>policy_map := delete_all bpf_map_delete_elem (policy_map st) keysToDelete\<rparr>))"

definition decision_entry :: "CachedDecision \<Rightarrow> policy_key \<times> policy_value" where
  "decision_entry d =
     (\<lparr> cgroup_id = cd_CgroupID d, rule_hash = HashPattern (cd_Pattern d),
        event_type = cd_EventType d, key_pad = [0, 0, 0] \<rparr>,
      rule_value (cd_Action d) (cd_Audit d))"

definition SyncFromWASM :: "lsm_state \<Rightarrow> CachedDecision list \<Rightarrow> errno option \<times> lsm_state" where
  "SyncFromWASM st decisions =
     (case put_all (bpf_map_update_elem POLICY_MAP_MAX_ENTRIES) (policy_map st)
             (map decision_entry decisions) of
        Inl (e, m) \<Rightarrow> (Some e, st\<lparr>policy_map := m\<rparr>)
      | Inr m \<Rightarrow> (None, st\<lparr>policy_map := m\<rparr>))"

text \<open>The map that a batch leaves behind, complete or not.\<close>

definition put_result :: "'e \<times> 'm + 'm \<Rightarrow> 'm" where
  "put_result r = (case r of Inl (e, m) \<Rightarrow> m | Inr m \<Rightarrow> m)"

definition Stats :: "lsm_state \<Rightarrow> nat" where
  "Stats st = length (bpf_map_keys (policy_map st))"

section \<open>Enforce switch and filters\<close>

definition SetEnforce :: "lsm_state \<Rightarrow> bool \<Rightarrow> lsm_state" where
  "SetEnforce st enabled =
     (let val = if enabled then 1 else 0 in st\<lparr>lsm_enforce := (lsm_enforce st)[0 := val]\<rparr>)"

text \<open>
  The filters are emptied while they are iterated. The key that follows a deleted one is the
  first key of the map, and the iterator gives up after one step more than the map has entries.
\<close>

definition bpf_map_get_next_key :: "('k, 'v) bpf_map \<Rightarrow> 'k option \<Rightarrow> 'k option" where
  "bpf_map_get_next_key m prev =
     (let after = (case prev of
                     None \<Rightarrow> m
                   | Some k \<Rightarrow> (if map_of m k = None then m else tl (dropWhile (\<lambda>kv. fst kv \<noteq> k) m)))
      in case after of [] \<Rightarrow> None | kv # _ \<Rightarrow> Some (fst kv))"

fun clear_iterating :: "nat \<Rightarrow> ('k, 'v) bpf_map \<Rightarrow> 'k option \<Rightarrow> ('k, 'v) bpf_map" where
  "clear_iterating 0 m prev = m"
| "clear_iterating (Suc n) m prev =
     (case bpf_map_get_next_key m prev of
        None \<Rightarrow> m
      | Some k \<Rightarrow>
          clear_iterating n (case bpf_map_delete_elem m k of Inl e \<Rightarrow> m | Inr m' \<Rightarrow> m') (Some k))"

definition fill_filter :: "(u64, u8) bpf_map \<Rightarrow> u64 list \<Rightarrow> errno option \<times> (u64, u8) bpf_map" where
  "fill_filter m ids =
     (let m = clear_iterating (Suc LSM_CGROUP_FILTER_MAX_ENTRIES) m None
      in if ids = [] then (None, m)
         else case put_all (bpf_map_update_elem LSM_CGROUP_FILTER_MAX_ENTRIES) m
                     ((0, 1) # map (\<lambda>id. (id, 1)) ids) of
                Inl (e, m) \<Rightarrow> (Some e, m)
              | Inr m \<Rightarrow> (None, m))"

definition SetLSMCgroupFilter :: "lsm_state \<Rightarrow> u64 list \<Rightarrow> errno option \<times> lsm_state" where
  "SetLSMCgroupFilter st ids =
     (case fill_filter (lsm_cgroup_filter st) ids of
        (err, m) \<Rightarrow> (err, st\<lparr>lsm_cgroup_filter := m\<rparr>))"

text \<open>The monitors have a filter each; a map that is not loaded is skipped, the first error ends the loop.\<close>

fun SetCgroupFilter ::
  "(u64, u8) bpf_map option list \<Rightarrow> u64 list \<Rightarrow> errno option \<times> (u64, u8) bpf_map option list" where
  "SetCgroupFilter [] ids = (None, [])"
| "SetCgroupFilter (None # maps) ids =
     (case SetCgroupFilter maps ids of (err, maps') \<Rightarrow> (err, None # maps'))"
| "SetCgroupFilter (Some m # maps) ids =
     (case fill_filter m ids of
        (Some e, m') \<Rightarrow> (Some e, Some m' # maps)
      | (None, m') \<Rightarrow>
          (case SetCgroupFilter maps ids of (err, maps') \<Rightarrow> (err, Some m' # maps')))"

section \<open>Lemmas\<close>

lemma put_rule_lookup:
  "wf_state st \<Longrightarrow> put_rule st key val = (None, st') \<Longrightarrow>
   bpf_map_lookup_elem (policy_map st') = (bpf_map_lookup_elem (policy_map st))(key \<mapsto> val)"
  using bm.put_lookup [of POLICY_MAP_MAX_ENTRIES "policy_map st" key val]
  by (auto simp: put_rule_def wf_state_def split: sum.splits)

lemma put_rule_frame:
  "put_rule st key val = (err, st') \<Longrightarrow>
   lsm_events st' = lsm_events st \<and> lsm_cgroup_filter st' = lsm_cgroup_filter st \<and>
   lsm_enforce st' = lsm_enforce st \<and> (err \<noteq> None \<longrightarrow> st' = st)"
  by (auto simp: put_rule_def split: sum.splits)

lemma put_rule_wf: "wf_state st \<Longrightarrow> wf_state (snd (put_rule st key val))"
  using bm.put_wf [of POLICY_MAP_MAX_ENTRIES "policy_map st" key val]
  by (auto simp: put_rule_def wf_state_def split: sum.splits)

lemma DeleteRule_wf: "wf_state st \<Longrightarrow> wf_state (snd (DeleteRule st cgid etype pattern))"
  using bm.del_wf [of POLICY_MAP_MAX_ENTRIES "policy_map st"]
  by (auto simp: DeleteRule_def wf_state_def Let_def split: sum.splits)

lemma Clear_wf: "wf_state st \<Longrightarrow> wf_state (snd (Clear st))"
  using bm.delete_all_spec [of POLICY_MAP_MAX_ENTRIES "policy_map st" "bpf_map_keys (policy_map st)"]
  by (auto simp: Clear_def wf_state_def Let_def)

lemma put_all_error_wf:
  "wf_map n m \<Longrightarrow> put_all (bpf_map_update_elem n) m kvs = Inl (e, m') \<Longrightarrow> wf_map n m'"
proof (induction kvs arbitrary: m)
  case (Cons kv kvs)
  obtain k v where kv: "kv = (k, v)" by (cases kv)
  show ?case
  proof (cases "bpf_map_update_elem n m k v")
    case (Inl e')
    then show ?thesis using Cons.prems kv by simp
  next
    case (Inr m1)
    then show ?thesis using Cons.IH [OF bm.put_wf [OF Cons.prems(1) Inr]] Cons.prems(2) kv by simp
  qed
qed simp

lemma put_all_ok_wf:
  "wf_map n m \<Longrightarrow> put_all (bpf_map_update_elem n) m kvs = Inr m' \<Longrightarrow> wf_map n m'"
  using bm.put_all_lookup by blast

lemma SyncFromWASM_result:
  "policy_map (snd (SyncFromWASM st ds)) =
     put_result (put_all (bpf_map_update_elem POLICY_MAP_MAX_ENTRIES) (policy_map st)
       (map decision_entry ds))"
  by (auto simp: SyncFromWASM_def put_result_def split: sum.split)

lemma SyncFromWASM_wf: "wf_state st \<Longrightarrow> wf_state (snd (SyncFromWASM st ds))"
  by (auto simp: SyncFromWASM_def wf_state_def intro: put_all_error_wf put_all_ok_wf
      split: sum.split)

lemma SetEnforce_wf: "wf_state st \<Longrightarrow> wf_state (SetEnforce st b)"
  by (simp add: SetEnforce_def wf_state_def)

lemma SetEnforce_enabled: "wf_state st \<Longrightarrow> is_enforce_enabled (SetEnforce st b) = b"
  by (cases "lsm_enforce st") (auto simp: SetEnforce_def wf_state_def is_enforce_enabled_def array_lookup_elem_def)

text \<open>Deleting while iterating empties the map, within the iterator's bound.\<close>

lemma clear_iterating_empty:
  "length m \<le> n \<Longrightarrow> (case prev of None \<Rightarrow> True | Some k \<Rightarrow> map_of m k = None) \<Longrightarrow>
   clear_iterating n m prev = []"
proof (induction n arbitrary: m prev)
  case (Suc n)
  show ?case
  proof (cases m)
    case Nil
    then show ?thesis by (auto simp: bpf_map_get_next_key_def Let_def split: option.splits)
  next
    case (Cons kv m')
    have next_key: "bpf_map_get_next_key m prev = Some (fst kv)"
      using Suc.prems(2) Cons by (cases prev) (auto simp: bpf_map_get_next_key_def Let_def)
    have "length (AList.delete (fst kv) m) \<le> n"
      using Suc.prems(1) Cons length_delete_le [of "fst kv" m'] by (cases kv) simp
    then show ?thesis
      using Suc.IH [of "AList.delete (fst kv) m" "Some (fst kv)"] next_key Cons
      by (auto simp: bpf_map_delete_elem_def delete_conv')
  qed
qed simp

text \<open>The filter after a refill: the sentinel and the listed cgroups, whatever was there before.\<close>

definition filter_entries :: "u64 list \<Rightarrow> (u64 \<times> u8) list" where
  "filter_entries ids = (0, 1) # map (\<lambda>id. (id, 1)) ids"

lemma fill_filter_from_empty:
  assumes "wf_map LSM_CGROUP_FILTER_MAX_ENTRIES m"
  shows "fill_filter m ids =
    (if ids = [] then (None, [])
     else case put_all (bpf_map_update_elem LSM_CGROUP_FILTER_MAX_ENTRIES) [] (filter_entries ids) of
            Inl (e, m) \<Rightarrow> (Some e, m)
          | Inr m \<Rightarrow> (None, m))"
proof -
  have "clear_iterating (Suc LSM_CGROUP_FILTER_MAX_ENTRIES) m None = []"
    using assms by (intro clear_iterating_empty) (simp_all add: wf_map_def)
  then show ?thesis
    by (simp only: fill_filter_def Let_def filter_entries_def)
qed

lemma wf_map_empty [simp]: "wf_map n []"
  by (simp add: wf_map_def)

lemma fill_filter_wf:
  assumes "wf_map LSM_CGROUP_FILTER_MAX_ENTRIES m"
  shows "wf_map LSM_CGROUP_FILTER_MAX_ENTRIES (snd (fill_filter m ids))"
  by (auto simp: fill_filter_from_empty [OF assms] split: sum.split
      intro: put_all_error_wf [OF wf_map_empty] put_all_ok_wf [OF wf_map_empty])

lemma fill_filter_dom:
  assumes "wf_map LSM_CGROUP_FILTER_MAX_ENTRIES m" and "fill_filter m ids = (None, m')"
  shows "dom (bpf_map_lookup_elem m') = (if ids = [] then {} else insert 0 (set ids))"
proof (cases "ids = []")
  case True
  then show ?thesis
    using assms(2) by (simp add: fill_filter_from_empty [OF assms(1)] bpf_map_lookup_elem_def [abs_def])
next
  case False
  then have "put_all (bpf_map_update_elem LSM_CGROUP_FILTER_MAX_ENTRIES) [] (filter_entries ids) = Inr m'"
    using assms(2) by (auto simp: fill_filter_from_empty [OF assms(1)] split: sum.splits)
  from bm.put_all_lookup [OF wf_map_empty this]
  have "bpf_map_lookup_elem m' = map_of (rev (filter_entries ids))"
    by (simp add: bpf_map_lookup_elem_def [abs_def])
  then show ?thesis
    using False by (auto simp: filter_entries_def dom_map_of_conv_image_fst image_iff)
qed

text \<open>A refill succeeds when the sentinel and the cgroups fit.\<close>

lemma fill_filter_fits:
  assumes "wf_map LSM_CGROUP_FILTER_MAX_ENTRIES m"
    and "card (insert 0 (set ids)) \<le> LSM_CGROUP_FILTER_MAX_ENTRIES"
  shows "fst (fill_filter m ids) = None"
proof -
  have "fst ` set (filter_entries ids) = insert 0 (set ids)"
    by (auto simp: filter_entries_def image_iff)
  then have "\<exists>m'. put_all (bpf_map_update_elem LSM_CGROUP_FILTER_MAX_ENTRIES) [] (filter_entries ids) = Inr m'"
    using assms(2) by (intro bm.put_all_fits) (simp_all add: bpf_map_lookup_elem_def [abs_def])
  then show ?thesis
    by (auto simp: fill_filter_from_empty [OF assms(1)])
qed

lemma SetLSMCgroupFilter_wf: "wf_state st \<Longrightarrow> wf_state (snd (SetLSMCgroupFilter st ids))"
  using fill_filter_wf [of "lsm_cgroup_filter st" ids]
  by (auto simp: SetLSMCgroupFilter_def wf_state_def split: prod.split)

lemmas manager_wf =
  put_rule_wf DeleteRule_wf Clear_wf SyncFromWASM_wf SetEnforce_wf SetLSMCgroupFilter_wf

end
