(* ===== verification/Vmlinux_Fs.thy ===== *)
theory Vmlinux_Fs
  imports Vmlinux_Base
begin

text \<open>
  The declarations of \<open>bpf/vmlinux.h\<close> that the exec, file and mount hooks walk:
  \<open>struct linux_binprm\<close>, \<open>struct file\<close>, \<open>struct path\<close>, \<open>struct dentry\<close>, and what they embed.
\<close>

definition type___kernel_loff_t :: ctype where [typedef_defs]:
  "type___kernel_loff_t = c_long"

definition type_loff_t :: ctype where [typedef_defs]:
  "type_loff_t = type___kernel_loff_t"

definition type_errseq_t :: ctype where [typedef_defs]:
  "type_errseq_t = type_u32"

definition type_fmode_t :: ctype where [typedef_defs]:
  "type_fmode_t = c_int"

definition type_file_ref_t :: ctype where [typedef_defs]:
  "type_file_ref_t = CStruct False [
       Field ''refcnt'' type_atomic64_t]"

definition type_freeptr_t :: ctype where [typedef_defs]:
  "type_freeptr_t = CStruct False [
       Field ''v'' c_long]"

definition struct_seqcount :: ctype where
  "struct_seqcount = CStruct False [
     Field ''sequence'' c_int]"

definition type_seqcount_t :: ctype where [typedef_defs]:
  "type_seqcount_t = struct_seqcount"

definition struct_seqcount_spinlock :: ctype where
  "struct_seqcount_spinlock = CStruct False [
     Field ''seqcount'' type_seqcount_t]"

definition type_seqcount_spinlock_t :: ctype where [typedef_defs]:
  "type_seqcount_spinlock_t = struct_seqcount_spinlock"

definition struct_path :: ctype where
  "struct_path = CStruct False [
     Field ''mnt'' (CPtr ''struct vfsmount''),
     Field ''dentry'' (CPtr ''struct dentry'')]"

definition struct_file_ra_state :: ctype where
  "struct_file_ra_state = CStruct False [
     Field ''start'' c_long,
     Field ''size'' c_int,
     Field ''async_size'' c_int,
     Field ''ra_pages'' c_int,
     Field ''order'' c_short,
     Field ''mmap_miss'' c_short,
     Field ''prev_pos'' type_loff_t]"

definition struct_file :: ctype where
  "struct_file = CStruct False [
     Field ''f_lock'' type_spinlock_t,
     Field ''f_mode'' type_fmode_t,
     Field ''f_op'' (CPtr ''struct file_operations''),
     Field ''f_mapping'' (CPtr ''struct address_space''),
     Field ''private_data'' (CPtr ''void''),
     Field ''f_inode'' (CPtr ''struct inode''),
     Field ''f_flags'' c_int,
     Field ''f_iocb_flags'' c_int,
     Field ''f_cred'' (CPtr ''struct cred''),
     Field ''f_owner'' (CPtr ''struct fown_struct''),
     Anon (CUnion False [
       Field ''f_path'' struct_path,
       Field ''__f_path'' struct_path]),
     Anon (CUnion False [
       Field ''f_pos_lock'' struct_mutex,
       Field ''f_pipe'' type_u64]),
     Field ''f_pos'' type_loff_t,
     Field ''f_security'' (CPtr ''void''),
     Field ''f_wb_err'' type_errseq_t,
     Field ''f_sb_err'' type_errseq_t,
     Anon (CUnion False [
       Field ''f_task_work'' struct_callback_head,
       Field ''f_llist'' struct_llist_node,
       Field ''f_ra'' struct_file_ra_state,
       Field ''f_freeptr'' type_freeptr_t]),
     Field ''f_ref'' type_file_ref_t]"

definition struct_hlist_head :: ctype where
  "struct_hlist_head = CStruct False [
     Field ''first'' (CPtr ''struct hlist_node'')]"

definition struct_hlist_bl_node :: ctype where
  "struct_hlist_bl_node = CStruct False [
     Field ''next'' (CPtr ''struct hlist_bl_node''),
     Field ''pprev'' (CPtr ''struct hlist_bl_node *'')]"

definition struct_qstr :: ctype where
  "struct_qstr = CStruct False [
     Anon (CUnion False [
       Anon (CStruct False [
         Field ''hash'' type_u32,
         Field ''len'' type_u32]),
       Field ''hash_len'' type_u64]),
     Field ''name'' (CPtr ''unsigned char'')]"

definition union_shortname_store :: ctype where
  "union_shortname_store = CUnion False [
     Field ''string'' (CArr c_char 40),
     Field ''words'' (CArr c_long 5)]"

definition struct_lockref :: ctype where
  "struct_lockref = CStruct False [
     Anon (CUnion False [
       Anon (CStruct False [
         Field ''lock'' type_spinlock_t,
         Field ''count'' c_int])])]"

definition struct_dentry :: ctype where
  "struct_dentry = CStruct False [
     Field ''d_flags'' c_int,
     Field ''d_seq'' type_seqcount_spinlock_t,
     Field ''d_hash'' struct_hlist_bl_node,
     Field ''d_parent'' (CPtr ''struct dentry''),
     Anon (CUnion False [
       Field ''__d_name'' struct_qstr,
       Field ''d_name'' struct_qstr]),
     Field ''d_inode'' (CPtr ''struct inode''),
     Field ''d_shortname'' union_shortname_store,
     Field ''d_op'' (CPtr ''struct dentry_operations''),
     Field ''d_sb'' (CPtr ''struct super_block''),
     Field ''d_time'' c_long,
     Field ''d_fsdata'' (CPtr ''void''),
     Field ''d_lockref'' struct_lockref,
     Anon (CUnion False [
       Field ''d_lru'' struct_list_head,
       Field ''d_wait'' (CPtr ''wait_queue_head_t'')]),
     Field ''d_sib'' struct_hlist_node,
     Field ''d_children'' struct_hlist_head,
     Field ''d_u'' (CUnion False [
       Field ''d_alias'' struct_hlist_node,
       Field ''d_in_lookup_hash'' struct_hlist_bl_node,
       Field ''d_rcu'' struct_callback_head])]"

definition struct_rlimit :: ctype where
  "struct_rlimit = CStruct False [
     Field ''rlim_cur'' type___kernel_ulong_t,
     Field ''rlim_max'' type___kernel_ulong_t]"

definition struct_linux_binprm :: ctype where
  "struct_linux_binprm = CStruct False [
     Field ''vma'' (CPtr ''struct vm_area_struct''),
     Field ''vma_pages'' c_long,
     Field ''argmin'' c_long,
     Field ''mm'' (CPtr ''struct mm_struct''),
     Field ''p'' c_long,
     BitField ''have_execfd'' 4 1,
     BitField ''execfd_creds'' 4 1,
     BitField ''secureexec'' 4 1,
     BitField ''point_of_no_return'' 4 1,
     BitField ''comm_from_dentry'' 4 1,
     BitField ''is_check'' 4 1,
     Field ''executable'' (CPtr ''struct file''),
     Field ''interpreter'' (CPtr ''struct file''),
     Field ''file'' (CPtr ''struct file''),
     Field ''cred'' (CPtr ''struct cred''),
     Field ''unsafe'' c_int,
     Field ''per_clear'' c_int,
     Field ''argc'' c_int,
     Field ''envc'' c_int,
     Field ''filename'' (CPtr ''char''),
     Field ''interp'' (CPtr ''char''),
     Field ''fdpath'' (CPtr ''char''),
     Field ''interp_flags'' c_int,
     Field ''execfd'' c_int,
     Field ''exec'' c_long,
     Field ''rlim_stack'' struct_rlimit,
     Field ''buf'' (CArr c_char 256)]"

section \<open>Sizes and alignments\<close>

lemma layout_struct_seqcount [layout_eval]: "layout struct_seqcount = (4, 4)"
  by (simp add: struct_seqcount_def layout_eval typedef_defs scan_simps cong: scan_congs)

lemma layout_struct_seqcount_spinlock [layout_eval]: "layout struct_seqcount_spinlock = (4, 4)"
  by (simp add: struct_seqcount_spinlock_def layout_eval typedef_defs scan_simps cong: scan_congs)

lemma layout_struct_path [layout_eval]: "layout struct_path = (16, 8)"
  by (simp add: struct_path_def layout_eval typedef_defs scan_simps cong: scan_congs)

lemma layout_struct_file_ra_state [layout_eval]: "layout struct_file_ra_state = (32, 8)"
  by (simp add: struct_file_ra_state_def layout_eval typedef_defs scan_simps cong: scan_congs)

lemma layout_struct_file [layout_eval]: "layout struct_file = (168, 8)"
  by (simp add: struct_file_def layout_eval typedef_defs scan_simps cong: scan_congs)

lemma layout_struct_hlist_head [layout_eval]: "layout struct_hlist_head = (8, 8)"
  by (simp add: struct_hlist_head_def layout_eval typedef_defs scan_simps cong: scan_congs)

lemma layout_struct_hlist_bl_node [layout_eval]: "layout struct_hlist_bl_node = (16, 8)"
  by (simp add: struct_hlist_bl_node_def layout_eval typedef_defs scan_simps cong: scan_congs)

lemma layout_struct_qstr [layout_eval]: "layout struct_qstr = (16, 8)"
  by (simp add: struct_qstr_def layout_eval typedef_defs scan_simps cong: scan_congs)

lemma layout_union_shortname_store [layout_eval]: "layout union_shortname_store = (40, 8)"
  by (simp add: union_shortname_store_def layout_eval typedef_defs scan_simps cong: scan_congs)

lemma layout_struct_lockref [layout_eval]: "layout struct_lockref = (4, 4)"
  by (simp add: struct_lockref_def layout_eval typedef_defs scan_simps cong: scan_congs)

lemma layout_struct_dentry [layout_eval]: "layout struct_dentry = (192, 8)"
  by (simp add: struct_dentry_def layout_eval typedef_defs scan_simps cong: scan_congs)

lemma layout_struct_rlimit [layout_eval]: "layout struct_rlimit = (16, 8)"
  by (simp add: struct_rlimit_def layout_eval typedef_defs scan_simps cong: scan_congs)

lemma layout_struct_linux_binprm [layout_eval]: "layout struct_linux_binprm = (408, 8)"
  by (simp add: struct_linux_binprm_def layout_eval typedef_defs scan_simps cong: scan_congs)

end
