(* ===== verification/Vmlinux_Net.thy ===== *)
theory Vmlinux_Net
  imports Vmlinux_Base
begin

text \<open>
  The declarations of \<open>bpf/vmlinux.h\<close> behind the socket hooks: \<open>struct sockaddr\<close>,
  \<open>struct socket\<close>, \<open>struct sock\<close>, \<open>struct sock_common\<close>, \<open>struct sk_buff\<close>, and what they embed.
\<close>

definition type_socket_state :: ctype where [typedef_defs]:
  "type_socket_state = c_enum"

definition type___addrpair :: ctype where [typedef_defs]:
  "type___addrpair = type___u64"

definition type_netdev_features_t :: ctype where [typedef_defs]:
  "type_netdev_features_t = type_u64"

definition type___be16 :: ctype where [typedef_defs]:
  "type___be16 = type___u16"

definition type___kernel_sa_family_t :: ctype where [typedef_defs]:
  "type___kernel_sa_family_t = c_short"

definition type_sa_family_t :: ctype where [typedef_defs]:
  "type_sa_family_t = type___kernel_sa_family_t"

definition type___be32 :: ctype where [typedef_defs]:
  "type___be32 = type___u32"

definition type___portpair :: ctype where [typedef_defs]:
  "type___portpair = type___u32"

definition type___wsum :: ctype where [typedef_defs]:
  "type___wsum = type___u32"

definition type_gfp_t :: ctype where [typedef_defs]:
  "type_gfp_t = c_int"

definition type_sk_buff_data_t :: ctype where [typedef_defs]:
  "type_sk_buff_data_t = c_int"

definition type_arch_rwlock_t :: ctype where [typedef_defs]:
  "type_arch_rwlock_t = CStruct False []"

definition type_rwlock_t :: ctype where [typedef_defs]:
  "type_rwlock_t = CStruct False [
       Field ''raw_lock'' type_arch_rwlock_t]"

definition type_netns_tracker :: ctype where [typedef_defs]:
  "type_netns_tracker = CStruct False []"

definition type_possible_net_t :: ctype where [typedef_defs]:
  "type_possible_net_t = CStruct False []"

definition type_socket_lock_t :: ctype where [typedef_defs]:
  "type_socket_lock_t = CStruct False [
       Field ''slock'' type_spinlock_t,
       Field ''owned'' c_int,
       Field ''wq'' type_wait_queue_head_t]"

definition struct_in6_addr :: ctype where
  "struct_in6_addr = CStruct False [
     Field ''in6_u'' (CUnion False [
       Field ''u6_addr8'' (CArr type___u8 16),
       Field ''u6_addr16'' (CArr type___be16 8),
       Field ''u6_addr32'' (CArr type___be32 4)])]"

definition struct_sk_buff_list :: ctype where
  "struct_sk_buff_list = CStruct False [
     Field ''next'' (CPtr ''struct sk_buff''),
     Field ''prev'' (CPtr ''struct sk_buff'')]"

definition struct_sk_buff_head :: ctype where
  "struct_sk_buff_head = CStruct False [
     Anon (CUnion False [
       Anon (CStruct False [
         Field ''next'' (CPtr ''struct sk_buff''),
         Field ''prev'' (CPtr ''struct sk_buff'')]),
       Field ''list'' struct_sk_buff_list]),
     Field ''qlen'' type___u32,
     Field ''lock'' type_spinlock_t]"

definition struct_xarray :: ctype where
  "struct_xarray = CStruct False [
     Field ''xa_lock'' type_spinlock_t,
     Field ''xa_flags'' type_gfp_t,
     Field ''xa_head'' (CPtr ''void'')]"

definition struct_rb_root :: ctype where
  "struct_rb_root = CStruct False [
     Field ''rb_node'' (CPtr ''struct rb_node'')]"

definition struct_sockaddr :: ctype where
  "struct_sockaddr = CStruct False [
     Field ''sa_family'' type_sa_family_t,
     Field ''sa_data'' (CArr c_char 14)]"

definition sk_buff_headers :: ctype where
  "sk_buff_headers = CStruct False [
     Field ''__pkt_type_offset'' (CArr type___u8 0),
     BitField ''pkt_type'' 1 3,
     BitField ''ignore_df'' 1 1,
     BitField ''dst_pending_confirm'' 1 1,
     BitField ''ip_summed'' 1 2,
     BitField ''ooo_okay'' 1 1,
     Field ''__mono_tc_offset'' (CArr type___u8 0),
     BitField ''tstamp_type'' 1 2,
     BitField ''tc_at_ingress'' 1 1,
     BitField ''tc_skip_classify'' 1 1,
     BitField ''remcsum_offload'' 1 1,
     BitField ''csum_complete_sw'' 1 1,
     BitField ''csum_level'' 1 2,
     BitField ''inner_protocol_type'' 1 1,
     BitField ''l4_hash'' 1 1,
     BitField ''sw_hash'' 1 1,
     BitField ''wifi_acked_valid'' 1 1,
     BitField ''wifi_acked'' 1 1,
     BitField ''no_fcs'' 1 1,
     BitField ''encapsulation'' 1 1,
     BitField ''encap_hdr_csum'' 1 1,
     BitField ''csum_valid'' 1 1,
     BitField ''ndisc_nodetype'' 1 2,
     BitField ''redirected'' 1 1,
     BitField ''slow_gro'' 1 1,
     BitField ''unreadable'' 1 1,
     Field ''tc_index'' type___u16,
     Field ''alloc_cpu'' type_u16,
     Anon (CUnion False [
       Field ''csum'' type___wsum,
       Anon (CStruct False [
         Field ''csum_start'' type___u16,
         Field ''csum_offset'' type___u16])]),
     Field ''priority'' type___u32,
     Field ''skb_iif'' c_int,
     Field ''hash'' type___u32,
     Anon (CUnion False [
       Field ''vlan_all'' type_u32,
       Anon (CStruct False [
         Field ''vlan_proto'' type___be16,
         Field ''vlan_tci'' type___u16])]),
     Anon (CUnion False [
       Field ''napi_id'' c_int,
       Field ''sender_cpu'' c_int]),
     Anon (CUnion False [
       Field ''mark'' type___u32,
       Field ''reserved_tailroom'' type___u32]),
     Anon (CUnion False [
       Field ''inner_protocol'' type___be16,
       Field ''inner_ipproto'' type___u8]),
     Field ''inner_transport_header'' type___u16,
     Field ''inner_network_header'' type___u16,
     Field ''inner_mac_header'' type___u16,
     Field ''protocol'' type___be16,
     Field ''transport_header'' type___u16,
     Field ''network_header'' type___u16,
     Field ''mac_header'' type___u16]"

definition sk_buff_headers_group :: ctype where
  "sk_buff_headers_group = CStruct False [
     Field ''__pkt_type_offset'' (CArr type___u8 0),
     BitField ''pkt_type'' 1 3,
     BitField ''ignore_df'' 1 1,
     BitField ''dst_pending_confirm'' 1 1,
     BitField ''ip_summed'' 1 2,
     BitField ''ooo_okay'' 1 1,
     Field ''__mono_tc_offset'' (CArr type___u8 0),
     BitField ''tstamp_type'' 1 2,
     BitField ''tc_at_ingress'' 1 1,
     BitField ''tc_skip_classify'' 1 1,
     BitField ''remcsum_offload'' 1 1,
     BitField ''csum_complete_sw'' 1 1,
     BitField ''csum_level'' 1 2,
     BitField ''inner_protocol_type'' 1 1,
     BitField ''l4_hash'' 1 1,
     BitField ''sw_hash'' 1 1,
     BitField ''wifi_acked_valid'' 1 1,
     BitField ''wifi_acked'' 1 1,
     BitField ''no_fcs'' 1 1,
     BitField ''encapsulation'' 1 1,
     BitField ''encap_hdr_csum'' 1 1,
     BitField ''csum_valid'' 1 1,
     BitField ''ndisc_nodetype'' 1 2,
     BitField ''redirected'' 1 1,
     BitField ''slow_gro'' 1 1,
     BitField ''unreadable'' 1 1,
     Field ''tc_index'' type___u16,
     Field ''alloc_cpu'' type_u16,
     Anon (CUnion False [
       Field ''csum'' type___wsum,
       Anon (CStruct False [
         Field ''csum_start'' type___u16,
         Field ''csum_offset'' type___u16])]),
     Field ''priority'' type___u32,
     Field ''skb_iif'' c_int,
     Field ''hash'' type___u32,
     Anon (CUnion False [
       Field ''vlan_all'' type_u32,
       Anon (CStruct False [
         Field ''vlan_proto'' type___be16,
         Field ''vlan_tci'' type___u16])]),
     Anon (CUnion False [
       Field ''napi_id'' c_int,
       Field ''sender_cpu'' c_int]),
     Anon (CUnion False [
       Field ''mark'' type___u32,
       Field ''reserved_tailroom'' type___u32]),
     Anon (CUnion False [
       Field ''inner_protocol'' type___be16,
       Field ''inner_ipproto'' type___u8]),
     Field ''inner_transport_header'' type___u16,
     Field ''inner_network_header'' type___u16,
     Field ''inner_mac_header'' type___u16,
     Field ''protocol'' type___be16,
     Field ''transport_header'' type___u16,
     Field ''network_header'' type___u16,
     Field ''mac_header'' type___u16]"

definition struct_sk_buff :: ctype where
  "struct_sk_buff = CStruct False [
     Anon (CUnion False [
       Anon (CStruct False [
         Field ''next'' (CPtr ''struct sk_buff''),
         Field ''prev'' (CPtr ''struct sk_buff''),
         Anon (CUnion False [
           Field ''dev'' (CPtr ''struct net_device''),
           Field ''dev_scratch'' c_long])]),
       Field ''rbnode'' struct_rb_node,
       Field ''list'' struct_list_head,
       Field ''ll_node'' struct_llist_node]),
     Field ''sk'' (CPtr ''struct sock''),
     Anon (CUnion False [
       Field ''tstamp'' type_ktime_t,
       Field ''skb_mstamp_ns'' type_u64]),
     Field ''cb'' (CArr c_char 48),
     Anon (CUnion False [
       Anon (CStruct False [
         Field ''_skb_refdst'' c_long,
         Field ''destructor'' (CPtr ''function'')]),
       Field ''tcp_tsorted_anchor'' struct_list_head,
       Field ''_sk_redir'' c_long]),
     Field ''len'' c_int,
     Field ''data_len'' c_int,
     Field ''mac_len'' type___u16,
     Field ''hdr_len'' type___u16,
     Field ''queue_mapping'' type___u16,
     Field ''__cloned_offset'' (CArr type___u8 0),
     BitField ''cloned'' 1 1,
     BitField ''nohdr'' 1 1,
     BitField ''fclone'' 1 2,
     BitField ''peeked'' 1 1,
     BitField ''head_frag'' 1 1,
     BitField ''pfmemalloc'' 1 1,
     BitField ''pp_recycle'' 1 1,
     Anon (CUnion False [
       Anon sk_buff_headers,
       Field ''headers'' sk_buff_headers_group]),
     Field ''tail'' type_sk_buff_data_t,
     Field ''end'' type_sk_buff_data_t,
     Field ''head'' (CPtr ''unsigned char''),
     Field ''data'' (CPtr ''unsigned char''),
     Field ''truesize'' c_int,
     Field ''users'' type_refcount_t]"

definition struct_hlist_nulls_node :: ctype where
  "struct_hlist_nulls_node = CStruct False [
     Field ''next'' (CPtr ''struct hlist_nulls_node''),
     Field ''pprev'' (CPtr ''struct hlist_nulls_node *'')]"

definition struct_sock_common :: ctype where
  "struct_sock_common = CStruct False [
     Anon (CUnion False [
       Field ''skc_addrpair'' type___addrpair,
       Anon (CStruct False [
         Field ''skc_daddr'' type___be32,
         Field ''skc_rcv_saddr'' type___be32])]),
     Anon (CUnion False [
       Field ''skc_hash'' c_int,
       Field ''skc_u16hashes'' (CArr type___u16 2)]),
     Anon (CUnion False [
       Field ''skc_portpair'' type___portpair,
       Anon (CStruct False [
         Field ''skc_dport'' type___be16,
         Field ''skc_num'' type___u16])]),
     Field ''skc_family'' c_short,
     Field ''skc_state'' c_char,
     BitField ''skc_reuse'' 1 4,
     BitField ''skc_reuseport'' 1 1,
     BitField ''skc_ipv6only'' 1 1,
     BitField ''skc_net_refcnt'' 1 1,
     BitField ''skc_bypass_prot_mem'' 1 1,
     Field ''skc_bound_dev_if'' c_int,
     Anon (CUnion False [
       Field ''skc_bind_node'' struct_hlist_node,
       Field ''skc_portaddr_node'' struct_hlist_node]),
     Field ''skc_prot'' (CPtr ''struct proto''),
     Field ''skc_net'' type_possible_net_t,
     Field ''skc_v6_daddr'' struct_in6_addr,
     Field ''skc_v6_rcv_saddr'' struct_in6_addr,
     Field ''skc_cookie'' type_atomic64_t,
     Anon (CUnion False [
       Field ''skc_flags'' c_long,
       Field ''skc_listener'' (CPtr ''struct sock''),
       Field ''skc_tw_dr'' (CPtr ''struct inet_timewait_death_row'')]),
     Field ''skc_dontcopy_begin'' (CArr c_int 0),
     Anon (CUnion False [
       Field ''skc_node'' struct_hlist_node,
       Field ''skc_nulls_node'' struct_hlist_nulls_node]),
     Field ''skc_tx_queue_mapping'' c_short,
     Anon (CUnion False [
       Field ''skc_incoming_cpu'' c_int,
       Field ''skc_rcv_wnd'' type_u32,
       Field ''skc_tw_rcv_nxt'' type_u32]),
     Field ''skc_refcnt'' type_refcount_t,
     Field ''skc_dontcopy_end'' (CArr c_int 0),
     Anon (CUnion False [
       Field ''skc_rxhash'' type_u32,
       Field ''skc_window_clamp'' type_u32,
       Field ''skc_tw_snd_nxt'' type_u32])]"

definition struct_sock_cgroup_data :: ctype where
  "struct_sock_cgroup_data = CStruct False []"

definition struct_sock :: ctype where
  "struct_sock = CStruct False [
     Field ''__sk_common'' struct_sock_common,
     Field ''__cacheline_group_begin__sock_write_rx'' (CArr type___u8 0),
     Field ''sk_drops'' type_atomic_t,
     Field ''sk_peek_off'' type___s32,
     Field ''sk_error_queue'' struct_sk_buff_head,
     Field ''sk_receive_queue'' struct_sk_buff_head,
     Field ''sk_backlog'' (CStruct False [
       Field ''rmem_alloc'' type_atomic_t,
       Field ''len'' c_int,
       Field ''head'' (CPtr ''struct sk_buff''),
       Field ''tail'' (CPtr ''struct sk_buff'')]),
     Field ''__cacheline_group_end__sock_write_rx'' (CArr type___u8 0),
     Field ''__cacheline_group_begin__sock_read_rx'' (CArr type___u8 0),
     Field ''sk_rx_dst'' (CPtr ''struct dst_entry''),
     Field ''sk_rx_dst_ifindex'' c_int,
     Field ''sk_rx_dst_cookie'' type_u32,
     Field ''sk_ll_usec'' c_int,
     Field ''sk_napi_id'' c_int,
     Field ''sk_busy_poll_budget'' type_u16,
     Field ''sk_prefer_busy_poll'' type_u8,
     Field ''sk_userlocks'' type_u8,
     Field ''sk_rcvbuf'' c_int,
     Field ''sk_filter'' (CPtr ''struct sk_filter''),
     Anon (CUnion False [
       Field ''sk_wq'' (CPtr ''struct socket_wq''),
       Field ''sk_wq_raw'' (CPtr ''struct socket_wq'')]),
     Field ''sk_data_ready'' (CPtr ''function''),
     Field ''sk_rcvtimeo'' c_long,
     Field ''sk_rcvlowat'' c_int,
     Field ''__cacheline_group_end__sock_read_rx'' (CArr type___u8 0),
     Field ''__cacheline_group_begin__sock_read_rxtx'' (CArr type___u8 0),
     Field ''sk_err'' c_int,
     Field ''sk_socket'' (CPtr ''struct socket''),
     Field ''__cacheline_group_end__sock_read_rxtx'' (CArr type___u8 0),
     Field ''__cacheline_group_begin__sock_write_rxtx'' (CArr type___u8 0),
     Field ''sk_lock'' type_socket_lock_t,
     Field ''sk_reserved_mem'' type_u32,
     Field ''sk_forward_alloc'' c_int,
     Field ''sk_tsflags'' type_u32,
     Field ''__cacheline_group_end__sock_write_rxtx'' (CArr type___u8 0),
     Field ''__cacheline_group_begin__sock_write_tx'' (CArr type___u8 0),
     Field ''sk_write_pending'' c_int,
     Field ''sk_omem_alloc'' type_atomic_t,
     Field ''sk_err_soft'' c_int,
     Field ''sk_wmem_queued'' c_int,
     Field ''sk_wmem_alloc'' type_refcount_t,
     Field ''sk_tsq_flags'' c_long,
     Anon (CUnion False [
       Field ''sk_send_head'' (CPtr ''struct sk_buff''),
       Field ''tcp_rtx_queue'' struct_rb_root]),
     Field ''sk_write_queue'' struct_sk_buff_head,
     Field ''sk_frag'' struct_page_frag,
     Anon (CUnion False [
       Field ''sk_timer'' struct_timer_list,
       Field ''tcp_retransmit_timer'' struct_timer_list,
       Field ''mptcp_retransmit_timer'' struct_timer_list]),
     Field ''sk_pacing_rate'' c_long,
     Field ''sk_zckey'' type_atomic_t,
     Field ''sk_tskey'' type_atomic_t,
     Field ''sk_tx_queue_mapping_jiffies'' c_long,
     Field ''__cacheline_group_end__sock_write_tx'' (CArr type___u8 0),
     Field ''__cacheline_group_begin__sock_read_tx'' (CArr type___u8 0),
     Field ''sk_dst_pending_confirm'' type_u32,
     Field ''sk_pacing_status'' type_u32,
     Field ''sk_max_pacing_rate'' c_long,
     Field ''sk_sndtimeo'' c_long,
     Field ''sk_priority'' type_u32,
     Field ''sk_mark'' type_u32,
     Field ''sk_uid'' type_kuid_t,
     Field ''sk_protocol'' type_u16,
     Field ''sk_type'' type_u16,
     Field ''sk_dst_cache'' (CPtr ''struct dst_entry''),
     Field ''sk_route_caps'' type_netdev_features_t,
     Field ''sk_gso_type'' type_u16,
     Field ''sk_gso_max_segs'' type_u16,
     Field ''sk_gso_max_size'' c_int,
     Field ''sk_allocation'' type_gfp_t,
     Field ''sk_txhash'' type_u32,
     Field ''sk_sndbuf'' c_int,
     Field ''sk_pacing_shift'' type_u8,
     Field ''sk_use_task_frag'' type_bool,
     Field ''__cacheline_group_end__sock_read_tx'' (CArr type___u8 0),
     BitField ''sk_gso_disabled'' 1 1,
     BitField ''sk_kern_sock'' 1 1,
     BitField ''sk_no_check_tx'' 1 1,
     BitField ''sk_no_check_rx'' 1 1,
     Field ''sk_shutdown'' type_u8,
     Field ''sk_lingertime'' c_long,
     Field ''sk_prot_creator'' (CPtr ''struct proto''),
     Field ''sk_callback_lock'' type_rwlock_t,
     Field ''sk_ack_backlog'' type_u32,
     Field ''sk_max_ack_backlog'' type_u32,
     Field ''sk_ino'' c_long,
     Field ''sk_peer_lock'' type_spinlock_t,
     Field ''sk_bind_phc'' c_int,
     Field ''sk_peer_pid'' (CPtr ''struct pid''),
     Field ''sk_peer_cred'' (CPtr ''struct cred''),
     Field ''sk_stamp'' type_ktime_t,
     Field ''sk_disconnects'' c_int,
     Anon (CUnion False [
       Field ''sk_txrehash'' type_u8,
       Field ''sk_scm_recv_flags'' type_u8,
       Anon (CStruct False [
         BitField ''sk_scm_credentials'' 1 1,
         BitField ''sk_scm_security'' 1 1,
         BitField ''sk_scm_pidfd'' 1 1,
         BitField ''sk_scm_rights'' 1 1,
         BitField ''sk_scm_unused'' 1 4])]),
     Field ''sk_clockid'' type_u8,
     BitField ''sk_txtime_deadline_mode'' 1 1,
     BitField ''sk_txtime_report_errors'' 1 1,
     BitField ''sk_txtime_unused'' 1 6,
     Field ''sk_bpf_cb_flags'' type_u8,
     Field ''sk_user_data'' (CPtr ''void''),
     Field ''sk_security'' (CPtr ''void''),
     Field ''sk_cgrp_data'' struct_sock_cgroup_data,
     Field ''sk_state_change'' (CPtr ''function''),
     Field ''sk_write_space'' (CPtr ''function''),
     Field ''sk_error_report'' (CPtr ''function''),
     Field ''sk_backlog_rcv'' (CPtr ''function''),
     Field ''sk_destruct'' (CPtr ''function''),
     Field ''sk_reuseport_cb'' (CPtr ''struct sock_reuseport''),
     Field ''sk_bpf_storage'' (CPtr ''struct bpf_local_storage''),
     Field ''sk_drop_counters'' (CPtr ''struct numa_drop_counters''),
     Field ''sk_rcu'' struct_callback_head,
     Field ''ns_tracker'' type_netns_tracker,
     Field ''sk_user_frags'' struct_xarray]"

definition struct_socket_wq :: ctype where
  "struct_socket_wq = CStruct False [
     Field ''wait'' type_wait_queue_head_t,
     Field ''fasync_list'' (CPtr ''struct fasync_struct''),
     Field ''flags'' c_long,
     Field ''rcu'' struct_callback_head]"

definition struct_socket :: ctype where
  "struct_socket = CStruct False [
     Field ''state'' type_socket_state,
     Field ''type'' c_short,
     Field ''flags'' c_long,
     Field ''file'' (CPtr ''struct file''),
     Field ''sk'' (CPtr ''struct sock''),
     Field ''ops'' (CPtr ''struct proto_ops''),
     Field ''wq'' struct_socket_wq]"

section \<open>Sizes and alignments\<close>

lemma layout_struct_in6_addr [layout_eval]: "layout struct_in6_addr = (16, 4)"
  by (simp add: struct_in6_addr_def layout_eval typedef_defs scan_simps cong: scan_congs)

lemma layout_struct_sk_buff_list [layout_eval]: "layout struct_sk_buff_list = (16, 8)"
  by (simp add: struct_sk_buff_list_def layout_eval typedef_defs scan_simps cong: scan_congs)

lemma layout_struct_sk_buff_head [layout_eval]: "layout struct_sk_buff_head = (24, 8)"
  by (simp add: struct_sk_buff_head_def layout_eval typedef_defs scan_simps cong: scan_congs)

lemma layout_struct_xarray [layout_eval]: "layout struct_xarray = (16, 8)"
  by (simp add: struct_xarray_def layout_eval typedef_defs scan_simps cong: scan_congs)

lemma layout_struct_rb_root [layout_eval]: "layout struct_rb_root = (8, 8)"
  by (simp add: struct_rb_root_def layout_eval typedef_defs scan_simps cong: scan_congs)

lemma layout_struct_sockaddr [layout_eval]: "layout struct_sockaddr = (16, 2)"
  by (simp add: struct_sockaddr_def layout_eval typedef_defs scan_simps cong: scan_congs)

lemma layout_struct_sk_buff [layout_eval]: "layout struct_sk_buff = (208, 8)"
  by (simp add: struct_sk_buff_def sk_buff_headers_def sk_buff_headers_group_def layout_eval typedef_defs scan_simps cong: scan_congs)

lemma layout_struct_hlist_nulls_node [layout_eval]: "layout struct_hlist_nulls_node = (16, 8)"
  by (simp add: struct_hlist_nulls_node_def layout_eval typedef_defs scan_simps cong: scan_congs)

lemma layout_struct_sock_common [layout_eval]: "layout struct_sock_common = (128, 8)"
  by (simp add: struct_sock_common_def layout_eval typedef_defs scan_simps cong: scan_congs)

lemma layout_struct_sock_cgroup_data [layout_eval]: "layout struct_sock_cgroup_data = (0, 1)"
  by (simp add: struct_sock_cgroup_data_def layout_eval typedef_defs scan_simps cong: scan_congs)

lemma layout_struct_sock [layout_eval]: "layout struct_sock = (728, 8)"
  by (simp add: struct_sock_def layout_eval typedef_defs scan_simps cong: scan_congs)

lemma layout_struct_socket_wq [layout_eval]: "layout struct_socket_wq = (48, 8)"
  by (simp add: struct_socket_wq_def layout_eval typedef_defs scan_simps cong: scan_congs)

lemma layout_struct_socket [layout_eval]: "layout struct_socket = (88, 8)"
  by (simp add: struct_socket_def layout_eval typedef_defs scan_simps cong: scan_congs)

end
