(* ===== verification/Vmlinux_Task.thy ===== *)
theory Vmlinux_Task
  imports Vmlinux_Base
begin

text \<open>
  The declarations of \<open>bpf/vmlinux.h\<close> behind the ptrace hook: \<open>struct task_struct\<close> and every
  type it embeds by value, which fixes the offset of \<open>comm\<close>.
\<close>

definition type___kernel_clockid_t :: ctype where [typedef_defs]:
  "type___kernel_clockid_t = c_int"

definition type___kernel_pid_t :: ctype where [typedef_defs]:
  "type___kernel_pid_t = c_int"

definition type_clockid_t :: ctype where [typedef_defs]:
  "type_clockid_t = type___kernel_clockid_t"

definition type_pid_t :: ctype where [typedef_defs]:
  "type_pid_t = type___kernel_pid_t"

definition type___kernel_size_t :: ctype where [typedef_defs]:
  "type___kernel_size_t = type___kernel_ulong_t"

definition type_size_t :: ctype where [typedef_defs]:
  "type_size_t = type___kernel_size_t"

definition type_sigset_t :: ctype where [typedef_defs]:
  "type_sigset_t = CStruct False [
       Field ''sig'' (CArr c_long 1)]"

definition struct_llist_head :: ctype where
  "struct_llist_head = CStruct False [
     Field ''first'' (CPtr ''struct llist_node'')]"

definition struct___call_single_node :: ctype where
  "struct___call_single_node = CStruct False [
     Field ''llist'' struct_llist_node,
     Anon (CUnion False [
       Field ''u_flags'' c_int,
       Field ''a_flags'' type_atomic_t]),
     Field ''src'' type_u16,
     Field ''dst'' type_u16]"

definition struct_timerqueue_node :: ctype where
  "struct_timerqueue_node = CStruct False [
     Field ''node'' struct_rb_node,
     Field ''expires'' type_ktime_t]"

definition struct_hrtimer :: ctype where
  "struct_hrtimer = CStruct False [
     Field ''node'' struct_timerqueue_node,
     Field ''_softexpires'' type_ktime_t,
     Field ''function'' (CPtr ''function''),
     Field ''base'' (CPtr ''struct hrtimer_clock_base''),
     Field ''state'' type_u8,
     Field ''is_rel'' type_u8,
     Field ''is_soft'' type_u8,
     Field ''is_hard'' type_u8]"

definition struct_cpumask :: ctype where
  "struct_cpumask = CStruct False [
     Field ''bits'' (CArr c_long 1)]"

definition struct_arch_tlbflush_unmap_batch :: ctype where
  "struct_arch_tlbflush_unmap_batch = CStruct False [
     Field ''cpumask'' struct_cpumask,
     Field ''unmapped_pages'' type_bool]"

definition type_cpumask_t :: ctype where [typedef_defs]:
  "type_cpumask_t = struct_cpumask"

definition struct_load_weight :: ctype where
  "struct_load_weight = CStruct False [
     Field ''weight'' c_long,
     Field ''inv_weight'' type_u32]"

definition struct_sched_avg :: ctype where
  "struct_sched_avg = CStruct False [
     Field ''last_update_time'' type_u64,
     Field ''load_sum'' type_u64,
     Field ''runnable_sum'' type_u64,
     Field ''util_sum'' type_u32,
     Field ''period_contrib'' type_u32,
     Field ''load_avg'' c_long,
     Field ''runnable_avg'' c_long,
     Field ''util_avg'' c_long,
     Field ''util_est'' c_int]"

definition struct_desc_struct :: ctype where
  "struct_desc_struct = CStruct False [
     Field ''limit0'' type_u16,
     Field ''base0'' type_u16,
     BitField ''base1'' 2 8,
     BitField ''type'' 2 4,
     BitField ''s'' 2 1,
     BitField ''dpl'' 2 2,
     BitField ''p'' 2 1,
     BitField ''limit1'' 2 4,
     BitField ''avl'' 2 1,
     BitField ''l'' 2 1,
     BitField ''d'' 2 1,
     BitField ''g'' 2 1,
     BitField ''base2'' 2 8]"

definition struct_plist_node :: ctype where
  "struct_plist_node = CStruct False [
     Field ''prio'' c_int,
     Field ''prio_list'' struct_list_head,
     Field ''node_list'' struct_list_head]"

definition struct_kmap_ctrl :: ctype where
  "struct_kmap_ctrl = CStruct False []"

definition struct_posix_cputimers :: ctype where
  "struct_posix_cputimers = CStruct False []"

definition struct_prev_cputime :: ctype where
  "struct_prev_cputime = CStruct False [
     Field ''utime'' type_u64,
     Field ''stime'' type_u64,
     Field ''lock'' type_raw_spinlock_t]"

definition union_rcu_special :: ctype where
  "union_rcu_special = CUnion False [
     Field ''b'' (CStruct False [
       Field ''blocked'' type_u8,
       Field ''need_qs'' type_u8,
       Field ''exp_hint'' type_u8,
       Field ''need_mb'' type_u8]),
     Field ''s'' type_u32]"

definition struct_restart_block :: ctype where
  "struct_restart_block = CStruct False [
     Field ''arch_data'' c_long,
     Field ''fn'' (CPtr ''function''),
     Anon (CUnion False [
       Field ''futex'' (CStruct False [
         Field ''uaddr'' (CPtr ''u32''),
         Field ''val'' type_u32,
         Field ''flags'' type_u32,
         Field ''bitset'' type_u32,
         Field ''time'' type_ktime_t,
         Field ''uaddr2'' (CPtr ''u32'')]),
       Field ''nanosleep'' (CStruct False [
         Field ''clockid'' type_clockid_t,
         Field ''type'' c_enum,
         Anon (CUnion False [
           Field ''rmtp'' (CPtr ''struct __kernel_timespec''),
           Field ''compat_rmtp'' (CPtr ''struct old_timespec32'')]),
         Field ''expires'' type_ktime_t]),
       Field ''poll'' (CStruct False [
         Field ''ufds'' (CPtr ''struct pollfd''),
         Field ''nfds'' c_int,
         Field ''has_timeout'' c_int,
         Field ''tv_sec'' c_long,
         Field ''tv_nsec'' c_long])])]"

definition type_dl_server_pick_f :: ctype where [typedef_defs]:
  "type_dl_server_pick_f = CPtr ''function''"

definition struct_sched_dl_entity :: ctype where
  "struct_sched_dl_entity = CStruct False [
     Field ''rb_node'' struct_rb_node,
     Field ''dl_runtime'' type_u64,
     Field ''dl_deadline'' type_u64,
     Field ''dl_period'' type_u64,
     Field ''dl_bw'' type_u64,
     Field ''dl_density'' type_u64,
     Field ''runtime'' type_s64,
     Field ''deadline'' type_u64,
     Field ''flags'' c_int,
     BitField ''dl_throttled'' 4 1,
     BitField ''dl_yielded'' 4 1,
     BitField ''dl_non_contending'' 4 1,
     BitField ''dl_overrun'' 4 1,
     BitField ''dl_server'' 4 1,
     BitField ''dl_server_active'' 4 1,
     BitField ''dl_defer'' 4 1,
     BitField ''dl_defer_armed'' 4 1,
     BitField ''dl_defer_running'' 4 1,
     BitField ''dl_defer_idle'' 4 1,
     Field ''dl_timer'' struct_hrtimer,
     Field ''inactive_timer'' struct_hrtimer,
     Field ''rq'' (CPtr ''struct rq''),
     Field ''server_pick_task'' type_dl_server_pick_f]"

definition struct_rseq_data :: ctype where
  "struct_rseq_data = CStruct False []"

definition struct_sched_entity :: ctype where
  "struct_sched_entity = CStruct False [
     Field ''load'' struct_load_weight,
     Field ''run_node'' struct_rb_node,
     Field ''deadline'' type_u64,
     Field ''min_vruntime'' type_u64,
     Field ''min_slice'' type_u64,
     Field ''group_node'' struct_list_head,
     Field ''on_rq'' c_char,
     Field ''sched_delayed'' c_char,
     Field ''rel_deadline'' c_char,
     Field ''custom_slice'' c_char,
     Field ''exec_start'' type_u64,
     Field ''sum_exec_runtime'' type_u64,
     Field ''prev_sum_exec_runtime'' type_u64,
     Field ''vruntime'' type_u64,
     Anon (CUnion False [
       Field ''vlag'' type_s64,
       Field ''vprot'' type_u64]),
     Field ''slice'' type_u64,
     Field ''nr_migrations'' type_u64,
     BitPad 8 64,
     BitPad 8 64,
     BitPad 8 64,
     BitPad 8 64,
     BitPad 8 64,
     BitPad 8 64,
     Field ''avg'' struct_sched_avg]"

definition struct_sched_info :: ctype where
  "struct_sched_info = CStruct False []"

definition struct_sched_mm_cid :: ctype where
  "struct_sched_mm_cid = CStruct False []"

definition struct_sched_rt_entity :: ctype where
  "struct_sched_rt_entity = CStruct False [
     Field ''run_list'' struct_list_head,
     Field ''timeout'' c_long,
     Field ''watchdog_stamp'' c_long,
     Field ''time_slice'' c_int,
     Field ''on_rq'' c_short,
     Field ''on_list'' c_short,
     Field ''back'' (CPtr ''struct sched_rt_entity'')]"

definition struct_sched_statistics :: ctype where
  "struct_sched_statistics = CStruct False []"

definition struct_seccomp :: ctype where
  "struct_seccomp = CStruct False []"

definition struct_sigpending :: ctype where
  "struct_sigpending = CStruct False [
     Field ''list'' struct_list_head,
     Field ''signal'' type_sigset_t]"

definition struct_task_io_accounting :: ctype where
  "struct_task_io_accounting = CStruct False []"

definition struct_syscall_user_dispatch :: ctype where
  "struct_syscall_user_dispatch = CStruct False [
     Field ''selector'' (CPtr ''char''),
     Field ''offset'' c_long,
     Field ''len'' c_long,
     Field ''on_dispatch'' type_bool]"

definition struct_thread_info :: ctype where
  "struct_thread_info = CStruct False [
     Field ''flags'' c_long,
     Field ''syscall_work'' c_long,
     Field ''status'' type_u32]"

definition struct_wake_q_node :: ctype where
  "struct_wake_q_node = CStruct False [
     Field ''next'' (CPtr ''struct wake_q_node'')]"

definition struct_tlbflush_unmap_batch :: ctype where
  "struct_tlbflush_unmap_batch = CStruct False [
     Field ''arch'' struct_arch_tlbflush_unmap_batch,
     Field ''flush_required'' type_bool,
     Field ''writable'' type_bool]"

definition union_unwind_task_id :: ctype where
  "union_unwind_task_id = CUnion False [
     Anon (CStruct False [
       Field ''cpu'' type_u32,
       Field ''cnt'' type_u32]),
     Field ''id'' type_u64]"

definition struct_unwind_task_info :: ctype where
  "struct_unwind_task_info = CStruct False [
     Field ''unwind_mask'' type_atomic_long_t,
     Field ''cache'' (CPtr ''struct unwind_cache''),
     Field ''work'' struct_callback_head,
     Field ''id'' union_unwind_task_id]"

definition struct_thread_struct :: ctype where
  "struct_thread_struct = CStruct False [
     Field ''tls_array'' (CArr struct_desc_struct 3),
     Field ''sp'' c_long,
     Field ''es'' c_short,
     Field ''ds'' c_short,
     Field ''fsindex'' c_short,
     Field ''gsindex'' c_short,
     Field ''fsbase'' c_long,
     Field ''gsbase'' c_long,
     Field ''ptrace_bps'' (CArr (CPtr ''struct perf_event'') 4),
     Field ''virtual_dr6'' c_long,
     Field ''ptrace_dr7'' c_long,
     Field ''cr2'' c_long,
     Field ''trap_nr'' c_long,
     Field ''error_code'' c_long,
     Field ''io_bitmap'' (CPtr ''struct io_bitmap''),
     Field ''iopl_emul'' c_long,
     BitField ''iopl_warn'' 4 1,
     Field ''pkru'' type_u32]"

definition task_struct_members_to_cred :: "member list" where
  "task_struct_members_to_cred = [
     Field ''thread_info'' struct_thread_info,
     Field ''__state'' c_int,
     Field ''saved_state'' c_int,
     Field ''stack'' (CPtr ''void''),
     Field ''usage'' type_refcount_t,
     Field ''flags'' c_int,
     Field ''ptrace'' c_int,
     Field ''on_cpu'' c_int,
     Field ''wake_entry'' struct___call_single_node,
     Field ''wakee_flips'' c_int,
     Field ''wakee_flip_decay_ts'' c_long,
     Field ''last_wakee'' (CPtr ''struct task_struct''),
     Field ''recent_used_cpu'' c_int,
     Field ''wake_cpu'' c_int,
     Field ''on_rq'' c_int,
     Field ''prio'' c_int,
     Field ''static_prio'' c_int,
     Field ''normal_prio'' c_int,
     Field ''rt_priority'' c_int,
     Field ''se'' struct_sched_entity,
     Field ''rt'' struct_sched_rt_entity,
     Field ''dl'' struct_sched_dl_entity,
     Field ''dl_server'' (CPtr ''struct sched_dl_entity''),
     Field ''sched_class'' (CPtr ''struct sched_class''),
     BitPad 8 64,
     BitPad 8 64,
     BitPad 8 64,
     Field ''stats'' struct_sched_statistics,
     Field ''policy'' c_int,
     Field ''max_allowed_capacity'' c_long,
     Field ''nr_cpus_allowed'' c_int,
     Field ''cpus_ptr'' (CPtr ''cpumask_t''),
     Field ''user_cpus_ptr'' (CPtr ''cpumask_t''),
     Field ''cpus_mask'' type_cpumask_t,
     Field ''migration_pending'' (CPtr ''void''),
     Field ''migration_disabled'' c_short,
     Field ''migration_flags'' c_short,
     Field ''trc_reader_nesting'' c_int,
     Field ''trc_ipi_to_cpu'' c_int,
     Field ''trc_reader_special'' union_rcu_special,
     Field ''trc_holdout_list'' struct_list_head,
     Field ''trc_blkd_node'' struct_list_head,
     Field ''trc_blkd_cpu'' c_int,
     Field ''sched_info'' struct_sched_info,
     Field ''tasks'' struct_list_head,
     Field ''pushable_tasks'' struct_plist_node,
     Field ''pushable_dl_tasks'' struct_rb_node,
     Field ''mm'' (CPtr ''struct mm_struct''),
     Field ''active_mm'' (CPtr ''struct mm_struct''),
     Field ''faults_disabled_mapping'' (CPtr ''struct address_space''),
     Field ''exit_state'' c_int,
     Field ''exit_code'' c_int,
     Field ''exit_signal'' c_int,
     Field ''pdeath_signal'' c_int,
     Field ''jobctl'' c_long,
     Field ''personality'' c_int,
     BitField ''sched_reset_on_fork'' 4 1,
     BitField ''sched_contributes_to_load'' 4 1,
     BitField ''sched_migrated'' 4 1,
     BitField ''sched_task_hot'' 4 1,
     BitPad 8 28,
     BitField ''sched_remote_wakeup'' 4 1,
     BitField ''in_execve'' 4 1,
     BitField ''in_iowait'' 4 1,
     BitField ''restore_sigmask'' 4 1,
     BitField ''in_nf_duplicate'' 4 1,
     Field ''atomic_flags'' c_long,
     Field ''restart_block'' struct_restart_block,
     Field ''pid'' type_pid_t,
     Field ''tgid'' type_pid_t,
     Field ''real_parent'' (CPtr ''struct task_struct''),
     Field ''parent'' (CPtr ''struct task_struct''),
     Field ''children'' struct_list_head,
     Field ''sibling'' struct_list_head,
     Field ''group_leader'' (CPtr ''struct task_struct''),
     Field ''ptraced'' struct_list_head,
     Field ''ptrace_entry'' struct_list_head,
     Field ''thread_pid'' (CPtr ''struct pid''),
     Field ''pid_links'' (CArr struct_hlist_node 4),
     Field ''thread_node'' struct_list_head,
     Field ''vfork_done'' (CPtr ''struct completion''),
     Field ''set_child_tid'' (CPtr ''int''),
     Field ''clear_child_tid'' (CPtr ''int''),
     Field ''worker_private'' (CPtr ''void''),
     Field ''utime'' type_u64,
     Field ''stime'' type_u64,
     Field ''gtime'' type_u64,
     Field ''prev_cputime'' struct_prev_cputime,
     Field ''nvcsw'' c_long,
     Field ''nivcsw'' c_long,
     Field ''start_time'' type_u64,
     Field ''start_boottime'' type_u64,
     Field ''min_flt'' c_long,
     Field ''maj_flt'' c_long,
     Field ''posix_cputimers'' struct_posix_cputimers,
     Field ''ptracer_cred'' (CPtr ''struct cred''),
     Field ''real_cred'' (CPtr ''struct cred''),
     Field ''cred'' (CPtr ''struct cred'')]"

definition task_struct_members_from_comm :: "member list" where
  "task_struct_members_from_comm = [
     Field ''comm'' (CArr c_char 16),
     Field ''nameidata'' (CPtr ''struct nameidata''),
     Field ''fs'' (CPtr ''struct fs_struct''),
     Field ''files'' (CPtr ''struct files_struct''),
     Field ''nsproxy'' (CPtr ''struct nsproxy''),
     Field ''signal'' (CPtr ''struct signal_struct''),
     Field ''sighand'' (CPtr ''struct sighand_struct''),
     Field ''blocked'' type_sigset_t,
     Field ''real_blocked'' type_sigset_t,
     Field ''saved_sigmask'' type_sigset_t,
     Field ''pending'' struct_sigpending,
     Field ''sas_ss_sp'' c_long,
     Field ''sas_ss_size'' type_size_t,
     Field ''sas_ss_flags'' c_int,
     Field ''task_works'' (CPtr ''struct callback_head''),
     Field ''seccomp'' struct_seccomp,
     Field ''syscall_dispatch'' struct_syscall_user_dispatch,
     Field ''parent_exec_id'' type_u64,
     Field ''self_exec_id'' type_u64,
     Field ''alloc_lock'' type_spinlock_t,
     Field ''pi_lock'' type_raw_spinlock_t,
     Field ''wake_q'' struct_wake_q_node,
     Field ''blocked_on'' (CPtr ''struct mutex''),
     Field ''journal_info'' (CPtr ''void''),
     Field ''bio_list'' (CPtr ''struct bio_list''),
     Field ''plug'' (CPtr ''struct blk_plug''),
     Field ''reclaim_state'' (CPtr ''struct reclaim_state''),
     Field ''io_context'' (CPtr ''struct io_context''),
     Field ''ptrace_message'' c_long,
     Field ''last_siginfo'' (CPtr ''kernel_siginfo_t''),
     Field ''ioac'' struct_task_io_accounting,
     Field ''perf_recursion'' (CArr type_u8 4),
     Field ''perf_event_ctxp'' (CPtr ''struct perf_event_context''),
     Field ''perf_event_mutex'' struct_mutex,
     Field ''perf_event_list'' struct_list_head,
     Field ''perf_ctx_data'' (CPtr ''struct perf_ctx_data''),
     Field ''rseq'' struct_rseq_data,
     Field ''mm_cid'' struct_sched_mm_cid,
     Field ''tlb_ubc'' struct_tlbflush_unmap_batch,
     Field ''splice_pipe'' (CPtr ''struct pipe_inode_info''),
     Field ''task_frag'' struct_page_frag,
     Field ''nr_dirtied'' c_int,
     Field ''nr_dirtied_pause'' c_int,
     Field ''dirty_paused_when'' c_long,
     Field ''timer_slack_ns'' type_u64,
     Field ''default_timer_slack_ns'' type_u64,
     Field ''curr_ret_stack'' c_int,
     Field ''curr_ret_depth'' c_int,
     Field ''ret_stack'' (CPtr ''long unsigned int''),
     Field ''ftrace_timestamp'' c_long,
     Field ''ftrace_sleeptime'' c_long,
     Field ''trace_overrun'' type_atomic_t,
     Field ''tracing_graph_pause'' type_atomic_t,
     Field ''trace_recursion'' c_long,
     Field ''utask'' (CPtr ''struct uprobe_task''),
     Field ''kmap_ctrl'' struct_kmap_ctrl,
     Field ''rcu'' struct_callback_head,
     Field ''rcu_users'' type_refcount_t,
     Field ''pagefault_disabled'' c_int,
     Field ''oom_reaper_list'' (CPtr ''struct task_struct''),
     Field ''oom_reaper_timer'' struct_timer_list,
     Field ''stack_vm_area'' (CPtr ''struct vm_struct''),
     Field ''stack_refcount'' type_refcount_t,
     Field ''security'' (CPtr ''void''),
     Field ''bpf_storage'' (CPtr ''struct bpf_local_storage''),
     Field ''bpf_ctx'' (CPtr ''struct bpf_run_ctx''),
     Field ''bpf_net_context'' (CPtr ''struct bpf_net_context''),
     Field ''kretprobe_instances'' struct_llist_head,
     Field ''rethooks'' struct_llist_head,
     Field ''l1d_flush_kill'' struct_callback_head,
     Field ''unwind_info'' struct_unwind_task_info,
     Field ''thread'' struct_thread_struct,
     BitPad 8 64,
     BitPad 8 64]"

definition struct_task_struct :: ctype where
  "struct_task_struct = CStruct False (task_struct_members_to_cred @ task_struct_members_from_comm)"

section \<open>Sizes and alignments\<close>

lemma layout_struct_llist_head [layout_eval]: "layout struct_llist_head = (8, 8)"
  by (simp add: struct_llist_head_def layout_eval typedef_defs scan_simps cong: scan_congs)

lemma layout_struct___call_single_node [layout_eval]: "layout struct___call_single_node = (16, 8)"
  by (simp add: struct___call_single_node_def layout_eval typedef_defs scan_simps cong: scan_congs)

lemma layout_struct_timerqueue_node [layout_eval]: "layout struct_timerqueue_node = (32, 8)"
  by (simp add: struct_timerqueue_node_def layout_eval typedef_defs scan_simps cong: scan_congs)

lemma layout_struct_hrtimer [layout_eval]: "layout struct_hrtimer = (64, 8)"
  by (simp add: struct_hrtimer_def layout_eval typedef_defs scan_simps cong: scan_congs)

lemma layout_struct_cpumask [layout_eval]: "layout struct_cpumask = (8, 8)"
  by (simp add: struct_cpumask_def layout_eval typedef_defs scan_simps cong: scan_congs)

lemma layout_struct_arch_tlbflush_unmap_batch [layout_eval]: "layout struct_arch_tlbflush_unmap_batch = (16, 8)"
  by (simp add: struct_arch_tlbflush_unmap_batch_def layout_eval typedef_defs scan_simps cong: scan_congs)

lemma layout_struct_load_weight [layout_eval]: "layout struct_load_weight = (16, 8)"
  by (simp add: struct_load_weight_def layout_eval typedef_defs scan_simps cong: scan_congs)

lemma layout_struct_sched_avg [layout_eval]: "layout struct_sched_avg = (64, 8)"
  by (simp add: struct_sched_avg_def layout_eval typedef_defs scan_simps cong: scan_congs)

lemma layout_struct_desc_struct [layout_eval]: "layout struct_desc_struct = (8, 2)"
  by (simp add: struct_desc_struct_def layout_eval typedef_defs scan_simps cong: scan_congs)

lemma layout_struct_plist_node [layout_eval]: "layout struct_plist_node = (40, 8)"
  by (simp add: struct_plist_node_def layout_eval typedef_defs scan_simps cong: scan_congs)

lemma layout_struct_kmap_ctrl [layout_eval]: "layout struct_kmap_ctrl = (0, 1)"
  by (simp add: struct_kmap_ctrl_def layout_eval typedef_defs scan_simps cong: scan_congs)

lemma layout_struct_posix_cputimers [layout_eval]: "layout struct_posix_cputimers = (0, 1)"
  by (simp add: struct_posix_cputimers_def layout_eval typedef_defs scan_simps cong: scan_congs)

lemma layout_struct_prev_cputime [layout_eval]: "layout struct_prev_cputime = (16, 8)"
  by (simp add: struct_prev_cputime_def layout_eval typedef_defs scan_simps cong: scan_congs)

lemma layout_union_rcu_special [layout_eval]: "layout union_rcu_special = (4, 4)"
  by (simp add: union_rcu_special_def layout_eval typedef_defs scan_simps cong: scan_congs)

lemma layout_struct_restart_block [layout_eval]: "layout struct_restart_block = (56, 8)"
  by (simp add: struct_restart_block_def layout_eval typedef_defs scan_simps cong: scan_congs)

lemma layout_struct_sched_dl_entity [layout_eval]: "layout struct_sched_dl_entity = (232, 8)"
  by (simp add: struct_sched_dl_entity_def layout_eval typedef_defs scan_simps cong: scan_congs)

lemma layout_struct_rseq_data [layout_eval]: "layout struct_rseq_data = (0, 1)"
  by (simp add: struct_rseq_data_def layout_eval typedef_defs scan_simps cong: scan_congs)

lemma layout_struct_sched_entity [layout_eval]: "layout struct_sched_entity = (256, 8)"
  by (simp add: struct_sched_entity_def layout_eval typedef_defs scan_simps cong: scan_congs)

lemma layout_struct_sched_info [layout_eval]: "layout struct_sched_info = (0, 1)"
  by (simp add: struct_sched_info_def layout_eval typedef_defs scan_simps cong: scan_congs)

lemma layout_struct_sched_mm_cid [layout_eval]: "layout struct_sched_mm_cid = (0, 1)"
  by (simp add: struct_sched_mm_cid_def layout_eval typedef_defs scan_simps cong: scan_congs)

lemma layout_struct_sched_rt_entity [layout_eval]: "layout struct_sched_rt_entity = (48, 8)"
  by (simp add: struct_sched_rt_entity_def layout_eval typedef_defs scan_simps cong: scan_congs)

lemma layout_struct_sched_statistics [layout_eval]: "layout struct_sched_statistics = (0, 1)"
  by (simp add: struct_sched_statistics_def layout_eval typedef_defs scan_simps cong: scan_congs)

lemma layout_struct_seccomp [layout_eval]: "layout struct_seccomp = (0, 1)"
  by (simp add: struct_seccomp_def layout_eval typedef_defs scan_simps cong: scan_congs)

lemma layout_struct_sigpending [layout_eval]: "layout struct_sigpending = (24, 8)"
  by (simp add: struct_sigpending_def layout_eval typedef_defs scan_simps cong: scan_congs)

lemma layout_struct_task_io_accounting [layout_eval]: "layout struct_task_io_accounting = (0, 1)"
  by (simp add: struct_task_io_accounting_def layout_eval typedef_defs scan_simps cong: scan_congs)

lemma layout_struct_syscall_user_dispatch [layout_eval]: "layout struct_syscall_user_dispatch = (32, 8)"
  by (simp add: struct_syscall_user_dispatch_def layout_eval typedef_defs scan_simps cong: scan_congs)

lemma layout_struct_thread_info [layout_eval]: "layout struct_thread_info = (24, 8)"
  by (simp add: struct_thread_info_def layout_eval typedef_defs scan_simps cong: scan_congs)

lemma layout_struct_wake_q_node [layout_eval]: "layout struct_wake_q_node = (8, 8)"
  by (simp add: struct_wake_q_node_def layout_eval typedef_defs scan_simps cong: scan_congs)

lemma layout_struct_tlbflush_unmap_batch [layout_eval]: "layout struct_tlbflush_unmap_batch = (24, 8)"
  by (simp add: struct_tlbflush_unmap_batch_def layout_eval typedef_defs scan_simps cong: scan_congs)

lemma layout_union_unwind_task_id [layout_eval]: "layout union_unwind_task_id = (8, 8)"
  by (simp add: union_unwind_task_id_def layout_eval typedef_defs scan_simps cong: scan_congs)

lemma layout_struct_unwind_task_info [layout_eval]: "layout struct_unwind_task_info = (40, 8)"
  by (simp add: struct_unwind_task_info_def layout_eval typedef_defs scan_simps cong: scan_congs)

lemma layout_struct_thread_struct [layout_eval]: "layout struct_thread_struct = (152, 8)"
  by (simp add: struct_thread_struct_def layout_eval typedef_defs scan_simps cong: scan_congs)

lemma layout_struct_task_struct [layout_eval]: "layout struct_task_struct = (2176, 8)"
  by (simp add: struct_task_struct_def task_struct_members_to_cred_def task_struct_members_from_comm_def layout_eval typedef_defs scan_simps cong: scan_congs)

end
