(* ===== verification/Vmlinux_Perf.thy ===== *)
theory Vmlinux_Perf
  imports Vmlinux_Task
begin

text \<open>
  The remaining declarations of \<open>bpf/vmlinux.h\<close> that the type information of the ptrace object
  carries: what \<open>struct thread_struct\<close> and \<open>struct task_struct\<close> point to (credentials, perf
  events, saved registers, ftrace hooks).
\<close>

definition type___kernel_gid32_t :: ctype where [typedef_defs]:
  "type___kernel_gid32_t = c_int"

definition type_gid_t :: ctype where [typedef_defs]:
  "type_gid_t = type___kernel_gid32_t"

definition struct_pin_cookie :: ctype where
  "struct_pin_cookie = CStruct False []"

definition struct_rq_flags :: ctype where
  "struct_rq_flags = CStruct False [
     Field ''flags'' c_long,
     Field ''cookie'' struct_pin_cookie,
     Field ''clock_update_flags'' c_int]"

definition type_kernel_cap_t :: ctype where [typedef_defs]:
  "type_kernel_cap_t = CStruct False [
       Field ''val'' type_u64]"

definition type_kgid_t :: ctype where [typedef_defs]:
  "type_kgid_t = CStruct False [
       Field ''val'' type_gid_t]"

definition type_local_t :: ctype where [typedef_defs]:
  "type_local_t = CStruct False [
       Field ''a'' type_atomic_long_t]"

definition type_local64_t :: ctype where [typedef_defs]:
  "type_local64_t = CStruct False [
       Field ''a'' type_local_t]"

definition struct_fred_cs :: ctype where
  "struct_fred_cs = CStruct False [
     BitField ''cs'' 8 16,
     BitField ''sl'' 8 2,
     BitField ''wfe'' 8 1]"

definition struct_fred_ss :: ctype where
  "struct_fred_ss = CStruct False [
     BitField ''ss'' 8 16,
     BitField ''sti'' 8 1,
     BitField ''swevent'' 8 1,
     BitField ''nmi'' 8 1,
     BitPad 4 13,
     BitField ''vector'' 8 8,
     BitPad 2 8,
     BitField ''type'' 8 4,
     BitPad 1 4,
     BitField ''enclave'' 8 1,
     BitField ''l'' 8 1,
     BitField ''nested'' 8 1,
     BitPad 1 1,
     BitField ''insnlen'' 8 4]"

definition struct_pt_regs :: ctype where
  "struct_pt_regs = CStruct False [
     Field ''r15'' c_long,
     Field ''r14'' c_long,
     Field ''r13'' c_long,
     Field ''r12'' c_long,
     Field ''bp'' c_long,
     Field ''bx'' c_long,
     Field ''r11'' c_long,
     Field ''r10'' c_long,
     Field ''r9'' c_long,
     Field ''r8'' c_long,
     Field ''ax'' c_long,
     Field ''cx'' c_long,
     Field ''dx'' c_long,
     Field ''si'' c_long,
     Field ''di'' c_long,
     Field ''orig_ax'' c_long,
     Field ''ip'' c_long,
     Anon (CUnion False [
       Field ''cs'' type_u16,
       Field ''csx'' type_u64,
       Field ''fred_cs'' struct_fred_cs]),
     Field ''flags'' c_long,
     Field ''sp'' c_long,
     Anon (CUnion False [
       Field ''ss'' type_u16,
       Field ''ssx'' type_u64,
       Field ''fred_ss'' struct_fred_ss])]"

definition struct_arch_hw_breakpoint :: ctype where
  "struct_arch_hw_breakpoint = CStruct False [
     Field ''address'' c_long,
     Field ''mask'' c_long,
     Field ''len'' type_u8,
     Field ''type'' type_u8]"

definition struct_rcuwait :: ctype where
  "struct_rcuwait = CStruct False [
     Field ''task'' (CPtr ''struct task_struct'')]"

definition struct_irq_work :: ctype where
  "struct_irq_work = CStruct False [
     Field ''node'' struct___call_single_node,
     Field ''func'' (CPtr ''function''),
     Field ''irqwait'' struct_rcuwait]"

definition struct_rhash_head :: ctype where
  "struct_rhash_head = CStruct False [
     Field ''next'' (CPtr ''struct rhash_head'')]"

definition union_perf_sample_weight :: ctype where
  "union_perf_sample_weight = CUnion False [
     Field ''full'' type___u64,
     Anon (CStruct False [
       Field ''var1_dw'' type___u32,
       Field ''var2_w'' type___u16,
       Field ''var3_w'' type___u16])]"

definition union_perf_mem_data_src :: ctype where
  "union_perf_mem_data_src = CUnion False [
     Field ''val'' type___u64,
     Anon (CStruct False [
       BitField ''mem_op'' 8 5,
       BitField ''mem_lvl'' 8 14,
       BitField ''mem_snoop'' 8 5,
       BitField ''mem_lock'' 8 2,
       BitField ''mem_dtlb'' 8 7,
       BitField ''mem_lvl_num'' 8 4,
       BitField ''mem_remote'' 8 1,
       BitField ''mem_snoopx'' 8 2,
       BitField ''mem_blk'' 8 3,
       BitField ''mem_hops'' 8 3,
       BitField ''mem_rsvd'' 8 18])]"

definition struct_perf_regs :: ctype where
  "struct_perf_regs = CStruct False [
     Field ''abi'' type___u64,
     Field ''regs'' (CPtr ''struct pt_regs'')]"

definition struct_perf_sample_data :: ctype where
  "struct_perf_sample_data = CStruct False [
     Field ''sample_flags'' type_u64,
     Field ''period'' type_u64,
     Field ''dyn_size'' type_u64,
     Field ''type'' type_u64,
     Field ''tid_entry'' (CStruct False [
       Field ''pid'' type_u32,
       Field ''tid'' type_u32]),
     Field ''time'' type_u64,
     Field ''id'' type_u64,
     Field ''cpu_entry'' (CStruct False [
       Field ''cpu'' type_u32,
       Field ''reserved'' type_u32]),
     Field ''ip'' type_u64,
     Field ''callchain'' (CPtr ''struct perf_callchain_entry''),
     Field ''raw'' (CPtr ''struct perf_raw_record''),
     Field ''br_stack'' (CPtr ''struct perf_branch_stack''),
     Field ''br_stack_cntr'' (CPtr ''u64''),
     Field ''weight'' union_perf_sample_weight,
     Field ''data_src'' union_perf_mem_data_src,
     Field ''txn'' type_u64,
     Field ''regs_user'' struct_perf_regs,
     Field ''regs_intr'' struct_perf_regs,
     Field ''stack_user_size'' type_u64,
     Field ''stream_id'' type_u64,
     Field ''cgroup'' type_u64,
     Field ''addr'' type_u64,
     Field ''phys_addr'' type_u64,
     Field ''data_page_size'' type_u64,
     Field ''code_page_size'' type_u64,
     Field ''aux_size'' type_u64,
     BitPad 8 64,
     BitPad 8 64,
     BitPad 8 64,
     BitPad 8 64]"

definition struct_cred :: ctype where
  "struct_cred = CStruct False [
     Field ''usage'' type_atomic_long_t,
     Field ''uid'' type_kuid_t,
     Field ''gid'' type_kgid_t,
     Field ''suid'' type_kuid_t,
     Field ''sgid'' type_kgid_t,
     Field ''euid'' type_kuid_t,
     Field ''egid'' type_kgid_t,
     Field ''fsuid'' type_kuid_t,
     Field ''fsgid'' type_kgid_t,
     Field ''securebits'' c_int,
     Field ''cap_inheritable'' type_kernel_cap_t,
     Field ''cap_permitted'' type_kernel_cap_t,
     Field ''cap_effective'' type_kernel_cap_t,
     Field ''cap_bset'' type_kernel_cap_t,
     Field ''cap_ambient'' type_kernel_cap_t,
     Field ''security'' (CPtr ''void''),
     Field ''user'' (CPtr ''struct user_struct''),
     Field ''user_ns'' (CPtr ''struct user_namespace''),
     Field ''ucounts'' (CPtr ''struct ucounts''),
     Field ''group_info'' (CPtr ''struct group_info''),
     Anon (CUnion False [
       Field ''non_rcu'' c_int,
       Field ''rcu'' struct_callback_head])]"

definition type_ftrace_func_t :: ctype where [typedef_defs]:
  "type_ftrace_func_t = CPtr ''function''"

definition struct_ftrace_ops_hash :: ctype where
  "struct_ftrace_ops_hash = CStruct False [
     Field ''notrace_hash'' (CPtr ''struct ftrace_hash''),
     Field ''filter_hash'' (CPtr ''struct ftrace_hash''),
     Field ''regex_lock'' struct_mutex]"

definition type_ftrace_ops_func_t :: ctype where [typedef_defs]:
  "type_ftrace_ops_func_t = CPtr ''function''"

definition struct_ftrace_ops :: ctype where
  "struct_ftrace_ops = CStruct False [
     Field ''func'' type_ftrace_func_t,
     Field ''next'' (CPtr ''struct ftrace_ops''),
     Field ''flags'' c_long,
     Field ''private'' (CPtr ''void''),
     Field ''saved_func'' type_ftrace_func_t,
     Field ''local_hash'' struct_ftrace_ops_hash,
     Field ''func_hash'' (CPtr ''struct ftrace_ops_hash''),
     Field ''old_hash'' struct_ftrace_ops_hash,
     Field ''trampoline'' c_long,
     Field ''trampoline_size'' c_long,
     Field ''list'' struct_list_head,
     Field ''subop_list'' struct_list_head,
     Field ''ops_func'' type_ftrace_ops_func_t,
     Field ''managed'' (CPtr ''struct ftrace_ops''),
     Field ''direct_call'' c_long]"

definition struct_rhlist_head :: ctype where
  "struct_rhlist_head = CStruct False [
     Field ''rhead'' struct_rhash_head,
     Field ''next'' (CPtr ''struct rhlist_head'')]"

definition struct_ftrace_regs :: ctype where
  "struct_ftrace_regs = CStruct False []"

definition struct_hw_perf_event_extra :: ctype where
  "struct_hw_perf_event_extra = CStruct False [
     Field ''config'' type_u64,
     Field ''reg'' c_int,
     Field ''alloc'' c_int,
     Field ''idx'' c_int]"

definition struct_hw_perf_event :: ctype where
  "struct_hw_perf_event = CStruct False [
     Anon (CUnion False [
       Anon (CStruct False [
         Field ''config'' type_u64,
         Field ''config1'' type_u64,
         Field ''last_tag'' type_u64,
         Field ''dyn_constraint'' type_u64,
         Field ''config_base'' c_long,
         Field ''event_base'' c_long,
         Field ''event_base_rdpmc'' c_int,
         Field ''idx'' c_int,
         Field ''last_cpu'' c_int,
         Field ''flags'' c_int,
         Field ''extra_reg'' struct_hw_perf_event_extra,
         Field ''branch_reg'' struct_hw_perf_event_extra]),
       Anon (CStruct False [
         Field ''aux_config'' type_u64,
         Field ''aux_paused'' c_int]),
       Anon (CStruct False [
         Field ''hrtimer'' struct_hrtimer]),
       Anon (CStruct False [
         Field ''tp_list'' struct_list_head]),
       Anon (CStruct False [
         Field ''pwr_acc'' type_u64,
         Field ''ptsc'' type_u64]),
       Anon (CStruct False [
         Field ''info'' struct_arch_hw_breakpoint,
         Field ''bp_list'' struct_rhlist_head]),
       Anon (CStruct False [
         Field ''iommu_bank'' type_u8,
         Field ''iommu_cntr'' type_u8,
         Field ''padding'' type_u16,
         Field ''conf'' type_u64,
         Field ''conf1'' type_u64])]),
     Field ''target'' (CPtr ''struct task_struct''),
     Field ''addr_filters'' (CPtr ''void''),
     Field ''addr_filters_gen'' c_long,
     Field ''state'' c_int,
     Field ''prev_count'' type_local64_t,
     Field ''sample_period'' type_u64,
     Anon (CUnion False [
       Anon (CStruct False [
         Field ''last_period'' type_u64,
         Field ''period_left'' type_local64_t]),
       Anon (CStruct False [
         Field ''saved_metric'' type_u64,
         Field ''saved_slots'' type_u64])]),
     Field ''interrupts_seq'' type_u64,
     Field ''interrupts'' type_u64,
     Field ''freq_time_stamp'' type_u64,
     Field ''freq_count_stamp'' type_u64]"

definition struct_perf_addr_filters_head :: ctype where
  "struct_perf_addr_filters_head = CStruct False [
     Field ''list'' struct_list_head,
     Field ''lock'' type_raw_spinlock_t,
     Field ''nr_file_filters'' c_int]"

definition struct_perf_event_attr :: ctype where
  "struct_perf_event_attr = CStruct False [
     Field ''type'' type___u32,
     Field ''size'' type___u32,
     Field ''config'' type___u64,
     Anon (CUnion False [
       Field ''sample_period'' type___u64,
       Field ''sample_freq'' type___u64]),
     Field ''sample_type'' type___u64,
     Field ''read_format'' type___u64,
     BitField ''disabled'' 8 1,
     BitField ''inherit'' 8 1,
     BitField ''pinned'' 8 1,
     BitField ''exclusive'' 8 1,
     BitField ''exclude_user'' 8 1,
     BitField ''exclude_kernel'' 8 1,
     BitField ''exclude_hv'' 8 1,
     BitField ''exclude_idle'' 8 1,
     BitField ''mmap'' 8 1,
     BitField ''comm'' 8 1,
     BitField ''freq'' 8 1,
     BitField ''inherit_stat'' 8 1,
     BitField ''enable_on_exec'' 8 1,
     BitField ''task'' 8 1,
     BitField ''watermark'' 8 1,
     BitField ''precise_ip'' 8 2,
     BitField ''mmap_data'' 8 1,
     BitField ''sample_id_all'' 8 1,
     BitField ''exclude_host'' 8 1,
     BitField ''exclude_guest'' 8 1,
     BitField ''exclude_callchain_kernel'' 8 1,
     BitField ''exclude_callchain_user'' 8 1,
     BitField ''mmap2'' 8 1,
     BitField ''comm_exec'' 8 1,
     BitField ''use_clockid'' 8 1,
     BitField ''context_switch'' 8 1,
     BitField ''write_backward'' 8 1,
     BitField ''namespaces'' 8 1,
     BitField ''ksymbol'' 8 1,
     BitField ''bpf_event'' 8 1,
     BitField ''aux_output'' 8 1,
     BitField ''cgroup'' 8 1,
     BitField ''text_poke'' 8 1,
     BitField ''build_id'' 8 1,
     BitField ''inherit_thread'' 8 1,
     BitField ''remove_on_exec'' 8 1,
     BitField ''sigtrap'' 8 1,
     BitField ''defer_callchain'' 8 1,
     BitField ''defer_output'' 8 1,
     BitField ''__reserved_1'' 8 24,
     Anon (CUnion False [
       Field ''wakeup_events'' type___u32,
       Field ''wakeup_watermark'' type___u32]),
     Field ''bp_type'' type___u32,
     Anon (CUnion False [
       Field ''bp_addr'' type___u64,
       Field ''kprobe_func'' type___u64,
       Field ''uprobe_path'' type___u64,
       Field ''config1'' type___u64]),
     Anon (CUnion False [
       Field ''bp_len'' type___u64,
       Field ''kprobe_addr'' type___u64,
       Field ''probe_offset'' type___u64,
       Field ''config2'' type___u64]),
     Field ''branch_sample_type'' type___u64,
     Field ''sample_regs_user'' type___u64,
     Field ''sample_stack_user'' type___u32,
     Field ''clockid'' type___s32,
     Field ''sample_regs_intr'' type___u64,
     Field ''aux_watermark'' type___u32,
     Field ''sample_max_stack'' type___u16,
     Field ''__reserved_2'' type___u16,
     Field ''aux_sample_size'' type___u32,
     Anon (CUnion False [
       Field ''aux_action'' type___u32,
       Anon (CStruct False [
         BitField ''aux_start_paused'' 4 1,
         BitField ''aux_pause'' 4 1,
         BitField ''aux_resume'' 4 1,
         BitField ''__reserved_3'' 4 29])]),
     Field ''sig_data'' type___u64,
     Field ''config3'' type___u64,
     Field ''config4'' type___u64]"

definition type_perf_overflow_handler_t :: ctype where [typedef_defs]:
  "type_perf_overflow_handler_t = CPtr ''function''"

definition struct_perf_event :: ctype where
  "struct_perf_event = CStruct False [
     Field ''event_entry'' struct_list_head,
     Field ''sibling_list'' struct_list_head,
     Field ''active_list'' struct_list_head,
     Field ''group_node'' struct_rb_node,
     Field ''group_index'' type_u64,
     Field ''migrate_entry'' struct_list_head,
     Field ''hlist_entry'' struct_hlist_node,
     Field ''active_entry'' struct_list_head,
     Field ''nr_siblings'' c_int,
     Field ''event_caps'' c_int,
     Field ''group_caps'' c_int,
     Field ''group_generation'' c_int,
     Field ''group_leader'' (CPtr ''struct perf_event''),
     Field ''pmu'' (CPtr ''struct pmu''),
     Field ''pmu_private'' (CPtr ''void''),
     Field ''state'' c_enum,
     Field ''attach_state'' c_int,
     Field ''count'' type_local64_t,
     Field ''child_count'' type_atomic64_t,
     Field ''total_time_enabled'' type_u64,
     Field ''total_time_running'' type_u64,
     Field ''tstamp'' type_u64,
     Field ''attr'' struct_perf_event_attr,
     Field ''header_size'' type_u16,
     Field ''id_header_size'' type_u16,
     Field ''read_size'' type_u16,
     Field ''hw'' struct_hw_perf_event,
     Field ''ctx'' (CPtr ''struct perf_event_context''),
     Field ''pmu_ctx'' (CPtr ''struct perf_event_pmu_context''),
     Field ''refcount'' type_atomic_long_t,
     Field ''child_total_time_enabled'' type_atomic64_t,
     Field ''child_total_time_running'' type_atomic64_t,
     Field ''child_mutex'' struct_mutex,
     Field ''child_list'' struct_list_head,
     Field ''parent'' (CPtr ''struct perf_event''),
     Field ''oncpu'' c_int,
     Field ''cpu'' c_int,
     Field ''owner_entry'' struct_list_head,
     Field ''owner'' (CPtr ''struct task_struct''),
     Field ''mmap_mutex'' struct_mutex,
     Field ''mmap_count'' type_refcount_t,
     Field ''rb'' (CPtr ''struct perf_buffer''),
     Field ''rb_entry'' struct_list_head,
     Field ''rcu_batches'' c_long,
     Field ''rcu_pending'' c_int,
     Field ''waitq'' type_wait_queue_head_t,
     Field ''fasync'' (CPtr ''struct fasync_struct''),
     Field ''pending_wakeup'' c_int,
     Field ''pending_kill'' c_int,
     Field ''pending_disable'' c_int,
     Field ''pending_addr'' c_long,
     Field ''pending_irq'' struct_irq_work,
     Field ''pending_disable_irq'' struct_irq_work,
     Field ''pending_task'' struct_callback_head,
     Field ''pending_work'' c_int,
     Field ''event_limit'' type_atomic_t,
     Field ''addr_filters'' struct_perf_addr_filters_head,
     Field ''addr_filter_ranges'' (CPtr ''struct perf_addr_filter_range''),
     Field ''addr_filters_gen'' c_long,
     Field ''aux_event'' (CPtr ''struct perf_event''),
     Field ''destroy'' (CPtr ''function''),
     Field ''callback_head'' struct_callback_head,
     Field ''ns'' (CPtr ''struct pid_namespace''),
     Field ''id'' type_u64,
     Field ''lost_samples'' type_atomic64_t,
     Field ''clock'' (CPtr ''function''),
     Field ''overflow_handler'' type_perf_overflow_handler_t,
     Field ''overflow_handler_context'' (CPtr ''void''),
     Field ''prog'' (CPtr ''struct bpf_prog''),
     Field ''bpf_cookie'' type_u64,
     Field ''tp_event'' (CPtr ''struct trace_event_call''),
     Field ''filter'' (CPtr ''struct event_filter''),
     Field ''ftrace_ops'' struct_ftrace_ops,
     Field ''security'' (CPtr ''void''),
     Field ''sb_list'' struct_list_head,
     Field ''pmu_list'' struct_list_head,
     Field ''orig_type'' type_u32]"

section \<open>Sizes and alignments\<close>

lemma layout_struct_pin_cookie [layout_eval]: "layout struct_pin_cookie = (0, 1)"
  by (simp add: struct_pin_cookie_def layout_eval typedef_defs scan_simps cong: scan_congs)

lemma layout_struct_rq_flags [layout_eval]: "layout struct_rq_flags = (16, 8)"
  by (simp add: struct_rq_flags_def layout_eval typedef_defs scan_simps cong: scan_congs)

lemma layout_struct_fred_cs [layout_eval]: "layout struct_fred_cs = (8, 8)"
  by (simp add: struct_fred_cs_def layout_eval typedef_defs scan_simps cong: scan_congs)

lemma layout_struct_fred_ss [layout_eval]: "layout struct_fred_ss = (8, 8)"
  by (simp add: struct_fred_ss_def layout_eval typedef_defs scan_simps cong: scan_congs)

lemma layout_struct_pt_regs [layout_eval]: "layout struct_pt_regs = (168, 8)"
  by (simp add: struct_pt_regs_def layout_eval typedef_defs scan_simps cong: scan_congs)

lemma layout_struct_arch_hw_breakpoint [layout_eval]: "layout struct_arch_hw_breakpoint = (24, 8)"
  by (simp add: struct_arch_hw_breakpoint_def layout_eval typedef_defs scan_simps cong: scan_congs)

lemma layout_struct_rcuwait [layout_eval]: "layout struct_rcuwait = (8, 8)"
  by (simp add: struct_rcuwait_def layout_eval typedef_defs scan_simps cong: scan_congs)

lemma layout_struct_irq_work [layout_eval]: "layout struct_irq_work = (32, 8)"
  by (simp add: struct_irq_work_def layout_eval typedef_defs scan_simps cong: scan_congs)

lemma layout_struct_rhash_head [layout_eval]: "layout struct_rhash_head = (8, 8)"
  by (simp add: struct_rhash_head_def layout_eval typedef_defs scan_simps cong: scan_congs)

lemma layout_union_perf_sample_weight [layout_eval]: "layout union_perf_sample_weight = (8, 8)"
  by (simp add: union_perf_sample_weight_def layout_eval typedef_defs scan_simps cong: scan_congs)

lemma layout_union_perf_mem_data_src [layout_eval]: "layout union_perf_mem_data_src = (8, 8)"
  by (simp add: union_perf_mem_data_src_def layout_eval typedef_defs scan_simps cong: scan_congs)

lemma layout_struct_perf_regs [layout_eval]: "layout struct_perf_regs = (16, 8)"
  by (simp add: struct_perf_regs_def layout_eval typedef_defs scan_simps cong: scan_congs)

lemma layout_struct_perf_sample_data [layout_eval]: "layout struct_perf_sample_data = (256, 8)"
  by (simp add: struct_perf_sample_data_def layout_eval typedef_defs scan_simps cong: scan_congs)

lemma layout_struct_cred [layout_eval]: "layout struct_cred = (144, 8)"
  by (simp add: struct_cred_def layout_eval typedef_defs scan_simps cong: scan_congs)

lemma layout_struct_ftrace_ops_hash [layout_eval]: "layout struct_ftrace_ops_hash = (40, 8)"
  by (simp add: struct_ftrace_ops_hash_def layout_eval typedef_defs scan_simps cong: scan_congs)

lemma layout_struct_ftrace_ops [layout_eval]: "layout struct_ftrace_ops = (200, 8)"
  by (simp add: struct_ftrace_ops_def layout_eval typedef_defs scan_simps cong: scan_congs)

lemma layout_struct_rhlist_head [layout_eval]: "layout struct_rhlist_head = (16, 8)"
  by (simp add: struct_rhlist_head_def layout_eval typedef_defs scan_simps cong: scan_congs)

lemma layout_struct_ftrace_regs [layout_eval]: "layout struct_ftrace_regs = (0, 1)"
  by (simp add: struct_ftrace_regs_def layout_eval typedef_defs scan_simps cong: scan_congs)

lemma layout_struct_hw_perf_event_extra [layout_eval]: "layout struct_hw_perf_event_extra = (24, 8)"
  by (simp add: struct_hw_perf_event_extra_def layout_eval typedef_defs scan_simps cong: scan_congs)

lemma layout_struct_hw_perf_event [layout_eval]: "layout struct_hw_perf_event = (208, 8)"
  by (simp add: struct_hw_perf_event_def layout_eval typedef_defs scan_simps cong: scan_congs)

lemma layout_struct_perf_addr_filters_head [layout_eval]: "layout struct_perf_addr_filters_head = (24, 8)"
  by (simp add: struct_perf_addr_filters_head_def layout_eval typedef_defs scan_simps cong: scan_congs)

lemma layout_struct_perf_event_attr [layout_eval]: "layout struct_perf_event_attr = (144, 8)"
  by (simp add: struct_perf_event_attr_def layout_eval typedef_defs scan_simps cong: scan_congs)

lemma layout_struct_perf_event [layout_eval]: "layout struct_perf_event = (1304, 8)"
  by (simp add: struct_perf_event_def layout_eval typedef_defs scan_simps cong: scan_congs)

end
