(* ===== verification/Kernel_Access.thy ===== *)
theory Kernel_Access
  imports Vmlinux_Fs Vmlinux_Net Vmlinux_Perf Vmlinux_Enums Bpf_Runtime
begin

text \<open>
  The field accesses of the LSM programs on kernel structs. \<open>BPF_CORE_READ(p, a, b.c)\<close> reads the
  pointer member \<open>a\<close> of \<open>*p\<close>, then the member \<open>b.c\<close> of what it points to; each link of the
  chain is one read at a relocated offset. \<open>core_walk\<close> follows such a chain through the
  declarations of \<open>bpf/vmlinux.h\<close>, pointer by pointer, and gives the offsets of the reads and
  the width of the last one; \<open>vmlinux_offset\<close> is the relocation for a kernel whose types are the
  header's own.
\<close>

section \<open>Accessor chains\<close>

definition kernel_struct :: "string \<Rightarrow> ctype option" where
  "kernel_struct = map_of [
     (''struct linux_binprm'', struct_linux_binprm),
     (''struct file'', struct_file),
     (''struct dentry'', struct_dentry),
     (''struct sockaddr'', struct_sockaddr),
     (''struct socket'', struct_socket),
     (''struct sock'', struct_sock),
     (''struct task_struct'', struct_task_struct)]"

fun core_walk :: "string \<Rightarrow> string list list \<Rightarrow> (nat list \<times> nat \<times> ctype) option" where
  "core_walk root [] = None"
| "core_walk root (link # links) =
     (case kernel_struct root of
        None \<Rightarrow> None
      | Some t \<Rightarrow>
          (case access t link of
             None \<Rightarrow> None
           | Some (b, w, u) \<Rightarrow>
               (if links = [] then Some ([b div 8], w, u)
                else case u of
                       CPtr target \<Rightarrow>
                         (case core_walk target links of
                            None \<Rightarrow> None
                          | Some (offs, w', u') \<Rightarrow> Some (b div 8 # offs, w', u'))
                     | _ \<Rightarrow> None)))"

definition vmlinux_offset :: "string \<Rightarrow> string list \<Rightarrow> nat" where
  "vmlinux_offset root link =
     (case kernel_struct root of
        None \<Rightarrow> 0
      | Some t \<Rightarrow> (case access t link of None \<Rightarrow> 0 | Some (b, w, u) \<Rightarrow> b div 8))"

text \<open>The last read of a chain lies inside a struct of the table, whatever the chain.\<close>

lemma core_walk_inside:
  "core_walk root links = Some (offs, w, u) \<Longrightarrow>
   length offs = length links \<and>
   (\<exists>name t. kernel_struct name = Some t \<and> 8 * last offs + w \<le> 8 * size_of t)"
proof (induction root links arbitrary: offs rule: core_walk.induct)
  case (1 root)
  then show ?case by simp
next
  case (2 root link links)
  obtain t b v x where t: "kernel_struct root = Some t" and a: "access t link = Some (b, v, x)"
    using "2.prems" by (auto split: option.splits)
  show ?case
  proof (cases "links = []")
    case True
    have "8 * (b div 8) + v \<le> b + v" by simp
    also have "\<dots> \<le> 8 * size_of t" by (rule access_inside [OF a])
    finally show ?thesis using "2.prems" True t a by fastforce
  next
    case False
    then obtain target offs' where x: "x = CPtr target"
      and walk: "core_walk target links = Some (offs', w, u)" and offs: "offs = b div 8 # offs'"
      using "2.prems" t a by (auto split: ctype.splits option.splits)
    have "length offs' = length links \<and>
          (\<exists>name t. kernel_struct name = Some t \<and> 8 * last offs' + w \<le> 8 * size_of t)"
      using "2.IH" t a False x walk by blast
    moreover have "offs' \<noteq> []" using calculation False by auto
    ultimately show ?thesis using offs by simp
  qed
qed

section \<open>The accesses of the programs\<close>

lemmas access_eval = typedef_defs layout_eval scan_simps size_of_def

lemma access_binprm_filename:
  "access struct_linux_binprm [''filename''] = Some (768, 64, CPtr ''char'')"
  by (simp add: struct_linux_binprm_def access_eval cong: scan_congs)

lemma access_file_dentry:
  "access struct_file [''f_path'', ''dentry''] = Some (576, 64, CPtr ''struct dentry'')"
  by (simp add: struct_file_def struct_path_def access_eval cong: scan_congs)

lemma access_dentry_name:
  "access struct_dentry [''d_name'', ''name''] = Some (320, 64, CPtr ''unsigned char'')"
  by (simp add: struct_dentry_def struct_qstr_def access_eval cong: scan_congs)

lemma access_sockaddr_family:
  "access struct_sockaddr [''sa_family''] = Some (0, 16, c_short)"
  by (simp add: struct_sockaddr_def access_eval cong: scan_congs)

lemma access_socket_sk:
  "access struct_socket [''sk''] = Some (192, 64, CPtr ''struct sock'')"
  by (simp add: struct_socket_def access_eval cong: scan_congs)

lemma access_sock_num:
  "access struct_sock [''__sk_common'', ''skc_num''] = Some (112, 16, c_short)"
  by (simp add: struct_sock_def struct_sock_common_def access_eval cong: scan_congs)

lemma access_task_comm:
  "access struct_task_struct [''comm''] = Some (10816, 128, CArr c_char 16)"
  by (simp add: struct_task_struct_def task_struct_members_to_cred_def
      task_struct_members_from_comm_def access_eval cong: scan_congs)

lemmas program_accesses =
  access_binprm_filename access_file_dentry access_dentry_name access_sockaddr_family
  access_socket_sk access_sock_num access_task_comm

lemma vmlinux_offsets:
  "vmlinux_offset ''struct linux_binprm'' [''filename''] = 96"
  "vmlinux_offset ''struct file'' [''f_path'', ''dentry''] = 72"
  "vmlinux_offset ''struct dentry'' [''d_name'', ''name''] = 40"
  "vmlinux_offset ''struct sockaddr'' [''sa_family''] = 0"
  "vmlinux_offset ''struct socket'' [''sk''] = 24"
  "vmlinux_offset ''struct sock'' [''__sk_common'', ''skc_num''] = 14"
  "vmlinux_offset ''struct task_struct'' [''comm''] = 1352"
  by (simp_all add: vmlinux_offset_def kernel_struct_def program_accesses del: access.simps)

end
