(* ===== verification/Lsm_Hooks.thy ===== *)
theory Lsm_Hooks
  imports Lsm_Contract Kernel_Access
begin

text \<open>
  The seven LSM programs of \<open>bpf/lsm_*.bpf.c\<close>, each with its whole body, and the proof that each
  of them follows the contract of \<open>lsm_hook\<close>. A program takes the addresses its hook passes and
  returns its code with the new contents of the maps. A hook call is a value of \<open>hook_call\<close>, and
  \<open>run_hook\<close> runs the program attached to it.
\<close>

section \<open>Reading kernel memory\<close>

text \<open>One link of \<open>BPF_CORE_READ\<close>: \<open>n\<close> bytes at the relocated offset of a member.\<close>

definition core_read :: "helpers \<Rightarrow> nat \<Rightarrow> string \<Rightarrow> string list \<Rightarrow> addr \<Rightarrow> bytes" where
  "core_read h n struct_name member p =
     snd (bpf_probe_read_kernel h (stack_bytes h n)
            (p + of_nat (core_offset h struct_name member)))"

definition core_read_ptr :: "helpers \<Rightarrow> string \<Rightarrow> string list \<Rightarrow> addr \<Rightarrow> addr" where
  "core_read_ptr h struct_name member p = le_word (core_read h 8 struct_name member p)"

text \<open>The socket addresses that \<open>lsm_connect\<close> and \<open>lsm_bind\<close> declare locally.\<close>

definition struct_sockaddr_in :: ctype where
  "struct_sockaddr_in = CStruct False [
     Field ''sin_family'' type___u16,
     Field ''sin_port'' type___u16,
     Field ''sin_addr'' type___u32]"

definition struct_sockaddr_in6 :: ctype where
  "struct_sockaddr_in6 = CStruct False [
     Field ''sin6_family'' type___u16,
     Field ''sin6_port'' type___u16,
     Field ''sin6_flowinfo'' type___u32,
     Field ''sin6_addr'' (CArr type___u8 16)]"

lemma sockaddr_offsets [offset_simps]:
  "size_of struct_sockaddr_in = 8"
  "offset_of struct_sockaddr_in ''sin_port'' = 2"
  "offset_of struct_sockaddr_in ''sin_addr'' = 4"
  "size_of struct_sockaddr_in6 = 24"
  "offset_of struct_sockaddr_in6 ''sin6_port'' = 2"
  "offset_of struct_sockaddr_in6 ''sin6_addr'' = 8"
  by (simp_all add: size_of_def offset_of_def struct_sockaddr_in_def struct_sockaddr_in6_def
      typedef_defs scan_simps cong: scan_congs)

section \<open>Endpoint hashes\<close>

text \<open>\<open>lsm_connect\<close> and \<open>lsm_bind\<close> each have their own copy of the two endpoint hashes.\<close>

definition hash_ipv4_endpoint :: "u32 \<Rightarrow> u16 \<Rightarrow> u32" where
  "hash_ipv4_endpoint addr port =
     (let hash = FNV_OFFSET;
          hash = fnv_mix hash (addr AND 255);
          hash = fnv_mix hash (drop_bit 8 addr AND 255);
          hash = fnv_mix hash (drop_bit 16 addr AND 255);
          hash = fnv_mix hash (drop_bit 24 addr AND 255);
          hash = fnv_mix hash (ucast port AND 255);
          hash = fnv_mix hash (drop_bit 8 (ucast port) AND 255)
      in hash)"

definition hash_ipv6_endpoint :: "bytes \<Rightarrow> u16 \<Rightarrow> u32" where
  "hash_ipv6_endpoint addr port =
     (let hash = foldl (\<lambda>hash i. fnv_mix hash (ucast (addr ! i))) FNV_OFFSET [0..<16];
          hash = fnv_mix hash (ucast port AND 255);
          hash = fnv_mix hash (drop_bit 8 (ucast port) AND 255)
      in hash)"

definition bind_hash_ipv4_endpoint :: "u32 \<Rightarrow> u16 \<Rightarrow> u32" where
  "bind_hash_ipv4_endpoint addr port =
     (let hash = FNV_OFFSET;
          hash = fnv_mix hash (addr AND 255);
          hash = fnv_mix hash (drop_bit 8 addr AND 255);
          hash = fnv_mix hash (drop_bit 16 addr AND 255);
          hash = fnv_mix hash (drop_bit 24 addr AND 255);
          hash = fnv_mix hash (ucast port AND 255);
          hash = fnv_mix hash (drop_bit 8 (ucast port) AND 255)
      in hash)"

definition bind_hash_ipv6_endpoint :: "bytes \<Rightarrow> u16 \<Rightarrow> u32" where
  "bind_hash_ipv6_endpoint addr port =
     (let hash = foldl (\<lambda>hash i. fnv_mix hash (ucast (addr ! i))) FNV_OFFSET [0..<16];
          hash = fnv_mix hash (ucast port AND 255);
          hash = fnv_mix hash (drop_bit 8 (ucast port) AND 255)
      in hash)"

definition hash_port :: "u16 \<Rightarrow> u32" where
  "hash_port port =
     (let hash = FNV_OFFSET;
          hash = fnv_mix hash (ucast port AND 255);
          hash = fnv_mix hash (drop_bit 8 (ucast port) AND 255)
      in hash)"

section \<open>The programs\<close>

definition lsm_exec_check :: "helpers \<Rightarrow> lsm_state \<Rightarrow> addr \<Rightarrow> int \<Rightarrow> int \<times> lsm_state" where
  "lsm_exec_check h st bprm ret =
     (if ret \<noteq> 0 then (ret, st) else
      let cgid = bpf_get_current_cgroup_id h in
      if should_skip_cgroup st cgid then (0, st) else
      let filename = core_read_ptr h ''struct linux_binprm'' [''filename''] bprm;
          (len, fname_buf) = bpf_probe_read_kernel_str h (stack_bytes h 64) (Kmem filename)
      in
      if len \<le> 0 then (0, st) else
      let hash = fnv1a_hash fname_buf len in
      let key = \<lparr> cgroup_id = cgid, rule_hash = hash, event_type = EVENT_TYPE_EXEC, key_pad = [0, 0, 0] \<rparr>;
          val = bpf_map_lookup_elem (policy_map st) key;
          (key, val) =
            (case val of
               None \<Rightarrow>
                 (let key = key\<lparr>cgroup_id := 0\<rparr> in (key, bpf_map_lookup_elem (policy_map st) key))
             | Some _ \<Rightarrow> (key, val))
      in (case val of
            Some val \<Rightarrow>
              (let st = incr_hit_count st key in
               if action val = ACTION_DENY
               then (let st = emit_lsm_event h st EVENT_TYPE_EXEC 1 (Some fname_buf) len cgid 0 0 None
                     in if is_enforce_enabled st then (- 1, st) else (0, st))
               else if audit val \<noteq> 0
               then (0, emit_lsm_event h st EVENT_TYPE_EXEC 0 (Some fname_buf) len cgid 0 0 None)
               else (0, st))
          | None \<Rightarrow>
              (0, emit_lsm_event h st EVENT_TYPE_EXEC 0 (Some fname_buf) len cgid 0 0 None)))"

definition lsm_file_check :: "helpers \<Rightarrow> lsm_state \<Rightarrow> addr \<Rightarrow> int \<times> lsm_state" where
  "lsm_file_check h st file =
     (let cgid = bpf_get_current_cgroup_id h in
      if should_skip_cgroup st cgid then (0, st) else
      let dentry = core_read_ptr h ''struct file'' [''f_path'', ''dentry''] file in
      if dentry = 0 then (0, st) else
      let name = core_read_ptr h ''struct dentry'' [''d_name'', ''name''] dentry in
      if name = 0 then (0, st) else
      let (len, fname_buf) = bpf_probe_read_kernel_str h (stack_bytes h 64) (Kmem name) in
      if len \<le> 0 then (0, st) else
      let hash = fnv1a_hash fname_buf len in
      let key = \<lparr> cgroup_id = cgid, rule_hash = hash, event_type = EVENT_TYPE_FILE, key_pad = [0, 0, 0] \<rparr>;
          val = bpf_map_lookup_elem (policy_map st) key;
          (key, val) =
            (case val of
               None \<Rightarrow>
                 (let key = key\<lparr>cgroup_id := 0\<rparr> in (key, bpf_map_lookup_elem (policy_map st) key))
             | Some _ \<Rightarrow> (key, val))
      in (case val of
            Some val \<Rightarrow>
              (let st = incr_hit_count st key in
               if action val = ACTION_DENY
               then (let st = emit_lsm_event h st EVENT_TYPE_FILE 1 (Some fname_buf) len cgid 0 0 None
                     in if is_enforce_enabled st then (- 1, st) else (0, st))
               else if audit val \<noteq> 0
               then (0, emit_lsm_event h st EVENT_TYPE_FILE 0 (Some fname_buf) len cgid 0 0 None)
               else (0, st))
          | None \<Rightarrow>
              (0, emit_lsm_event h st EVENT_TYPE_FILE 0 (Some fname_buf) len cgid 0 0 None)))"

definition lsm_connect_check :: "helpers \<Rightarrow> lsm_state \<Rightarrow> addr \<Rightarrow> addr \<Rightarrow> int \<Rightarrow> int \<times> lsm_state" where
  "lsm_connect_check h st sock address addrlen =
     (let cgid = bpf_get_current_cgroup_id h in
      if should_skip_cgroup st cgid then (0, st) else
      let family = (le_word (snd (bpf_probe_read_kernel h [0, 0]
                      (address + of_nat (core_offset h ''struct sockaddr'' [''sa_family''])))) :: u16);
          addr_v4 = 0;
          addr_v6 = replicate 16 0;
          endpoint =
            (if family = 2 then
               let sin = snd (bpf_probe_read_kernel h
                                (stack_bytes h (size_of struct_sockaddr_in)) address);
                   port = le_word (load (offset_of struct_sockaddr_in ''sin_port'') 2 sin);
                   addr_v4 = le_word (load (offset_of struct_sockaddr_in ''sin_addr'') 4 sin)
               in Some (hash_ipv4_endpoint addr_v4 port, port, addr_v4, addr_v6)
             else if family = 10 then
               let sin6 = snd (bpf_probe_read_kernel h
                                 (stack_bytes h (size_of struct_sockaddr_in6)) address);
                   port = le_word (load (offset_of struct_sockaddr_in6 ''sin6_port'') 2 sin6);
                   addr_v6 = load (offset_of struct_sockaddr_in6 ''sin6_addr'') 16 sin6
               in Some (hash_ipv6_endpoint addr_v6 port, port, addr_v4, addr_v6)
             else None)
      in case endpoint of
           None \<Rightarrow> (0, st)
         | Some (hash, port, addr_v4, addr_v6) \<Rightarrow>
          (let key = \<lparr> cgroup_id = cgid, rule_hash = hash, event_type = EVENT_TYPE_NETWORK, key_pad = [0, 0, 0] \<rparr>;
               val = bpf_map_lookup_elem (policy_map st) key;
               (key, val) =
                 (case val of
                    None \<Rightarrow>
                      (let key = key\<lparr>cgroup_id := 0\<rparr> in (key, bpf_map_lookup_elem (policy_map st) key))
                  | Some _ \<Rightarrow> (key, val))
           in (case val of
                 Some val \<Rightarrow>
                   (let st = incr_hit_count st key in
                    if action val = ACTION_DENY
                    then (let st = emit_lsm_event h st EVENT_TYPE_NETWORK 1 None 0 cgid port addr_v4 (Some addr_v6)
                          in if is_enforce_enabled st then (- 1, st) else (0, st))
                    else if audit val \<noteq> 0
                    then (0, emit_lsm_event h st EVENT_TYPE_NETWORK 0 None 0 cgid port addr_v4 (Some addr_v6))
                    else (0, st))
               | None \<Rightarrow>
                   (0, emit_lsm_event h st EVENT_TYPE_NETWORK 0 None 0 cgid port addr_v4 (Some addr_v6)))))"

definition lsm_bind_check :: "helpers \<Rightarrow> lsm_state \<Rightarrow> addr \<Rightarrow> addr \<Rightarrow> int \<Rightarrow> int \<times> lsm_state" where
  "lsm_bind_check h st sock address addrlen =
     (let cgid = bpf_get_current_cgroup_id h in
      if should_skip_cgroup st cgid then (0, st) else
      let family = (le_word (snd (bpf_probe_read_kernel h [0, 0]
                      (address + of_nat (core_offset h ''struct sockaddr'' [''sa_family''])))) :: u16);
          addr_v4 = 0;
          addr_v6 = replicate 16 0;
          endpoint =
            (if family = 2 then
               let sin = snd (bpf_probe_read_kernel h
                                (stack_bytes h (size_of struct_sockaddr_in)) address);
                   port = le_word (load (offset_of struct_sockaddr_in ''sin_port'') 2 sin);
                   addr_v4 = le_word (load (offset_of struct_sockaddr_in ''sin_addr'') 4 sin)
               in Some (bind_hash_ipv4_endpoint addr_v4 port, port, addr_v4, addr_v6)
             else if family = 10 then
               let sin6 = snd (bpf_probe_read_kernel h
                                 (stack_bytes h (size_of struct_sockaddr_in6)) address);
                   port = le_word (load (offset_of struct_sockaddr_in6 ''sin6_port'') 2 sin6);
                   addr_v6 = load (offset_of struct_sockaddr_in6 ''sin6_addr'') 16 sin6
               in Some (bind_hash_ipv6_endpoint addr_v6 port, port, addr_v4, addr_v6)
             else None)
      in case endpoint of
           None \<Rightarrow> (0, st)
         | Some (hash, port, addr_v4, addr_v6) \<Rightarrow>
          (let key = \<lparr> cgroup_id = cgid, rule_hash = hash, event_type = EVENT_TYPE_BIND, key_pad = [0, 0, 0] \<rparr>;
               val = bpf_map_lookup_elem (policy_map st) key;
               (key, val) =
                 (case val of
                    None \<Rightarrow>
                      (let key = key\<lparr>cgroup_id := 0\<rparr> in (key, bpf_map_lookup_elem (policy_map st) key))
                  | Some _ \<Rightarrow> (key, val))
           in (case val of
                 Some val \<Rightarrow>
                   (let st = incr_hit_count st key in
                    if action val = ACTION_DENY
                    then (let st = emit_lsm_event h st EVENT_TYPE_BIND 1 None 0 cgid port addr_v4 (Some addr_v6)
                          in if is_enforce_enabled st then (- 1, st) else (0, st))
                    else if audit val \<noteq> 0
                    then (0, emit_lsm_event h st EVENT_TYPE_BIND 0 None 0 cgid port addr_v4 (Some addr_v6))
                    else (0, st))
               | None \<Rightarrow>
                   (0, emit_lsm_event h st EVENT_TYPE_BIND 0 None 0 cgid port addr_v4 (Some addr_v6)))))"

definition lsm_listen_check :: "helpers \<Rightarrow> lsm_state \<Rightarrow> addr \<Rightarrow> int \<Rightarrow> int \<times> lsm_state" where
  "lsm_listen_check h st sock backlog =
     (let cgid = bpf_get_current_cgroup_id h in
      if should_skip_cgroup st cgid then (0, st) else
      let sk = core_read_ptr h ''struct socket'' [''sk''] sock;
          port = (le_word (core_read h 2 ''struct sock'' [''__sk_common'', ''skc_num''] sk) :: u16)
      in
      if port = 0 then (0, st) else
      let hash = hash_port port in
      let key = \<lparr> cgroup_id = cgid, rule_hash = hash, event_type = EVENT_TYPE_LISTEN, key_pad = [0, 0, 0] \<rparr>;
          val = bpf_map_lookup_elem (policy_map st) key;
          (key, val) =
            (case val of
               None \<Rightarrow>
                 (let key = key\<lparr>cgroup_id := 0\<rparr> in (key, bpf_map_lookup_elem (policy_map st) key))
             | Some _ \<Rightarrow> (key, val))
      in (case val of
            Some val \<Rightarrow>
              (let st = incr_hit_count st key in
               if action val = ACTION_DENY
               then (let st = emit_lsm_event h st EVENT_TYPE_LISTEN 1 None 0 cgid port 0 None
                     in if is_enforce_enabled st then (- 1, st) else (0, st))
               else if audit val \<noteq> 0
               then (0, emit_lsm_event h st EVENT_TYPE_LISTEN 0 None 0 cgid port 0 None)
               else (0, st))
          | None \<Rightarrow>
              (0, emit_lsm_event h st EVENT_TYPE_LISTEN 0 None 0 cgid port 0 None)))"

text \<open>\<open>BPF_CORE_READ_STR_INTO\<close> is a string read at the relocated offset of \<open>comm\<close>.\<close>

definition lsm_ptrace_check :: "helpers \<Rightarrow> lsm_state \<Rightarrow> addr \<Rightarrow> u32 \<Rightarrow> int \<times> lsm_state" where
  "lsm_ptrace_check h st child mode =
     (let cgid = bpf_get_current_cgroup_id h in
      if should_skip_cgroup st cgid then (0, st) else
      let comm_buf = snd (bpf_probe_read_kernel_str h (stack_bytes h 16)
                       (Kmem (child + of_nat (core_offset h ''struct task_struct'' [''comm'']))));
          hash = fnv1a_hash comm_buf 16
      in
      let key = \<lparr> cgroup_id = cgid, rule_hash = hash, event_type = EVENT_TYPE_PTRACE, key_pad = [0, 0, 0] \<rparr>;
          val = bpf_map_lookup_elem (policy_map st) key;
          (key, val) =
            (case val of
               None \<Rightarrow>
                 (let key = key\<lparr>cgroup_id := 0\<rparr> in (key, bpf_map_lookup_elem (policy_map st) key))
             | Some _ \<Rightarrow> (key, val))
      in (case val of
            Some val \<Rightarrow>
              (let st = incr_hit_count st key in
               if action val = ACTION_DENY
               then (let st = emit_lsm_event h st EVENT_TYPE_PTRACE 1 (Some comm_buf) 16 cgid 0 0 None
                     in if is_enforce_enabled st then (- 1, st) else (0, st))
               else if audit val \<noteq> 0
               then (0, emit_lsm_event h st EVENT_TYPE_PTRACE 0 (Some comm_buf) 16 cgid 0 0 None)
               else (0, st))
          | None \<Rightarrow>
              (0, emit_lsm_event h st EVENT_TYPE_PTRACE 0 (Some comm_buf) 16 cgid 0 0 None)))"

definition lsm_mount_check ::
  "helpers \<Rightarrow> lsm_state \<Rightarrow> addr \<Rightarrow> addr \<Rightarrow> addr \<Rightarrow> u64 \<Rightarrow> addr \<Rightarrow> int \<times> lsm_state" where
  "lsm_mount_check h st dev_name path type flags data =
     (let cgid = bpf_get_current_cgroup_id h in
      if should_skip_cgroup st cgid then (0, st) else
      if type = 0 then (0, st) else
      let (len, type_buf) = bpf_probe_read_kernel_str h (stack_bytes h 64) (Kmem type) in
      if len \<le> 0 then (0, st) else
      let hash = fnv1a_hash type_buf len in
      let key = \<lparr> cgroup_id = cgid, rule_hash = hash, event_type = EVENT_TYPE_MOUNT, key_pad = [0, 0, 0] \<rparr>;
          val = bpf_map_lookup_elem (policy_map st) key;
          (key, val) =
            (case val of
               None \<Rightarrow>
                 (let key = key\<lparr>cgroup_id := 0\<rparr> in (key, bpf_map_lookup_elem (policy_map st) key))
             | Some _ \<Rightarrow> (key, val))
      in (case val of
            Some val \<Rightarrow>
              (let st = incr_hit_count st key in
               if action val = ACTION_DENY
               then (let st = emit_lsm_event h st EVENT_TYPE_MOUNT 1 (Some type_buf) len cgid 0 0 None
                     in if is_enforce_enabled st then (- 1, st) else (0, st))
               else if audit val \<noteq> 0
               then (0, emit_lsm_event h st EVENT_TYPE_MOUNT 0 (Some type_buf) len cgid 0 0 None)
               else (0, st))
          | None \<Rightarrow>
              (0, emit_lsm_event h st EVENT_TYPE_MOUNT 0 (Some type_buf) len cgid 0 0 None)))"

section \<open>The request of each program\<close>

definition name_request :: "u8 \<Rightarrow> int \<times> bytes \<Rightarrow> request option" where
  "name_request etype r =
     (if fst r \<le> 0 then None
      else Some \<lparr> rq_type = etype, rq_hash = fnv1a_hash (snd r) (fst r), rq_name = Some (snd r),
                  rq_len = fst r, rq_port = 0, rq_v4 = 0, rq_v6 = None \<rparr>)"

definition exec_request :: "helpers \<Rightarrow> addr \<Rightarrow> request option" where
  "exec_request h bprm =
     name_request EVENT_TYPE_EXEC (bpf_probe_read_kernel_str h (stack_bytes h 64)
       (Kmem (core_read_ptr h ''struct linux_binprm'' [''filename''] bprm)))"

definition file_request :: "helpers \<Rightarrow> addr \<Rightarrow> request option" where
  "file_request h file =
     (let dentry = core_read_ptr h ''struct file'' [''f_path'', ''dentry''] file;
          name = core_read_ptr h ''struct dentry'' [''d_name'', ''name''] dentry
      in if dentry = 0 \<or> name = 0 then None
         else name_request EVENT_TYPE_FILE
                (bpf_probe_read_kernel_str h (stack_bytes h 64) (Kmem name)))"

definition sockaddr_request ::
  "u8 \<Rightarrow> (u32 \<Rightarrow> u16 \<Rightarrow> u32) \<Rightarrow> (bytes \<Rightarrow> u16 \<Rightarrow> u32) \<Rightarrow> helpers \<Rightarrow> addr \<Rightarrow> request option" where
  "sockaddr_request etype hash4 hash6 h address =
     (let family = (le_word (snd (bpf_probe_read_kernel h [0, 0]
                      (address + of_nat (core_offset h ''struct sockaddr'' [''sa_family''])))) :: u16);
          sin = snd (bpf_probe_read_kernel h (stack_bytes h 8) address);
          sin6 = snd (bpf_probe_read_kernel h (stack_bytes h 24) address)
      in if family = 2 then
           let port = le_word (load 2 2 sin); addr = le_word (load 4 4 sin)
           in Some \<lparr> rq_type = etype, rq_hash = hash4 addr port, rq_name = None, rq_len = 0,
                     rq_port = port, rq_v4 = addr, rq_v6 = Some (replicate 16 0) \<rparr>
         else if family = 10 then
           let port = le_word (load 2 2 sin6); addr = load 8 16 sin6
           in Some \<lparr> rq_type = etype, rq_hash = hash6 addr port, rq_name = None, rq_len = 0,
                     rq_port = port, rq_v4 = 0, rq_v6 = Some addr \<rparr>
         else None)"

definition listen_request :: "helpers \<Rightarrow> addr \<Rightarrow> request option" where
  "listen_request h sock =
     (let port = le_word (core_read h 2 ''struct sock'' [''__sk_common'', ''skc_num'']
                   (core_read_ptr h ''struct socket'' [''sk''] sock))
      in if port = 0 then None
         else Some \<lparr> rq_type = EVENT_TYPE_LISTEN, rq_hash = hash_port port, rq_name = None,
                     rq_len = 0, rq_port = port, rq_v4 = 0, rq_v6 = None \<rparr>)"

definition ptrace_request :: "helpers \<Rightarrow> addr \<Rightarrow> request option" where
  "ptrace_request h child =
     (let comm = snd (bpf_probe_read_kernel_str h (stack_bytes h 16)
                   (Kmem (child + of_nat (core_offset h ''struct task_struct'' [''comm'']))))
      in Some \<lparr> rq_type = EVENT_TYPE_PTRACE, rq_hash = fnv1a_hash comm 16, rq_name = Some comm,
                rq_len = 16, rq_port = 0, rq_v4 = 0, rq_v6 = None \<rparr>)"

definition mount_request :: "helpers \<Rightarrow> addr \<Rightarrow> request option" where
  "mount_request h type =
     (if type = 0 then None
      else name_request EVENT_TYPE_MOUNT
             (bpf_probe_read_kernel_str h (stack_bytes h 64) (Kmem type)))"

section \<open>Every program follows the contract\<close>

text \<open>The part of a program behind its hash is the same in all of them.\<close>

lemma policy_tail:
  "(let key = \<lparr> cgroup_id = cgid, rule_hash = hash, event_type = etype, key_pad = [0, 0, 0] \<rparr>;
        val = bpf_map_lookup_elem (policy_map st) key;
        (key, val) =
          (case val of
             None \<Rightarrow>
               (let key = key\<lparr>cgroup_id := 0\<rparr> in (key, bpf_map_lookup_elem (policy_map st) key))
           | Some _ \<Rightarrow> (key, val))
    in (case val of
          Some val \<Rightarrow>
            (let st = incr_hit_count st key in
             if action val = ACTION_DENY
             then (let st = emit_lsm_event h st etype 1 name len cgid port v4 v6
                   in if is_enforce_enabled st then (- 1, st) else (0, st))
             else if audit val \<noteq> 0
             then (0, emit_lsm_event h st etype 0 name len cgid port v4 v6)
             else (0, st))
        | None \<Rightarrow>
            (0, emit_lsm_event h st etype 0 name len cgid port v4 v6))) =
   serve_request h st cgid
     \<lparr> rq_type = etype, rq_hash = hash, rq_name = name, rq_len = len, rq_port = port,
       rq_v4 = v4, rq_v6 = v6 \<rparr>"
proof -
  have "is_enforce_enabled (emit_lsm_event h s etype d name len cgid port v4 v6) =
        is_enforce_enabled s" for s d
    by (rule is_enforce_enabled_frame) simp
  then show ?thesis
    by (cases "bpf_map_lookup_elem (policy_map st) (rule_key cgid etype hash)";
        cases "bpf_map_lookup_elem (policy_map st) (rule_key 0 etype hash)")
      (simp_all add: serve_request_def matching_rule_def emit_request_def rule_key_def Let_def)
qed

lemma exec_run: "lsm_exec_check h st bprm 0 = lsm_run h st (exec_request h bprm)"
  unfolding lsm_exec_check_def
  by (simp only: policy_tail)
    (simp add: exec_request_def name_request_def lsm_run_def Let_def split: prod.split)

lemma file_run: "lsm_file_check h st file = lsm_run h st (file_request h file)"
  unfolding lsm_file_check_def
  by (simp only: policy_tail)
    (simp add: file_request_def name_request_def lsm_run_def Let_def split: prod.split)

lemma connect_run:
  "lsm_connect_check h st sock address addrlen =
   lsm_run h st (sockaddr_request EVENT_TYPE_NETWORK hash_ipv4_endpoint hash_ipv6_endpoint h address)"
  unfolding lsm_connect_check_def
  by (simp only: policy_tail) (simp add: sockaddr_request_def lsm_run_def Let_def offset_simps)

lemma bind_run:
  "lsm_bind_check h st sock address addrlen =
   lsm_run h st
     (sockaddr_request EVENT_TYPE_BIND bind_hash_ipv4_endpoint bind_hash_ipv6_endpoint h address)"
  unfolding lsm_bind_check_def
  by (simp only: policy_tail) (simp add: sockaddr_request_def lsm_run_def Let_def offset_simps)

lemma listen_run: "lsm_listen_check h st sock backlog = lsm_run h st (listen_request h sock)"
  unfolding lsm_listen_check_def
  by (simp only: policy_tail) (simp add: listen_request_def lsm_run_def Let_def)

lemma ptrace_run: "lsm_ptrace_check h st child mode = lsm_run h st (ptrace_request h child)"
  unfolding lsm_ptrace_check_def
  by (simp only: policy_tail) (simp add: ptrace_request_def lsm_run_def Let_def)

lemma mount_run:
  "lsm_mount_check h st dev_name path type flags data = lsm_run h st (mount_request h type)"
  unfolding lsm_mount_check_def
  by (simp only: policy_tail)
    (simp add: mount_request_def name_request_def lsm_run_def Let_def split: prod.split)

lemmas program_runs =
  exec_run file_run connect_run bind_run listen_run ptrace_run mount_run

lemmas request_defs =
  name_request_def exec_request_def file_request_def sockaddr_request_def listen_request_def
  ptrace_request_def mount_request_def Let_def

interpretation exec: lsm_hook "\<lambda>h st bprm. lsm_exec_check h st bprm 0" EVENT_TYPE_EXEC exec_request
  by unfold_locales (auto simp: exec_run request_defs split: if_splits)

interpretation fopn: lsm_hook lsm_file_check EVENT_TYPE_FILE file_request
  by unfold_locales (auto simp: file_run request_defs split: if_splits)

interpretation conn: lsm_hook
  "\<lambda>h st (sock, address, addrlen). lsm_connect_check h st sock address addrlen"
  EVENT_TYPE_NETWORK
  "\<lambda>h (sock, address, addrlen).
     sockaddr_request EVENT_TYPE_NETWORK hash_ipv4_endpoint hash_ipv6_endpoint h address"
  by unfold_locales (auto simp: connect_run request_defs split: if_splits)

interpretation bnd: lsm_hook
  "\<lambda>h st (sock, address, addrlen). lsm_bind_check h st sock address addrlen"
  EVENT_TYPE_BIND
  "\<lambda>h (sock, address, addrlen).
     sockaddr_request EVENT_TYPE_BIND bind_hash_ipv4_endpoint bind_hash_ipv6_endpoint h address"
  by unfold_locales (auto simp: bind_run request_defs split: if_splits)

interpretation lstn: lsm_hook "\<lambda>h st (sock, backlog). lsm_listen_check h st sock backlog"
  EVENT_TYPE_LISTEN "\<lambda>h (sock, backlog). listen_request h sock"
  by unfold_locales (auto simp: listen_run request_defs split: if_splits)

interpretation ptr: lsm_hook "\<lambda>h st (child, mode). lsm_ptrace_check h st child mode"
  EVENT_TYPE_PTRACE "\<lambda>h (child, mode). ptrace_request h child"
  by unfold_locales (auto simp: ptrace_run request_defs split: if_splits)

interpretation mnt: lsm_hook
  "\<lambda>h st (dev_name, path, type, flags, data). lsm_mount_check h st dev_name path type flags data"
  EVENT_TYPE_MOUNT "\<lambda>h (dev_name, path, type, flags, data). mount_request h type"
  by unfold_locales (auto simp: mount_run request_defs split: if_splits)

section \<open>Hook calls\<close>

datatype hook_call =
  BprmCheck addr int
| FileOpen addr
| SocketConnect addr addr int
| SocketBind addr addr int
| SocketListen addr int
| PtraceAccessCheck addr u32
| SbMount addr addr addr u64 addr

fun run_hook :: "helpers \<Rightarrow> lsm_state \<Rightarrow> hook_call \<Rightarrow> int \<times> lsm_state" where
  "run_hook h st (BprmCheck bprm ret) = lsm_exec_check h st bprm ret"
| "run_hook h st (FileOpen file) = lsm_file_check h st file"
| "run_hook h st (SocketConnect sock address addrlen) = lsm_connect_check h st sock address addrlen"
| "run_hook h st (SocketBind sock address addrlen) = lsm_bind_check h st sock address addrlen"
| "run_hook h st (SocketListen sock backlog) = lsm_listen_check h st sock backlog"
| "run_hook h st (PtraceAccessCheck child mode) = lsm_ptrace_check h st child mode"
| "run_hook h st (SbMount dev_name path type flags data) =
     lsm_mount_check h st dev_name path type flags data"

fun hook_request :: "helpers \<Rightarrow> hook_call \<Rightarrow> request option" where
  "hook_request h (BprmCheck bprm ret) = (if ret = 0 then exec_request h bprm else None)"
| "hook_request h (FileOpen file) = file_request h file"
| "hook_request h (SocketConnect sock address addrlen) =
     sockaddr_request EVENT_TYPE_NETWORK hash_ipv4_endpoint hash_ipv6_endpoint h address"
| "hook_request h (SocketBind sock address addrlen) =
     sockaddr_request EVENT_TYPE_BIND bind_hash_ipv4_endpoint bind_hash_ipv6_endpoint h address"
| "hook_request h (SocketListen sock backlog) = listen_request h sock"
| "hook_request h (PtraceAccessCheck child mode) = ptrace_request h child"
| "hook_request h (SbMount dev_name path type flags data) = mount_request h type"

fun hook_event_type :: "hook_call \<Rightarrow> u8" where
  "hook_event_type (BprmCheck bprm ret) = EVENT_TYPE_EXEC"
| "hook_event_type (FileOpen file) = EVENT_TYPE_FILE"
| "hook_event_type (SocketConnect sock address addrlen) = EVENT_TYPE_NETWORK"
| "hook_event_type (SocketBind sock address addrlen) = EVENT_TYPE_BIND"
| "hook_event_type (SocketListen sock backlog) = EVENT_TYPE_LISTEN"
| "hook_event_type (PtraceAccessCheck child mode) = EVENT_TYPE_PTRACE"
| "hook_event_type (SbMount dev_name path type flags data) = EVENT_TYPE_MOUNT"

text \<open>The code that an earlier module of the LSM stack returned, for the hook that passes it on.\<close>

fun earlier_code :: "hook_call \<Rightarrow> int" where
  "earlier_code (BprmCheck bprm ret) = ret"
| "earlier_code _ = 0"

text \<open>A call that an earlier module refused keeps its code; every other call runs the contract.\<close>

lemma earlier_refusal: "earlier_code c \<noteq> 0 \<Longrightarrow> run_hook h st c = (earlier_code c, st)"
  by (cases c) (simp_all add: lsm_exec_check_def)

lemma earlier_refusal_request: "earlier_code c \<noteq> 0 \<Longrightarrow> hook_request h c = None"
  by (cases c) simp_all

lemma hook_no_request:
  "hook_request h c = None \<Longrightarrow> run_hook h st c = (earlier_code c, st)"
  by (cases c; cases "earlier_code c = 0")
    (simp_all add: program_runs lsm_run_def earlier_refusal [of "BprmCheck _ _", simplified])

text \<open>
  A call that no earlier module refused runs the contract, whichever program is attached: the
  laws of the seven programs give those of \<open>run_hook\<close>.
\<close>

lemmas contract_runs =
  exec.run
  fopn.run
  conn.run [where a = "(_, _, _)", simplified]
  bnd.run [where a = "(_, _, _)", simplified]
  lstn.run [where a = "(_, _)", simplified]
  ptr.run [where a = "(_, _)", simplified]
  mnt.run [where a = "(_, _, _, _, _)", simplified]

lemmas contract_types =
  exec.req_type
  fopn.req_type
  conn.req_type [where a = "(_, _, _)", simplified]
  bnd.req_type [where a = "(_, _, _)", simplified]
  lstn.req_type [where a = "(_, _)", simplified]
  ptr.req_type [where a = "(_, _)", simplified]
  mnt.req_type [where a = "(_, _, _, _, _)", simplified]

lemma run_hook_contract:
  "earlier_code c = 0 \<Longrightarrow> run_hook h st c = lsm_run h st (hook_request h c)"
  by (cases c) (simp_all add: contract_runs)

lemma hook_request_type:
  "hook_request h c = Some rq \<Longrightarrow> rq_type rq = hook_event_type c"
  by (cases c) (simp_all add: contract_types split: if_splits)

interpretation call: lsm_hook
  "\<lambda>h st (u :: unit). if earlier_code c = 0 then run_hook h st c else (0, st)"
  "hook_event_type c" "\<lambda>h u. hook_request h c" for c
  by unfold_locales
    (simp_all add: run_hook_contract earlier_refusal_request lsm_run_def hook_request_type)

lemma request_not_refused: "hook_request h c = Some rq \<Longrightarrow> earlier_code c = 0"
  using earlier_refusal_request [of c h] by fastforce

text \<open>What a call does once its request could be read.\<close>

lemma hook_spec:
  fixes st
  assumes "hook_request h c = Some rq"
  defines "v \<equiv> decide (abs_state st) (bpf_get_current_cgroup_id h) (hook_event_type c) (rq_hash rq)"
  shows "fst (run_hook h st c) = verdict_code v"
    and "lsm_events (snd (run_hook h st c)) =
           lsm_events st @ submitted h st (bpf_get_current_cgroup_id h) (verdict_event v) rq"
    and "policy_map (snd (run_hook h st c)) = counted (counted_key h st rq) st"
  using call.code [OF assms(1), of st] call.event [OF assms(1), of st]
    call.counter [OF assms(1), of st] request_not_refused [OF assms(1)]
  by (simp_all add: v_def)

lemma hook_policy_kept:
  "abs_state (snd (run_hook h st c)) = abs_state st"
  "lsm_cgroup_filter (snd (run_hook h st c)) = lsm_cgroup_filter st"
  "lsm_enforce (snd (run_hook h st c)) = lsm_enforce st"
  using call.policy_kept [of c h st] earlier_refusal [of c h st]
  by (cases "earlier_code c = 0"; simp)+

lemma hook_wf_kept: "wf_state st \<Longrightarrow> wf_state (snd (run_hook h st c))"
  using call.wf_kept [of st c h] earlier_refusal [of c h st]
  by (cases "earlier_code c = 0") simp_all

end
