(* ===== verification/Demo_Kernel.thy ===== *)
theory Demo_Kernel
  imports Lsm_Hooks
begin

text \<open>
  A small concrete kernel on which the theorems are instantiated: a task of cgroup 7, the arguments
  of executions of \<open>/bin/sh\<close> and \<open>/usr/bin/python3.11\<close> and of a connection to 10.0.0.1 port 443 in
  memory, and a policy whose only rule denies the execution.
\<close>

definition demo_offsets :: "string \<Rightarrow> string list \<Rightarrow> nat" where
  "demo_offsets s member = (if s = ''struct linux_binprm'' then 96 else 0)"

definition demo_memory :: memory where
  "demo_memory = mem_of [
     (4192, [0, 32, 0, 0, 0, 0, 0, 0]),
     (8192, [47, 98, 105, 110, 47, 115, 104, 0]),
     (12288, [2, 0, 1, 187, 10, 0, 0, 1]),
     (24672, [0, 112, 0, 0, 0, 0, 0, 0]),
     (28672, [47, 117, 115, 114, 47, 98, 105, 110, 47, 112, 121, 116, 104, 111, 110, 51, 46, 49, 49, 0])]"

definition demo_user_memory :: memory where
  "demo_user_memory = mem_of [
     (1024, [47, 101, 116, 99, 47, 112, 97, 115, 115, 119, 100, 0]),
     (2048, [2, 0, 1, 187, 10, 0, 0, 1]),
     (3072, [10, 0, 1, 187, 0, 0, 0, 0, 32, 1, 13, 184, 0, 0, 0, 0, 0, 0, 0, 0, 0, 0, 0, 1]),
     (5120, [47, 98, 105, 110, 47, 115, 104, 0])]"

definition demo :: helpers where
  "demo = mem_helpers demo_memory demo_user_memory demo_offsets 4 7 (push_bit 32 42) 0 5 [65]"

text \<open>The context of a system call with the given four arguments.\<close>

definition demo_ctx :: "u64 \<Rightarrow> u64 \<Rightarrow> u64 \<Rightarrow> u64 \<Rightarrow> bytes" where
  "demo_ctx a b c d =
     replicate 16 0 @ le_bytes 8 a @ le_bytes 8 b @ le_bytes 8 c @ le_bytes 8 d @ replicate 16 0"

definition demo_exec :: hook_call where
  "demo_exec = BprmCheck 4096 0"

definition demo_python311 :: hook_call where
  "demo_python311 = BprmCheck 24576 0"

definition demo_connect :: hook_call where
  "demo_connect = SocketConnect 0 12288 16"

definition demo_name :: bytes where
  "demo_name = [47, 98, 105, 110, 47, 115, 104, 0] @ replicate 56 0"

definition python311_name :: bytes where
  "python311_name = [47, 117, 115, 114, 47, 98, 105, 110, 47, 112, 121, 116, 104, 111, 110, 51, 46, 49, 49, 0] @ replicate 44 0"

definition demo_state :: lsm_state where
  "demo_state =
     \<lparr> policy_map = [(rule_key 7 EVENT_TYPE_EXEC (fnv1a_hash demo_name 8),
                      \<lparr> action = 1, audit = 1, val_pad = 0, hit_count = 0 \<rparr>)],
       lsm_events = [], lsm_cgroup_filter = [], lsm_enforce = [1] \<rparr>"

lemma demo_helpers: "bpf_helpers demo"
  unfolding demo_def by (rule mem.bpf_helpers_axioms)

lemma demo_fields:
  "bpf_get_current_cgroup_id demo = 7"
  "bpf_ringbuf_reserve demo q n = (if length q < 4 then Some (replicate n 0) else None)"
  "stack_bytes demo n = replicate n 0"
  by (simp_all add: demo_def mem_helpers_def ring_reserve_def)

lemma exec_request_in_memory:
  assumes "mem_bytes demo_memory (bprm + 96) 8 = Some ptr" and "le_word ptr = (name :: addr)"
    and "mem_string demo_memory name 63 = Some s"
  shows "exec_request demo bprm = name_request EVENT_TYPE_EXEC (put_string (replicate 64 0) s)"
proof -
  have "core_read_ptr demo ''struct linux_binprm'' [''filename''] bprm = name"
    using assms(1,2)
    by (simp add: core_read_ptr_def core_read_def demo_def mem_helpers_def demo_offsets_def mem_read_def)
  then show ?thesis
    using assms(3) by (simp add: exec_request_def demo_def mem_helpers_def mem_read_str_def)
qed

lemma demo_exec_request:
  "hook_request demo demo_exec =
     Some \<lparr> rq_type = EVENT_TYPE_EXEC, rq_hash = fnv1a_hash demo_name 8,
            rq_name = Some demo_name, rq_len = 8, rq_port = 0, rq_v4 = 0, rq_v6 = None \<rparr>"
proof -
  have "mem_bytes demo_memory 4192 8 = Some [0, 32, 0, 0, 0, 0, 0, 0]"
    and "mem_string demo_memory 8192 63 = Some [47, 98, 105, 110, 47, 115, 104]"
    by (simp_all add: demo_memory_def mem_bytes_numeral mem_string_numeral)
  then show ?thesis
    using exec_request_in_memory [of 4096 _ 8192]
    by (simp add: demo_exec_def demo_name_def put_string_def store_def name_request_def)
qed

lemma demo_python311_request:
  "hook_request demo demo_python311 =
     Some \<lparr> rq_type = EVENT_TYPE_EXEC, rq_hash = fnv1a_hash python311_name 20,
            rq_name = Some python311_name, rq_len = 20, rq_port = 0, rq_v4 = 0, rq_v6 = None \<rparr>"
proof -
  have "mem_bytes demo_memory 24672 8 = Some [0, 112, 0, 0, 0, 0, 0, 0]"
    and "mem_string demo_memory 28672 63 = Some [47, 117, 115, 114, 47, 98, 105, 110, 47, 112, 121, 116, 104, 111, 110, 51, 46, 49, 49]"
    by (simp_all add: demo_memory_def mem_bytes_numeral mem_string_numeral)
  then show ?thesis
    using exec_request_in_memory [of 24576 _ 28672]
    by (simp add: demo_python311_def python311_name_def put_string_def store_def name_request_def)
qed

lemma demo_connect_request:
  "hook_request demo demo_connect =
     Some \<lparr> rq_type = EVENT_TYPE_NETWORK, rq_hash = hash_ipv4_endpoint 16777226 47873,
            rq_name = None, rq_len = 0, rq_port = 47873, rq_v4 = 16777226,
            rq_v6 = Some (replicate 16 0) \<rparr>"
proof -
  have "mem_bytes demo_memory 12288 (Suc (Suc 0)) = Some [2, 0]"
    and "mem_bytes demo_memory 12288 8 = Some [2, 0, 1, 187, 10, 0, 0, 1]"
    by (simp_all add: demo_memory_def mem_bytes_numeral)
  then show ?thesis
    by (simp add: demo_connect_def sockaddr_request_def demo_fields)
     (simp add: demo_def mem_helpers_def mem_read_def demo_offsets_def load_def Let_def)
qed

lemma demo_match:
  "\<not> should_skip_cgroup demo_state 7"
  "matching_rule demo_state 7 EVENT_TYPE_EXEC (fnv1a_hash demo_name 8) =
     Some (rule_key 7 EVENT_TYPE_EXEC (fnv1a_hash demo_name 8),
           \<lparr> action = 1, audit = 1, val_pad = 0, hit_count = 0 \<rparr>)"
  "is_enforce_enabled demo_state"
  "wf_state demo_state"
  by (simp_all add: demo_state_def should_skip_cgroup_def bpf_map_lookup_elem_def matching_rule_def
      is_enforce_enabled_def array_lookup_elem_def wf_state_def wf_map_def POLICY_MAP_MAX_ENTRIES_def
      LSM_CGROUP_FILTER_MAX_ENTRIES_def)

lemma demo_user_sh:
  "bpf_probe_read_user_str demo (replicate 256 0) 5120 = (8, [47, 98, 105, 110, 47, 115, 104, 0] @ replicate 248 0)"
proof -
  have "mem_string demo_user_memory 5120 255 = Some [47, 98, 105, 110, 47, 115, 104]"
    by (simp add: demo_user_memory_def mem_string_numeral)
  then show ?thesis
    by (simp add: demo_def mem_helpers_def mem_read_str_def put_string_def store_def)
qed

lemma demo_user_read:
  "bpf_probe_read_user demo (replicate 2 0) 2048 = (0, [2, 0])"
  "bpf_probe_read_user demo (replicate 2 0) 2050 = (0, [1, 187])"
  "bpf_probe_read_user demo (replicate 4 0) 2052 = (0, [10, 0, 0, 1])"
  "bpf_probe_read_user demo (replicate 2 0) 3072 = (0, [10, 0])"
  "bpf_probe_read_user demo (replicate 2 0) 3074 = (0, [1, 187])"
  "bpf_probe_read_user demo (replicate 16 0) 3080 =
     (0, [32, 1, 13, 184, 0, 0, 0, 0, 0, 0, 0, 0, 0, 0, 0, 1])"
  by (simp_all add: demo_def mem_helpers_def mem_read_def demo_user_memory_def mem_bytes_numeral)

end
