(* ===== verification/Lsm_Properties.thy ===== *)
theory Lsm_Properties
  imports Demo_Kernel
begin

text \<open>
  What the LSM programs guarantee: they refine the abstract policy, refuse exactly what an
  enforced deny rule names, never change the policy, count every match, and report events whose
  members are the request's. The witnesses run the programs on a small concrete kernel.
\<close>

section \<open>Facts on requests\<close>

lemma request_v6_length:
  assumes "bpf_helpers h" and "hook_request h c = Some rq" and "rq_v6 rq = Some v6"
  shows "length v6 = 16"
proof -
  have "length (snd (bpf_probe_read_kernel h (stack_bytes h 24) a)) = 24" for a
    using bpf_helpers.read_kernel_length bpf_helpers.stack_length assms(1) by metis
  then have "length (load 8 16 (snd (bpf_probe_read_kernel h (stack_bytes h 24) a))) = 16" for a
    by (simp add: length_load)
  then show ?thesis
    using assms(2,3) by (cases c) (auto simp: request_defs split: if_splits)
qed

text \<open>The name that a request carries, for the programs that check the length they read.\<close>

lemma name_request_string:
  assumes "bpf_helpers h" and "name_request etype (bpf_probe_read_kernel_str h dst s) = Some rq"
    and "16 \<le> length dst"
  obtains buf where "rq_name rq = Some buf" and "length buf = length dst" and "0 \<in> set buf"
    and "rq_len rq = int (length (cstr buf)) + 1" and "rq_hash rq = fnv1a_hash buf (rq_len rq)"
    and "hashed_prefix buf (rq_len rq) = take 16 (cstr buf)"
proof -
  let ?r = "bpf_probe_read_kernel_str h dst s"
  have ok: "str_read_ok dst ?r"
    using assms(1) by (rule bpf_helpers.read_kernel_str)
  have pos: "0 < fst ?r" and rq: "rq_name rq = Some (snd ?r)" "rq_len rq = fst ?r"
      "rq_hash rq = fnv1a_hash (snd ?r) (fst ?r)"
    using assms(2) by (auto simp: name_request_def split: if_splits)
  have nul: "0 \<in> set (snd ?r)" and len: "int (length (cstr (snd ?r))) + 1 = fst ?r"
    using bpf_helpers.str_read_cstr(2) bpf_helpers.str_read_length(1) assms(1) ok pos by blast+
  obtain rest where "snd ?r = cstr (snd ?r) @ 0 # rest"
    using cstr_split [OF nul] .
  then have "hashed_prefix (snd ?r) (fst ?r) = take 16 (cstr (snd ?r))"
    using hashed_prefix_string [of "snd ?r" "cstr (snd ?r)" rest] len by simp
  moreover have "length (snd ?r) = length dst"
    using ok by (simp add: str_read_ok_def)
  ultimately show ?thesis
    using that [of "snd ?r"] rq nul len by simp
qed

lemma name_request_hash:
  assumes "bpf_helpers h" and "name_request etype (bpf_probe_read_kernel_str h (stack_bytes h 64) s) = Some rq"
    and "rq_name rq = Some name"
  shows "rq_hash rq = foldl (\<lambda>h b. fnv_mix h (scast b)) FNV_OFFSET (take 16 (cstr name))"
proof -
  have "16 \<le> length (stack_bytes h 64)"
    using bpf_helpers.stack_length [OF assms(1), of 64] by simp
  from name_request_string [OF assms(1,2) this] obtain buf
    where "rq_name rq = Some buf" and "length buf = length (stack_bytes h 64)"
      and "rq_hash rq = fnv1a_hash buf (rq_len rq)"
      and "hashed_prefix buf (rq_len rq) = take 16 (cstr buf)"
    by metis
  then show ?thesis
    using assms(3) fnv1a_hash_prefix [of buf] \<open>16 \<le> length (stack_bytes h 64)\<close> by simp
qed

lemma request_ring_free:
  "hook_request (h\<lparr>bpf_ringbuf_reserve := f\<rparr>) c = hook_request h c"
  by (cases c) (simp_all add: request_defs core_read_ptr_def core_read_def cong: if_cong)

lemma decide_agree:
  assumes "rules pol cgid etype hash = rules pol' cgid etype hash"
    and "rules pol 0 etype hash = rules pol' 0 etype hash"
    and "cgroups pol = cgroups pol'" and "enforcing pol = enforcing pol'"
  shows "decide pol cgid etype hash = decide pol' cgid etype hash"
  unfolding decide_def by (simp only: assms)

section \<open>The programs refine the policy\<close>

text \<open>
  C1. Whatever the hook, once its request could be read the program answers with the code of the
  abstract policy's verdict, leaves the abstract policy (rules, filter, enforce switch) as it
  was, and appends to the ring buffer exactly the event that the verdict asks for.
\<close>

theorem hook_refines_policy:
  assumes "hook_request h c = Some rq"
  shows "let cgid = bpf_get_current_cgroup_id h;
             v = decide (abs_state st) cgid (hook_event_type c) (rq_hash rq);
             r = run_hook h st c
         in fst r = verdict_code v \<and> abs_state (snd r) = abs_state st \<and>
            lsm_events (snd r) = lsm_events st @ submitted h st cgid (verdict_event v) rq"
  using hook_spec [OF assms, of st] hook_policy_kept(1) [of h st c] by (simp add: Let_def)

theorem hook_refines_policy_witness:
  "fst (run_hook demo demo_state demo_exec) = - 1 \<and>
   length (lsm_events (snd (run_hook demo demo_state demo_exec))) = 1"
proof -
  have "decide (abs_state demo_state) 7 EVENT_TYPE_EXEC (fnv1a_hash demo_name 8) = Denied True"
    by (simp add: decide_matching demo_match ACTION_DENY_def)
  moreover have "lsm_events demo_state = []" and "hook_event_type demo_exec = EVENT_TYPE_EXEC"
    by (simp_all add: demo_state_def demo_exec_def)
  ultimately show ?thesis
    using hook_refines_policy [OF demo_exec_request, of demo_state]
    by (simp add: Let_def demo_fields submitted_def)
qed

text \<open>
  C5. A program answers -1 exactly when its request could be read, the cgroup filter does not
  skip the task, the rule that matches first (the cgroup's own, else the global one) is a deny
  rule, and enforcement is on.
\<close>

theorem hook_refuses_iff:
  assumes "earlier_code c = 0"
  shows "fst (run_hook h st c) = - 1 \<longleftrightarrow>
     (\<exists>rq key val. hook_request h c = Some rq \<and>
        \<not> should_skip_cgroup st (bpf_get_current_cgroup_id h) \<and>
        matching_rule st (bpf_get_current_cgroup_id h) (hook_event_type c) (rq_hash rq) =
          Some (key, val) \<and>
        action val = ACTION_DENY \<and> is_enforce_enabled st)"
proof (cases "hook_request h c")
  case None
  then show ?thesis using hook_no_request [OF None, of st] assms by simp
next
  case (Some rq)
  then show ?thesis
    using hook_spec(1) [OF Some, of st]
    by (cases "should_skip_cgroup st (bpf_get_current_cgroup_id h)")
      (auto simp: decide_skipped decide_matching split: option.splits if_splits)
qed

theorem hook_refuses_iff_witness: "fst (run_hook demo demo_state demo_exec) = - 1"
proof -
  have "earlier_code demo_exec = 0" and "hook_event_type demo_exec = EVENT_TYPE_EXEC"
    by (simp_all add: demo_exec_def)
  then show ?thesis
    using hook_refuses_iff [of demo_exec demo demo_state] demo_exec_request demo_match
    by (simp add: demo_fields ACTION_DENY_def)
qed

text \<open>
  With enforcement off no program refuses anything: it passes on the code of the earlier
  modules, which is 0 for the hooks that have none.
\<close>

lemma audit_mode_never_blocks:
  assumes "\<not> is_enforce_enabled st"
  shows "fst (run_hook h st c) = earlier_code c"
proof (cases "hook_request h c")
  case (Some rq)
  then show ?thesis
    using hook_spec(1) [OF Some, of st] request_not_refused [OF Some] assms
    by (cases "should_skip_cgroup st (bpf_get_current_cgroup_id h)")
      (auto simp: decide_skipped decide_matching split: option.splits)
qed (simp add: hook_no_request)

text \<open>
  Matching is counted and nothing else is written to the policy map: the hit counter of the
  rule that matched grows by one (modulo 2 to the 32), every other entry is untouched.
\<close>

lemma hook_counts_match:
  assumes "hook_request h c = Some rq"
  shows "bpf_map_lookup_elem (policy_map (snd (run_hook h st c))) k =
     (if counted_key h st rq = Some k
      then map_option (\<lambda>val. val\<lparr>hit_count := hit_count val + 1\<rparr>)
             (bpf_map_lookup_elem (policy_map st) k)
      else bpf_map_lookup_elem (policy_map st) k)"
  using hook_spec(3) [OF assms, of st]
  by (auto simp: counted_def incr_hit_count_lookup split: option.splits)

text \<open>
  A program that cannot read its arguments, or that an earlier module already overruled,
  changes nothing and reports nothing.
\<close>

lemma unreadable_call_passes:
  assumes "hook_request h c = None"
  shows "run_hook h st c = (earlier_code c, st)"
  using assms by (rule hook_no_request)

text \<open>
  The verdict does not depend on the ring buffer: with any other reservation behaviour and
  any other queue (a full one in particular) the same call gets the same code.
\<close>

lemma verdict_ring_independent:
  "fst (run_hook (h\<lparr>bpf_ringbuf_reserve := f\<rparr>) (st\<lparr>lsm_events := q\<rparr>) c) = fst (run_hook h st c)"
proof -
  have "abs_state (st\<lparr>lsm_events := q\<rparr>) = abs_state st"
    by (rule abs_state_cong) simp_all
  then show ?thesis
    using hook_spec(1) [of h c] hook_spec(1) [of "h\<lparr>bpf_ringbuf_reserve := f\<rparr>" c]
      hook_no_request [of h c] hook_no_request [of "h\<lparr>bpf_ringbuf_reserve := f\<rparr>" c]
    by (cases "hook_request h c") (simp_all add: request_ring_free)
qed

text \<open>
  C18. Isolation: a rule of another cgroup, or of another event type, has no influence on the
  verdict, whatever it says.
\<close>

theorem verdict_isolation:
  assumes "cgroup_id k \<notin> {0, bpf_get_current_cgroup_id h} \<or> event_type k \<noteq> hook_event_type c"
  shows "fst (run_hook h (st\<lparr>policy_map := AList.update k v (policy_map st)\<rparr>) c) =
         fst (run_hook h st c)"
proof (cases "hook_request h c")
  case None
  then show ?thesis by (simp add: hook_no_request)
next
  case (Some rq)
  let ?st = "st\<lparr>policy_map := AList.update k v (policy_map st)\<rparr>"
  let ?cg = "bpf_get_current_cgroup_id h"
  have "rule_key cg (hook_event_type c) (rq_hash rq) \<noteq> k" if "cg \<in> {0, ?cg}" for cg
    using assms that by (auto simp: rule_key_def)
  then have "rules (abs_state ?st) cg (hook_event_type c) (rq_hash rq) =
        rules (abs_state st) cg (hook_event_type c) (rq_hash rq)" if "cg \<in> {0, ?cg}" for cg
    using that by (simp add: abs_state_def bpf_map_lookup_elem_def update_conv')
  moreover have "cgroups (abs_state ?st) = cgroups (abs_state st)"
    and "enforcing (abs_state ?st) = enforcing (abs_state st)"
    by (simp_all add: abs_state_def)
  ultimately have "decide (abs_state ?st) ?cg (hook_event_type c) (rq_hash rq) =
        decide (abs_state st) ?cg (hook_event_type c) (rq_hash rq)"
    by (intro decide_agree) simp_all
  then show ?thesis
    using hook_spec(1) [OF Some, of st] hook_spec(1) [OF Some, of ?st] by simp
qed

theorem verdict_isolation_witness:
  "fst (run_hook demo
     (demo_state\<lparr>policy_map := AList.update (rule_key 8 EVENT_TYPE_EXEC 0)
        \<lparr> action = 1, audit = 0, val_pad = 0, hit_count = 0 \<rparr> (policy_map demo_state)\<rparr>) demo_exec) =
   fst (run_hook demo demo_state demo_exec)"
  by (rule verdict_isolation) (simp add: rule_key_def demo_fields)

text \<open>
  No program breaks the maps: key uniqueness and capacity of the policy map and of the
  filter, and the one-entry enforce array, survive every call; the filter and the switch are not
  written at all and no rule appears or disappears.
\<close>

lemma hook_preserves_wf:
  assumes "wf_state st"
  shows "wf_state (snd (run_hook h st c)) \<and>
     lsm_cgroup_filter (snd (run_hook h st c)) = lsm_cgroup_filter st \<and>
     lsm_enforce (snd (run_hook h st c)) = lsm_enforce st \<and>
     map fst (policy_map (snd (run_hook h st c))) = map fst (policy_map st)"
proof -
  have "map fst (policy_map (snd (run_hook h st c))) = map fst (policy_map st)"
    by (cases "hook_request h c")
      (auto simp: hook_no_request hook_spec(3) counted_def split: option.split)
  then show ?thesis
    using hook_wf_kept [OF assms] hook_policy_kept by simp
qed

section \<open>Events\<close>

text \<open>The record that a call submits, and its members.\<close>

lemma hook_record:
  assumes "bpf_helpers h" and "hook_request h c = Some rq"
    and "bpf_ringbuf_reserve h (lsm_events st) 328 = Some buf"
    and "verdict_event (decide (abs_state st) (bpf_get_current_cgroup_id h) (hook_event_type c)
           (rq_hash rq)) = Some d"
  obtains r where "lsm_events (snd (run_hook h st c)) = lsm_events st @ [r]" and "length r = 328"
    and "warmor_event_of r =
      \<lparr> ev_pid = ucast (drop_bit 32 (bpf_get_current_pid_tgid h)),
        ev_uid = ucast (bpf_get_current_uid_gid h),
        ev_gid = ucast (drop_bit 32 (bpf_get_current_uid_gid h)),
        ev_comm = bpf_get_current_comm h (load 12 16 buf),
        ev_filename =
          (let name = filename_bytes h (rq_name rq) (rq_len rq) buf
           in name @ load (28 + length name) (256 - length name) buf),
        ev_timestamp = bpf_ktime_get_ns h,
        ev_cgroup_id = bpf_get_current_cgroup_id h,
        ev_event_type = hook_event_type c,
        ev_decision = d,
        ev_remote_port = rq_port rq,
        ev_remote_addr_v4 = rq_v4 rq,
        ev_remote_addr_v6 = v6_bytes (rq_v6 rq) \<rparr>"
proof -
  let ?rec = "fill_lsm_event h (rq_type rq) d (rq_name rq) (rq_len rq)
    (bpf_get_current_cgroup_id h) (rq_port rq) (rq_v4 rq) (rq_v6 rq) buf"
  have len: "length buf = 328"
    using bpf_helpers.reserve_length [OF assms(1,3)] .
  have "lsm_events (snd (run_hook h st c)) = lsm_events st @ [?rec]"
    using hook_spec(2) [OF assms(2), of st] assms(3,4) by (simp add: submitted_def offset_simps)
  then show ?thesis
    using that bpf_helpers.fill_lsm_event_length [OF assms(1) len]
      bpf_helpers.fill_lsm_event_contents [OF assms(1) len request_v6_length [OF assms(1,2)]]
      hook_request_type [OF assms(2)]
    by metis
qed

text \<open>A name that a program passed is what a reader of the record sees up to the NUL.\<close>

lemma record_name:
  assumes "bpf_helpers h" and "length buf = 328"
    and "rq_name rq = Some name" and "0 \<in> set name" and "length name \<le> 256" and "0 < rq_len rq"
  shows "cstr (filename_bytes h (rq_name rq) (rq_len rq) buf @ rest) = cstr name"
  using bpf_helpers.filename_cstr [OF assms(1,2,4), of "rq_len rq" rest] cstr_shorter [OF assms(4)]
    assms(3,5,6)
  by simp

lemma record_v6:
  assumes "bpf_helpers h" and "hook_request h c = Some rq"
  shows "v6_bytes (rq_v6 rq) = (case rq_v6 rq of Some v6 \<Rightarrow> v6 | None \<Rightarrow> replicate 16 0)"
  using request_v6_length [OF assms] by (auto simp: v6_bytes_def split: option.split)



text \<open>
  An event of the network programs carries the endpoint: port and IPv4 address as the
  network has them, the 16 bytes of the IPv6 address (zero for IPv4), and an empty name.
\<close>

lemma network_event_contents:
  assumes "bpf_helpers h" and "hook_request h c = Some rq"
    and "bpf_ringbuf_reserve h (lsm_events st) 328 = Some buf"
    and "verdict_event (decide (abs_state st) (bpf_get_current_cgroup_id h) (hook_event_type c)
           (rq_hash rq)) = Some d"
    and "rq_name rq = None"
  shows "\<exists>record. lsm_events (snd (run_hook h st c)) = lsm_events st @ [record] \<and>
     (let ev = warmor_event_of record in
      cstr (ev_filename ev) = [] \<and>
      ev_cgroup_id ev = bpf_get_current_cgroup_id h \<and>
      ev_event_type ev = hook_event_type c \<and> ev_decision ev = d \<and>
      ev_remote_port ev = rq_port rq \<and> ev_remote_addr_v4 ev = rq_v4 rq \<and>
      ev_remote_addr_v6 ev = (case rq_v6 rq of Some v6 \<Rightarrow> v6 | None \<Rightarrow> replicate 16 0))"
proof -
  have "cstr (filename_bytes h (rq_name rq) n buf @ rest) = []" for n rest
    using assms(5) by (simp add: filename_bytes_def cstr_def)
  with hook_record [OF assms(1-4)] show ?thesis
    using record_v6 [OF assms(1,2)] by (metis (no_types, lifting) warmor_event.select_convs)
qed

section \<open>Hashes\<close>



text \<open>
  Two executions whose path names agree in the first 16 bytes are always decided alike: the
  policy cannot tell them apart.
\<close>

lemma exec_prefix_collision:
  assumes "bpf_helpers h"
    and "hook_request h (BprmCheck b1 0) = Some rq1" and "hook_request h (BprmCheck b2 0) = Some rq2"
    and "rq_name rq1 = Some name1" and "rq_name rq2 = Some name2"
    and "take 16 (cstr name1) = take 16 (cstr name2)"
  shows "fst (run_hook h st (BprmCheck b1 0)) = fst (run_hook h st (BprmCheck b2 0))"
proof -
  have "rq_hash rq1 = rq_hash rq2"
    using name_request_hash [OF assms(1), of EVENT_TYPE_EXEC] assms(2-6)
    by (simp add: exec_request_def)
  then show ?thesis
    using hook_spec(1) [OF assms(2), of st] hook_spec(1) [OF assms(3), of st] by simp
qed

lemma low_byte: "(ucast (ucast (w :: u32) :: u8) :: u32) = w AND 255"
proof -
  have "w AND 255 = take_bit 8 w"
    by (simp add: take_bit_eq_mask mask_eq_exp_minus_1)
  then show ?thesis
    by (auto intro!: bit_eqI simp: bit_simps)
qed

lemma ucast_drop_bit_port: "(ucast (drop_bit k (port :: u16)) :: u8) = ucast (drop_bit k (ucast port :: u32))"
  by (rule bit_eqI) (auto simp: bit_simps dest: bit_imp_le_length)

lemma small_upt: "[0..<2] = [0, 1]" "[0..<4] = [0, 1, 2, 3]"
  by (simp_all add: upt_conv_Cons)

lemma le_bytes_fnv:
  "foldl (\<lambda>hash b. fnv_mix hash (ucast b)) x (le_bytes 4 (a :: u32)) =
     fnv_mix (fnv_mix (fnv_mix (fnv_mix x (a AND 255)) (drop_bit 8 a AND 255))
       (drop_bit 16 a AND 255)) (drop_bit 24 a AND 255)"
  "foldl (\<lambda>hash b. fnv_mix hash (ucast b)) x (le_bytes 2 (p :: u16)) =
     fnv_mix (fnv_mix x (ucast p AND 255)) (drop_bit 8 (ucast p) AND 255)"
  using ucast_drop_bit_port [of 0 p]
  by (simp_all add: le_bytes_def small_upt low_byte ucast_drop_bit_port)

lemma index_fold:
  "foldl (\<lambda>hash i. f hash (xs ! i)) x [0..<length xs] = foldl f x xs"
proof -
  have "foldl f x xs = foldl f x (map ((!) xs) [0..<length xs])" by (simp add: map_nth)
  then show ?thesis by (simp add: foldl_map)
qed

text \<open>
  The endpoint hashes are the published FNV-1a of the address and port bytes in memory
  order, and the copies in \<open>lsm_connect\<close> and \<open>lsm_bind\<close> agree.
\<close>

lemma endpoint_hashes_are_fnv1a:
  assumes "length addr6 = 16"
  shows "hash_ipv4_endpoint addr port = fnv1a32 (le_bytes 4 addr @ le_bytes 2 port) \<and>
     bind_hash_ipv4_endpoint addr port = hash_ipv4_endpoint addr port \<and>
     hash_ipv6_endpoint addr6 port = fnv1a32 (addr6 @ le_bytes 2 port) \<and>
     bind_hash_ipv6_endpoint addr6 port = hash_ipv6_endpoint addr6 port \<and>
     hash_port port = fnv1a32 (le_bytes 2 port)"
  using index_fold [where f = "\<lambda>hash b. fnv_mix hash (ucast b)" and x = FNV_OFFSET and xs = addr6] assms
  by (simp add: hash_ipv4_endpoint_def bind_hash_ipv4_endpoint_def hash_ipv6_endpoint_def
      bind_hash_ipv6_endpoint_def hash_port_def fnv1a32_def le_bytes_fnv Let_def)

end
