(* ===== verification/Lsm_System.thy ===== *)
theory Lsm_System
  imports Policy_Manager Lsm_Properties
begin

text \<open>
  The running system: LSM hooks that fire in any order for any task, the userspace manager that
  updates the maps between them, and the reader that takes events off the ring buffer. A step
  is one of the three, an execution is a sequence of steps from the maps as the loader creates
  them.
\<close>

section \<open>Steps\<close>

datatype manager_op =
  OpSetRule u64 u8 bytes u8 bool
| OpSetNetworkRule u64 u32 u8 bool
| OpDeleteRule u64 u8 bytes
| OpClear
| OpSync "CachedDecision list"
| OpSetEnforce bool
| OpSetFilter "u64 list"

fun manager_run :: "lsm_state \<Rightarrow> manager_op \<Rightarrow> lsm_state" where
  "manager_run st (OpSetRule cgid etype pattern act log) = snd (SetRule st cgid etype pattern act log)"
| "manager_run st (OpSetNetworkRule cgid hash act log) = snd (SetNetworkRule st cgid hash act log)"
| "manager_run st (OpDeleteRule cgid etype pattern) = snd (DeleteRule st cgid etype pattern)"
| "manager_run st OpClear = snd (Clear st)"
| "manager_run st (OpSync decisions) = snd (SyncFromWASM st decisions)"
| "manager_run st (OpSetEnforce enabled) = SetEnforce st enabled"
| "manager_run st (OpSetFilter ids) = snd (SetLSMCgroupFilter st ids)"

datatype lsm_action =
  Hooked helpers hook_call int "bytes list"
| Managed manager_op
| Consumed bytes

text \<open>The label of a hook carries its code and the records it submitted.\<close>

inductive lsm_step :: "lsm_state \<Rightarrow> lsm_action \<Rightarrow> lsm_state \<Rightarrow> bool" where
  hooked:
    "bpf_helpers h \<Longrightarrow> run_hook h st c = (code, st') \<Longrightarrow> lsm_events st' = lsm_events st @ rs \<Longrightarrow>
     lsm_step st (Hooked h c code rs) st'"
| managed: "lsm_step st (Managed op) (manager_run st op)"
| consumed: "lsm_events st = r # rs \<Longrightarrow> lsm_step st (Consumed r) (st\<lparr>lsm_events := rs\<rparr>)"

inductive_cases hooked_cases: "lsm_step st (Hooked h c code rs) st'"
inductive_cases managed_cases: "lsm_step st (Managed op) st'"
inductive_cases consumed_cases: "lsm_step st (Consumed r) st'"

lemmas lsm_step_cases = hooked_cases managed_cases consumed_cases

inductive lsm_exec :: "lsm_state \<Rightarrow> lsm_action list \<Rightarrow> lsm_state \<Rightarrow> bool" where
  start: "lsm_exec st [] st"
| extend: "lsm_exec st as st' \<Longrightarrow> lsm_step st' a st'' \<Longrightarrow> lsm_exec st (as @ [a]) st''"

text \<open>The maps as the loader creates them: empty, with the one array entry cleared.\<close>

definition boot :: lsm_state where
  "boot = \<lparr> policy_map = [], lsm_events = [], lsm_cgroup_filter = [], lsm_enforce = [0] \<rparr>"

lemma lsm_exec_invariant:
  assumes "lsm_exec st as st'" and "I [] st"
    and "\<And>as st a st'. I as st \<Longrightarrow> lsm_step st a st' \<Longrightarrow> I (as @ [a]) st'"
  shows "I as st'"
  using assms by (induction rule: lsm_exec.induct) auto

section \<open>Invariants of steps\<close>

text \<open>A hook appends at most one record, of the size of the event struct.\<close>

lemma hook_appends:
  assumes "bpf_helpers h"
  shows "\<exists>rs. lsm_events (snd (run_hook h st c)) = lsm_events st @ rs \<and> length rs \<le> 1 \<and>
     (\<forall>r \<in> set rs. length r = 328)"
proof (cases "hook_request h c")
  case None
  then show ?thesis by (simp add: hook_no_request)
next
  case (Some rq)
  have "length (fill_lsm_event h ty d nm n cg p a v buf) = 328"
    if "bpf_ringbuf_reserve h q (size_of struct_warmor_event) = Some buf" for q ty d nm n cg p a v buf
    using that bpf_helpers.fill_lsm_event_length [OF assms] bpf_helpers.reserve_length [OF assms]
    by (simp add: offset_simps)
  then show ?thesis
    using hook_spec(2) [OF Some, of st] by (auto simp: submitted_def split: option.splits)
qed

text \<open>Every hook call is a step: the programs are total.\<close>

lemma hook_step_exists:
  assumes "bpf_helpers h"
  shows "\<exists>code rs st'. lsm_step st (Hooked h c code rs) st'"
proof -
  obtain rs where "lsm_events (snd (run_hook h st c)) = lsm_events st @ rs"
    using hook_appends [OF assms] by blast
  then show ?thesis
    using hooked [OF assms, of st c "fst (run_hook h st c)" "snd (run_hook h st c)" rs] by auto
qed

lemma manager_frame:
  "lsm_events (manager_run st op) = lsm_events st"
  by (cases op)
    (auto simp: SetRule_def SetNetworkRule_def DeleteRule_def Clear_def SyncFromWASM_def
      SetEnforce_def SetLSMCgroupFilter_def put_rule_def Let_def split: sum.split prod.split)

lemma manager_run_wf: "wf_state st \<Longrightarrow> wf_state (manager_run st op)"
  by (cases op) (simp_all add: SetRule_def SetNetworkRule_def manager_wf Let_def)

lemma consume_wf: "wf_state st \<Longrightarrow> wf_state (st\<lparr>lsm_events := rs\<rparr>)"
  by (simp add: wf_state_def)

lemma step_wf: "lsm_step st a st' \<Longrightarrow> wf_state st \<Longrightarrow> wf_state st'"
  by (induction rule: lsm_step.induct)
    (metis hook_wf_kept snd_conv, simp_all add: manager_run_wf consume_wf)

lemma boot_wf: "wf_state boot"
  by (simp add: boot_def wf_state_def)

lemma step_record_sizes:
  assumes "lsm_step st a st'" and "\<forall>r \<in> set (lsm_events st). length r = 328"
  shows "\<forall>r \<in> set (lsm_events st'). length r = 328"
  using assms
proof (induction rule: lsm_step.induct)
  case (hooked h st c code st' rs)
  then show ?case using hook_appends [OF hooked.hyps(1), of st c] by auto
qed (auto simp: manager_frame)

text \<open>The records that an execution submitted, and those that were read.\<close>

fun produced :: "lsm_action \<Rightarrow> bytes list" where
  "produced (Hooked h c code rs) = rs"
| "produced _ = []"

fun read_off :: "lsm_action \<Rightarrow> bytes list" where
  "read_off (Consumed r) = [r]"
| "read_off _ = []"

text \<open>The rules that an operation writes.\<close>

fun installs :: "manager_op \<Rightarrow> (policy_key \<times> policy_value) list" where
  "installs (OpSetRule cgid etype pattern act log) =
     [(rule_key cgid etype (HashPattern pattern), rule_value act log)]"
| "installs (OpSetNetworkRule cgid hash act log) =
     [(rule_key cgid EVENT_TYPE_NETWORK hash, rule_value act log)]"
| "installs (OpSync decisions) = map decision_entry decisions"
| "installs _ = []"

definition accounted :: "(policy_key \<times> policy_value) set \<Rightarrow> lsm_state \<Rightarrow> bool" where
  "accounted W st \<longleftrightarrow>
     (\<forall>key val. bpf_map_lookup_elem (policy_map st) key = Some val \<longrightarrow>
        (\<exists>v. (key, v) \<in> W \<and> action v = action val \<and> audit v = audit val))"

definition written :: "lsm_action list \<Rightarrow> (policy_key \<times> policy_value) set" where
  "written as = (\<Union>a \<in> set as. case a of Managed op \<Rightarrow> set (installs op) | _ \<Rightarrow> {})"

lemma put_all_origin:
  "wf_map n m \<Longrightarrow> put_result (put_all (bpf_map_update_elem n) m kvs) = m' \<Longrightarrow> map_of m' k = Some v \<Longrightarrow>
   map_of m k = Some v \<or> (k, v) \<in> set kvs"
proof (induction kvs arbitrary: m)
  case (Cons kv kvs)
  obtain k' v' where kv: "kv = (k', v')" by (cases kv)
  show ?case
  proof (cases "bpf_map_update_elem n m k' v'")
    case (Inl e)
    then show ?thesis using Cons.prems kv by (auto simp: put_result_def)
  next
    case (Inr m1)
    have "map_of m1 = (map_of m)(k' \<mapsto> v')"
      using bm.put_lookup [OF Cons.prems(1) Inr] by (simp add: bpf_map_lookup_elem_def [abs_def])
    then show ?thesis
      using Cons.IH [OF bm.put_wf [OF Cons.prems(1) Inr]] Cons.prems(2,3) Inr kv
      by (auto split: if_splits)
  qed
qed (simp add: put_result_def)

lemma delete_all_origin:
  "wf_map n m \<Longrightarrow> map_of (delete_all bpf_map_delete_elem m ks) k = Some v \<Longrightarrow> map_of m k = Some v"
  using bm.delete_all_spec [of n m ks]
  by (auto simp: bpf_map_lookup_elem_def [abs_def] restrict_map_def split: if_splits)

text \<open>A rule that is in the map after an operation was there before or is one the operation writes.\<close>

lemma manager_origin:
  assumes "wf_state st" and "bpf_map_lookup_elem (policy_map (manager_run st op)) key = Some val"
  shows "bpf_map_lookup_elem (policy_map st) key = Some val \<or> (key, val) \<in> set (installs op)"
proof -
  have wf: "wf_map POLICY_MAP_MAX_ENTRIES (policy_map st)"
    using assms(1) by (simp add: wf_state_def)
  have put: "bpf_map_lookup_elem (policy_map st) key = Some val \<or> (key, val) = (k, v)"
    if "bpf_map_lookup_elem (policy_map (snd (put_rule st k v))) key = Some val" for k v
    using that bm.put_lookup [OF wf, of k v]
    by (auto simp: put_rule_def split: sum.splits if_splits)
  show ?thesis
  proof (cases op)
    case (OpDeleteRule cgid etype pattern)
    then show ?thesis
      using assms(2) bm.del_lookup [OF wf]
      by (auto simp: DeleteRule_def Let_def split: sum.splits if_splits)
  next
    case OpClear
    then show ?thesis
      using assms(2) delete_all_origin [OF wf] by (simp add: Clear_def Let_def bpf_map_lookup_elem_def)
  next
    case (OpSync decisions)
    then show ?thesis
      using assms(2) put_all_origin [OF wf refl, of "map decision_entry decisions" key val]
      by (simp add: SyncFromWASM_result bpf_map_lookup_elem_def)
  qed (use assms(2) put in
      \<open>auto simp: SetRule_def SetNetworkRule_def SetEnforce_def SetLSMCgroupFilter_def Let_def
        rule_key_def split: prod.splits\<close>)
qed

lemma hook_rules:
  assumes "bpf_map_lookup_elem (policy_map (snd (run_hook h st c))) key = Some val"
  shows "\<exists>v. bpf_map_lookup_elem (policy_map st) key = Some v \<and> action v = action val \<and> audit v = audit val"
proof (cases "hook_request h c")
  case (Some rq)
  then show ?thesis
    using assms
    by (cases "counted_key h st rq")
      (auto simp: hook_spec(3) [OF Some] counted_def incr_hit_count_lookup split: if_splits)
qed (use assms in \<open>simp add: hook_no_request\<close>)

lemma accounted_mono: "accounted W st \<Longrightarrow> W \<subseteq> W' \<Longrightarrow> accounted W' st"
  unfolding accounted_def by blast

lemma written_snoc:
  "written (as @ [a]) = written as \<union> (case a of Managed op \<Rightarrow> set (installs op) | _ \<Rightarrow> {})"
  by (auto simp: written_def)

lemma hook_accounted:
  assumes "accounted W st"
  shows "accounted W (snd (run_hook h st c))"
  unfolding accounted_def
proof (intro allI impI)
  fix key val
  assume "bpf_map_lookup_elem (policy_map (snd (run_hook h st c))) key = Some val"
  then obtain v where "bpf_map_lookup_elem (policy_map st) key = Some v"
      and v: "action v = action val" "audit v = audit val"
    using hook_rules by blast
  then obtain w where "(key, w) \<in> W" "action w = action v" "audit w = audit v"
    using assms unfolding accounted_def by blast
  then show "\<exists>v. (key, v) \<in> W \<and> action v = action val \<and> audit v = audit val"
    using v by auto
qed

lemma manager_accounted:
  assumes "wf_state st" and "accounted W st"
  shows "accounted (W \<union> set (installs op)) (manager_run st op)"
  unfolding accounted_def
proof (intro allI impI)
  fix key val
  assume "bpf_map_lookup_elem (policy_map (manager_run st op)) key = Some val"
  then have "bpf_map_lookup_elem (policy_map st) key = Some val \<or> (key, val) \<in> set (installs op)"
    by (rule manager_origin [OF assms(1)])
  then show "\<exists>v. (key, v) \<in> W \<union> set (installs op) \<and> action v = action val \<and> audit v = audit val"
    using assms(2) unfolding accounted_def by blast
qed

lemma step_accounted:
  assumes "lsm_step st a st'" and "wf_state st" and "accounted (written as) st"
  shows "accounted (written (as @ [a])) st'"
  using assms
proof (induction rule: lsm_step.induct)
  case (hooked h st c code st' rs)
  then show ?case using hook_accounted [of "written as" st h c] by (simp add: written_snoc)
next
  case (managed st op)
  then show ?case using manager_accounted by (simp add: written_snoc)
qed (simp add: written_snoc accounted_def)

lemma manager_enforce:
  assumes "wf_state st" and "is_enforce_enabled (manager_run st op)"
  shows "is_enforce_enabled st \<or> op = OpSetEnforce True"
proof (cases "\<exists>b. op = OpSetEnforce b")
  case True
  then show ?thesis using assms by (auto simp: SetEnforce_enabled)
next
  case False
  then have "lsm_enforce (manager_run st op) = lsm_enforce st"
    by (cases op)
      (auto simp: SetRule_def SetNetworkRule_def DeleteRule_def Clear_def SyncFromWASM_def
        SetLSMCgroupFilter_def put_rule_def Let_def split: sum.split prod.split)
  then show ?thesis using assms(2) is_enforce_enabled_frame by metis
qed

lemma step_enforce:
  assumes "lsm_step st a st'" and "wf_state st" and "is_enforce_enabled st'"
  shows "is_enforce_enabled st \<or> a = Managed (OpSetEnforce True)"
  using assms
proof (induction rule: lsm_step.induct)
  case (hooked h st c code st' rs)
  then show ?case
    using hook_policy_kept(3) [of h st c] is_enforce_enabled_frame [of st' st] by auto
next
  case (managed st op)
  then show ?case using manager_enforce by blast
qed (simp add: is_enforce_enabled_def)

end
