(* ===== verification/Monitors.thy ===== *)
theory Monitors
  imports Lsm_Common
begin

text \<open>
  The tracepoint programs of \<open>bpf/execve_monitor.bpf.c\<close>, \<open>bpf/openat_monitor.bpf.c\<close> and
  \<open>bpf/connect_monitor.bpf.c\<close>. Each has its own ring buffer and its own cgroup filter; the
  context of a tracepoint is the byte string that \<open>bpf/tracepoint_defs.h\<close> describes.
\<close>

section \<open>Structs\<close>

definition struct_trace_event_raw_sys_enter :: ctype where
  "struct_trace_event_raw_sys_enter = CStruct False [
     Field ''unused'' c_long,
     Field ''id'' c_long,
     Field ''args'' (CArr c_long 6)]"

definition struct_trace_event_raw_sys_exit :: ctype where
  "struct_trace_event_raw_sys_exit = CStruct False [
     Field ''unused'' c_long,
     Field ''id'' c_long,
     Field ''ret'' c_long]"

definition struct_execve_event :: ctype where
  "struct_execve_event = CStruct False [
     Field ''pid'' type___u32,
     Field ''uid'' type___u32,
     Field ''gid'' type___u32,
     Field ''comm'' (CArr c_char 16),
     Field ''filename'' (CArr c_char 256),
     Field ''timestamp'' type___u64,
     Field ''cgroup_id'' type___u64]"

definition struct_file_event :: ctype where
  "struct_file_event = CStruct False [
     Field ''pid'' type___u32,
     Field ''uid'' type___u32,
     Field ''gid'' type___u32,
     Field ''comm'' (CArr c_char 16),
     Field ''path'' (CArr c_char 256),
     Field ''flags'' type___u32,
     Field ''mode'' type___u32,
     Field ''timestamp'' type___u64,
     Field ''cgroup_id'' type___u64]"

definition struct_network_event :: ctype where
  "struct_network_event = CStruct False [
     Field ''pid'' type___u32,
     Field ''uid'' type___u32,
     Field ''gid'' type___u32,
     Field ''comm'' (CArr c_char 16),
     Field ''family'' type___u16,
     Field ''remote_port'' type___u16,
     Field ''remote_addr_v4'' type___u32,
     Field ''remote_addr_v6'' (CArr type___u8 16),
     Field ''timestamp'' type___u64,
     Field ''cgroup_id'' type___u64]"

definition user_sockaddr :: ctype where
  "user_sockaddr = CStruct False [
     Field ''sa_family'' c_short,
     Field ''sa_data'' (CArr c_char 14)]"

definition user_in_addr :: ctype where
  "user_in_addr = CStruct False [Field ''s_addr'' type___u32]"

definition user_sockaddr_in :: ctype where
  "user_sockaddr_in = CStruct False [
     Field ''sin_family'' c_short,
     Field ''sin_port'' type___u16,
     Field ''sin_addr'' user_in_addr,
     Field ''sin_zero'' (CArr c_char 8)]"

definition user_in6_addr :: ctype where
  "user_in6_addr = CStruct False [Field ''s6_addr'' (CArr type___u8 16)]"

definition user_sockaddr_in6 :: ctype where
  "user_sockaddr_in6 = CStruct False [
     Field ''sin6_family'' c_short,
     Field ''sin6_port'' type___u16,
     Field ''sin6_flowinfo'' type___u32,
     Field ''sin6_addr'' user_in6_addr,
     Field ''sin6_scope_id'' type___u32]"

definition AF_INET :: u16 where "AF_INET = 2"
definition AF_INET6 :: u16 where "AF_INET6 = 10"

lemma tracepoint_offsets [offset_simps]:
  "size_of struct_trace_event_raw_sys_enter = 64"
  "offset_of struct_trace_event_raw_sys_enter ''args'' = 16"
  "size_of struct_trace_event_raw_sys_exit = 24"
  by (simp_all add: size_of_def offset_of_def struct_trace_event_raw_sys_enter_def
      struct_trace_event_raw_sys_exit_def typedef_defs scan_simps cong: scan_congs)

lemma execve_event_offsets [offset_simps]:
  "size_of struct_execve_event = 304"
  "offset_of struct_execve_event ''pid'' = 0"
  "offset_of struct_execve_event ''uid'' = 4"
  "offset_of struct_execve_event ''gid'' = 8"
  "offset_of struct_execve_event ''comm'' = 12"
  "offset_of struct_execve_event ''filename'' = 28"
  "offset_of struct_execve_event ''timestamp'' = 288"
  "offset_of struct_execve_event ''cgroup_id'' = 296"
  by (simp_all add: size_of_def offset_of_def struct_execve_event_def typedef_defs scan_simps
      cong: scan_congs)

lemma file_event_offsets [offset_simps]:
  "size_of struct_file_event = 312"
  "offset_of struct_file_event ''pid'' = 0"
  "offset_of struct_file_event ''uid'' = 4"
  "offset_of struct_file_event ''gid'' = 8"
  "offset_of struct_file_event ''comm'' = 12"
  "offset_of struct_file_event ''path'' = 28"
  "offset_of struct_file_event ''flags'' = 284"
  "offset_of struct_file_event ''mode'' = 288"
  "offset_of struct_file_event ''timestamp'' = 296"
  "offset_of struct_file_event ''cgroup_id'' = 304"
  by (simp_all add: size_of_def offset_of_def struct_file_event_def typedef_defs scan_simps
      cong: scan_congs)

lemma network_event_offsets [offset_simps]:
  "size_of struct_network_event = 72"
  "offset_of struct_network_event ''pid'' = 0"
  "offset_of struct_network_event ''uid'' = 4"
  "offset_of struct_network_event ''gid'' = 8"
  "offset_of struct_network_event ''comm'' = 12"
  "offset_of struct_network_event ''family'' = 28"
  "offset_of struct_network_event ''remote_port'' = 30"
  "offset_of struct_network_event ''remote_addr_v4'' = 32"
  "offset_of struct_network_event ''remote_addr_v6'' = 36"
  "offset_of struct_network_event ''timestamp'' = 56"
  "offset_of struct_network_event ''cgroup_id'' = 64"
  by (simp_all add: size_of_def offset_of_def struct_network_event_def typedef_defs scan_simps
      cong: scan_congs)

lemma user_sockaddr_offsets [offset_simps]:
  "offset_of user_sockaddr ''sa_family'' = 0"
  "offset_of user_sockaddr_in ''sin_port'' = 2"
  "offset_of user_sockaddr_in ''sin_addr'' = 4"
  "offset_of user_sockaddr_in6 ''sin6_port'' = 2"
  "offset_of user_sockaddr_in6 ''sin6_addr'' = 8"
  by (simp_all add: size_of_def offset_of_def user_sockaddr_def user_sockaddr_in_def
      user_sockaddr_in6_def user_in_addr_def user_in6_addr_def typedef_defs scan_simps
      cong: scan_congs)

section \<open>The programs\<close>

record monitor_state =
  events :: "bytes list"
  cgroup_filter :: "(u64, u8) bpf_map"

definition ctx_arg :: "bytes \<Rightarrow> nat \<Rightarrow> u64" where
  "ctx_arg ctx i =
     le_word (load (offset_of struct_trace_event_raw_sys_enter ''args'' + 8 * i) 8 ctx)"

definition sys_enter_execve :: "helpers \<Rightarrow> monitor_state \<Rightarrow> bytes \<Rightarrow> int \<times> monitor_state" where
  "sys_enter_execve h st ctx =
     (let off = offset_of struct_execve_event;
          pid_tgid = bpf_get_current_pid_tgid h;
          pid = (ucast (drop_bit 32 pid_tgid) :: u32);
          uid_gid = bpf_get_current_uid_gid h;
          cgid = bpf_get_current_cgroup_id h
      in if bpf_map_lookup_elem (cgroup_filter st) cgid = None \<and>
            bpf_map_lookup_elem (cgroup_filter st) 0 \<noteq> None
         then (0, st)
         else case bpf_ringbuf_reserve h (events st) (size_of struct_execve_event) of
                None \<Rightarrow> (0, st)
              | Some event \<Rightarrow>
                  (let event = store (off ''pid'') (le_bytes 4 pid) event;
                       event = store (off ''uid'') (le_bytes 4 (ucast uid_gid :: u32)) event;
                       event = store (off ''gid'')
                                 (le_bytes 4 (ucast (drop_bit 32 uid_gid) :: u32)) event;
                       event = store (off ''timestamp'') (le_bytes 8 (bpf_ktime_get_ns h)) event;
                       event = store (off ''cgroup_id'') (le_bytes 8 cgid) event;
                       event = modify (off ''comm'') 16 (bpf_get_current_comm h) event;
                       filename_ptr = ctx_arg ctx 0;
                       event = modify (off ''filename'') 256
                                 (\<lambda>dst. snd (bpf_probe_read_user_str h dst filename_ptr)) event
                   in (0, st\<lparr>events := events st @ [event]\<rparr>)))"

definition sys_enter_openat :: "helpers \<Rightarrow> monitor_state \<Rightarrow> bytes \<Rightarrow> int \<times> monitor_state" where
  "sys_enter_openat h st ctx =
     (let off = offset_of struct_file_event;
          cgid = bpf_get_current_cgroup_id h
      in if bpf_map_lookup_elem (cgroup_filter st) cgid = None \<and>
            bpf_map_lookup_elem (cgroup_filter st) 0 \<noteq> None
         then (0, st)
         else case bpf_ringbuf_reserve h (events st) (size_of struct_file_event) of
                None \<Rightarrow> (0, st)
              | Some event \<Rightarrow>
                  (let pid_tgid = bpf_get_current_pid_tgid h;
                       event = store (off ''pid'')
                                 (le_bytes 4 (ucast (drop_bit 32 pid_tgid) :: u32)) event;
                       uid_gid = bpf_get_current_uid_gid h;
                       event = store (off ''uid'')
                                 (le_bytes 4 (ucast (uid_gid AND 0xFFFFFFFF) :: u32)) event;
                       event = store (off ''gid'')
                                 (le_bytes 4 (ucast (drop_bit 32 uid_gid) :: u32)) event;
                       event = modify (off ''comm'') 16 (bpf_get_current_comm h) event;
                       event = modify (off ''path'') 256
                                 (\<lambda>dst. snd (bpf_probe_read_user_str h dst (ctx_arg ctx 1))) event;
                       event = store (off ''flags'') (le_bytes 4 (ucast (ctx_arg ctx 2) :: u32)) event;
                       event = store (off ''mode'') (le_bytes 4 (ucast (ctx_arg ctx 3) :: u32)) event;
                       event = store (off ''timestamp'') (le_bytes 8 (bpf_ktime_get_ns h)) event;
                       event = store (off ''cgroup_id'') (le_bytes 8 cgid) event
                   in (0, st\<lparr>events := events st @ [event]\<rparr>)))"

text \<open>
  \<open>sys_enter_connect\<close> stores the family it read; port and address are read into the event only
  for the two internet families.
\<close>

definition sys_enter_connect :: "helpers \<Rightarrow> monitor_state \<Rightarrow> bytes \<Rightarrow> int \<times> monitor_state" where
  "sys_enter_connect h st ctx =
     (let off = offset_of struct_network_event;
          cgid = bpf_get_current_cgroup_id h
      in if bpf_map_lookup_elem (cgroup_filter st) cgid = None \<and>
            bpf_map_lookup_elem (cgroup_filter st) 0 \<noteq> None
         then (0, st)
         else case bpf_ringbuf_reserve h (events st) (size_of struct_network_event) of
                None \<Rightarrow> (0, st)
              | Some event \<Rightarrow>
                  (let pid_tgid = bpf_get_current_pid_tgid h;
                       event = store (off ''pid'')
                                 (le_bytes 4 (ucast (drop_bit 32 pid_tgid) :: u32)) event;
                       uid_gid = bpf_get_current_uid_gid h;
                       event = store (off ''uid'')
                                 (le_bytes 4 (ucast (uid_gid AND 0xFFFFFFFF) :: u32)) event;
                       event = store (off ''gid'')
                                 (le_bytes 4 (ucast (drop_bit 32 uid_gid) :: u32)) event;
                       event = modify (off ''comm'') 16 (bpf_get_current_comm h) event;
                       addr = ctx_arg ctx 1;
                       family = (le_word (snd (bpf_probe_read_user h (stack_bytes h 2)
                                   (addr + of_nat (offset_of user_sockaddr ''sa_family'')))) :: u16);
                       event = store (off ''family'') (le_bytes 2 family) event;
                       event =
                         (if family = AF_INET then
                            let event = modify (off ''remote_port'') 2 (\<lambda>dst.
                                  snd (bpf_probe_read_user h dst
                                    (addr + of_nat (offset_of user_sockaddr_in ''sin_port'')))) event
                            in modify (off ''remote_addr_v4'') 4 (\<lambda>dst.
                                  snd (bpf_probe_read_user h dst
                                    (addr + of_nat (offset_of user_sockaddr_in ''sin_addr'')))) event
                          else if family = AF_INET6 then
                            let event = modify (off ''remote_port'') 2 (\<lambda>dst.
                                  snd (bpf_probe_read_user h dst
                                    (addr + of_nat (offset_of user_sockaddr_in6 ''sin6_port'')))) event
                            in modify (off ''remote_addr_v6'') 16 (\<lambda>dst.
                                  snd (bpf_probe_read_user h dst
                                    (addr + of_nat (offset_of user_sockaddr_in6 ''sin6_addr'')))) event
                          else event);
                       event = store (off ''timestamp'') (le_bytes 8 (bpf_ktime_get_ns h)) event;
                       event = store (off ''cgroup_id'') (le_bytes 8 cgid) event
                   in (0, st\<lparr>events := events st @ [event]\<rparr>)))"

section \<open>What the programs have in common\<close>

text \<open>
  A monitor drops the event of a filtered cgroup and the event that finds no room; otherwise it
  appends the record that \<open>fill\<close> makes of the reserved memory. It never influences the system
  call: its code is 0.
\<close>

definition filtered :: "(u64, u8) bpf_map \<Rightarrow> u64 \<Rightarrow> bool" where
  "filtered flt cgid \<longleftrightarrow> bpf_map_lookup_elem flt cgid = None \<and> bpf_map_lookup_elem flt 0 \<noteq> None"

locale monitor =
  fixes run :: "helpers \<Rightarrow> monitor_state \<Rightarrow> bytes \<Rightarrow> int \<times> monitor_state"
    and size :: nat
    and fill :: "helpers \<Rightarrow> bytes \<Rightarrow> bytes \<Rightarrow> bytes"
  assumes run_fill:
      "bpf_helpers h \<Longrightarrow>
       run h st ctx =
         (if filtered (cgroup_filter st) (bpf_get_current_cgroup_id h) then (0, st)
          else case bpf_ringbuf_reserve h (events st) size of
                 None \<Rightarrow> (0, st)
               | Some event \<Rightarrow> (0, st\<lparr>events := events st @ [fill h ctx event]\<rparr>))"
    and fill_length: "bpf_helpers h \<Longrightarrow> length event = size \<Longrightarrow> length (fill h ctx event) = size"
begin

lemma code: "bpf_helpers h \<Longrightarrow> fst (run h st ctx) = 0"
  by (simp add: run_fill split: option.split)

lemma frame: "bpf_helpers h \<Longrightarrow> cgroup_filter (snd (run h st ctx)) = cgroup_filter st"
  by (simp add: run_fill split: option.split)

lemma dropped:
  "bpf_helpers h \<Longrightarrow>
   filtered (cgroup_filter st) (bpf_get_current_cgroup_id h) \<or>
   bpf_ringbuf_reserve h (events st) size = None \<Longrightarrow> snd (run h st ctx) = st"
  by (auto simp: run_fill)

lemma submitted:
  "bpf_helpers h \<Longrightarrow> \<not> filtered (cgroup_filter st) (bpf_get_current_cgroup_id h) \<Longrightarrow>
   bpf_ringbuf_reserve h (events st) size = Some buf \<Longrightarrow>
   events (snd (run h st ctx)) = events st @ [fill h ctx buf]"
  by (simp add: run_fill)

lemma record_length:
  "bpf_helpers h \<Longrightarrow> bpf_ringbuf_reserve h q size = Some buf \<Longrightarrow> length (fill h ctx buf) = size"
  using fill_length bpf_helpers.reserve_length by metis

lemma sizes_kept:
  assumes "bpf_helpers h" and "\<forall>r \<in> set (events st). length r = size"
  shows "\<forall>r \<in> set (events (snd (run h st ctx))). length r = size"
  using assms record_length [OF assms(1)] by (auto simp: run_fill split: option.splits)

end

section \<open>Every monitor follows the contract\<close>

definition task_writes :: "helpers \<Rightarrow> bytes \<Rightarrow> (nat \<times> bytes) list" where
  "task_writes h event =
     [(12, bpf_get_current_comm h (load 12 16 event)),
      (8, le_bytes 4 (ucast (drop_bit 32 (bpf_get_current_uid_gid h)) :: u32)),
      (4, le_bytes 4 (ucast (bpf_get_current_uid_gid h) :: u32)),
      (0, le_bytes 4 (ucast (drop_bit 32 (bpf_get_current_pid_tgid h)) :: u32))]"

definition stamp_writes :: "helpers \<Rightarrow> nat \<Rightarrow> (nat \<times> bytes) list" where
  "stamp_writes h off =
     [(off + 8, le_bytes 8 (bpf_get_current_cgroup_id h)), (off, le_bytes 8 (bpf_ktime_get_ns h))]"

definition execve_fill :: "helpers \<Rightarrow> bytes \<Rightarrow> bytes \<Rightarrow> bytes" where
  "execve_fill h ctx event =
     writes ((28, snd (bpf_probe_read_user_str h (load 28 256 event) (ctx_arg ctx 0))) #
             (12, bpf_get_current_comm h (load 12 16 event)) #
             stamp_writes h 288 @ tl (task_writes h event)) event"

definition openat_fill :: "helpers \<Rightarrow> bytes \<Rightarrow> bytes \<Rightarrow> bytes" where
  "openat_fill h ctx event =
     writes (stamp_writes h 296 @
             (288, le_bytes 4 (ucast (ctx_arg ctx 3) :: u32)) #
             (284, le_bytes 4 (ucast (ctx_arg ctx 2) :: u32)) #
             (28, snd (bpf_probe_read_user_str h (load 28 256 event) (ctx_arg ctx 1))) #
             task_writes h event) event"

definition user_family :: "helpers \<Rightarrow> addr \<Rightarrow> u16" where
  "user_family h addr = le_word (snd (bpf_probe_read_user h (stack_bytes h 2) addr))"

definition endpoint_writes :: "helpers \<Rightarrow> addr \<Rightarrow> bytes \<Rightarrow> (nat \<times> bytes) list" where
  "endpoint_writes h addr event =
     (if user_family h addr = AF_INET then
        [(32, snd (bpf_probe_read_user h (load 32 4 event) (addr + 4))),
         (30, snd (bpf_probe_read_user h (load 30 2 event) (addr + 2)))]
      else if user_family h addr = AF_INET6 then
        [(36, snd (bpf_probe_read_user h (load 36 16 event) (addr + 8))),
         (30, snd (bpf_probe_read_user h (load 30 2 event) (addr + 2)))]
      else [])"

definition connect_fill :: "helpers \<Rightarrow> bytes \<Rightarrow> bytes \<Rightarrow> bytes" where
  "connect_fill h ctx event =
     writes (stamp_writes h 56 @ endpoint_writes h (ctx_arg ctx 1) event @
             (28, le_bytes 2 (user_family h (ctx_arg ctx 1))) # task_writes h event) event"

lemma low_word: "(ucast (w AND 0xFFFFFFFF :: u64) :: u32) = ucast w"
proof -
  have "w AND 0xFFFFFFFF = take_bit 32 w"
    by (simp add: take_bit_eq_mask mask_eq_exp_minus_1)
  then show ?thesis
    by (auto intro!: bit_eqI simp: bit_simps)
qed

lemmas fill_defs = task_writes_def stamp_writes_def write_simps writes_fit_def length_load

lemma tp_execve_run:
  assumes "bpf_helpers h"
  shows "sys_enter_execve h st ctx =
    (if filtered (cgroup_filter st) (bpf_get_current_cgroup_id h) then (0, st)
     else case bpf_ringbuf_reserve h (events st) 304 of
            None \<Rightarrow> (0, st)
          | Some event \<Rightarrow> (0, st\<lparr>events := events st @ [execve_fill h ctx event]\<rparr>))"
  using bpf_helpers.reserve_length [OF assms, of "events st" 304]
  by (auto simp: sys_enter_execve_def execve_fill_def filtered_def Let_def offset_simps fill_defs
      bpf_helpers.comm_length [OF assms] bpf_helpers.user_str_length [OF assms] split: option.split)

lemma tp_openat_run:
  assumes "bpf_helpers h"
  shows "sys_enter_openat h st ctx =
    (if filtered (cgroup_filter st) (bpf_get_current_cgroup_id h) then (0, st)
     else case bpf_ringbuf_reserve h (events st) 312 of
            None \<Rightarrow> (0, st)
          | Some event \<Rightarrow> (0, st\<lparr>events := events st @ [openat_fill h ctx event]\<rparr>))"
  using bpf_helpers.reserve_length [OF assms, of "events st" 312]
  by (auto simp: sys_enter_openat_def openat_fill_def filtered_def Let_def offset_simps fill_defs
      low_word bpf_helpers.comm_length [OF assms] bpf_helpers.user_str_length [OF assms]
      split: option.split)

lemma tp_connect_run:
  assumes "bpf_helpers h"
  shows "sys_enter_connect h st ctx =
    (if filtered (cgroup_filter st) (bpf_get_current_cgroup_id h) then (0, st)
     else case bpf_ringbuf_reserve h (events st) 72 of
            None \<Rightarrow> (0, st)
          | Some event \<Rightarrow> (0, st\<lparr>events := events st @ [connect_fill h ctx event]\<rparr>))"
  using bpf_helpers.reserve_length [OF assms, of "events st" 72]
  by (auto simp: sys_enter_connect_def connect_fill_def endpoint_writes_def user_family_def filtered_def
      Let_def offset_simps fill_defs low_word bpf_helpers.comm_length [OF assms]
      bpf_helpers.read_user_length [OF assms] split: option.split)

lemma fill_lengths:
  assumes "bpf_helpers h"
  shows "length event = 304 \<Longrightarrow> length (execve_fill h ctx event) = 304"
    and "length event = 312 \<Longrightarrow> length (openat_fill h ctx event) = 312"
    and "length event = 72 \<Longrightarrow> length (connect_fill h ctx event) = 72"
  by (simp_all add: execve_fill_def openat_fill_def connect_fill_def endpoint_writes_def
      task_writes_def stamp_writes_def length_writes writes_fit_def length_load
      bpf_helpers.comm_length [OF assms] bpf_helpers.user_str_length [OF assms]
      bpf_helpers.read_user_length [OF assms])

interpretation tpx: monitor sys_enter_execve 304 execve_fill
  by unfold_locales (simp_all add: tp_execve_run fill_lengths)

interpretation tpo: monitor sys_enter_openat 312 openat_fill
  by unfold_locales (simp_all add: tp_openat_run fill_lengths)

interpretation tpc: monitor sys_enter_connect 72 connect_fill
  by unfold_locales (simp_all add: tp_connect_run fill_lengths)

section \<open>The members of the records\<close>

lemma execve_members:
  assumes "bpf_helpers h" and "length event = 304"
  shows "load 0 4 (execve_fill h ctx event) = le_bytes 4 (ucast (drop_bit 32 (bpf_get_current_pid_tgid h)) :: u32)"
    and "load 4 4 (execve_fill h ctx event) = le_bytes 4 (ucast (bpf_get_current_uid_gid h) :: u32)"
    and "load 8 4 (execve_fill h ctx event) = le_bytes 4 (ucast (drop_bit 32 (bpf_get_current_uid_gid h)) :: u32)"
    and "load 12 16 (execve_fill h ctx event) = bpf_get_current_comm h (load 12 16 event)"
    and "load 28 256 (execve_fill h ctx event) =
           snd (bpf_probe_read_user_str h (load 28 256 event) (ctx_arg ctx 0))"
    and "load 288 8 (execve_fill h ctx event) = le_bytes 8 (bpf_ktime_get_ns h)"
    and "load 296 8 (execve_fill h ctx event) = le_bytes 8 (bpf_get_current_cgroup_id h)"
  using assms(2)
  by (simp_all add: execve_fill_def task_writes_def stamp_writes_def load_writes writes_fit_def
      length_load bpf_helpers.comm_length [OF assms(1)] bpf_helpers.user_str_length [OF assms(1)])

lemma openat_members:
  assumes "bpf_helpers h" and "length event = 312"
  shows "load 0 4 (openat_fill h ctx event) = le_bytes 4 (ucast (drop_bit 32 (bpf_get_current_pid_tgid h)) :: u32)"
    and "load 4 4 (openat_fill h ctx event) = le_bytes 4 (ucast (bpf_get_current_uid_gid h) :: u32)"
    and "load 8 4 (openat_fill h ctx event) = le_bytes 4 (ucast (drop_bit 32 (bpf_get_current_uid_gid h)) :: u32)"
    and "load 12 16 (openat_fill h ctx event) = bpf_get_current_comm h (load 12 16 event)"
    and "load 28 256 (openat_fill h ctx event) =
           snd (bpf_probe_read_user_str h (load 28 256 event) (ctx_arg ctx 1))"
    and "load 284 4 (openat_fill h ctx event) = le_bytes 4 (ucast (ctx_arg ctx 2) :: u32)"
    and "load 288 4 (openat_fill h ctx event) = le_bytes 4 (ucast (ctx_arg ctx 3) :: u32)"
    and "load 296 8 (openat_fill h ctx event) = le_bytes 8 (bpf_ktime_get_ns h)"
    and "load 304 8 (openat_fill h ctx event) = le_bytes 8 (bpf_get_current_cgroup_id h)"
  using assms(2)
  by (simp_all add: openat_fill_def task_writes_def stamp_writes_def load_writes writes_fit_def
      length_load bpf_helpers.comm_length [OF assms(1)] bpf_helpers.user_str_length [OF assms(1)])

text \<open>
  The endpoint members of a connect record: what was read for the family, and otherwise the
  bytes of the reserved memory.
\<close>

lemma connect_members:
  fixes ctx
  assumes "bpf_helpers h" and "length event = 72"
  defines "addr \<equiv> ctx_arg ctx 1"
  shows "load 0 4 (connect_fill h ctx event) = le_bytes 4 (ucast (drop_bit 32 (bpf_get_current_pid_tgid h)) :: u32)"
    and "load 4 4 (connect_fill h ctx event) = le_bytes 4 (ucast (bpf_get_current_uid_gid h) :: u32)"
    and "load 8 4 (connect_fill h ctx event) = le_bytes 4 (ucast (drop_bit 32 (bpf_get_current_uid_gid h)) :: u32)"
    and "load 12 16 (connect_fill h ctx event) = bpf_get_current_comm h (load 12 16 event)"
    and "load 28 2 (connect_fill h ctx event) = le_bytes 2 (user_family h addr)"
    and "load 30 2 (connect_fill h ctx event) =
           (if user_family h addr \<in> {AF_INET, AF_INET6}
            then snd (bpf_probe_read_user h (load 30 2 event) (addr + 2)) else load 30 2 event)"
    and "load 32 4 (connect_fill h ctx event) =
           (if user_family h addr = AF_INET
            then snd (bpf_probe_read_user h (load 32 4 event) (addr + 4)) else load 32 4 event)"
    and "load 36 16 (connect_fill h ctx event) =
           (if user_family h addr = AF_INET6
            then snd (bpf_probe_read_user h (load 36 16 event) (addr + 8)) else load 36 16 event)"
    and "load 56 8 (connect_fill h ctx event) = le_bytes 8 (bpf_ktime_get_ns h)"
    and "load 64 8 (connect_fill h ctx event) = le_bytes 8 (bpf_get_current_cgroup_id h)"
  using assms(2) unfolding addr_def
  by (simp_all add: connect_fill_def endpoint_writes_def task_writes_def stamp_writes_def load_writes
      writes_fit_def length_load AF_INET_def AF_INET6_def bpf_helpers.comm_length [OF assms(1)]
      bpf_helpers.read_user_length [OF assms(1)])

end
