(* ===== verification/Go_Events.thy ===== *)
theory Go_Events
  imports Monitors
begin

text \<open>
  The userspace side of the event path, \<open>internal/ebpf/events.go\<close> and the readers of
  \<open>loader.go\<close> and \<open>lsm_loader.go\<close>: \<open>binary.Read\<close> of a raw sample into a Go struct and the
  conversion to an \<open>Event\<close>. Strings are byte strings; a printed address is kept as the bytes
  that are printed; a wall-clock time is nanoseconds since the epoch, with the boot-time offset
  as a parameter.
\<close>

section \<open>Reading Go structs\<close>

text \<open>
  \<open>binary.Read\<close> into a struct of fixed-size fields: the fields in order, without padding of its
  own; it fails when the sample is too short and ignores what is behind the last field.
\<close>

fun go_read :: "nat list \<Rightarrow> bytes \<Rightarrow> bytes list option" where
  "go_read [] bs = Some []"
| "go_read (n # ns) bs =
     (if length bs < n then None else map_option (Cons (take n bs)) (go_read ns (drop n bs)))"

fun go_offsets :: "nat \<Rightarrow> nat list \<Rightarrow> nat list" where
  "go_offsets off [] = []"
| "go_offsets off (n # ns) = off # go_offsets (off + n) ns"

lemma go_read_drop:
  "off + sum_list ns \<le> length bs \<Longrightarrow>
   go_read ns (drop off bs) = Some (map2 (\<lambda>o2 n. load o2 n bs) (go_offsets off ns) ns)"
  by (induction ns arbitrary: off) (auto simp: load_def add.commute)

lemma go_read_load:
  "sum_list ns \<le> length bs \<Longrightarrow>
   go_read ns bs = Some (map2 (\<lambda>o2 n. load o2 n bs) (go_offsets 0 ns) ns)"
  using go_read_drop [of 0 ns bs] by simp

lemma go_read_short: "length bs < sum_list ns \<Longrightarrow> go_read ns bs = None"
  by (induction ns arbitrary: bs) auto

section \<open>Event structs\<close>

text \<open>The sizes of the fields, blank padding fields included.\<close>

definition ExecveEvent :: "nat list" where
  "ExecveEvent = [4, 4, 4, 16, 256, 4, 8, 8]"

definition OpenatEvent :: "nat list" where
  "OpenatEvent = [4, 4, 4, 16, 256, 4, 4, 4, 8, 8]"

definition ConnectEvent :: "nat list" where
  "ConnectEvent = [4, 4, 4, 16, 2, 2, 4, 16, 4, 8, 8]"

definition LSMEvent :: "nat list" where
  "LSMEvent = [4, 4, 4, 16, 256, 4, 8, 8, 1, 1, 2, 4, 16]"

datatype EventKind = EventKindProcess | EventKindFile | EventKindNetwork

datatype remote_addr = NoAddr | IPv4Text bytes | IPv6Text bytes | UnknownFamily u16

record event =
  Kind :: EventKind
  PID :: u32
  UID :: u32
  GID :: u32
  Comm :: bytes
  Filename :: bytes
  Flags :: u32
  Mode :: u32
  RemoteAddr :: remote_addr
  RemotePort :: u16
  Family :: u16
  Timestamp :: int
  CgroupID :: u64

definition nullTerminatedString :: "bytes \<Rightarrow> bytes" where
  "nullTerminatedString b = takeWhile (\<lambda>c. c \<noteq> 0) b"

definition ntohs :: "u16 \<Rightarrow> u16" where
  "ntohs v = (drop_bit 8 v AND 255) OR push_bit 8 (v AND 255)"

definition bootTimeToWallClock :: "int \<Rightarrow> u64 \<Rightarrow> int" where
  "bootTimeToWallClock bootTimeOffset bootNs = sint bootNs + bootTimeOffset"

definition intToIPv4 :: "u32 \<Rightarrow> bytes" where
  "intToIPv4 addr =
     [ucast (addr AND 255), ucast (drop_bit 8 addr AND 255), ucast (drop_bit 16 addr AND 255),
      ucast (drop_bit 24 addr AND 255)]"

definition PutUint32_BigEndian :: "u32 \<Rightarrow> bytes" where
  "PutUint32_BigEndian w = rev (le_bytes 4 w)"

definition ExecveEvent_ToEvent :: "int \<Rightarrow> bytes list \<Rightarrow> event" where
  "ExecveEvent_ToEvent boot e =
     \<lparr> Kind = EventKindProcess, PID = le_word (e ! 0), UID = le_word (e ! 1), GID = le_word (e ! 2),
       Comm = nullTerminatedString (e ! 3), Filename = nullTerminatedString (e ! 4),
       Flags = 0, Mode = 0, RemoteAddr = NoAddr, RemotePort = 0, Family = 0,
       Timestamp = bootTimeToWallClock boot (le_word (e ! 6)), CgroupID = le_word (e ! 7) \<rparr>"

definition OpenatEvent_ToEvent :: "int \<Rightarrow> bytes list \<Rightarrow> event" where
  "OpenatEvent_ToEvent boot e =
     \<lparr> Kind = EventKindFile, PID = le_word (e ! 0), UID = le_word (e ! 1), GID = le_word (e ! 2),
       Comm = nullTerminatedString (e ! 3), Filename = nullTerminatedString (e ! 4),
       Flags = le_word (e ! 5), Mode = le_word (e ! 6), RemoteAddr = NoAddr, RemotePort = 0, Family = 0,
       Timestamp = bootTimeToWallClock boot (le_word (e ! 8)), CgroupID = le_word (e ! 9) \<rparr>"

definition remoteAddrString :: "u16 \<Rightarrow> u32 \<Rightarrow> bytes \<Rightarrow> remote_addr" where
  "remoteAddrString family v4 v6 =
     (if family = 2 then IPv4Text (PutUint32_BigEndian v4)
      else if family = 10 then IPv6Text v6
      else UnknownFamily family)"

definition ConnectEvent_ToEvent :: "int \<Rightarrow> bytes list \<Rightarrow> event" where
  "ConnectEvent_ToEvent boot e =
     \<lparr> Kind = EventKindNetwork, PID = le_word (e ! 0), UID = le_word (e ! 1), GID = le_word (e ! 2),
       Comm = nullTerminatedString (e ! 3), Filename = [], Flags = 0, Mode = 0,
       RemoteAddr = remoteAddrString (le_word (e ! 4)) (le_word (e ! 6)) (e ! 7),
       RemotePort = ntohs (le_word (e ! 5)), Family = le_word (e ! 4),
       Timestamp = bootTimeToWallClock boot (le_word (e ! 9)), CgroupID = le_word (e ! 10) \<rparr>"

text \<open>The zero value of \<open>Kind\<close> is \<open>EventKindProcess\<close>: an unknown event type keeps it.\<close>

definition LSMEvent_ToEvent :: "int \<Rightarrow> bytes list \<Rightarrow> event" where
  "LSMEvent_ToEvent boot e =
     (let ev = \<lparr> Kind = EventKindProcess, PID = le_word (e ! 0), UID = le_word (e ! 1),
                 GID = le_word (e ! 2), Comm = nullTerminatedString (e ! 3),
                 Filename = nullTerminatedString (e ! 4), Flags = 0, Mode = 0,
                 RemoteAddr = NoAddr, RemotePort = 0, Family = 0,
                 Timestamp = bootTimeToWallClock boot (le_word (e ! 6)),
                 CgroupID = le_word (e ! 7) \<rparr>;
          event_type = (le_word (e ! 8) :: u8);
          remote_port = le_word (e ! 10);
          v4 = (le_word (e ! 11) :: u32)
      in if event_type = EVENT_TYPE_EXEC then ev\<lparr>Kind := EventKindProcess\<rparr>
         else if event_type = EVENT_TYPE_FILE then ev\<lparr>Kind := EventKindFile\<rparr>
         else if event_type = EVENT_TYPE_NETWORK \<or> event_type = EVENT_TYPE_BIND then
           (let ev = ev\<lparr>Kind := EventKindNetwork, RemotePort := remote_port\<rparr>
            in if v4 \<noteq> 0 then ev\<lparr>RemoteAddr := IPv4Text (intToIPv4 v4), Family := 2\<rparr>
               else ev\<lparr>RemoteAddr := IPv6Text (e ! 12), Family := 10\<rparr>)
         else if event_type = EVENT_TYPE_LISTEN then
           ev\<lparr>Kind := EventKindNetwork, RemotePort := remote_port\<rparr>
         else if event_type = EVENT_TYPE_PTRACE then ev\<lparr>Kind := EventKindProcess\<rparr>
         else if event_type = EVENT_TYPE_MOUNT then ev\<lparr>Kind := EventKindFile\<rparr>
         else ev)"

text \<open>Parsing one raw sample, by the kind of the ring buffer it came from.\<close>

definition readEvent :: "int \<Rightarrow> EventKind \<Rightarrow> bytes \<Rightarrow> event option" where
  "readEvent boot kind sample =
     (case kind of
        EventKindProcess \<Rightarrow> map_option (ExecveEvent_ToEvent boot) (go_read ExecveEvent sample)
      | EventKindFile \<Rightarrow> map_option (OpenatEvent_ToEvent boot) (go_read OpenatEvent sample)
      | EventKindNetwork \<Rightarrow> map_option (ConnectEvent_ToEvent boot) (go_read ConnectEvent sample))"

definition ReadLSMEvent :: "int \<Rightarrow> bytes \<Rightarrow> event option" where
  "ReadLSMEvent boot sample = map_option (LSMEvent_ToEvent boot) (go_read LSMEvent sample)"

section \<open>Lemmas\<close>

lemma nullTerminatedString_cstr: "nullTerminatedString b = cstr b"
  by (simp add: nullTerminatedString_def cstr_def)

lemma go_layouts:
  "go_offsets 0 ExecveEvent = [0, 4, 8, 12, 28, 284, 288, 296]"
  "go_offsets 0 OpenatEvent = [0, 4, 8, 12, 28, 284, 288, 292, 296, 304]"
  "go_offsets 0 ConnectEvent = [0, 4, 8, 12, 28, 30, 32, 36, 52, 56, 64]"
  "go_offsets 0 LSMEvent = [0, 4, 8, 12, 28, 284, 288, 296, 304, 305, 306, 308, 312]"
  "sum_list ExecveEvent = 304" "sum_list OpenatEvent = 312" "sum_list ConnectEvent = 72"
  "sum_list LSMEvent = 328"
  by (simp_all add: ExecveEvent_def OpenatEvent_def ConnectEvent_def LSMEvent_def)

lemma intToIPv4_bytes: "intToIPv4 addr = le_bytes 4 addr"
proof -
  have "[0..<4] = [0, 1, 2, 3::nat]" by (simp add: upt_conv_Cons)
  moreover have "(ucast (w AND 255 :: u32) :: u8) = ucast w" for w
  proof -
    have "w AND 255 = take_bit 8 w" by (simp add: take_bit_eq_mask mask_eq_exp_minus_1)
    then show ?thesis by (auto intro!: bit_eqI simp: bit_simps)
  qed
  ultimately show ?thesis by (simp add: intToIPv4_def le_bytes_def)
qed

text \<open>\<open>ntohs\<close> reads the two bytes of the port in network order.\<close>

lemma ntohs_bytes: "ntohs (le_word [a, b]) = be_word [a, b]"
proof -
  have "x AND 255 = take_bit 8 x" for x :: u16
    by (simp add: take_bit_eq_mask mask_eq_exp_minus_1)
  moreover have "\<not> bit (c :: u8) m" if "8 \<le> m" for c m
    using that bit_imp_le_length [of c m] by auto
  ultimately have "bit (ntohs (le_word [a, b])) n = bit (be_word [a, b] :: u16) n" if "n < 16" for n
    using that by (cases "n < 8") (auto simp: ntohs_def bit_simps)
  then show ?thesis
    by (auto intro: bit_eqI)
qed

section \<open>Parsing what the programs submit\<close>

lemma readEvent_execve:
  assumes "bpf_helpers h" and "length buf = 304"
  shows "readEvent boot EventKindProcess (execve_fill h ctx buf) =
    Some \<lparr> Kind = EventKindProcess, PID = ucast (drop_bit 32 (bpf_get_current_pid_tgid h)),
           UID = ucast (bpf_get_current_uid_gid h),
           GID = ucast (drop_bit 32 (bpf_get_current_uid_gid h)),
           Comm = cstr (bpf_get_current_comm h (load 12 16 buf)),
           Filename = cstr (snd (bpf_probe_read_user_str h (load 28 256 buf) (ctx_arg ctx 0))),
           Flags = 0, Mode = 0, RemoteAddr = NoAddr, RemotePort = 0, Family = 0,
           Timestamp = bootTimeToWallClock boot (bpf_ktime_get_ns h),
           CgroupID = bpf_get_current_cgroup_id h \<rparr>"
  using fill_lengths(1) [OF assms, of ctx]
  by (simp add: readEvent_def go_read_load go_layouts)
    (simp add: ExecveEvent_def ExecveEvent_ToEvent_def execve_members [OF assms]
      nullTerminatedString_cstr)

lemma readEvent_openat:
  assumes "bpf_helpers h" and "length buf = 312"
  shows "readEvent boot EventKindFile (openat_fill h ctx buf) =
    Some \<lparr> Kind = EventKindFile, PID = ucast (drop_bit 32 (bpf_get_current_pid_tgid h)),
           UID = ucast (bpf_get_current_uid_gid h),
           GID = ucast (drop_bit 32 (bpf_get_current_uid_gid h)),
           Comm = cstr (bpf_get_current_comm h (load 12 16 buf)),
           Filename = cstr (snd (bpf_probe_read_user_str h (load 28 256 buf) (ctx_arg ctx 1))),
           Flags = ucast (ctx_arg ctx 2), Mode = ucast (ctx_arg ctx 3),
           RemoteAddr = NoAddr, RemotePort = 0, Family = 0,
           Timestamp = bootTimeToWallClock boot (bpf_ktime_get_ns h),
           CgroupID = bpf_get_current_cgroup_id h \<rparr>"
  using fill_lengths(2) [OF assms, of ctx]
  by (simp add: readEvent_def go_read_load go_layouts)
    (simp add: OpenatEvent_def OpenatEvent_ToEvent_def openat_members [OF assms]
      nullTerminatedString_cstr)

lemma readEvent_connect:
  fixes ctx
  assumes "bpf_helpers h" and "length buf = 72"
  defines "addr \<equiv> ctx_arg ctx 1"
  shows "readEvent boot EventKindNetwork (connect_fill h ctx buf) =
    Some \<lparr> Kind = EventKindNetwork, PID = ucast (drop_bit 32 (bpf_get_current_pid_tgid h)),
           UID = ucast (bpf_get_current_uid_gid h),
           GID = ucast (drop_bit 32 (bpf_get_current_uid_gid h)),
           Comm = cstr (bpf_get_current_comm h (load 12 16 buf)),
           Filename = [], Flags = 0, Mode = 0,
           RemoteAddr =
             (if user_family h addr = AF_INET
              then IPv4Text (rev (snd (bpf_probe_read_user h (load 32 4 buf) (addr + 4))))
              else if user_family h addr = AF_INET6
              then IPv6Text (snd (bpf_probe_read_user h (load 36 16 buf) (addr + 8)))
              else UnknownFamily (user_family h addr)),
           RemotePort =
             ntohs (le_word (if user_family h addr \<in> {AF_INET, AF_INET6}
                             then snd (bpf_probe_read_user h (load 30 2 buf) (addr + 2))
                             else load 30 2 buf)),
           Family = user_family h addr,
           Timestamp = bootTimeToWallClock boot (bpf_ktime_get_ns h),
           CgroupID = bpf_get_current_cgroup_id h \<rparr>"
proof -
  have v4: "length (snd (bpf_probe_read_user h (load 32 4 buf) (addr + 4))) = 4"
    using bpf_helpers.read_user_length [OF assms(1)] assms(2) by (simp add: length_load)
  show ?thesis
    using fill_lengths(3) [OF assms(1,2), of ctx] v4
    by (simp add: readEvent_def go_read_load go_layouts)
      (auto simp: ConnectEvent_def ConnectEvent_ToEvent_def connect_members [OF assms(1,2)]
        nullTerminatedString_cstr remoteAddrString_def PutUint32_BigEndian_def AF_INET_def
        AF_INET6_def addr_def)
qed

text \<open>The members that userspace reads from an LSM record are the members of the C struct.\<close>

lemma ReadLSMEvent_members:
  assumes "length r = 328"
  defines "w \<equiv> warmor_event_of r"
  shows "ReadLSMEvent boot r = Some (LSMEvent_ToEvent boot (map2 (\<lambda>o2 n. load o2 n r) (go_offsets 0 LSMEvent) LSMEvent))"
    and "ReadLSMEvent boot r = Some ev \<Longrightarrow>
      PID ev = ev_pid w \<and> UID ev = ev_uid w \<and> GID ev = ev_gid w \<and>
      Comm ev = cstr (ev_comm w) \<and> Filename ev = cstr (ev_filename w) \<and>
      Timestamp ev = bootTimeToWallClock boot (ev_timestamp w) \<and> CgroupID ev = ev_cgroup_id w"
    and "ReadLSMEvent boot r = Some ev \<Longrightarrow>
      Kind ev = (if ev_event_type w \<in> {EVENT_TYPE_FILE, EVENT_TYPE_MOUNT} then EventKindFile
                 else if ev_event_type w \<in> {EVENT_TYPE_NETWORK, EVENT_TYPE_BIND, EVENT_TYPE_LISTEN}
                 then EventKindNetwork else EventKindProcess)"
    and "ReadLSMEvent boot r = Some ev \<Longrightarrow> ev_event_type w \<in> {EVENT_TYPE_NETWORK, EVENT_TYPE_BIND} \<Longrightarrow>
      RemotePort ev = ev_remote_port w \<and>
      (if ev_remote_addr_v4 w \<noteq> 0
       then RemoteAddr ev = IPv4Text (le_bytes 4 (ev_remote_addr_v4 w)) \<and> Family ev = 2
       else RemoteAddr ev = IPv6Text (ev_remote_addr_v6 w) \<and> Family ev = 10)"
proof -
  show read: "ReadLSMEvent boot r = Some (LSMEvent_ToEvent boot (map2 (\<lambda>o2 n. load o2 n r) (go_offsets 0 LSMEvent) LSMEvent))"
    using assms by (simp add: ReadLSMEvent_def go_read_load go_layouts(8))
  note conv = LSMEvent_ToEvent_def go_layouts(4) LSMEvent_def Let_def w_def warmor_event_of_def
    offset_simps nullTerminatedString_cstr event_type_defs intToIPv4_bytes
  show "ReadLSMEvent boot r = Some ev \<Longrightarrow>
      PID ev = ev_pid w \<and> UID ev = ev_uid w \<and> GID ev = ev_gid w \<and>
      Comm ev = cstr (ev_comm w) \<and> Filename ev = cstr (ev_filename w) \<and>
      Timestamp ev = bootTimeToWallClock boot (ev_timestamp w) \<and> CgroupID ev = ev_cgroup_id w"
    unfolding read by (auto simp: conv)
  show "ReadLSMEvent boot r = Some ev \<Longrightarrow>
      Kind ev = (if ev_event_type w \<in> {EVENT_TYPE_FILE, EVENT_TYPE_MOUNT} then EventKindFile
                 else if ev_event_type w \<in> {EVENT_TYPE_NETWORK, EVENT_TYPE_BIND, EVENT_TYPE_LISTEN}
                 then EventKindNetwork else EventKindProcess)"
    unfolding read by (auto simp: conv)
  show "ReadLSMEvent boot r = Some ev \<Longrightarrow> ev_event_type w \<in> {EVENT_TYPE_NETWORK, EVENT_TYPE_BIND} \<Longrightarrow>
      RemotePort ev = ev_remote_port w \<and>
      (if ev_remote_addr_v4 w \<noteq> 0
       then RemoteAddr ev = IPv4Text (le_bytes 4 (ev_remote_addr_v4 w)) \<and> Family ev = 2
       else RemoteAddr ev = IPv6Text (ev_remote_addr_v6 w) \<and> Family ev = 10)"
    unfolding read by (auto simp: conv)
qed

end
