(* ===== verification/Go_Strings.thy ===== *)
theory Go_Strings
  imports Warmor_Prelude
begin

text \<open>
  Go strings are byte strings. This theory has the printing of numbers and addresses, as
  \<open>fmt\<close> and \<open>strconv\<close> do it, the splitting of strings, and the reading of numbers, with the
  lemmas that reading inverts printing.
\<close>

section \<open>Printing\<close>

definition ascii :: "string \<Rightarrow> bytes" where
  "ascii s = map of_char s"

text \<open>The digits of a number as \<open>%d\<close> and \<open>%x\<close> print them.\<close>

fun print_nat :: "nat \<Rightarrow> nat \<Rightarrow> bytes" where
  "print_nat base n =
     (if base < 2 \<or> n < base then [of_nat (if n < 10 then 48 + n else 87 + n)]
      else print_nat base (n div base) @
             [of_nat (if n mod base < 10 then 48 + n mod base else 87 + n mod base)])"

declare print_nat.simps [simp del]

fun joined :: "byte \<Rightarrow> bytes list \<Rightarrow> bytes" where
  "joined sep [] = []"
| "joined sep [s] = s"
| "joined sep (s # t # ss) = s @ sep # joined sep (t # ss)"

definition dotted :: "bytes \<Rightarrow> bytes" where
  "dotted bs = joined 46 (map (\<lambda>b. print_nat 10 (unat b)) bs)"

definition colons :: "u16 list \<Rightarrow> bytes" where
  "colons ws = joined 58 (map (\<lambda>w. print_nat 16 (unat w)) ws)"

definition numbered :: "string \<Rightarrow> u32 \<Rightarrow> bytes" where
  "numbered name n = ascii name @ ascii ''('' @ print_nat 10 (unat n) @ ascii '')''"

section \<open>Splitting and reading\<close>

text \<open>The parts of a string between separators; there is always at least one.\<close>

fun split_at :: "byte \<Rightarrow> bytes \<Rightarrow> bytes list" where
  "split_at sep [] = [[]]"
| "split_at sep (c # cs) =
     (if c = sep then [] # split_at sep cs
      else case split_at sep cs of part # parts \<Rightarrow> (c # part) # parts | [] \<Rightarrow> [[c]])"

definition digit_value :: "byte \<Rightarrow> nat option" where
  "digit_value b =
     (let n = unat b
      in if 48 \<le> n \<and> n \<le> 57 then Some (n - 48)
         else if 97 \<le> n \<and> n \<le> 102 then Some (n - 87)
         else if 65 \<le> n \<and> n \<le> 70 then Some (n - 55)
         else None)"

definition digit_in :: "nat \<Rightarrow> byte \<Rightarrow> bool" where
  "digit_in base b \<longleftrightarrow> (case digit_value b of Some d \<Rightarrow> d < base | None \<Rightarrow> False)"

definition read_digits :: "nat \<Rightarrow> bytes \<Rightarrow> nat" where
  "read_digits base bs = foldl (\<lambda>n b. n * base + the (digit_value b)) 0 bs"

section \<open>Lemmas\<close>

abbreviation digit_char :: "nat \<Rightarrow> byte" where
  "digit_char n \<equiv> of_nat (if n < 10 then 48 + n else 87 + n)"

lemma digit_value_char: "n < 16 \<Longrightarrow> digit_value (digit_char n) = Some n"
  by (auto simp: digit_value_def unat_of_nat)

lemma digit_char_range: "n < 16 \<Longrightarrow> unat (digit_char n) \<in> {48..57} \<union> {97..102}"
  by (auto simp: unat_of_nat)

lemma print_nat_nonempty [simp]: "print_nat base n \<noteq> []"
  by (subst print_nat.simps) simp

lemma read_digits_snoc: "read_digits base (bs @ [b]) = read_digits base bs * base + the (digit_value b)"
  by (simp add: read_digits_def)

lemma read_print_nat: "2 \<le> base \<Longrightarrow> base \<le> 16 \<Longrightarrow> read_digits base (print_nat base n) = n"
proof (induction base n rule: print_nat.induct)
  case (1 base n)
  show ?case
  proof (cases "n < base")
    case True
    then show ?thesis
      using 1 digit_value_char [of n]
      by (subst print_nat.simps) (simp add: read_digits_def del: of_nat_add of_nat_numeral)
  next
    case False
    have "n mod base < 16"
      using 1(2,3) mod_less_divisor [of base n] by linarith
    then have "the (digit_value (digit_char (n mod base))) = n mod base"
      by (simp only: digit_value_char option.sel)
    moreover have "read_digits base (print_nat base (n div base)) = n div base"
      using 1 False by simp
    ultimately show ?thesis
      using False 1 by (subst print_nat.simps) (simp add: read_digits_snoc del: of_nat_add of_nat_numeral)
  qed
qed

lemma print_nat_digits:
  "2 \<le> base \<Longrightarrow> base \<le> 16 \<Longrightarrow> b \<in> set (print_nat base n) \<Longrightarrow> \<exists>d < base. b = digit_char d"
proof (induction base n arbitrary: b rule: print_nat.induct)
  case (1 base n)
  have "b \<in> set (print_nat base (n div base)) \<or> b = digit_char (n mod base)" if "\<not> n < base"
    using that 1(2-4) by (subst (asm) print_nat.simps) auto
  moreover have "b = digit_char n" if "n < base"
    using that 1(4) by (subst (asm) print_nat.simps) auto
  moreover have "n mod base < base"
    using 1(2) by simp
  ultimately show ?case
    using 1(1) [of b] 1(2,3) by (metis not_less)
qed

lemma print_nat_inject: "2 \<le> base \<Longrightarrow> base \<le> 16 \<Longrightarrow> print_nat base m = print_nat base n \<Longrightarrow> m = n"
  by (metis read_print_nat)

lemma print_nat_no_sep:
  assumes "2 \<le> base" and "base \<le> 16" and "unat sep \<notin> {48..57} \<union> {97..102}"
  shows "sep \<notin> set (print_nat base n)"
proof
  assume "sep \<in> set (print_nat base n)"
  then obtain d where "d < base" and "sep = digit_char d"
    using print_nat_digits [OF assms(1,2)] by blast
  then show False
    using digit_char_range [of d] assms(2,3) by simp
qed

lemma print_nat_digit_in:
  assumes "2 \<le> base" and "base \<le> 16"
  shows "list_all (digit_in base) (print_nat base n)"
proof -
  have "digit_in base b" if mem: "b \<in> set (print_nat base n)" for b
  proof -
    obtain d where d: "d < base" "b = digit_char d"
      using print_nat_digits [OF assms mem] by blast
    then have "digit_value b = Some d"
      using assms(2) digit_value_char [of d] by simp
    then show ?thesis
      using d(1) by (simp add: digit_in_def)
  qed
  then show ?thesis
    by (simp add: list_all_iff)
qed

text \<open>A printed number has no leading zero and as many digits as its size allows.\<close>

lemma print_nat_head: "2 \<le> base \<Longrightarrow> base \<le> 16 \<Longrightarrow> 0 < n \<Longrightarrow> hd (print_nat base n) \<noteq> 48"
proof (induction base n rule: print_nat.induct)
  case (1 base n)
  show ?case
  proof (cases "n < base")
    case True
    have "unat (digit_char n) \<noteq> unat (48 :: byte)"
      using True 1 by (auto simp: unat_of_nat)
    then have "digit_char n \<noteq> 48"
      by metis
    then show ?thesis
      using True by (subst print_nat.simps) (simp del: of_nat_add of_nat_numeral)
  next
    case False
    then have "0 < n div base"
      using 1(2) by (simp add: div_greater_zero_iff)
    then have "hd (print_nat base (n div base)) \<noteq> 48"
      using 1 False by simp
    then show ?thesis
      using False 1(2) by (subst print_nat.simps) simp
  qed
qed

lemma print_nat_length: "2 \<le> base \<Longrightarrow> 0 < k \<Longrightarrow> n < base ^ k \<Longrightarrow> length (print_nat base n) \<le> k"
proof (induction k arbitrary: n)
  case (Suc k)
  show ?case
  proof (cases "n < base")
    case True
    then show ?thesis by (subst print_nat.simps) simp
  next
    case False
    have "n div base < base ^ k"
      using Suc.prems by (simp add: less_mult_imp_div_less mult.commute)
    moreover have "0 < k"
      using False Suc.prems(3) by (cases k) auto
    ultimately have "length (print_nat base (n div base)) \<le> k"
      using Suc by simp
    then show ?thesis
      using False by (subst print_nat.simps) simp
  qed
qed simp

lemma split_at_none: "sep \<notin> set bs \<Longrightarrow> split_at sep bs = [bs]"
  by (induction bs) auto

lemma split_at_append: "sep \<notin> set a \<Longrightarrow> split_at sep (a @ sep # b) = a # split_at sep b"
  by (induction a) auto

lemma split_at_joined:
  "parts \<noteq> [] \<Longrightarrow> list_all (\<lambda>p. sep \<notin> set p) parts \<Longrightarrow> split_at sep (joined sep parts) = parts"
  by (induction sep parts rule: joined.induct) (auto simp: split_at_none split_at_append)

end
