(* ===== verification/Api_Types.thy ===== *)
theory Api_Types
  imports Go_Strings
begin

text \<open>
  The event and decision types that the platforms share, \<open>pkg/api/types.go\<close>, and
  \<open>syncToPolicyMap\<close> of \<open>internal/enforcer/enforcer.go\<close>, which turns decisions into rules on every
  platform. Times are nanoseconds since the epoch.
\<close>

section \<open>Results of Go functions\<close>

text \<open>A Go function returns, panics, or waits for ever.\<close>

datatype 'a outcome = Returned 'a | Panicked | Blocked

section \<open>Events\<close>

definition EventTypeProcess :: int where "EventTypeProcess = 0"
definition EventTypeFile :: int where "EventTypeFile = 1"
definition EventTypeNetwork :: int where "EventTypeNetwork = 2"

record base_event =
  be_Type :: int
  be_PID :: u32
  be_UID :: u32
  be_GID :: u32
  be_Comm :: bytes
  be_Timestamp :: int
  be_CgroupID :: u64

record api_process =
  pe_Base :: base_event
  pe_Filename :: bytes
  pe_Args :: "bytes list"

record api_file =
  fe_Base :: base_event
  fe_Operation :: bytes
  fe_Path :: bytes
  fe_Flags :: u32
  fe_Mode :: u32

record api_network =
  ne_Base :: base_event
  ne_Operation :: bytes
  ne_Protocol :: bytes
  ne_RemoteAddr :: bytes
  ne_RemotePort :: u16
  ne_LocalAddr :: bytes
  ne_LocalPort :: u16
  ne_DataSize :: u32

record api_event =
  ae_PID :: u32
  ae_UID :: u32
  ae_GID :: u32
  ae_Comm :: bytes
  ae_Filename :: bytes
  ae_Timestamp :: int
  ae_Type :: int
  ae_CgroupID :: u64
  ae_Process :: "api_process option"
  ae_File :: "api_file option"
  ae_Network :: "api_network option"
  ae_LSMEvent :: bool

definition GetType :: "api_event \<Rightarrow> int" where
  "GetType e =
     (if ae_Type e \<noteq> 0 then ae_Type e
      else case ae_Process e of
             Some p \<Rightarrow> be_Type (pe_Base p)
           | None \<Rightarrow> (case ae_File e of
                        Some f \<Rightarrow> be_Type (fe_Base f)
                      | None \<Rightarrow> (case ae_Network e of
                                   Some n \<Rightarrow> be_Type (ne_Base n)
                                 | None \<Rightarrow> EventTypeProcess)))"

definition EventType_String :: "int \<Rightarrow> bytes" where
  "EventType_String t =
     (if t = EventTypeProcess then ascii ''PROCESS''
      else if t = EventTypeFile then ascii ''FILE''
      else if t = EventTypeNetwork then ascii ''NETWORK''
      else ascii ''UNKNOWN'')"

section \<open>Decisions\<close>

definition ActionAllow :: int where "ActionAllow = 0"
definition ActionDeny :: int where "ActionDeny = 1"
definition ActionLog :: int where "ActionLog = 2"

definition Action_String :: "int \<Rightarrow> bytes" where
  "Action_String a =
     (if a = ActionAllow then ascii ''ALLOW''
      else if a = ActionDeny then ascii ''DENY''
      else if a = ActionLog then ascii ''LOG''
      else ascii ''UNKNOWN'')"

text \<open>A reason is kept as what is printed into it.\<close>

datatype reason =
    ReasonText bytes
  | NetworkBlocked bytes
  | RateLimitExceeded u32
  | SandboxNetwork bytes
  | SandboxReadOnly bytes
  | SandboxSyscall bytes bytes
  | LearningMode
  | EvaluationError bytes

record action_result =
  ar_Action :: int
  ar_Reason :: reason
  ar_Timestamp :: int
  ar_Cached :: bool
  ar_Latency :: int
  ar_Audit :: bool

section \<open>From decisions to rules\<close>

text \<open>
  \<open>set_rule\<close> is the \<open>SetRule\<close> of the platform's policy map; its error is ignored.
\<close>

definition syncToPolicyMap ::
  "('st \<Rightarrow> u64 \<Rightarrow> u8 \<Rightarrow> bytes \<Rightarrow> u8 \<Rightarrow> bool \<Rightarrow> 'err option \<times> 'st) \<Rightarrow>
   api_event \<Rightarrow> int \<Rightarrow> bool \<Rightarrow> 'st \<Rightarrow> 'st" where
  "syncToPolicyMap set_rule event result audit_only st =
     (let (eventType, pattern) =
            (if GetType event = EventTypeProcess then
               (0, case ae_Process event of Some p \<Rightarrow> pe_Filename p | None \<Rightarrow> ae_Filename event)
             else if GetType event = EventTypeFile then
               (1, case ae_File event of Some f \<Rightarrow> fe_Path f | None \<Rightarrow> ae_Filename event)
             else if GetType event = EventTypeNetwork then
               (2, case ae_Network event of Some n \<Rightarrow> ne_RemoteAddr n | None \<Rightarrow> [])
             else (0, []))
      in if pattern = [] then st
         else snd (set_rule st (ae_CgroupID event) eventType pattern
                     (if result = ActionDeny then 1 else 0) audit_only))"

end
