(* ===== verification/Net_Address.thy ===== *)
theory Net_Address
  imports Go_Strings
begin

text \<open>
  Addresses as the Go library reads and prints them (package \<open>net\<close>): \<open>ParseIP\<close>, \<open>ParseCIDR\<close>,
  \<open>SplitHostPort\<close>, \<open>IP.String\<close>, \<open>IPNet.Contains\<close> and \<open>IPNet.String\<close>. An \<open>IP\<close> is its byte slice,
  of length 4 or 16; what the library calls nil is \<open>None\<close>.
\<close>

section \<open>Reading addresses\<close>

definition v4_prefix :: bytes where
  "v4_prefix = replicate 10 0 @ [0xFF, 0xFF]"

text \<open>One decimal field: no leading zero, at most 255.\<close>

definition parse_octet :: "bytes \<Rightarrow> byte option" where
  "parse_octet s =
     (if s = [] \<or> 3 < length s \<or> \<not> list_all (digit_in 10) s \<or> (1 < length s \<and> hd s = 48) \<or>
         255 < read_digits 10 s
      then None else Some (of_nat (read_digits 10 s)))"

definition parse_v4 :: "bytes \<Rightarrow> bytes option" where
  "parse_v4 s =
     (let octets = map parse_octet (split_at 46 s)
      in if length octets = 4 \<and> None \<notin> set octets then Some (map the octets) else None)"

definition parse_group :: "bytes \<Rightarrow> bytes option" where
  "parse_group s =
     (if s = [] \<or> 4 < length s \<or> \<not> list_all (digit_in 16) s then None
      else Some [of_nat (read_digits 16 s div 256), of_nat (read_digits 16 s mod 256)])"

text \<open>The groups on one side of \<open>::\<close>; where \<open>tail\<close>, the last may be an IPv4 address.\<close>

fun parse_groups :: "bool \<Rightarrow> bytes list \<Rightarrow> bytes option" where
  "parse_groups tail [] = Some []"
| "parse_groups tail (s # ss) =
     (if ss = [] \<and> tail \<and> 46 \<in> set s then parse_v4 s
      else case parse_group s of
             None \<Rightarrow> None
           | Some bs \<Rightarrow> map_option (\<lambda>rest. bs @ rest) (parse_groups tail ss))"

definition parse_side :: "bool \<Rightarrow> bytes \<Rightarrow> bytes option" where
  "parse_side tail s = (if s = [] then Some [] else parse_groups tail (split_at 58 s))"

fun split_ellipsis :: "bytes \<Rightarrow> (bytes \<times> bytes) option" where
  "split_ellipsis (a # b # s) =
     (if a = 58 \<and> b = 58 then Some ([], s)
      else map_option (\<lambda>(l, r). (a # l, r)) (split_ellipsis (b # s)))"
| "split_ellipsis s = None"

definition parse_v6 :: "bytes \<Rightarrow> bytes option" where
  "parse_v6 s =
     (case split_ellipsis s of
        None \<Rightarrow>
          (case parse_groups True (split_at 58 s) of
             Some bs \<Rightarrow> if length bs = 16 then Some bs else None
           | None \<Rightarrow> None)
      | Some (l, r) \<Rightarrow>
          (case (parse_side False l, parse_side True r) of
             (Some a, Some b) \<Rightarrow>
               if length a + length b \<le> 14 then Some (a @ replicate (16 - length a - length b) 0 @ b)
               else None
           | _ \<Rightarrow> None))"

text \<open>
  The first separator decides the family; an address with a zone is refused. The result is the
  address in 16 bytes and the number of bits of its family.
\<close>

definition parse_addr :: "bytes \<Rightarrow> (bytes \<times> nat) option" where
  "parse_addr s =
     (case find (\<lambda>c. c = 46 \<or> c = 58 \<or> c = 37) s of
        None \<Rightarrow> None
      | Some c \<Rightarrow>
          if c = 46 then map_option (\<lambda>bs. (v4_prefix @ bs, 32)) (parse_v4 s)
          else if c = 58 \<and> 37 \<notin> set s then map_option (\<lambda>bs. (bs, 128)) (parse_v6 s)
          else None)"

definition ParseIP :: "bytes \<Rightarrow> bytes option" where
  "ParseIP s = map_option fst (parse_addr s)"

definition To4 :: "bytes \<Rightarrow> bytes option" where
  "To4 ip =
     (if length ip = 4 then Some ip
      else if length ip = 16 \<and> take 12 ip = v4_prefix then Some (drop 12 ip)
      else None)"

section \<open>Networks\<close>

record ip_net =
  in_IP :: bytes
  in_Mask :: bytes

text \<open>\<open>ones\<close> one bits, then zero bits.\<close>

definition mask_byte :: "nat \<Rightarrow> byte" where
  "mask_byte ones = (if 8 \<le> ones then 0xFF else NOT (drop_bit ones 0xFF))"

definition CIDRMask :: "nat \<Rightarrow> nat \<Rightarrow> bytes" where
  "CIDRMask ones bits = map (\<lambda>i. mask_byte (ones - 8 * i)) [0..<bits div 8]"

definition IP_Mask :: "bytes \<Rightarrow> bytes \<Rightarrow> bytes" where
  "IP_Mask ip msk =
     (let ip = (if length msk = 4 \<and> length ip = 16 \<and> take 12 ip = v4_prefix then drop 12 ip else ip)
      in map2 (AND) ip msk)"

definition ParseCIDR :: "bytes \<Rightarrow> ip_net option" where
  "ParseCIDR s =
     (let addr = takeWhile (\<lambda>c. c \<noteq> 47) s; msk = drop (Suc (length addr)) s
      in if 47 \<notin> set s then None
         else case parse_addr addr of
                None \<Rightarrow> None
              | Some (ip, bits) \<Rightarrow>
                  if msk = [] \<or> \<not> list_all (digit_in 10) msk \<or> bits < read_digits 10 msk then None
                  else let m = CIDRMask (read_digits 10 msk) bits
                       in Some \<lparr> in_IP = IP_Mask ip m, in_Mask = m \<rparr>)"

text \<open>The network number and its mask in the width of the number.\<close>

definition networkNumberAndMask :: "ip_net \<Rightarrow> (bytes \<times> bytes) option" where
  "networkNumberAndMask n =
     (let ip = (case To4 (in_IP n) of Some ip \<Rightarrow> ip | None \<Rightarrow> in_IP n); m = in_Mask n
      in if length ip \<notin> {4, 16} then None
         else if length m = length ip then Some (ip, m)
         else if length m = 16 then Some (ip, drop 12 m)
         else None)"

definition Contains :: "ip_net \<Rightarrow> bytes \<Rightarrow> bool" where
  "Contains n ip =
     (let ip = (case To4 ip of Some x \<Rightarrow> x | None \<Rightarrow> ip)
      in case networkNumberAndMask n of
           None \<Rightarrow> ip = []
         | Some (nn, m) \<Rightarrow>
             length ip = length nn \<and> map2 (AND) nn m = map2 (AND) ip m)"

section \<open>Host and port\<close>

definition last_colon :: "bytes \<Rightarrow> nat option" where
  "last_colon s = (if 58 \<in> set s then Some (length s - Suc (length (takeWhile (\<lambda>c. c \<noteq> 58) (rev s)))) else None)"

text \<open>The host of \<open>SplitHostPort\<close>, whose port is not used.\<close>

definition split_host :: "bytes \<Rightarrow> bytes option" where
  "split_host s =
     (case last_colon s of
        None \<Rightarrow> None
      | Some i \<Rightarrow>
          if hd s = 91 then
            (let close = length (takeWhile (\<lambda>c. c \<noteq> 93) s)
             in if 93 \<notin> set s \<or> Suc close \<noteq> i \<or> 91 \<in> set (drop 1 s) \<or> 93 \<in> set (drop (Suc close) s)
                then None
                else Some (take (close - 1) (drop 1 s)))
          else if 58 \<in> set (take i s) \<or> 91 \<in> set s \<or> 93 \<in> set s then None
          else Some (take i s))"

section \<open>Printing addresses\<close>

fun be_groups :: "bytes \<Rightarrow> u16 list" where
  "be_groups (a # b # bs) = be_word [a, b] # be_groups bs"
| "be_groups _ = []"

text \<open>The longest run of at least two zero groups, the first of the longest.\<close>

definition zero_run :: "u16 list \<Rightarrow> nat \<Rightarrow> nat" where
  "zero_run gs i = length (takeWhile (\<lambda>g. g = 0) (drop i gs))"

definition longest_zeros :: "u16 list \<Rightarrow> nat \<times> nat" where
  "longest_zeros gs =
     foldl (\<lambda>(start, len) i. let l = zero_run gs i in if 2 \<le> l \<and> len < l then (i, l) else (start, len))
       (0, 0) [0..<length gs]"

definition v6_text :: "bytes \<Rightarrow> bytes" where
  "v6_text bs =
     (let gs = be_groups bs; (start, len) = longest_zeros gs
      in if len = 0 then colons gs
         else colons (take start gs) @ [58, 58] @ colons (drop (start + len) gs))"

definition IP_String :: "bytes \<Rightarrow> bytes" where
  "IP_String ip = (case To4 ip of Some p4 \<Rightarrow> dotted p4 | None \<Rightarrow> v6_text ip)"

text \<open>The length of the run of ones that a mask consists of; all masks here are such.\<close>

definition mask_ones :: "bytes \<Rightarrow> nat" where
  "mask_ones m = sum_list (map (\<lambda>b. length (filter (\<lambda>i. bit b i) [0..<8])) m)"

definition IPNet_String :: "ip_net \<Rightarrow> bytes" where
  "IPNet_String n =
     (case networkNumberAndMask n of
        None \<Rightarrow> ascii ''<nil>''
      | Some (nn, m) \<Rightarrow> IP_String nn @ ascii ''/'' @ print_nat 10 (mask_ones m))"

section \<open>Printing and reading\<close>

lemma parse_octet_print: "parse_octet (print_nat 10 (unat b)) = Some b"
proof -
  have b: "unat b < 256"
    using unsigned_less [of b, where 'a = nat] by simp
  then have "length (print_nat 10 (unat b)) \<le> 3"
    by (intro print_nat_length) simp_all
  moreover have "hd (print_nat 10 (unat b)) \<noteq> 48 \<or> length (print_nat 10 (unat b)) = 1"
    using print_nat_head [of 10 "unat b"] by (cases "unat b = 0") (simp_all add: print_nat.simps)
  moreover have "list_all (digit_in 10) (print_nat 10 (unat b))"
    by (rule print_nat_digit_in) simp_all
  moreover have "read_digits 10 (print_nat 10 (unat b)) = unat b"
    by (rule read_print_nat) simp_all
  ultimately show ?thesis
    using b by (auto simp: parse_octet_def)
qed

lemma dotted_octets: "bs \<noteq> [] \<Longrightarrow> split_at 46 (dotted bs) = map (\<lambda>b. print_nat 10 (unat b)) bs"
  unfolding dotted_def
  by (rule split_at_joined) (auto simp: list_all_iff dest: print_nat_no_sep [of 10 46, THEN notE, rotated -1])

lemma parse_v4_dotted:
  assumes "length bs = 4"
  shows "parse_v4 (dotted bs) = Some bs"
proof -
  have "split_at 46 (dotted bs) = map (\<lambda>b. print_nat 10 (unat b)) bs"
    using assms by (intro dotted_octets) auto
  then show ?thesis
    using assms by (simp add: parse_v4_def parse_octet_print comp_def image_iff)
qed

lemma find_append: "find P (xs @ ys) = (case find P xs of None \<Rightarrow> find P ys | Some x \<Rightarrow> Some x)"
  by (induction xs) auto

lemma find_print_nat: "find (\<lambda>c. c = 46 \<or> c = 58 \<or> c = 37) (print_nat 10 n) = None"
  using print_nat_no_sep [of 10 46 n] print_nat_no_sep [of 10 58 n] print_nat_no_sep [of 10 37 n]
  by (auto simp: find_None_iff)

lemma parse_addr_dotted:
  assumes "length bs = 4"
  shows "parse_addr (dotted bs) = Some (v4_prefix @ bs, 32)"
proof -
  obtain a b bs' where bs: "bs = a # b # bs'"
    using assms by (cases bs; cases "tl bs") auto
  have "find (\<lambda>c. c = 46 \<or> c = 58 \<or> c = 37) (dotted bs) = Some 46"
    by (simp add: dotted_def bs find_append find_print_nat)
  then show ?thesis
    using parse_v4_dotted [OF assms] by (simp add: parse_addr_def)
qed

text \<open>An IPv4 address that is printed is read back.\<close>

lemma ParseIP_dotted: "length bs = 4 \<Longrightarrow> ParseIP (dotted bs) = Some (v4_prefix @ bs)"
  by (simp add: ParseIP_def parse_addr_dotted)

lemma length_v4_prefix [simp]: "length v4_prefix = 12"
  by (simp add: v4_prefix_def)

lemma To4_mapped [simp]: "length bs = 4 \<Longrightarrow> To4 (v4_prefix @ bs) = Some bs"
  by (simp add: To4_def)

lemma To4_v4 [simp]: "length bs = 4 \<Longrightarrow> To4 bs = Some bs"
  by (simp add: To4_def)

lemma dotted_chars:
  assumes "unat c \<notin> {48..57} \<union> {97..102}" and "c \<noteq> 46"
  shows "c \<notin> set (dotted bs)"
proof -
  have p: "c \<notin> set (print_nat 10 n)" for n
    using print_nat_no_sep [of 10 c] assms(1) by simp
  have "c \<notin> set (joined 46 (map (\<lambda>b. print_nat 10 (unat b)) bs))"
    using assms(2) by (induction bs rule: induct_list012) (simp_all add: p)
  then show ?thesis by (simp add: dotted_def)
qed

lemma dotted_no_slash: "47 \<notin> set (dotted bs)"
  by (rule dotted_chars) simp_all

lemma ParseCIDR_dotted:
  assumes "length bs = 4" and "n \<le> 32"
  shows "ParseCIDR (dotted bs @ 47 # print_nat 10 n) =
    Some \<lparr> in_IP = map2 (AND) bs (CIDRMask n 32), in_Mask = CIDRMask n 32 \<rparr>"
proof -
  have "takeWhile (\<lambda>c. c \<noteq> 47) (dotted bs @ 47 # print_nat 10 n) = dotted bs"
    using dotted_no_slash [of bs] by (subst takeWhile_append) auto
  moreover have "list_all (digit_in 10) (print_nat 10 n)" and "read_digits 10 (print_nat 10 n) = n"
    by (rule print_nat_digit_in read_print_nat; simp)+
  ultimately show ?thesis
    using assms parse_addr_dotted [OF assms(1)]
    by (simp add: ParseCIDR_def Let_def IP_Mask_def CIDRMask_def)
qed

section \<open>Prefixes\<close>

text \<open>The bits of an address, the first one first.\<close>

definition addr_bits :: "bytes \<Rightarrow> bool list" where
  "addr_bits bs = concat (map (\<lambda>b. map (bit b) (rev [0..<8])) bs)"

lemma CIDRMask_Cons: "CIDRMask n (8 * Suc k) = mask_byte n # CIDRMask (n - 8) (8 * k)"
proof -
  have "[0..<Suc k] = 0 # map Suc [0..<k]"
    by (simp add: map_Suc_upt upt_conv_Cons del: upt_Suc)
  then show ?thesis
    by (simp add: CIDRMask_def comp_def del: upt_Suc)
qed

lemma bit_mask_byte: "j < 8 \<Longrightarrow> bit (mask_byte n) j \<longleftrightarrow> 8 \<le> j + n"
proof -
  have ff: "(0xFF :: byte) = mask 8"
    by (simp add: mask_eq_exp_minus_1)
  assume "j < 8"
  then show ?thesis
    unfolding mask_byte_def ff by (auto simp: bit_not_iff bit_drop_bit_eq bit_mask_iff)
qed

lemma mask_byte_prefix:
  "b AND mask_byte n = c AND mask_byte n \<longleftrightarrow>
   take n (map (bit b) (rev [0..<8])) = take n (map (bit c) (rev [0..<8]))"
proof -
  have "b AND mask_byte n = c AND mask_byte n \<longleftrightarrow> (\<forall>j < 8. 8 \<le> j + n \<longrightarrow> bit b j = bit c j)"
    by (auto simp: bit_eq_iff bit_and_iff bit_mask_byte)
  also have "\<dots> \<longleftrightarrow> (\<forall>i < 8. i < n \<longrightarrow> bit b (7 - i) = bit c (7 - i))"
  proof (rule iffI; intro allI impI)
    fix j assume "\<forall>i < 8. i < n \<longrightarrow> bit b (7 - i) = bit c (7 - i)" and "j < 8" and "8 \<le> j + n"
    moreover from this have "7 - j < 8" and "7 - j < n"
      by simp_all
    ultimately have "bit b (7 - (7 - j)) = bit c (7 - (7 - j))"
      by blast
    then show "bit b j = bit c j"
      using \<open>j < 8\<close> by simp
  qed simp
  also have "\<dots> \<longleftrightarrow> take n (map (bit b) (rev [0..<8])) = take n (map (bit c) (rev [0..<8]))"
    by (auto simp: list_eq_iff_nth_eq rev_nth)
  finally show ?thesis .
qed

lemma masked_prefix:
  "length bs = k \<Longrightarrow> length cs = k \<Longrightarrow>
   map2 (AND) bs (CIDRMask n (8 * k)) = map2 (AND) cs (CIDRMask n (8 * k)) \<longleftrightarrow>
   take n (addr_bits bs) = take n (addr_bits cs)"
proof (induction k arbitrary: bs cs n)
  case (Suc k)
  obtain b bs' c cs' where bs: "bs = b # bs'" and cs: "cs = c # cs'"
    using Suc.prems by (metis Suc_length_conv)
  have "take n (addr_bits (x # xs)) = take n (map (bit x) (rev [0..<8])) @ take (n - 8) (addr_bits xs)" for x xs
    by (simp add: addr_bits_def del: upt_Suc)
  moreover have "length (take n (map (bit b) (rev [0..<8]))) = length (take n (map (bit c) (rev [0..<8])))"
    by simp
  ultimately show ?case
    using Suc mask_byte_prefix [of b n c] unfolding bs cs CIDRMask_Cons
    by (simp del: upt_Suc upt_rec_numeral)
qed (simp add: addr_bits_def)

end
