(* ===== verification/Linux_Platform.thy ===== *)
theory Linux_Platform
  imports Lsm_Loader Lsm_System Go_Events Api_Types Net_Address
begin

text \<open>
  The Linux platform: the loader of the three monitors, \<open>internal/ebpf/loader.go\<close>, and
  \<open>internal/platform/linux.go\<close>, which loads monitors and LSM programs, sets the cgroup filter and
  the enforce switch, and turns the events of the loaders into those of the enforcer. What the
  machine answers is a parameter; held kernel resources are sets.
\<close>

section \<open>Loading the monitors\<close>

record tracer =
  ta_memlock :: bool
  ta_loads :: "string \<Rightarrow> bool"
  ta_attaches :: "string \<Rightarrow> bool"
  ta_reads :: "string \<Rightarrow> bool"

datatype trace_resource = MonitorObjs string | MonitorLink string | MonitorReader string

record loader =
  ld_objs :: "string list"
  ld_links :: "string list"
  ld_readers :: "string list"

datatype trace_error =
    TraceMemlock
  | TraceLoad string
  | TraceAttach string
  | TraceReader string

definition monitors :: "string list" where
  "monitors = [''execve'', ''openat'', ''connect'']"

text \<open>
  \<open>Close\<close> of the loader. The check for nil does not see a nil pointer inside an interface, and the
  generated \<open>Close\<close> of an object struct that was never allocated dereferences nil.
\<close>

definition loader_Close :: "loader \<Rightarrow> trace_resource set \<Rightarrow> trace_resource set outcome" where
  "loader_Close l held =
     (let held = held - MonitorReader ` set (ld_readers l);
          held = held - MonitorLink ` set (ld_links l)
      in if list_all (\<lambda>n. n \<in> set (ld_objs l)) monitors
         then Returned (held - MonitorObjs ` set (ld_objs l))
         else Panicked)"

definition close_with ::
  "trace_error \<Rightarrow> loader \<Rightarrow> trace_resource set \<Rightarrow> ((trace_error + loader) \<times> trace_resource set) outcome" where
  "close_with err l held =
     (case loader_Close l held of
        Panicked \<Rightarrow> Panicked
      | Blocked \<Rightarrow> Blocked
      | Returned held \<Rightarrow> Returned (Inl err, held))"

text \<open>Each monitor in turn: allocate and load its objects, attach it, open its ring buffer.\<close>

fun load_monitors ::
  "tracer \<Rightarrow> string list \<Rightarrow> loader \<Rightarrow> trace_resource set \<Rightarrow>
   ((trace_error + loader) \<times> trace_resource set) outcome" where
  "load_monitors m [] l held = Returned (Inr l, held)"
| "load_monitors m (n # ns) l held =
     (let first = (ld_objs l = []);
          l = l\<lparr>ld_objs := ld_objs l @ [n]\<rparr>
      in if \<not> ta_loads m n then
           (if first then Returned (Inl (TraceLoad n), held) else close_with (TraceLoad n) l held)
         else
           let held = insert (MonitorObjs n) held
           in if \<not> ta_attaches m n then close_with (TraceAttach n) l held
              else
                let l = l\<lparr>ld_links := ld_links l @ [n]\<rparr>; held = insert (MonitorLink n) held
                in if \<not> ta_reads m n then close_with (TraceReader n) l held
                   else load_monitors m ns (l\<lparr>ld_readers := ld_readers l @ [n]\<rparr>)
                          (insert (MonitorReader n) held))"

definition loader_Load :: "tracer \<Rightarrow> ((trace_error + loader) \<times> trace_resource set) outcome" where
  "loader_Load m =
     (if \<not> ta_memlock m then Returned (Inl TraceMemlock, {})
      else load_monitors m monitors \<lparr> ld_objs = [], ld_links = [], ld_readers = [] \<rparr> {})"

section \<open>Cgroups\<close>

text \<open>
  \<open>internal/ebpf/cgroup.go\<close>: the identifier of a cgroup is the inode of its directory. What
  \<open>statx\<close> answers, which directories exist and what \<open>filepath.Walk\<close> visits are arguments.
\<close>

datatype cgroup_error = StatxFailed string bytes | NoKubepods string | NoPods string

definition ResolveCgroupID :: "(string \<Rightarrow> bytes + u64) \<Rightarrow> string \<Rightarrow> cgroup_error + u64" where
  "ResolveCgroupID statx path =
     (case statx path of Inl err \<Rightarrow> Inl (StatxFailed path err) | Inr ino \<Rightarrow> Inr ino)"

fun ResolveCgroupIDs :: "(string \<Rightarrow> bytes + u64) \<Rightarrow> string list \<Rightarrow> cgroup_error + u64 list" where
  "ResolveCgroupIDs statx [] = Inr []"
| "ResolveCgroupIDs statx (p # ps) =
     (case ResolveCgroupID statx p of
        Inl err \<Rightarrow> Inl err
      | Inr ident \<Rightarrow> map_sum id (Cons ident) (ResolveCgroupIDs statx ps))"

record walk_entry =
  we_path :: string
  we_name :: string
  we_isDir :: bool
  we_error :: bool

definition has_pod :: "string \<Rightarrow> bool" where
  "has_pod name \<longleftrightarrow> list_ex (\<lambda>i. take 3 (drop i name) = ''pod'') [0..<length name]"

definition pod_entry :: "string \<Rightarrow> walk_entry \<Rightarrow> bool" where
  "pod_entry baseDir e \<longleftrightarrow>
     \<not> we_error e \<and> we_isDir e \<and> we_path e \<noteq> baseDir \<and>
     (has_pod (we_name e) \<or> take 15 (we_name e) = ''cri-containerd-'')"

definition DiscoverPodCgroups ::
  "(string \<Rightarrow> bytes + u64) \<Rightarrow> (string \<Rightarrow> bool) \<Rightarrow> (string \<Rightarrow> walk_entry list) \<Rightarrow> string \<Rightarrow>
   cgroup_error + u64 list" where
  "DiscoverPodCgroups statx isDir walk cgroupRoot =
     (case find isDir [cgroupRoot @ ''/kubepods.slice'', cgroupRoot @ ''/kubepods''] of
        None \<Rightarrow> Inl (NoKubepods cgroupRoot)
      | Some baseDir \<Rightarrow>
          let ids = concat (map (\<lambda>e. if pod_entry baseDir e
                                     then (case ResolveCgroupID statx (we_path e) of Inl _ \<Rightarrow> [] | Inr ident \<Rightarrow> [ident])
                                     else []) (walk baseDir))
          in if ids = [] then Inl (NoPods baseDir) else Inr ids)"

section \<open>Loading the platform\<close>

record linux_config =
  lc_CgroupFilter :: "string list"
  lc_LSMEnforce :: bool
  lc_RequireLSM :: bool
  lc_SkipLSM :: bool

text \<open>
  What the machine answers: the two loaders' machines, the file system of the cgroups, and whether
  the enforce map accepts its value.
\<close>

record linux_machine =
  lm_tracer :: tracer
  lm_statx :: "string \<Rightarrow> bytes + u64"
  lm_isDir :: "string \<Rightarrow> bool"
  lm_walk :: "string \<Rightarrow> walk_entry list"
  lm_lsm :: machine
  lm_enforce_ok :: bool

datatype platform_error =
    LoadEBPF trace_error
  | CgroupsFailed cgroup_error
  | SetFilterFailed errno
  | LSMLoadRequired load_error
  | LSMUnsupported
  | LSMEnforceFailed

record linux_platform =
  lp_ebpfLoader :: loader
  lp_filters :: "(u64, u8) bpf_map option list"
  lp_lsmLoader :: "LSMLoader option"
  lp_lsmEnabled :: bool
  lp_maps :: lsm_state

type_synonym held_resources = "trace_resource set \<times> resource set"

definition fail_closing ::
  "platform_error \<Rightarrow> loader \<Rightarrow> held_resources \<Rightarrow> ((platform_error + linux_platform) \<times> held_resources) outcome" where
  "fail_closing err l held =
     (case loader_Close l (fst held) of
        Panicked \<Rightarrow> Panicked
      | Blocked \<Rightarrow> Blocked
      | Returned t \<Rightarrow> Returned (Inl err, (t, snd held)))"

text \<open>The part of \<open>Load\<close> that sets up the LSM programs; \<open>ids\<close> are the resolved cgroups.\<close>

definition load_lsm ::
  "linux_config \<Rightarrow> linux_machine \<Rightarrow> u64 list \<Rightarrow> linux_platform \<Rightarrow> trace_resource set \<Rightarrow>
   ((platform_error + linux_platform) \<times> held_resources) outcome" where
  "load_lsm cfg m ids p t =
     (if lc_SkipLSM cfg then Returned (Inr p, (t, {}))
      else case LoadLSM (lm_lsm m) of
             (Inl err, held) \<Rightarrow>
               if lc_RequireLSM cfg then fail_closing (LSMLoadRequired err) (lp_ebpfLoader p) (t, held)
               else Returned (Inr p, (t, held))
           | (Inr None, held) \<Rightarrow>
               if lc_RequireLSM cfg then fail_closing LSMUnsupported (lp_ebpfLoader p) (t, held)
               else Returned (Inr p, (t, held))
           | (Inr (Some lsm), held) \<Rightarrow>
               let p = p\<lparr>lp_lsmLoader := Some lsm, lp_lsmEnabled := True\<rparr>
               in if \<not> lm_enforce_ok m \<and> lc_RequireLSM cfg
                  then fail_closing LSMEnforceFailed (lp_ebpfLoader p) (t, held)
                  else
                    let maps = (if lm_enforce_ok m then SetEnforce (lp_maps p) (lc_LSMEnforce cfg) else lp_maps p);
                        maps = (if ids = [] then maps else snd (SetLSMCgroupFilter maps ids))
                    in Returned (Inr (p\<lparr>lp_maps := maps\<rparr>), (t, held)))"

definition filter_ids :: "linux_machine \<Rightarrow> string list \<Rightarrow> cgroup_error + u64 list" where
  "filter_ids m paths =
     (if paths = [''auto'']
      then DiscoverPodCgroups (lm_statx m) (lm_isDir m) (lm_walk m) ''/sys/fs/cgroup''
      else ResolveCgroupIDs (lm_statx m) paths)"

definition linux_Load ::
  "linux_config \<Rightarrow> linux_machine \<Rightarrow> ((platform_error + linux_platform) \<times> held_resources) outcome" where
  "linux_Load cfg m =
     (case loader_Load (lm_tracer m) of
        Panicked \<Rightarrow> Panicked
      | Blocked \<Rightarrow> Blocked
      | Returned (Inl err, t) \<Rightarrow> Returned (Inl (LoadEBPF err), (t, {}))
      | Returned (Inr l, t) \<Rightarrow>
          let p = \<lparr> lp_ebpfLoader = l, lp_filters = replicate 3 (Some []), lp_lsmLoader = None,
                    lp_lsmEnabled = False, lp_maps = boot \<rparr>
          in if lc_CgroupFilter cfg = [] then load_lsm cfg m [] p t
             else case filter_ids m (lc_CgroupFilter cfg) of
                    Inl err \<Rightarrow> fail_closing (CgroupsFailed err) l (t, {})
                  | Inr ids \<Rightarrow>
                      (case SetCgroupFilter (lp_filters p) ids of
                         (Some err, _) \<Rightarrow> fail_closing (SetFilterFailed err) l (t, {})
                       | (None, filters) \<Rightarrow> load_lsm cfg m ids (p\<lparr>lp_filters := filters\<rparr>) t))"

datatype posture = EnforcementActive | AuditOnly | ObserveOnly

definition securityPosture :: "linux_config \<Rightarrow> linux_platform \<Rightarrow> posture" where
  "securityPosture cfg p =
     (if lp_lsmEnabled p \<and> lc_LSMEnforce cfg then EnforcementActive
      else if lp_lsmEnabled p then AuditOnly
      else ObserveOnly)"

definition linux_Close :: "linux_platform \<Rightarrow> held_resources \<Rightarrow> held_resources outcome" where
  "linux_Close p held =
     (let lsm = (case lp_lsmLoader p of Some l \<Rightarrow> Close l (snd held) | None \<Rightarrow> snd held)
      in case loader_Close (lp_ebpfLoader p) (fst held) of
           Panicked \<Rightarrow> Panicked
         | Blocked \<Rightarrow> Blocked
         | Returned t \<Rightarrow> Returned (t, lsm))"

text \<open>The map that the enforcer may write rules to, if any.\<close>

definition PolicyMap :: "linux_platform \<Rightarrow> lsm_state option" where
  "PolicyMap p = (case lp_lsmLoader p of None \<Rightarrow> None | Some _ \<Rightarrow> Some (lp_maps p))"

section \<open>Events\<close>

definition kind_type :: "EventKind \<Rightarrow> int" where
  "kind_type k = (case k of EventKindProcess \<Rightarrow> 0 | EventKindFile \<Rightarrow> 1 | EventKindNetwork \<Rightarrow> 2)"

text \<open>The text of an address of an \<open>Event\<close>.\<close>

definition addr_text :: "remote_addr \<Rightarrow> bytes" where
  "addr_text a =
     (case a of
        NoAddr \<Rightarrow> []
      | IPv4Text ip \<Rightarrow> IP_String ip
      | IPv6Text ip \<Rightarrow> IP_String ip
      | UnknownFamily f \<Rightarrow> ascii ''unknown-family-'' @ print_nat 10 (unat f))"

definition linux_base :: "int \<Rightarrow> event \<Rightarrow> base_event" where
  "linux_base type ev =
     \<lparr> be_Type = type, be_PID = PID ev, be_UID = UID ev, be_GID = GID ev, be_Comm = Comm ev,
       be_Timestamp = Timestamp ev, be_CgroupID = CgroupID ev \<rparr>"

definition linux_event :: "int \<Rightarrow> event \<Rightarrow> api_event" where
  "linux_event type ev =
     \<lparr> ae_PID = PID ev, ae_UID = UID ev, ae_GID = GID ev, ae_Comm = Comm ev, ae_Filename = [],
       ae_Timestamp = Timestamp ev, ae_Type = type, ae_CgroupID = CgroupID ev, ae_Process = None,
       ae_File = None, ae_Network = None, ae_LSMEvent = False \<rparr>"

definition protocol_of :: "event \<Rightarrow> bytes" where
  "protocol_of ev = (if Family ev = 10 then ascii ''tcp6'' else ascii ''tcp'')"

definition network_payload :: "event \<Rightarrow> api_network" where
  "network_payload ev =
     \<lparr> ne_Base = linux_base EventTypeNetwork ev, ne_Operation = ascii ''connect'',
       ne_Protocol = protocol_of ev, ne_RemoteAddr = addr_text (RemoteAddr ev),
       ne_RemotePort = RemotePort ev, ne_LocalAddr = [], ne_LocalPort = 0, ne_DataSize = 0 \<rparr>"

definition monitorProcessEvents :: "event \<Rightarrow> api_event" where
  "monitorProcessEvents ev =
     (linux_event EventTypeProcess ev)
       \<lparr>ae_Filename := Filename ev,
        ae_Process := Some \<lparr> pe_Base = linux_base EventTypeProcess ev, pe_Filename = Filename ev, pe_Args = [] \<rparr>\<rparr>"

definition monitorFileEvents :: "event \<Rightarrow> api_event" where
  "monitorFileEvents ev =
     (linux_event EventTypeFile ev)
       \<lparr>ae_Filename := Filename ev,
        ae_File := Some \<lparr> fe_Base = linux_base EventTypeFile ev, fe_Operation = ascii ''open'',
                          fe_Path = Filename ev, fe_Flags = Flags ev, fe_Mode = Mode ev \<rparr>\<rparr>"

definition monitorNetworkEvents :: "event \<Rightarrow> api_event" where
  "monitorNetworkEvents ev = (linux_event EventTypeNetwork ev)\<lparr>ae_Network := Some (network_payload ev)\<rparr>"

definition monitorLSMEvents :: "event \<Rightarrow> api_event" where
  "monitorLSMEvents ev =
     (let event = (linux_event (kind_type (Kind ev)) ev)\<lparr>ae_Filename := Filename ev, ae_LSMEvent := True\<rparr>
      in case Kind ev of
           EventKindProcess \<Rightarrow>
             event\<lparr>ae_Process := Some \<lparr> pe_Base = linux_base EventTypeProcess ev, pe_Filename = Filename ev,
                                         pe_Args = [] \<rparr>\<rparr>
         | EventKindFile \<Rightarrow>
             event\<lparr>ae_File := Some \<lparr> fe_Base = linux_base EventTypeFile ev, fe_Operation = ascii ''open'',
                                      fe_Path = Filename ev, fe_Flags = 0, fe_Mode = 0 \<rparr>\<rparr>
         | EventKindNetwork \<Rightarrow> event\<lparr>ae_Network := Some (network_payload ev)\<rparr>)"

section \<open>Loading and closing\<close>

definition loader_resources :: "loader \<Rightarrow> trace_resource set" where
  "loader_resources l =
     MonitorObjs ` set (ld_objs l) \<union> MonitorLink ` set (ld_links l) \<union> MonitorReader ` set (ld_readers l)"

text \<open>The steps of the monitors' loader in their order, and what it takes for each to work.\<close>

datatype load_step = LoadObjs string | Attach string | OpenReader string

definition step_works :: "tracer \<Rightarrow> load_step \<Rightarrow> bool" where
  "step_works m s =
     (case s of LoadObjs n \<Rightarrow> ta_loads m n | Attach n \<Rightarrow> ta_attaches m n | OpenReader n \<Rightarrow> ta_reads m n)"

definition load_steps :: "load_step list" where
  "load_steps = concat (map (\<lambda>n. [LoadObjs n, Attach n, OpenReader n]) monitors)"

text \<open>
  The loader returns everything when every step works; a failure before the objects of the last
  monitor are allocated panics, unless it is the very first one; the other failures return an
  error and hold nothing.
\<close>

lemma loader_Load_outcome:
  assumes "ta_memlock m"
  shows "loader_Load m =
    (case find (\<lambda>s. \<not> step_works m s) load_steps of
       None \<Rightarrow>
         (let l = \<lparr> ld_objs = monitors, ld_links = monitors, ld_readers = monitors \<rparr>
          in Returned (Inr l, loader_resources l))
     | Some (LoadObjs n) \<Rightarrow>
         if n = ''openat'' then Panicked else Returned (Inl (TraceLoad n), {})
     | Some (Attach n) \<Rightarrow> if n = ''connect'' then Returned (Inl (TraceAttach n), {}) else Panicked
     | Some (OpenReader n) \<Rightarrow> if n = ''connect'' then Returned (Inl (TraceReader n), {}) else Panicked)"
  using assms
  by (simp add: loader_Load_def monitors_def load_steps_def step_works_def close_with_def loader_Close_def
      loader_resources_def Let_def) auto

end
