(* ===== verification/Linux_Readers.thy ===== *)
theory Linux_Readers
  imports Linux_Platform
begin

text \<open>
  The goroutines of the Linux platform (\<open>Start\<close>, \<open>Stop\<close> and the \<open>monitor...Events\<close> loops of
  \<open>internal/platform/linux.go\<close>) as interleaved steps: one reader per ring buffer, which waits for
  a sample, converts it and sends it to the channel of the enforcer.
\<close>

section \<open>State\<close>

datatype source = FromMonitor EventKind | FromLSM

text \<open>One reading of a source, up to the event that is sent; \<open>None\<close> for an error.\<close>

definition read_sample :: "int \<Rightarrow> source \<Rightarrow> bytes \<Rightarrow> api_event option" where
  "read_sample off src r =
     (case src of
        FromMonitor EventKindProcess \<Rightarrow> map_option monitorProcessEvents (readEvent off EventKindProcess r)
      | FromMonitor EventKindFile \<Rightarrow> map_option monitorFileEvents (readEvent off EventKindFile r)
      | FromMonitor EventKindNetwork \<Rightarrow> map_option monitorNetworkEvents (readEvent off EventKindNetwork r)
      | FromLSM \<Rightarrow> map_option monitorLSMEvents (ReadLSMEvent off r))"

datatype reader_state = Checking | Reading | Sending api_event | Exited

record reader =
  rd_source :: source
  rd_state :: reader_state
  rd_ring :: "bytes list"

record platform_run =
  pr_readers :: "reader list"
  pr_eventChan :: "api_event list"
  pr_capacity :: nat
  pr_stopped :: bool
  pr_cancelled :: bool
  pr_closed :: bool

definition linux_Start :: "linux_platform \<Rightarrow> nat \<Rightarrow> platform_run" where
  "linux_Start p capacity =
     \<lparr> pr_readers =
         map (\<lambda>src. \<lparr> rd_source = src, rd_state = Checking, rd_ring = [] \<rparr>)
           ([FromMonitor EventKindProcess, FromMonitor EventKindFile, FromMonitor EventKindNetwork] @
            (if lp_lsmEnabled p then [FromLSM] else [])),
       pr_eventChan = [], pr_capacity = capacity, pr_stopped = False, pr_cancelled = False,
       pr_closed = False \<rparr>"

text \<open>
  \<open>Stop\<close> closes the stop channel, which panics the second time, and then waits until every reader
  has exited.
\<close>

definition stop_begin :: "platform_run \<Rightarrow> platform_run outcome" where
  "stop_begin s = (if pr_stopped s then Panicked else Returned (s\<lparr>pr_stopped := True\<rparr>))"

definition stop_done :: "platform_run \<Rightarrow> bool" where
  "stop_done s \<longleftrightarrow> pr_stopped s \<and> list_all (\<lambda>rd. rd_state rd = Exited) (pr_readers s)"

section \<open>Steps\<close>

definition stopping :: "platform_run \<Rightarrow> bool" where
  "stopping s \<longleftrightarrow> pr_stopped s \<or> pr_cancelled s"

definition set_reader :: "nat \<Rightarrow> (reader \<Rightarrow> reader) \<Rightarrow> platform_run \<Rightarrow> platform_run" where
  "set_reader i f s = s\<lparr>pr_readers := (pr_readers s)[i := f (pr_readers s ! i)]\<rparr>"

datatype run_act =
    Arrived nat bytes
  | Ran nat
  | Delivered nat api_event
  | Consumed api_event
  | Cancelled
  | StopBegun
  | ReadersClosed

text \<open>
  The check of the two stop signals, the read (which waits for a sample and fails once the ring
  buffer reader is closed), and the send, which may give up when a stop signal is there.
\<close>

inductive run_step :: "int \<Rightarrow> platform_run \<Rightarrow> run_act \<Rightarrow> platform_run \<Rightarrow> bool" for off where
  arrived: "i < length (pr_readers s) \<Longrightarrow>
    run_step off s (Arrived i r) (set_reader i (\<lambda>rd. rd\<lparr>rd_ring := rd_ring rd @ [r]\<rparr>) s)"
| check: "i < length (pr_readers s) \<Longrightarrow> rd_state (pr_readers s ! i) = Checking \<Longrightarrow>
    run_step off s (Ran i)
      (set_reader i (\<lambda>rd. rd\<lparr>rd_state := if stopping s then Exited else Reading\<rparr>) s)"
| read: "i < length (pr_readers s) \<Longrightarrow> rd_state (pr_readers s ! i) = Reading \<Longrightarrow>
    rd_ring (pr_readers s ! i) = r # rs \<Longrightarrow>
    run_step off s (Ran i)
      (set_reader i (\<lambda>rd. rd\<lparr>rd_ring := rs,
         rd_state := case read_sample off (rd_source rd) r of None \<Rightarrow> Checking | Some e \<Rightarrow> Sending e\<rparr>) s)"
| read_closed: "i < length (pr_readers s) \<Longrightarrow> rd_state (pr_readers s ! i) = Reading \<Longrightarrow> pr_closed s \<Longrightarrow>
    run_step off s (Ran i) (set_reader i (\<lambda>rd. rd\<lparr>rd_state := Checking\<rparr>) s)"
| send: "i < length (pr_readers s) \<Longrightarrow> rd_state (pr_readers s ! i) = Sending e \<Longrightarrow>
    length (pr_eventChan s) < pr_capacity s \<Longrightarrow>
    run_step off s (Delivered i e)
      ((set_reader i (\<lambda>rd. rd\<lparr>rd_state := Checking\<rparr>) s)\<lparr>pr_eventChan := pr_eventChan s @ [e]\<rparr>)"
| give_up: "i < length (pr_readers s) \<Longrightarrow> rd_state (pr_readers s ! i) = Sending e \<Longrightarrow> stopping s \<Longrightarrow>
    run_step off s (Ran i) (set_reader i (\<lambda>rd. rd\<lparr>rd_state := Exited\<rparr>) s)"
| consumed: "pr_eventChan s = e # es \<Longrightarrow> run_step off s (Consumed e) (s\<lparr>pr_eventChan := es\<rparr>)"
| cancelled: "run_step off s Cancelled (s\<lparr>pr_cancelled := True\<rparr>)"
| stop_begun: "stop_begin s = Returned s' \<Longrightarrow> run_step off s StopBegun s'"
| readers_closed: "run_step off s ReadersClosed (s\<lparr>pr_closed := True\<rparr>)"

inductive_cases run_step_cases: "run_step off s act s'"

inductive run_exec :: "int \<Rightarrow> platform_run \<Rightarrow> run_act list \<Rightarrow> platform_run \<Rightarrow> bool" for off where
  run_none: "run_exec off s [] s"
| run_more: "run_exec off s acts s' \<Longrightarrow> run_step off s' act s'' \<Longrightarrow> run_exec off s (acts @ [act]) s''"

text \<open>The steps that a reader makes itself.\<close>

definition own_step :: "run_act \<Rightarrow> bool" where
  "own_step act \<longleftrightarrow> (case act of Ran _ \<Rightarrow> True | Delivered _ _ \<Rightarrow> True | _ \<Rightarrow> False)"

section \<open>Ending\<close>

fun remaining :: "reader_state \<Rightarrow> nat" where
  "remaining Exited = 0"
| "remaining Checking = 1"
| "remaining (Sending e) = 2"
| "remaining Reading = 3"

definition steps_left :: "platform_run \<Rightarrow> nat" where
  "steps_left s = sum_list (map (\<lambda>rd. remaining (rd_state rd)) (pr_readers s))"

lemma sum_list_update_less:
  fixes xs :: "nat list"
  shows "i < length xs \<Longrightarrow> x < xs ! i \<Longrightarrow> sum_list (xs[i := x]) < sum_list xs"
  by (simp add: sum_list_update) (metis add_diff_assoc2 elem_le_sum_list less_add_same_cancel1
      add.commute diff_less_mono2 le_add_diff_inverse nat_add_left_cancel_less)

lemma set_reader_left:
  assumes "i < length (pr_readers s)" and "remaining (rd_state (f (pr_readers s ! i))) < remaining (rd_state (pr_readers s ! i))"
  shows "steps_left (set_reader i f s) < steps_left s"
  using assms sum_list_update_less [of i "map (\<lambda>rd. remaining (rd_state rd)) (pr_readers s)"]
  by (simp add: steps_left_def set_reader_def map_update)

lemma own_step_left:
  assumes "run_step off s act s'" and "own_step act" and "stopping s"
  shows "steps_left s' < steps_left s"
  using assms
proof cases
  case (send i e)
  have "steps_left (set_reader i (\<lambda>rd. rd\<lparr>rd_state := Checking\<rparr>) s) < steps_left s"
    using send by (intro set_reader_left) simp_all
  then show ?thesis
    using send by (simp add: steps_left_def)
qed (use assms in \<open>auto simp: own_step_def intro!: set_reader_left split: option.split\<close>)

lemma map_update_same: "g y = g (xs ! i) \<Longrightarrow> map g (xs[i := y]) = map g xs"
  by (metis list_update_id map_update)

lemma other_step_left:
  assumes "run_step off s act s'" and "\<not> own_step act"
  shows "steps_left s' = steps_left s"
  using assms
  by cases (auto simp: own_step_def steps_left_def set_reader_def stop_begin_def map_update_same split: if_splits)

lemma stopping_kept: "run_step off s act s' \<Longrightarrow> stopping s \<Longrightarrow> stopping s'"
  by (erule run_step_cases) (auto simp: stopping_def set_reader_def stop_begin_def split: if_splits)

lemma stopping_steps_bounded:
  assumes "run_exec off s acts s'" and "stopping s"
  shows "stopping s' \<and> length (filter own_step acts) + steps_left s' \<le> steps_left s"
  using assms
proof (induction rule: run_exec.induct)
  case (run_more s acts s' act s'')
  then show ?case
    using own_step_left [OF run_more.hyps(2)] other_step_left [OF run_more.hyps(2)]
      stopping_kept [OF run_more.hyps(2)]
    by (cases "own_step act") auto
qed simp

text \<open>A reader that can make no step of its own has exited or waits for a sample.\<close>

definition waits :: "platform_run \<Rightarrow> reader \<Rightarrow> bool" where
  "waits s rd \<longleftrightarrow> rd_state rd = Reading \<and> rd_ring rd = [] \<and> \<not> pr_closed s"

lemma stopping_progress:
  assumes "stopping s" and "rd \<in> set (pr_readers s)" and "rd_state rd \<noteq> Exited" and "\<not> waits s rd"
  shows "\<exists>act s'. run_step off s act s' \<and> own_step act"
proof -
  obtain i where i: "i < length (pr_readers s)" "rd = pr_readers s ! i"
    using assms(2) by (metis in_set_conv_nth)
  have own: "own_step (Ran i)"
    by (simp add: own_step_def)
  show ?thesis
  proof (cases "rd_state rd")
    case Checking
    then show ?thesis
      using check [OF i(1), of off] i(2) own by auto
  next
    case Reading
    then show ?thesis
      using read [OF i(1), of _ _ off] read_closed [OF i(1), of off] i(2) own assms(4)
      by (cases "rd_ring rd") (auto simp: waits_def)
  next
    case (Sending e)
    then show ?thesis
      using give_up [OF i(1), of e off] i(2) own assms(1) by auto
  qed (use assms(3) in simp)
qed

section \<open>Waiting\<close>

lemma waiting_step:
  assumes "run_step off s act s'" and "i < length (pr_readers s)" and "waits s (pr_readers s ! i)"
    and "\<forall>r. act \<noteq> Arrived i r" and "act \<noteq> ReadersClosed"
  shows "i < length (pr_readers s') \<and> waits s' (pr_readers s' ! i)"
  using assms
  by cases (auto simp: waits_def set_reader_def nth_list_update stop_begin_def split: if_splits)

lemma waiting_exec:
  assumes "run_exec off s acts s'" and "i < length (pr_readers s)" and "waits s (pr_readers s ! i)"
    and "\<forall>r. Arrived i r \<notin> set acts" and "ReadersClosed \<notin> set acts"
  shows "i < length (pr_readers s') \<and> waits s' (pr_readers s' ! i)"
  using assms
proof (induction rule: run_exec.induct)
  case (run_more s acts s' act s'')
  then show ?case
    using waiting_step [OF run_more.hyps(2), of i] by auto
qed simp

section \<open>Delivery\<close>

definition arrivals_of :: "nat \<Rightarrow> run_act list \<Rightarrow> bytes list" where
  "arrivals_of i acts = concat (map (\<lambda>a. case a of Arrived j r \<Rightarrow> if j = i then [r] else [] | _ \<Rightarrow> []) acts)"

definition deliveries_of :: "nat \<Rightarrow> run_act list \<Rightarrow> api_event list" where
  "deliveries_of i acts = concat (map (\<lambda>a. case a of Delivered j e \<Rightarrow> if j = i then [e] else [] | _ \<Rightarrow> []) acts)"

definition delivered :: "run_act list \<Rightarrow> api_event list" where
  "delivered acts = concat (map (\<lambda>a. case a of Delivered j e \<Rightarrow> [e] | _ \<Rightarrow> []) acts)"

definition consumptions :: "run_act list \<Rightarrow> api_event list" where
  "consumptions acts = concat (map (\<lambda>a. case a of Consumed e \<Rightarrow> [e] | _ \<Rightarrow> []) acts)"

lemmas act_lists = arrivals_of_def deliveries_of_def delivered_def consumptions_def

definition in_hand :: "reader \<Rightarrow> api_event list" where
  "in_hand rd = (case rd_state rd of Sending e \<Rightarrow> [e] | _ \<Rightarrow> [])"

definition readings :: "int \<Rightarrow> source \<Rightarrow> bytes list \<Rightarrow> api_event list" where
  "readings off src rs = List.map_filter (read_sample off src) rs"

lemma readings_simps [simp]:
  "readings off src [] = []"
  "readings off src (r # rs) = (case read_sample off src r of None \<Rightarrow> [] | Some e \<Rightarrow> [e]) @ readings off src rs"
  "readings off src (rs @ rs') = readings off src rs @ readings off src rs'"
  by (simp_all add: readings_def map_filter_def split: option.split)

text \<open>
  What a reader has seen of its ring buffer: the readings of the samples are what it delivered,
  what it has in hand, at most one event that it gave up when it exited, and what is still queued.
\<close>

definition reader_inv :: "int \<Rightarrow> bytes list \<Rightarrow> api_event list \<Rightarrow> reader \<Rightarrow> bool" where
  "reader_inv off arrivals deliveries rd \<longleftrightarrow>
     (\<exists>lost. readings off (rd_source rd) arrivals =
        deliveries @ in_hand rd @ lost @ readings off (rd_source rd) (rd_ring rd) \<and>
        (lost = [] \<or> rd_state rd = Exited \<and> length lost = 1))"

lemma reader_inv_live:
  "rd_state rd \<noteq> Exited \<Longrightarrow> reader_inv off arrivals deliveries rd \<longleftrightarrow>
     readings off (rd_source rd) arrivals = deliveries @ in_hand rd @ readings off (rd_source rd) (rd_ring rd)"
  by (auto simp: reader_inv_def)

lemma reader_inv_exited:
  "rd_state rd = Exited \<Longrightarrow> length lost \<le> 1 \<Longrightarrow>
   readings off (rd_source rd) arrivals = deliveries @ lost @ readings off (rd_source rd) (rd_ring rd) \<Longrightarrow>
   reader_inv off arrivals deliveries rd"
  unfolding reader_inv_def by (cases lost) (auto simp: in_hand_def intro: exI [of _ lost])

lemma reader_inv_step:
  assumes "run_step off s act s'" and "j < length (pr_readers s)"
    and "reader_inv off (arrivals_of j acts) (deliveries_of j acts) (pr_readers s ! j)"
  shows "reader_inv off (arrivals_of j (acts @ [act])) (deliveries_of j (acts @ [act])) (pr_readers s' ! j)"
  using assms(1)
proof cases
  case (arrived i r)
  then show ?thesis
    using assms(2,3)
    by (cases "i = j") (auto simp: set_reader_def act_lists reader_inv_def in_hand_def)
next
  case (check i)
  then show ?thesis
    using assms(2,3) reader_inv_exited [of "(pr_readers s ! j)\<lparr>rd_state := Exited\<rparr>" "[]"]
    by (cases "i = j") (auto simp: set_reader_def act_lists reader_inv_live in_hand_def)
next
  case (read i r rs)
  then show ?thesis
    using assms(2,3)
    by (cases "i = j") (auto simp: set_reader_def act_lists reader_inv_live in_hand_def split: option.split)
next
  case (read_closed i)
  then show ?thesis
    using assms(2,3) by (cases "i = j") (auto simp: set_reader_def act_lists reader_inv_live in_hand_def)
next
  case (send i e)
  then show ?thesis
    using assms(2,3) by (cases "i = j") (auto simp: set_reader_def act_lists reader_inv_live in_hand_def)
next
  case (give_up i e)
  then show ?thesis
    using assms(2,3) reader_inv_exited [of "(pr_readers s ! j)\<lparr>rd_state := Exited\<rparr>" "[e]"]
    by (cases "i = j") (auto simp: set_reader_def act_lists reader_inv_live in_hand_def)
qed (use assms in \<open>auto simp: act_lists stop_begin_def split: if_splits\<close>)

definition run_inv :: "int \<Rightarrow> source list \<Rightarrow> run_act list \<Rightarrow> platform_run \<Rightarrow> bool" where
  "run_inv off srcs acts s \<longleftrightarrow>
     map rd_source (pr_readers s) = srcs \<and> delivered acts = consumptions acts @ pr_eventChan s \<and>
     length (pr_eventChan s) \<le> pr_capacity s \<and>
     (\<forall>i < length srcs. reader_inv off (arrivals_of i acts) (deliveries_of i acts) (pr_readers s ! i))"

lemma run_step_frame:
  assumes "run_step off s act s'"
  shows "map rd_source (pr_readers s') = map rd_source (pr_readers s)" "pr_capacity s' = pr_capacity s"
    and "delivered acts = consumptions acts @ pr_eventChan s \<Longrightarrow>
      delivered (acts @ [act]) = consumptions (acts @ [act]) @ pr_eventChan s'"
    and "length (pr_eventChan s) \<le> pr_capacity s \<Longrightarrow> length (pr_eventChan s') \<le> pr_capacity s'"
  using assms
  by (cases; auto simp: set_reader_def act_lists stop_begin_def map_update_same split: if_splits)+

lemma run_inv_exec:
  assumes "run_exec off s acts s'" and "run_inv off srcs [] s"
  shows "run_inv off srcs acts s'"
  using assms
proof (induction rule: run_exec.induct)
  case (run_more s acts s' act s'')
  then have inv: "run_inv off srcs acts s'" by simp
  then have "length srcs = length (pr_readers s')"
    by (auto simp: run_inv_def)
  then show ?case
    using inv run_step_frame [OF run_more.hyps(2)] reader_inv_step [OF run_more.hyps(2)]
    by (simp add: run_inv_def)
qed simp

end
