(* ===== verification/Esf_Bridge.thy ===== *)
theory Esf_Bridge
  imports Warmor_Prelude
begin

text \<open>
  The C bridge to the macOS Endpoint Security framework, \<open>internal/platform/esf/bridge.c\<close>. The
  framework is a parameter: its functions act on a world of their own. A pointer is an option,
  \<open>None\<close> for NULL. Of the framework's structs only the members that the bridge reads are kept.
\<close>

section \<open>The framework\<close>

type_synonym es_client = nat
type_synonym es_message = nat
type_synonym es_event_type = nat
type_synonym audit_token = nat

text \<open>Result codes of the framework's headers; the other codes are passed through unseen.\<close>

datatype es_return = ES_RETURN_SUCCESS | ES_RETURN_ERROR
datatype es_new_client_result = ES_NEW_CLIENT_RESULT_SUCCESS | ES_NEW_CLIENT_RESULT_ERR nat
datatype es_respond_result =
  ES_RESPOND_RESULT_SUCCESS | ES_RESPOND_RESULT_ERR_INVALID_ARGUMENT | ES_RESPOND_RESULT_ERR nat

record es_string_token =
  tok_data :: "bytes option"

record es_file =
  file_path :: es_string_token

record es_process =
  executable :: "es_file option"

record es_event_open =
  open_file :: "es_file option"

record es_event_create =
  new_path_dir :: "es_file option"

text \<open>
  \<open>es_new_client\<close> gives the result and what it stores through the pointer; \<open>goEventHandler\<close> is the
  exported Go function.
\<close>

record 'w es_api =
  es_new_client :: "'w \<Rightarrow> es_new_client_result \<times> es_client option \<times> 'w"
  es_delete_client :: "es_client \<Rightarrow> 'w \<Rightarrow> 'w"
  es_subscribe :: "es_client \<Rightarrow> es_event_type list \<Rightarrow> nat \<Rightarrow> 'w \<Rightarrow> es_return \<times> 'w"
  es_unsubscribe :: "es_client \<Rightarrow> es_event_type list \<Rightarrow> nat \<Rightarrow> 'w \<Rightarrow> es_return \<times> 'w"
  es_respond_auth_result :: "es_client \<Rightarrow> es_message \<Rightarrow> nat \<Rightarrow> bool \<Rightarrow> 'w \<Rightarrow> es_respond_result \<times> 'w"
  goEventHandler :: "es_message \<Rightarrow> 'w \<Rightarrow> 'w"
  audit_token_to_pid :: "audit_token \<Rightarrow> nat"
  audit_token_to_euid :: "audit_token \<Rightarrow> nat"
  audit_token_to_egid :: "audit_token \<Rightarrow> nat"

record 'w bridge =
  global_client :: "es_client option"
  framework :: 'w

section \<open>The functions\<close>

definition event_handler :: "'w es_api \<Rightarrow> es_client option \<Rightarrow> es_message option \<Rightarrow> 'w bridge \<Rightarrow> 'w bridge" where
  "event_handler api client message st =
     (case message of
        None \<Rightarrow> st
      | Some m \<Rightarrow> st\<lparr>framework := goEventHandler api m (framework st)\<rparr>)"

definition create_esf_client ::
  "'w es_api \<Rightarrow> 'w bridge \<Rightarrow> es_new_client_result \<times> es_client option \<times> 'w bridge" where
  "create_esf_client api st =
     (case es_new_client api (framework st) of
        (result, client, w) \<Rightarrow>
          let st = st\<lparr>framework := w\<rparr>;
              st = (if result = ES_NEW_CLIENT_RESULT_SUCCESS then st\<lparr>global_client := client\<rparr> else st)
          in (result, client, st))"

definition delete_esf_client :: "'w es_api \<Rightarrow> es_client option \<Rightarrow> 'w bridge \<Rightarrow> es_return \<times> 'w bridge" where
  "delete_esf_client api client st =
     (ES_RETURN_SUCCESS,
      case client of
        Some c \<Rightarrow> st\<lparr>framework := es_delete_client api c (framework st), global_client := None\<rparr>
      | None \<Rightarrow> st)"

definition subscribe_events ::
  "'w es_api \<Rightarrow> es_client option \<Rightarrow> es_event_type list option \<Rightarrow> nat \<Rightarrow> 'w bridge \<Rightarrow> es_return \<times> 'w bridge" where
  "subscribe_events api client events count st =
     (case (client, events) of
        (Some c, Some es) \<Rightarrow>
          if count = 0 then (ES_RETURN_ERROR, st)
          else (case es_subscribe api c es count (framework st) of
                  (result, w) \<Rightarrow> (result, st\<lparr>framework := w\<rparr>))
      | _ \<Rightarrow> (ES_RETURN_ERROR, st))"

definition unsubscribe_events ::
  "'w es_api \<Rightarrow> es_client option \<Rightarrow> es_event_type list option \<Rightarrow> nat \<Rightarrow> 'w bridge \<Rightarrow> es_return \<times> 'w bridge" where
  "unsubscribe_events api client events count st =
     (case (client, events) of
        (Some c, Some es) \<Rightarrow>
          if count = 0 then (ES_RETURN_ERROR, st)
          else (case es_unsubscribe api c es count (framework st) of
                  (result, w) \<Rightarrow> (result, st\<lparr>framework := w\<rparr>))
      | _ \<Rightarrow> (ES_RETURN_ERROR, st))"

definition respond_auth ::
  "'w es_api \<Rightarrow> es_client option \<Rightarrow> es_message option \<Rightarrow> nat \<Rightarrow> bool \<Rightarrow> 'w bridge \<Rightarrow>
   es_respond_result \<times> 'w bridge" where
  "respond_auth api client message result cache st =
     (case (client, message) of
        (Some c, Some m) \<Rightarrow>
          (case es_respond_auth_result api c m result cache (framework st) of
             (code, w) \<Rightarrow> (code, st\<lparr>framework := w\<rparr>))
      | _ \<Rightarrow> (ES_RESPOND_RESULT_ERR_INVALID_ARGUMENT, st))"

definition get_process_path :: "es_process option \<Rightarrow> bytes option" where
  "get_process_path process =
     (case process of
        None \<Rightarrow> None
      | Some p \<Rightarrow> (case executable p of
                     None \<Rightarrow> None
                   | Some f \<Rightarrow> tok_data (file_path f)))"

definition get_open_file_path :: "es_event_open option \<Rightarrow> bytes option" where
  "get_open_file_path event =
     (case event of
        None \<Rightarrow> None
      | Some e \<Rightarrow> (case open_file e of
                     None \<Rightarrow> None
                   | Some f \<Rightarrow> tok_data (file_path f)))"

definition get_create_file_path :: "es_event_create option \<Rightarrow> bytes option" where
  "get_create_file_path event =
     (case event of
        None \<Rightarrow> None
      | Some e \<Rightarrow> (case new_path_dir e of None \<Rightarrow> None | Some dir \<Rightarrow> None))"

definition get_pid_from_token :: "'w es_api \<Rightarrow> audit_token \<Rightarrow> nat" where
  "get_pid_from_token api token = audit_token_to_pid api token"

definition get_uid_from_token :: "'w es_api \<Rightarrow> audit_token \<Rightarrow> nat" where
  "get_uid_from_token api token = audit_token_to_euid api token"

definition get_gid_from_token :: "'w es_api \<Rightarrow> audit_token \<Rightarrow> nat" where
  "get_gid_from_token api token = audit_token_to_egid api token"

section \<open>Sequences of calls\<close>

text \<open>The calls of the bridge as steps, labelled with the call and its arguments and results.\<close>

datatype esf_call =
    Created "es_client option" bool
  | Deleted "es_client option"
  | Subscribed "es_client option" "es_event_type list option" nat es_return
  | Unsubscribed "es_client option" "es_event_type list option" nat es_return
  | Responded "es_client option" "es_message option" es_respond_result
  | Handled "es_message option"

inductive esf_step :: "'w es_api \<Rightarrow> 'w bridge \<Rightarrow> esf_call \<Rightarrow> 'w bridge \<Rightarrow> bool" for api where
  step_create:
    "create_esf_client api st = (result, client, st') \<Longrightarrow>
     esf_step api st (Created client (result = ES_NEW_CLIENT_RESULT_SUCCESS)) st'"
| step_delete:
    "delete_esf_client api client st = (result, st') \<Longrightarrow> esf_step api st (Deleted client) st'"
| step_subscribe:
    "subscribe_events api client events count st = (result, st') \<Longrightarrow>
     esf_step api st (Subscribed client events count result) st'"
| step_unsubscribe:
    "unsubscribe_events api client events count st = (result, st') \<Longrightarrow>
     esf_step api st (Unsubscribed client events count result) st'"
| step_respond:
    "respond_auth api client message answer cache st = (result, st') \<Longrightarrow>
     esf_step api st (Responded client message result) st'"
| step_handle:
    "event_handler api client message st = st' \<Longrightarrow> esf_step api st (Handled message) st'"

inductive_cases esf_step_cases: "esf_step api st c st'"

inductive esf_exec :: "'w es_api \<Rightarrow> 'w bridge \<Rightarrow> esf_call list \<Rightarrow> 'w bridge \<Rightarrow> bool" for api where
  exec_none: "esf_exec api st [] st"
| exec_more: "esf_exec api st cs st' \<Longrightarrow> esf_step api st' c st'' \<Longrightarrow> esf_exec api st (cs @ [c]) st''"

text \<open>The clients that were created and not deleted since.\<close>

fun live_after :: "es_client set \<Rightarrow> esf_call \<Rightarrow> es_client set" where
  "live_after live (Created client ok) =
     (case client of Some c \<Rightarrow> if ok then insert c live else live | None \<Rightarrow> live)"
| "live_after live (Deleted client) = (case client of Some c \<Rightarrow> live - {c} | None \<Rightarrow> live)"
| "live_after live _ = live"

lemmas esf_defs =
  create_esf_client_def delete_esf_client_def subscribe_events_def unsubscribe_events_def
  respond_auth_def event_handler_def

lemma esf_step_global:
  assumes "esf_step api st c st'"
  shows "global_client st' =
    (case c of
       Created client ok \<Rightarrow> if ok then client else global_client st
     | Deleted (Some d) \<Rightarrow> None
     | _ \<Rightarrow> global_client st)"
  using assms
  by cases (auto simp: esf_defs Let_def split: prod.splits option.splits if_splits)

text \<open>
  C27. The global client pointer never dangles: along any sequence of bridge calls that starts
  without a client, a global client is one that was created and has not been deleted since.
\<close>

theorem esf_global_client_live:
  assumes "esf_exec api st cs st'" and "global_client st = None" and "global_client st' = Some c"
  shows "c \<in> foldl live_after {} cs"
  using assms
proof (induction arbitrary: c rule: esf_exec.induct)
  case (exec_more st cs st' call st'')
  then show ?case
    using esf_step_global [OF exec_more.hyps(2)]
    by (cases call) (auto split: option.splits if_splits)
qed simp

text \<open>
  A framework for concrete runs: it hands out numbered clients, and its world is the next number.
\<close>

definition demo_es :: "nat es_api" where
  "demo_es = \<lparr> es_new_client = (\<lambda>n. (ES_NEW_CLIENT_RESULT_SUCCESS, Some n, Suc n)),
     es_delete_client = (\<lambda>c n. n), es_subscribe = (\<lambda>c es k n. (ES_RETURN_SUCCESS, n)),
     es_unsubscribe = (\<lambda>c es k n. (ES_RETURN_SUCCESS, n)),
     es_respond_auth_result = (\<lambda>c m r k n. (ES_RESPOND_RESULT_SUCCESS, n)),
     goEventHandler = (\<lambda>m n. n), audit_token_to_pid = id, audit_token_to_euid = id,
     audit_token_to_egid = id \<rparr>"

theorem esf_global_client_live_witness:
  "(5 :: nat) \<in> foldl live_after {} [Created (Some 5) True]"
proof -
  let ?st = "\<lparr>global_client = None, framework = 5\<rparr>" and ?st' = "\<lparr>global_client = Some 5, framework = Suc 5\<rparr>"
  have "esf_step demo_es ?st (Created (Some 5) (ES_NEW_CLIENT_RESULT_SUCCESS = ES_NEW_CLIENT_RESULT_SUCCESS)) ?st'"
    by (rule step_create) (simp add: create_esf_client_def demo_es_def)
  then have "esf_exec demo_es ?st ([] @ [Created (Some 5) True]) ?st'"
    by (intro exec_more [OF exec_none]) simp
  then show ?thesis
    using esf_global_client_live [of demo_es ?st "[Created (Some 5) True]" ?st' 5] by simp
qed

text \<open>
  Bad arguments stop at the bridge: a call with a NULL pointer or an empty list of events
  never reaches the framework or the Go handler, changes nothing, and reports an error where the
  function has one to report.
\<close>

lemma esf_bad_arguments_stopped:
  assumes "esf_step api st c st'"
    and "c = Deleted None \<or> c = Handled None \<or> (\<exists>m r. c = Responded None m r) \<or>
      (\<exists>d r. c = Responded d None r) \<or>
      (\<exists>d es n r. (d = None \<or> es = None \<or> n = 0) \<and> (c = Subscribed d es n r \<or> c = Unsubscribed d es n r))"
  shows "st' = st \<and>
    (\<forall>d es n r. c = Subscribed d es n r \<or> c = Unsubscribed d es n r \<longrightarrow> r = ES_RETURN_ERROR) \<and>
    (\<forall>d m r. c = Responded d m r \<longrightarrow> r = ES_RESPOND_RESULT_ERR_INVALID_ARGUMENT)"
  using assms by cases (auto simp: esf_defs split: option.splits if_splits)

text \<open>The path of a created file is never reported.\<close>

lemma create_path_never_reported: "get_create_file_path event = None"
  by (simp add: get_create_file_path_def split: option.split)

end
