(* ===== verification/Esf_Client.thy ===== *)
theory Esf_Client
  imports Esf_Bridge Net_Address Api_Types
begin

text \<open>
  The macOS client, \<open>internal/platform/esf/client.go\<close>, and the platform around it,
  \<open>internal/platform/darwin.go\<close>. The framework is the parameter of \<open>Esf_Bridge\<close>; a message is
  what the client reads of it. When several cases of a \<open>select\<close> are ready Go takes any, so the
  choice is an argument.
\<close>

section \<open>Messages\<close>

datatype es_kind =
    AUTH_EXEC
  | AUTH_OPEN
  | AUTH_CREATE
  | NOTIFY_EXEC
  | NOTIFY_EXIT
  | NOTIFY_FORK
  | NOTIFY_WRITE
  | NOTIFY_UNLINK
  | NOTIFY_CONNECT
  | OTHER_KIND nat

text \<open>The socket address of a connection: the port and the address as their bytes in memory.\<close>

datatype es_sockaddr = SockInet bytes bytes | SockInet6 bytes bytes | SockOther

record es_process_info =
  ep_audit_token :: audit_token
  ep_executable :: "es_file option"

record es_content =
  ms_event_type :: es_kind
  ms_process :: es_process_info
  ms_time :: u64
  ms_open_file :: "es_file option"
  ms_create_existing :: "es_file option"
  ms_write_target :: "es_file option"
  ms_unlink_target :: "es_file option"
  ms_connect_address :: es_sockaddr

section \<open>State\<close>

record 'w esf_state =
  ef_client :: "es_client option"
  ef_eventChan :: "api_event list"
  ef_capacity :: nat
  ef_stopClosed :: bool
  ef_running :: bool
  ef_registered :: bool
  ef_world :: 'w

definition NewClient :: "nat \<Rightarrow> 'w \<Rightarrow> 'w esf_state" where
  "NewClient capacity w =
     \<lparr> ef_client = None, ef_eventChan = [], ef_capacity = capacity, ef_stopClosed = False,
       ef_running = False, ef_registered = False, ef_world = w \<rparr>"

datatype esf_error =
    AlreadyRunning
  | CreateFailed es_new_client_result
  | NotInitialized
  | SubscribeFailed es_return
  | RespondFailed es_respond_result

definition esf_Start :: "'w es_api \<Rightarrow> 'w esf_state \<Rightarrow> esf_error option \<times> 'w esf_state" where
  "esf_Start api c =
     (if ef_running c then (Some AlreadyRunning, c)
      else case es_new_client api (ef_world c) of
             (result, client, w) \<Rightarrow>
               let c = c\<lparr>ef_world := w\<rparr>
               in if result \<noteq> ES_NEW_CLIENT_RESULT_SUCCESS then (Some (CreateFailed result), c)
                  else (None, c\<lparr>ef_client := client, ef_running := True, ef_registered := True\<rparr>))"

definition esf_Stop :: "'w es_api \<Rightarrow> 'w esf_state \<Rightarrow> 'w esf_state outcome" where
  "esf_Stop api c =
     (if \<not> ef_running c then Returned c
      else
        let c = c\<lparr>ef_registered := False\<rparr>
        in if ef_stopClosed c then Panicked
           else
             let c = c\<lparr>ef_stopClosed := True\<rparr>;
                 c = (case ef_client c of
                        Some client \<Rightarrow> c\<lparr>ef_world := es_delete_client api client (ef_world c), ef_client := None\<rparr>
                      | None \<Rightarrow> c)
             in Returned (c\<lparr>ef_running := False\<rparr>))"

text \<open>The three subscriptions differ in their lists; \<open>code\<close> gives the number of a kind.\<close>

definition process_kinds :: "es_kind list" where
  "process_kinds = [AUTH_EXEC, NOTIFY_EXEC, NOTIFY_EXIT, NOTIFY_FORK]"

definition file_kinds :: "es_kind list" where
  "file_kinds = [AUTH_OPEN, AUTH_CREATE, NOTIFY_WRITE, NOTIFY_UNLINK]"

definition network_kinds :: "es_kind list" where
  "network_kinds = [NOTIFY_CONNECT]"

definition SubscribeTo ::
  "'w es_api \<Rightarrow> (es_kind \<Rightarrow> es_event_type) \<Rightarrow> es_kind list \<Rightarrow> 'w esf_state \<Rightarrow>
   esf_error option \<times> 'w esf_state" where
  "SubscribeTo api code kinds c =
     (case ef_client c of
        None \<Rightarrow> (Some NotInitialized, c)
      | Some client \<Rightarrow>
          (case es_subscribe api client (map code kinds) (length kinds) (ef_world c) of
             (result, w) \<Rightarrow>
               (if result = ES_RETURN_SUCCESS then None else Some (SubscribeFailed result),
                c\<lparr>ef_world := w\<rparr>)))"

definition ES_AUTH_RESULT_ALLOW :: nat where "ES_AUTH_RESULT_ALLOW = 0"
definition ES_AUTH_RESULT_DENY :: nat where "ES_AUTH_RESULT_DENY = 1"

definition RespondToAuthEvent ::
  "'w es_api \<Rightarrow> es_message \<Rightarrow> bool \<Rightarrow> 'w esf_state \<Rightarrow> esf_error option \<times> 'w esf_state" where
  "RespondToAuthEvent api message allow c =
     (case ef_client c of
        None \<Rightarrow> (Some NotInitialized, c)
      | Some client \<Rightarrow>
          (case es_respond_auth_result api client message
                  (if allow then ES_AUTH_RESULT_ALLOW else ES_AUTH_RESULT_DENY) False (ef_world c) of
             (result, w) \<Rightarrow>
               (if result = ES_RESPOND_RESULT_SUCCESS then None else Some (RespondFailed result),
                c\<lparr>ef_world := w\<rparr>)))"

section \<open>Parsing\<close>

text \<open>The loop from the end of the path; \<open>i\<close> is one more than the index.\<close>

fun comm_loop :: "bytes \<Rightarrow> nat \<Rightarrow> bytes" where
  "comm_loop path 0 = path"
| "comm_loop path (Suc i) = (if path ! i = 47 then drop (Suc i) path else comm_loop path i)"

definition extractCommFromPath :: "bytes \<Rightarrow> bytes" where
  "extractCommFromPath path = comm_loop path (length path)"

text \<open>The time base of the machine is \<open>numer / denom\<close>; the product wraps.\<close>

definition convertESTime :: "u32 \<Rightarrow> u32 \<Rightarrow> u64 \<Rightarrow> int" where
  "convertESTime numer denom t = sint (t * ucast numer div ucast denom :: u64)"

definition file_text :: "es_file option \<Rightarrow> bytes option" where
  "file_text f = (case f of None \<Rightarrow> None | Some f \<Rightarrow> tok_data (file_path f))"

definition base_fields :: "'w es_api \<Rightarrow> u32 \<Rightarrow> u32 \<Rightarrow> int \<Rightarrow> es_content \<Rightarrow> api_event" where
  "base_fields api numer denom type m =
     (let token = ep_audit_token (ms_process m)
      in \<lparr> ae_PID = of_nat (audit_token_to_pid api token), ae_UID = of_nat (audit_token_to_euid api token),
           ae_GID = of_nat (audit_token_to_egid api token), ae_Comm = [], ae_Filename = [],
           ae_Timestamp = convertESTime numer denom (ms_time m), ae_Type = type, ae_CgroupID = 0,
           ae_Process = None, ae_File = None, ae_Network = None, ae_LSMEvent = False \<rparr>)"

definition esf_base :: "api_event \<Rightarrow> base_event" where
  "esf_base event =
     \<lparr> be_Type = ae_Type event, be_PID = ae_PID event, be_UID = ae_UID event, be_GID = ae_GID event,
       be_Comm = [], be_Timestamp = ae_Timestamp event, be_CgroupID = 0 \<rparr>"

definition esf_parseProcessEvent :: "'w es_api \<Rightarrow> u32 \<Rightarrow> u32 \<Rightarrow> es_content \<Rightarrow> api_event" where
  "esf_parseProcessEvent api numer denom m =
     (let event = base_fields api numer denom EventTypeProcess m
      in case file_text (ep_executable (ms_process m)) of
           Some path \<Rightarrow> event\<lparr>ae_Filename := path, ae_Comm := extractCommFromPath path\<rparr>
         | None \<Rightarrow> event)"

definition parseProcessExitEvent :: "'w es_api \<Rightarrow> u32 \<Rightarrow> u32 \<Rightarrow> es_content \<Rightarrow> api_event" where
  "parseProcessExitEvent api numer denom m =
     (let event = base_fields api numer denom EventTypeProcess m
      in case file_text (ep_executable (ms_process m)) of
           Some path \<Rightarrow> event\<lparr>ae_Filename := path, ae_Comm := extractCommFromPath path\<rparr>
         | None \<Rightarrow> event)"

definition esf_parseFileEvent :: "'w es_api \<Rightarrow> u32 \<Rightarrow> u32 \<Rightarrow> es_content \<Rightarrow> api_event" where
  "esf_parseFileEvent api numer denom m =
     (let event = base_fields api numer denom EventTypeFile m;
          path = (\<lambda>f. case file_text f of Some path \<Rightarrow> path | None \<Rightarrow> []);
          (operation, path) =
            (case ms_event_type m of
               AUTH_OPEN \<Rightarrow>
                 (if file_text (ms_open_file m) = None then [] else ascii ''open'', path (ms_open_file m))
             | AUTH_CREATE \<Rightarrow> (ascii ''create'', path (ms_create_existing m))
             | NOTIFY_WRITE \<Rightarrow> (ascii ''write'', path (ms_write_target m))
             | NOTIFY_UNLINK \<Rightarrow> (ascii ''delete'', path (ms_unlink_target m))
             | _ \<Rightarrow> ([], []))
      in event\<lparr>ae_File := Some \<lparr> fe_Base = esf_base event, fe_Operation = operation, fe_Path = path,
                                fe_Flags = 0, fe_Mode = 0 \<rparr>\<rparr>)"

definition esf_parseNetworkEvent :: "'w es_api \<Rightarrow> u32 \<Rightarrow> u32 \<Rightarrow> es_content \<Rightarrow> api_event" where
  "esf_parseNetworkEvent api numer denom m =
     (let event = base_fields api numer denom EventTypeNetwork m;
          (addr, port, protocol) =
            (case ms_connect_address m of
               SockInet p a \<Rightarrow> (IP_String a, be_word p, ascii ''tcp'')
             | SockInet6 p a \<Rightarrow> (IP_String a, be_word p, ascii ''tcp'')
             | SockOther \<Rightarrow> ([], 0, []))
      in event\<lparr>ae_Network := Some \<lparr> ne_Base = esf_base event, ne_Operation = ascii ''connect'',
                                   ne_Protocol = protocol, ne_RemoteAddr = addr, ne_RemotePort = port,
                                   ne_LocalAddr = [], ne_LocalPort = 0, ne_DataSize = 0 \<rparr>\<rparr>)"

section \<open>Handling\<close>

definition isAuthEvent :: "es_kind \<Rightarrow> bool" where
  "isAuthEvent k \<longleftrightarrow> k = AUTH_EXEC \<or> k = AUTH_OPEN \<or> k = AUTH_CREATE"

text \<open>The event of a message; nothing for a kind that the client does not know.\<close>

definition parse_message :: "'w es_api \<Rightarrow> u32 \<Rightarrow> u32 \<Rightarrow> es_content \<Rightarrow> api_event option" where
  "parse_message api numer denom m =
     (case ms_event_type m of
        AUTH_EXEC \<Rightarrow> Some (esf_parseProcessEvent api numer denom m)
      | NOTIFY_EXEC \<Rightarrow> Some (esf_parseProcessEvent api numer denom m)
      | NOTIFY_EXIT \<Rightarrow> Some (parseProcessExitEvent api numer denom m)
      | AUTH_OPEN \<Rightarrow> Some (esf_parseFileEvent api numer denom m)
      | AUTH_CREATE \<Rightarrow> Some (esf_parseFileEvent api numer denom m)
      | NOTIFY_WRITE \<Rightarrow> Some (esf_parseFileEvent api numer denom m)
      | NOTIFY_UNLINK \<Rightarrow> Some (esf_parseFileEvent api numer denom m)
      | NOTIFY_CONNECT \<Rightarrow> Some (esf_parseNetworkEvent api numer denom m)
      | _ \<Rightarrow> None)"

text \<open>
  The send: queued, given up because the client stops (also by choice, when both are possible), or
  dropped because the channel is full.
\<close>

datatype send_result = Queued | GivenUp | DroppedFull

definition try_send :: "bool \<Rightarrow> 'w esf_state \<Rightarrow> send_result" where
  "try_send prefer_stop c =
     (let room = length (ef_eventChan c) < ef_capacity c
      in if room \<and> \<not> (ef_stopClosed c \<and> prefer_stop) then Queued
         else if ef_stopClosed c then GivenUp
         else DroppedFull)"

definition esf_handleEvent ::
  "'w es_api \<Rightarrow> u32 \<Rightarrow> u32 \<Rightarrow> bool \<Rightarrow> (es_message \<Rightarrow> es_content) \<Rightarrow> es_message option \<Rightarrow> 'w esf_state \<Rightarrow>
   'w esf_state" where
  "esf_handleEvent api numer denom prefer_stop content message c =
     (case message of
        None \<Rightarrow> c
      | Some msg \<Rightarrow>
          (case parse_message api numer denom (content msg) of
             None \<Rightarrow> c
           | Some event \<Rightarrow>
               let respond = (\<lambda>c. if isAuthEvent (ms_event_type (content msg))
                                  then snd (RespondToAuthEvent api msg True c) else c)
               in case try_send prefer_stop c of
                    Queued \<Rightarrow> respond (c\<lparr>ef_eventChan := ef_eventChan c @ [event]\<rparr>)
                  | GivenUp \<Rightarrow> c
                  | DroppedFull \<Rightarrow> respond c))"

definition esf_goEventHandler ::
  "'w es_api \<Rightarrow> u32 \<Rightarrow> u32 \<Rightarrow> bool \<Rightarrow> (es_message \<Rightarrow> es_content) \<Rightarrow> es_message option \<Rightarrow> 'w esf_state \<Rightarrow>
   'w esf_state" where
  "esf_goEventHandler api numer denom prefer_stop content message c =
     (if ef_registered c then esf_handleEvent api numer denom prefer_stop content message c else c)"

section \<open>Platform\<close>

text \<open>\<open>Start\<close> goes on when a subscription fails.\<close>

definition darwin_Start ::
  "'w es_api \<Rightarrow> (es_kind \<Rightarrow> es_event_type) \<Rightarrow> 'w esf_state \<Rightarrow> esf_error option \<times> 'w esf_state" where
  "darwin_Start api code c =
     (case esf_Start api c of
        (Some err, c) \<Rightarrow> (Some err, c)
      | (None, c) \<Rightarrow>
          let c = snd (SubscribeTo api code process_kinds c);
              c = snd (SubscribeTo api code file_kinds c);
              c = snd (SubscribeTo api code network_kinds c)
          in (None, c))"

text \<open>The platform has a stop channel of its own, which nothing reads.\<close>

definition darwin_Stop :: "'w es_api \<Rightarrow> bool \<times> 'w esf_state \<Rightarrow> (bool \<times> 'w esf_state) outcome" where
  "darwin_Stop api pc =
     (if fst pc then Panicked
      else case esf_Stop api (snd pc) of
             Returned c \<Rightarrow> Returned (True, c)
           | Panicked \<Rightarrow> Panicked
           | Blocked \<Rightarrow> Blocked)"

definition darwin_Close :: "'w es_api \<Rightarrow> bool \<times> 'w esf_state \<Rightarrow> (bool \<times> 'w esf_state) outcome" where
  "darwin_Close api pc =
     (case esf_Stop api (snd pc) of
        Returned c \<Rightarrow> Returned (fst pc, c)
      | Panicked \<Rightarrow> Panicked
      | Blocked \<Rightarrow> Blocked)"

end
