(* ===== verification/Sha256.thy ===== *)
theory Sha256
  imports Warmor_Prelude
begin

text \<open>
  SHA-256, which the decision cache takes from the Go library (\<open>crypto/sha256\<close>), and its
  hexadecimal text (\<open>encoding/hex\<close>).
\<close>

definition sha_init :: "u32 list" where
  "sha_init =
     [0x6A09E667, 0xBB67AE85, 0x3C6EF372, 0xA54FF53A, 0x510E527F, 0x9B05688C,
      0x1F83D9AB, 0x5BE0CD19]"

definition sha_round_constants :: "u32 list" where
  "sha_round_constants =
     [0x428A2F98, 0x71374491, 0xB5C0FBCF, 0xE9B5DBA5, 0x3956C25B, 0x59F111F1,
      0x923F82A4, 0xAB1C5ED5, 0xD807AA98, 0x12835B01, 0x243185BE, 0x550C7DC3,
      0x72BE5D74, 0x80DEB1FE, 0x9BDC06A7, 0xC19BF174, 0xE49B69C1, 0xEFBE4786,
      0x0FC19DC6, 0x240CA1CC, 0x2DE92C6F, 0x4A7484AA, 0x5CB0A9DC, 0x76F988DA,
      0x983E5152, 0xA831C66D, 0xB00327C8, 0xBF597FC7, 0xC6E00BF3, 0xD5A79147,
      0x06CA6351, 0x14292967, 0x27B70A85, 0x2E1B2138, 0x4D2C6DFC, 0x53380D13,
      0x650A7354, 0x766A0ABB, 0x81C2C92E, 0x92722C85, 0xA2BFE8A1, 0xA81A664B,
      0xC24B8B70, 0xC76C51A3, 0xD192E819, 0xD6990624, 0xF40E3585, 0x106AA070,
      0x19A4C116, 0x1E376C08, 0x2748774C, 0x34B0BCB5, 0x391C0CB3, 0x4ED8AA4A,
      0x5B9CCA4F, 0x682E6FF3, 0x748F82EE, 0x78A5636F, 0x84C87814, 0x8CC70208,
      0x90BEFFFA, 0xA4506CEB, 0xBEF9A3F7, 0xC67178F2]"

text \<open>The message, a one bit, zeros up to a multiple of 64 bytes, and the length in bits.\<close>

definition sha_pad :: "bytes \<Rightarrow> bytes" where
  "sha_pad msg =
     msg @ [0x80] @ replicate ((119 - length msg mod 64) mod 64) 0 @
     rev (le_bytes 8 (of_nat (8 * length msg) :: u64))"

fun sha_words :: "bytes \<Rightarrow> u32 list" where
  "sha_words (a # b # c # d # bs) = be_word [a, b, c, d] # sha_words bs"
| "sha_words _ = []"

fun sha_blocks :: "nat \<Rightarrow> bytes \<Rightarrow> bytes list" where
  "sha_blocks 0 bs = []"
| "sha_blocks (Suc n) bs = take 64 bs # sha_blocks n (drop 64 bs)"

text \<open>The schedule grows from 16 to 64 words.\<close>

fun sha_schedule :: "nat \<Rightarrow> u32 list \<Rightarrow> u32 list" where
  "sha_schedule 0 ws = ws"
| "sha_schedule (Suc n) ws =
     (let i = length ws;
          x = ws ! (i - 15);
          s0 = word_rotr 7 x XOR word_rotr 18 x XOR drop_bit 3 x;
          y = ws ! (i - 2);
          s1 = word_rotr 17 y XOR word_rotr 19 y XOR drop_bit 10 y
      in sha_schedule n (ws @ [ws ! (i - 16) + s0 + ws ! (i - 7) + s1]))"

definition sha_round :: "u32 list \<Rightarrow> u32 \<times> u32 \<Rightarrow> u32 list" where
  "sha_round v kw =
     (let a = v ! 0; b = v ! 1; c = v ! 2; d = v ! 3; e = v ! 4; f = v ! 5; g = v ! 6; h = v ! 7;
          s1 = word_rotr 6 e XOR word_rotr 11 e XOR word_rotr 25 e;
          ch = (e AND f) XOR ((NOT e) AND g);
          t1 = h + s1 + ch + fst kw + snd kw;
          s0 = word_rotr 2 a XOR word_rotr 13 a XOR word_rotr 22 a;
          maj = (a AND b) XOR (a AND c) XOR (b AND c)
      in [t1 + (s0 + maj), a, b, c, d + t1, e, f, g])"

definition sha_compress :: "u32 list \<Rightarrow> bytes \<Rightarrow> u32 list" where
  "sha_compress hs block =
     map2 (+) hs (foldl sha_round hs (zip sha_round_constants (sha_schedule 48 (sha_words block))))"

definition sha256 :: "bytes \<Rightarrow> bytes" where
  "sha256 msg =
     (let m = sha_pad msg
      in concat (map (\<lambda>w. rev (le_bytes 4 w))
           (foldl sha_compress sha_init (sha_blocks (length m div 64) m))))"

definition hex_digit :: "nat \<Rightarrow> byte" where
  "hex_digit n = of_nat (if n < 10 then 48 + n else 87 + n)"

definition hex_encode :: "bytes \<Rightarrow> bytes" where
  "hex_encode bs = concat (map (\<lambda>b. [hex_digit (unat b div 16), hex_digit (unat b mod 16)]) bs)"

lemma length_sha_round_fold: "length v = 8 \<Longrightarrow> length (foldl sha_round v kws) = 8"
  by (induction kws arbitrary: v) (simp_all add: sha_round_def Let_def)

lemma length_sha_compress: "length hs = 8 \<Longrightarrow> length (sha_compress hs block) = 8"
  by (simp add: sha_compress_def length_sha_round_fold)

lemma length_sha_fold: "length hs = 8 \<Longrightarrow> length (foldl sha_compress hs blocks) = 8"
  by (induction blocks arbitrary: hs) (simp_all add: length_sha_compress)

lemma length_sha256: "length (sha256 msg) = 32"
proof -
  have "length (concat (map (\<lambda>w. rev (le_bytes 4 w)) ws)) = 4 * length ws" for ws :: "u32 list"
    by (induction ws) simp_all
  then show ?thesis
    using length_sha_fold [of sha_init] by (simp add: sha256_def sha_init_def Let_def)
qed

lemma length_hex_encode: "length (hex_encode bs) = 2 * length bs"
  by (induction bs) (simp_all add: hex_encode_def)

text \<open>The digest of \<open>abc\<close> that the standard gives begins with \<open>ba7816bf\<close>.\<close>

lemma sha256_abc: "take 4 (sha256 [0x61, 0x62, 0x63]) = [0xBA, 0x78, 0x16, 0xBF]"
  by code_simp

end
