(* ===== verification/Decision_Cache.thy ===== *)
theory Decision_Cache
  imports Api_Types Sha256 "HOL-Library.Multiset"
begin

text \<open>
  The decision cache, \<open>internal/cache/cache.go\<close>. An entry points to the result of the decision,
  which the enforcer changes later, so results live in a store and entries hold addresses. The
  order in which Go visits a map is unspecified and is an argument of the operations that
  iterate; the clock is an argument of those that read it.
\<close>

section \<open>State\<close>

type_synonym result_store = "action_result list"

record cache_entry =
  ce_Result :: nat
  ce_ExpiresAt :: int
  ce_HitCount :: u64

type_synonym entry_map = "(bytes \<times> cache_entry) list"
type_synonym range_order = "entry_map \<Rightarrow> entry_map"

record decision_cache =
  dc_entries :: entry_map
  dc_maxSize :: int
  dc_ttl :: int

record cache_stats =
  cs_Size :: nat
  cs_MaxSize :: int
  cs_TotalHits :: u64

text \<open>A visit of a map sees every entry once, in some order.\<close>

definition visits_all :: "range_order \<Rightarrow> bool" where
  "visits_all order \<longleftrightarrow> (\<forall>m. mset (order m) = mset m)"

section \<open>Operations\<close>

definition NewDecisionCache :: "int \<Rightarrow> int \<Rightarrow> decision_cache" where
  "NewDecisionCache maxSize ttl = \<lparr> dc_entries = [], dc_maxSize = maxSize, dc_ttl = ttl \<rparr>"

definition hashed_text :: "api_event \<Rightarrow> bytes" where
  "hashed_text event =
     (if GetType event = EventTypeFile then
        (case ae_File event of Some f \<Rightarrow> fe_Path f | None \<Rightarrow> ae_Filename event)
      else if GetType event = EventTypeNetwork then
        (case ae_Network event of
           Some n \<Rightarrow> ne_RemoteAddr n @ ascii '':'' @ print_nat 10 (unat (ne_RemotePort n))
         | None \<Rightarrow> [])
      else ae_Filename event)"

definition makeKey :: "api_event \<Rightarrow> bytes" where
  "makeKey event =
     joined 58 [EventType_String (GetType event), print_nat 10 (unat (ae_PID event)),
       print_nat 10 (unat (ae_UID event)), take 16 (hex_encode (sha256 (hashed_text event)))]"

fun oldest_scan :: "entry_map \<Rightarrow> bytes \<Rightarrow> int \<Rightarrow> bytes" where
  "oldest_scan [] oldestKey oldestTime = oldestKey"
| "oldest_scan ((key, entry) # es) oldestKey oldestTime =
     (if oldestKey = [] \<or> ce_ExpiresAt entry < oldestTime
      then oldest_scan es key (ce_ExpiresAt entry)
      else oldest_scan es oldestKey oldestTime)"

definition evictOldest :: "range_order \<Rightarrow> decision_cache \<Rightarrow> decision_cache" where
  "evictOldest order c =
     (let oldestKey = oldest_scan (order (dc_entries c)) [] 0
      in if oldestKey \<noteq> [] then c\<lparr>dc_entries := AList.delete oldestKey (dc_entries c)\<rparr> else c)"

definition get_key :: "int \<Rightarrow> bytes \<Rightarrow> decision_cache \<Rightarrow> nat option \<times> decision_cache" where
  "get_key now key c =
     (case map_of (dc_entries c) key of
        None \<Rightarrow> (None, c)
      | Some entry \<Rightarrow>
          if ce_ExpiresAt entry < now then (None, c)
          else (Some (ce_Result entry),
                c\<lparr>dc_entries :=
                    AList.update key (entry\<lparr>ce_HitCount := ce_HitCount entry + 1\<rparr>) (dc_entries c)\<rparr>))"

definition put_key :: "range_order \<Rightarrow> int \<Rightarrow> bytes \<Rightarrow> nat \<Rightarrow> decision_cache \<Rightarrow> decision_cache" where
  "put_key order now key result c =
     (let c = (if dc_maxSize c \<le> int (length (dc_entries c)) then evictOldest order c else c)
      in c\<lparr>dc_entries :=
             AList.update key \<lparr> ce_Result = result, ce_ExpiresAt = now + dc_ttl c, ce_HitCount = 0 \<rparr>
               (dc_entries c)\<rparr>)"

text \<open>\<open>Get\<close> returns a copy of the stored result, marked as cached.\<close>

definition Get ::
  "result_store \<Rightarrow> int \<Rightarrow> api_event \<Rightarrow> decision_cache \<Rightarrow> action_result option \<times> decision_cache" where
  "Get results now event c =
     (case get_key now (makeKey event) c of
        (found, c) \<Rightarrow> (map_option (\<lambda>a. (results ! a)\<lparr>ar_Cached := True\<rparr>) found, c))"

definition Put ::
  "range_order \<Rightarrow> int \<Rightarrow> api_event \<Rightarrow> nat \<Rightarrow> decision_cache \<Rightarrow> decision_cache" where
  "Put order now event result c = put_key order now (makeKey event) result c"

definition cache_Clear :: "decision_cache \<Rightarrow> decision_cache" where
  "cache_Clear c = c\<lparr>dc_entries := []\<rparr>"

definition cache_Stats :: "decision_cache \<Rightarrow> cache_stats" where
  "cache_Stats c =
     \<lparr> cs_Size = length (dc_entries c), cs_MaxSize = dc_maxSize c,
       cs_TotalHits = sum_list (map (ce_HitCount \<circ> snd) (dc_entries c)) \<rparr>"

section \<open>Keys\<close>

lemma append_sep_inject:
  assumes "sep \<notin> set a" and "sep \<notin> set b" and "a @ sep # x = b @ sep # y"
  shows "a = b \<and> x = y"
proof -
  have "takeWhile (\<lambda>c. c \<noteq> sep) (u @ sep # v) = u" if "sep \<notin> set u" for u v
    using that by (simp add: takeWhile_append)
  then have "a = b"
    using assms by metis
  then show ?thesis
    using assms(3) by simp
qed

lemma joined_inject:
  "length ps = length qs \<Longrightarrow> list_all (\<lambda>p. sep \<notin> set p) (butlast ps) \<Longrightarrow>
   list_all (\<lambda>p. sep \<notin> set p) (butlast qs) \<Longrightarrow> joined sep ps = joined sep qs \<Longrightarrow> ps = qs"
proof (induction sep ps arbitrary: qs rule: joined.induct)
  case (3 sep s t ss)
  obtain u v vs where qs: "qs = u # v # vs"
    using 3(2) by (cases qs; cases "tl qs") auto
  have "s = u \<and> joined sep (t # ss) = joined sep (v # vs)"
    using 3(3-5) append_sep_inject [of sep s u] by (simp add: qs)
  moreover from this have "t # ss = v # vs"
    using 3(1) [of "v # vs"] 3(2-4) by (simp add: qs)
  ultimately show ?case
    by (simp add: qs)
next
  case (2 sep s)
  then show ?case by (cases qs) simp_all
qed simp

lemma print_nat_no_colon: "(58 :: byte) \<notin> set (print_nat 10 n)"
  by (rule print_nat_no_sep) simp_all

lemma EventType_String_no_colon: "(58 :: byte) \<notin> set (EventType_String t)"
  by (simp add: EventType_String_def ascii_def)

lemma hex_digit_inject: "m < 16 \<Longrightarrow> n < 16 \<Longrightarrow> hex_digit m = hex_digit n \<Longrightarrow> m = n"
proof -
  assume mn: "m < 16" "n < 16" and eq: "hex_digit m = hex_digit n"
  have "unat (hex_digit k) = (if k < 10 then 48 + k else 87 + k)" if "k < 16" for k
    using that by (simp add: hex_digit_def unat_of_nat)
  then have "(if m < 10 then 48 + m else 87 + m) = (if n < 10 then 48 + n else 87 + n)"
    using mn eq by metis
  then show "m = n"
    using mn by (simp split: if_splits)
qed

lemma hex_byte_inject:
  assumes "hex_digit (unat b div 16) = hex_digit (unat c div 16)"
    and "hex_digit (unat b mod 16) = hex_digit (unat c mod 16)"
  shows "b = (c :: byte)"
proof -
  have "unat x div 16 < 16" for x :: byte
    using unsigned_less [of x, where 'a = nat] by (simp add: less_mult_imp_div_less)
  then have "unat b div 16 = unat c div 16" and "unat b mod 16 = unat c mod 16"
    using assms hex_digit_inject by simp_all
  then have "unat b = unat c"
    by (metis div_mult_mod_eq)
  then show ?thesis by (simp add: unsigned_word_eqI)
qed

lemma hex_encode_inject: "hex_encode a = hex_encode b \<Longrightarrow> a = b"
proof (induction a arbitrary: b)
  case Nil
  then show ?case by (cases b) (simp_all add: hex_encode_def)
next
  case (Cons x a)
  then show ?case
    by (cases b) (auto simp: hex_encode_def intro: hex_byte_inject)
qed

lemma take_hex_encode: "take (2 * n) (hex_encode bs) = hex_encode (take n bs)"
proof (induction bs arbitrary: n)
  case (Cons b bs)
  then show ?case
    by (cases n) (simp_all add: hex_encode_def)
qed (simp add: hex_encode_def)

lemma makeKey_inject:
  assumes "makeKey e = makeKey e'"
  shows "EventType_String (GetType e) = EventType_String (GetType e') \<and> ae_PID e = ae_PID e' \<and>
    ae_UID e = ae_UID e' \<and>
    take 8 (sha256 (hashed_text e)) = take 8 (sha256 (hashed_text e'))"
proof -
  let ?h = "\<lambda>e. take (2 * 8) (hex_encode (sha256 (hashed_text e)))"
  have "EventType_String (GetType e) = EventType_String (GetType e') \<and>
      print_nat 10 (unat (ae_PID e)) = print_nat 10 (unat (ae_PID e')) \<and>
      print_nat 10 (unat (ae_UID e)) = print_nat 10 (unat (ae_UID e')) \<and> ?h e = ?h e'"
    using joined_inject [OF _ _ _ assms [unfolded makeKey_def]]
    by (simp add: print_nat_no_colon EventType_String_no_colon)
  moreover have "print_nat 10 (unat v) = print_nat 10 (unat w) \<Longrightarrow> v = w" for v w :: u32
    using print_nat_inject [of 10 "unat v" "unat w"] by (simp add: unsigned_word_eqI)
  ultimately show ?thesis
    using hex_encode_inject unfolding take_hex_encode by blast
qed

text \<open>Events that agree on what the key is made of share an entry, whatever else they carry.\<close>

lemma makeKey_cong:
  "GetType e = GetType e' \<Longrightarrow> ae_PID e = ae_PID e' \<Longrightarrow> ae_UID e = ae_UID e' \<Longrightarrow>
   hashed_text e = hashed_text e' \<Longrightarrow> makeKey e = makeKey e'"
  by (simp add: makeKey_def)

lemma makeKey_nonempty [simp]: "makeKey e \<noteq> []"
  by (simp add: makeKey_def)

section \<open>Eviction\<close>

lemma oldest_scan_spec:
  assumes "[] \<notin> fst ` set es" and "k \<noteq> []"
  shows "\<exists>t'. (oldest_scan es k t, t') \<in> insert (k, t) (map_prod id ce_ExpiresAt ` set es) \<and>
    t' \<le> t \<and> (\<forall>e \<in> snd ` set es. t' \<le> ce_ExpiresAt e)"
  using assms
proof (induction es arbitrary: k t)
  case (Cons ke es)
  obtain key entry where ke: "ke = (key, entry)" by fastforce
  have ne: "[] \<notin> fst ` set es" "key \<noteq> []"
    using Cons.prems(1) ke by auto
  let ?t = "ce_ExpiresAt entry"
  show ?case
  proof (cases "?t < t")
    case True
    obtain t' where "(oldest_scan es key ?t, t') \<in> insert (key, ?t) (map_prod id ce_ExpiresAt ` set es)"
        "t' \<le> ?t" "\<forall>e \<in> snd ` set es. t' \<le> ce_ExpiresAt e"
      using Cons.IH [OF ne, of ?t] by (elim exE conjE)
    then show ?thesis
      using True by (intro exI [of _ t']) (auto simp: ke)
  next
    case False
    obtain t' where "(oldest_scan es k t, t') \<in> insert (k, t) (map_prod id ce_ExpiresAt ` set es)"
        "t' \<le> t" "\<forall>e \<in> snd ` set es. t' \<le> ce_ExpiresAt e"
      using Cons.IH [OF ne(1) Cons.prems(2), of t] by (elim exE conjE)
    then show ?thesis
      using False Cons.prems(2) by (intro exI [of _ t']) (auto simp: ke)
  qed
qed simp

definition wf_cache :: "decision_cache \<Rightarrow> bool" where
  "wf_cache c \<longleftrightarrow>
     distinct (map fst (dc_entries c)) \<and> [] \<notin> fst ` set (dc_entries c) \<and>
     int (length (dc_entries c)) \<le> max 1 (dc_maxSize c)"

lemma evictOldest_minimal:
  assumes "visits_all order" and "wf_cache c" and "dc_entries c \<noteq> []"
  shows "\<exists>k e. map_of (dc_entries c) k = Some e \<and>
    (\<forall>e' \<in> snd ` set (dc_entries c). ce_ExpiresAt e \<le> ce_ExpiresAt e') \<and>
    evictOldest order c = c\<lparr>dc_entries := AList.delete k (dc_entries c)\<rparr>"
proof -
  have set: "set (order (dc_entries c)) = set (dc_entries c)"
    using assms(1) unfolding visits_all_def by (metis set_mset_mset)
  obtain k0 e0 es where es: "order (dc_entries c) = (k0, e0) # es"
    using set assms(3) by (cases "order (dc_entries c)") auto
  have ne: "[] \<notin> fst ` set (order (dc_entries c))"
    using assms(2) set by (simp add: wf_cache_def)
  then have ne': "[] \<notin> fst ` set es" "k0 \<noteq> []"
    using es by auto
  obtain t where t: "(oldest_scan es k0 (ce_ExpiresAt e0), t) \<in>
        insert (k0, ce_ExpiresAt e0) (map_prod id ce_ExpiresAt ` set es)"
      "t \<le> ce_ExpiresAt e0" "\<forall>e \<in> snd ` set es. t \<le> ce_ExpiresAt e"
    using oldest_scan_spec [OF ne', of "ce_ExpiresAt e0"] by (elim exE conjE)
  let ?k = "oldest_scan es k0 (ce_ExpiresAt e0)"
  have set': "set (dc_entries c) = insert (k0, e0) (set es)"
    using set es by simp
  have "\<exists>e. (?k, e) \<in> set (dc_entries c) \<and> ce_ExpiresAt e = t"
    using t(1) unfolding set' by auto
  then obtain e where e: "(?k, e) \<in> set (dc_entries c)" "ce_ExpiresAt e = t"
    by (elim exE conjE)
  have "evictOldest order c = c\<lparr>dc_entries := AList.delete ?k (dc_entries c)\<rparr>"
    using e(1) ne set by (force simp: evictOldest_def es Let_def)
  moreover have "map_of (dc_entries c) ?k = Some e"
    using e(1) assms(2) by (simp add: wf_cache_def map_of_is_SomeI)
  moreover have "\<forall>e' \<in> snd ` set (dc_entries c). ce_ExpiresAt e \<le> ce_ExpiresAt e'"
    using t(2,3) e(2) unfolding set' by auto
  ultimately show ?thesis by blast
qed

lemma length_AList_delete:
  "distinct (map fst m) \<Longrightarrow> k \<in> fst ` set m \<Longrightarrow> Suc (length (AList.delete k m)) = length m"
proof (induction m)
  case (Cons kv m)
  then show ?case
    by (auto simp: AList.delete_notin_dom)
qed simp

lemma evictOldest_room:
  assumes "visits_all order" and "wf_cache c" and "dc_entries c \<noteq> []"
  shows "Suc (length (dc_entries (evictOldest order c))) = length (dc_entries c)"
proof -
  obtain k e where "map_of (dc_entries c) k = Some e"
      and ev: "evictOldest order c = c\<lparr>dc_entries := AList.delete k (dc_entries c)\<rparr>"
    using evictOldest_minimal [OF assms] by blast
  then have "k \<in> fst ` set (dc_entries c)"
    by (metis map_of_eq_None_iff option.distinct(1))
  then show ?thesis
    using ev assms(2) by (simp add: length_AList_delete wf_cache_def)
qed

section \<open>The interface\<close>

text \<open>
  What a client of the cache relies on: a decision is found until it expires or is pushed out,
  and what is found under a key is the last decision stored there. \<open>lookup\<close> is the address and
  the expiry of an entry, \<open>touch\<close> what reading does to the cache.
\<close>

datatype 'o cache_op = OpPut 'o int bytes nat | OpTouch int bytes | OpEmpty

fun cache_run ::
  "('o \<Rightarrow> int \<Rightarrow> bytes \<Rightarrow> nat \<Rightarrow> 'c \<Rightarrow> 'c) \<Rightarrow> (int \<Rightarrow> bytes \<Rightarrow> 'c \<Rightarrow> 'c) \<Rightarrow> ('c \<Rightarrow> 'c) \<Rightarrow>
   'o cache_op list \<Rightarrow> 'c \<Rightarrow> 'c" where
  "cache_run put touch clear [] c = c"
| "cache_run put touch clear (OpPut x t k a # ops) c = cache_run put touch clear ops (put x t k a c)"
| "cache_run put touch clear (OpTouch t k # ops) c = cache_run put touch clear ops (touch t k c)"
| "cache_run put touch clear (OpEmpty # ops) c = cache_run put touch clear ops (clear c)"

text \<open>The decision that was stored last under a key and not removed by \<open>Clear\<close> since.\<close>

fun last_put :: "'o cache_op list \<Rightarrow> bytes \<Rightarrow> (nat \<times> int) option \<Rightarrow> (nat \<times> int) option" where
  "last_put [] k found = found"
| "last_put (OpPut x t k' a # ops) k found = last_put ops k (if k' = k then Some (a, t) else found)"
| "last_put (OpTouch t k' # ops) k found = last_put ops k found"
| "last_put (OpEmpty # ops) k found = last_put ops k None"

locale ttl_store =
  fixes lookup :: "'c \<Rightarrow> bytes \<Rightarrow> (nat \<times> int) option"
    and put :: "'o \<Rightarrow> int \<Rightarrow> bytes \<Rightarrow> nat \<Rightarrow> 'c \<Rightarrow> 'c"
    and touch :: "int \<Rightarrow> bytes \<Rightarrow> 'c \<Rightarrow> 'c"
    and clear :: "'c \<Rightarrow> 'c"
    and ttl :: "'c \<Rightarrow> int"
  assumes put_same: "lookup (put x t k a c) k = Some (a, t + ttl c)"
    and put_other: "k' \<noteq> k \<Longrightarrow> lookup (put x t k a c) k' \<in> {None, lookup c k'}"
    and touch_lookup: "lookup (touch t k c) = lookup c"
    and clear_lookup: "lookup (clear c) k = None"
    and ttl_kept: "ttl (put x t k a c) = ttl c" "ttl (touch t k c) = ttl c" "ttl (clear c) = ttl c"
begin

lemma provenance:
  assumes "lookup (cache_run put touch clear ops c) k = Some (a, expiry)"
    and "lookup c k \<in> {None, map_option (\<lambda>(a, t). (a, t + ttl c)) found}"
  shows "map_option (\<lambda>(a, t). (a, t + ttl c)) (last_put ops k found) = Some (a, expiry)"
  using assms
proof (induction ops arbitrary: c found)
  case Nil
  then show ?case by auto
next
  case (Cons op ops)
  show ?case
  proof (cases op)
    case (OpPut x t k' b)
    have "lookup (put x t k' b c) k \<in>
        {None, map_option (\<lambda>(a, t). (a, t + ttl c)) (if k' = k then Some (b, t) else found)}"
      using put_same [of x t k b c] put_other [of k k' x t b c] Cons.prems(2) by auto
    then show ?thesis
      using Cons.IH [of "put x t k' b c"] Cons.prems(1) OpPut ttl_kept by auto
  next
    case (OpTouch t k')
    then show ?thesis
      using Cons.IH [of "touch t k' c"] Cons.prems ttl_kept touch_lookup by auto
  next
    case OpEmpty
    then show ?thesis
      using Cons.IH [of "clear c" None] Cons.prems ttl_kept clear_lookup by auto
  qed
qed

end

definition lookup_entry :: "decision_cache \<Rightarrow> bytes \<Rightarrow> (nat \<times> int) option" where
  "lookup_entry c k = map_option (\<lambda>e. (ce_Result e, ce_ExpiresAt e)) (map_of (dc_entries c) k)"

definition touch_key :: "int \<Rightarrow> bytes \<Rightarrow> decision_cache \<Rightarrow> decision_cache" where
  "touch_key now key c = snd (get_key now key c)"

lemma evictOldest_entries:
  "map_of (dc_entries (evictOldest order c)) k \<in> {None, map_of (dc_entries c) k}"
  by (auto simp: evictOldest_def Let_def AList.delete_conv restrict_map_def)

lemma cache_constants [simp]:
  "dc_ttl (evictOldest order c) = dc_ttl c" "dc_maxSize (evictOldest order c) = dc_maxSize c"
  "dc_ttl (put_key order t k a c) = dc_ttl c" "dc_maxSize (put_key order t k a c) = dc_maxSize c"
  "dc_ttl (touch_key t k c) = dc_ttl c" "dc_maxSize (touch_key t k c) = dc_maxSize c"
  "dc_ttl (cache_Clear c) = dc_ttl c" "dc_maxSize (cache_Clear c) = dc_maxSize c"
  by (simp_all add: evictOldest_def put_key_def touch_key_def get_key_def cache_Clear_def Let_def
      split: option.split)

lemma put_key_entries:
  "map_of (dc_entries (put_key order t k a c)) k' =
     (if k' = k then Some \<lparr> ce_Result = a, ce_ExpiresAt = t + dc_ttl c, ce_HitCount = 0 \<rparr>
      else map_of (dc_entries (if dc_maxSize c \<le> int (length (dc_entries c)) then evictOldest order c else c)) k')"
  by (simp add: put_key_def Let_def AList.update_conv)

interpretation dcache: ttl_store lookup_entry put_key touch_key cache_Clear dc_ttl
proof
  show "k' \<noteq> k \<Longrightarrow> lookup_entry (put_key x t k a c) k' \<in> {None, lookup_entry c k'}" for x t k a c k'
    using evictOldest_entries [of x c k'] by (auto simp: lookup_entry_def put_key_entries)
  show "lookup_entry (touch_key t k c) = lookup_entry c" for t k c
    by (auto simp: lookup_entry_def touch_key_def get_key_def AList.update_conv split: option.split)
qed (auto simp: lookup_entry_def put_key_entries cache_Clear_def)

lemma get_key_lookup:
  "fst (get_key now k c) =
     (case lookup_entry c k of Some (a, expiry) \<Rightarrow> if expiry < now then None else Some a | None \<Rightarrow> None)"
  by (simp add: get_key_def lookup_entry_def split: option.split)

section \<open>Bound\<close>

lemma AList_update_keys: "fst ` set (AList.update k v m) = insert k (fst ` set m)"
  using dom_update [of k v m] by (simp add: dom_map_of_conv_image_fst)

lemma wf_put_key:
  assumes "visits_all order" and "wf_cache c" and "k \<noteq> []"
  shows "wf_cache (put_key order t k a c)"
proof -
  let ?c = "if dc_maxSize c \<le> int (length (dc_entries c)) then evictOldest order c else c"
  have "distinct (map fst (dc_entries ?c))" "[] \<notin> fst ` set (dc_entries ?c)"
    using assms(2) distinct_delete [of "dc_entries c"] dom_delete_subset [of _ "dc_entries c"]
    unfolding wf_cache_def evictOldest_def Let_def by (simp, simp) blast
  moreover have "int (Suc (length (dc_entries ?c))) \<le> max 1 (dc_maxSize c)"
    using evictOldest_room [OF assms(1,2)] assms(2)
    by (cases "dc_entries c = []") (auto simp: wf_cache_def evictOldest_def Let_def)
  moreover obtain e where e: "dc_entries (put_key order t k a c) = AList.update k e (dc_entries ?c)"
    by (simp add: put_key_def Let_def)
  moreover have "length (AList.update k e (dc_entries ?c)) \<le> Suc (length (dc_entries ?c))"
    by (rule length_update_le)
  ultimately show ?thesis
    using assms(3) by (simp add: wf_cache_def distinct_update AList_update_keys del: of_nat_Suc)
qed

lemma wf_touch_key: "wf_cache c \<Longrightarrow> wf_cache (touch_key t k c)"
proof (cases "map_of (dc_entries c) k")
  case (Some e)
  assume wf: "wf_cache c"
  have k: "k \<in> fst ` set (dc_entries c)"
    using Some by (metis map_of_eq_None_iff option.distinct(1))
  moreover have "insert k (fst ` set (dc_entries c)) = fst ` set (dc_entries c)"
    using k by blast
  ultimately show ?thesis
    using wf Some
    by (simp add: wf_cache_def touch_key_def get_key_def distinct_update AList_update_keys
        length_update_present)
qed (simp add: touch_key_def get_key_def)

lemma wf_cache_Clear: "wf_cache (cache_Clear c)"
  by (simp add: wf_cache_def cache_Clear_def)

lemma wf_NewDecisionCache: "wf_cache (NewDecisionCache maxSize ttl)"
  by (simp add: wf_cache_def NewDecisionCache_def)

lemmas wf_cache_intros = wf_put_key wf_touch_key wf_cache_Clear wf_NewDecisionCache

end
