(* ===== verification/Lineage.thy ===== *)
theory Lineage
  imports Api_Types
begin

text \<open>
  The process tree, \<open>internal/lineage/tracker.go\<close>, and the enrichment of events with it,
  \<open>enricher.go\<close>. The order in which Go visits a map and the clock are arguments.
\<close>

section \<open>Tracker\<close>

record process_info =
  pi_PID :: u32
  pi_PPID :: u32
  pi_Comm :: bytes
  pi_Filename :: bytes
  pi_UID :: u32
  pi_GID :: u32
  pi_StartTime :: int

type_synonym process_map = "(u32 \<times> process_info) list"

record tracker =
  tr_processes :: process_map
  tr_maxDepth :: int
  tr_maxSize :: int

definition NewTracker :: "int \<Rightarrow> int \<Rightarrow> tracker" where
  "NewTracker maxDepth maxSize =
     \<lparr> tr_processes = [], tr_maxDepth = (if maxDepth \<le> 0 then 16 else maxDepth),
       tr_maxSize = (if maxSize \<le> 0 then 100000 else maxSize) \<rparr>"

fun oldest_process :: "process_map \<Rightarrow> (u32 \<times> int) option \<Rightarrow> (u32 \<times> int) option" where
  "oldest_process [] found = found"
| "oldest_process ((pid, info) # ps) found =
     oldest_process ps
       (case found of
          None \<Rightarrow> Some (pid, pi_StartTime info)
        | Some (oldest, oldestTime) \<Rightarrow>
            if pi_StartTime info < oldestTime then Some (pid, pi_StartTime info) else found)"

definition evict_process :: "(process_map \<Rightarrow> process_map) \<Rightarrow> tracker \<Rightarrow> tracker" where
  "evict_process order t =
     (case oldest_process (order (tr_processes t)) None of
        None \<Rightarrow> t
      | Some (oldest, _) \<Rightarrow> t\<lparr>tr_processes := AList.delete oldest (tr_processes t)\<rparr>)"

definition RecordExec ::
  "(process_map \<Rightarrow> process_map) \<Rightarrow> int \<Rightarrow> u32 \<Rightarrow> u32 \<Rightarrow> u32 \<Rightarrow> u32 \<Rightarrow> bytes \<Rightarrow> bytes \<Rightarrow> tracker \<Rightarrow> tracker" where
  "RecordExec order now pid ppid uid gid comm filename t =
     (let t = (if tr_maxSize t \<le> int (length (tr_processes t)) then evict_process order t else t)
      in t\<lparr>tr_processes :=
             AList.update pid
               \<lparr> pi_PID = pid, pi_PPID = ppid, pi_Comm = comm, pi_Filename = filename,
                 pi_UID = uid, pi_GID = gid, pi_StartTime = now \<rparr> (tr_processes t)\<rparr>)"

definition RecordExit :: "u32 \<Rightarrow> tracker \<Rightarrow> tracker" where
  "RecordExit pid t = t\<lparr>tr_processes := AList.delete pid (tr_processes t)\<rparr>"

text \<open>The loop runs at most \<open>maxDepth\<close> times; \<open>seen\<close> are the processes that were left.\<close>

fun ancestors_loop :: "nat \<Rightarrow> process_map \<Rightarrow> u32 list \<Rightarrow> u32 \<Rightarrow> process_info list" where
  "ancestors_loop 0 ps seen current = []"
| "ancestors_loop (Suc n) ps seen current =
     (case map_of ps current of
        None \<Rightarrow> []
      | Some info \<Rightarrow>
          if pi_PPID info = 0 \<or> pi_PPID info = current \<or> pi_PPID info \<in> set seen then []
          else case map_of ps (pi_PPID info) of
                 None \<Rightarrow> []
               | Some parent \<Rightarrow> parent # ancestors_loop n ps (current # seen) (pi_PPID info))"

definition GetAncestors :: "tracker \<Rightarrow> u32 \<Rightarrow> process_info list" where
  "GetAncestors t pid = ancestors_loop (nat (tr_maxDepth t)) (tr_processes t) [] pid"

definition GetProcess :: "tracker \<Rightarrow> u32 \<Rightarrow> process_info option" where
  "GetProcess t pid = map_of (tr_processes t) pid"

definition HasAncestor :: "tracker \<Rightarrow> u32 \<Rightarrow> bytes \<Rightarrow> bool" where
  "HasAncestor t pid comm = list_ex (\<lambda>a. pi_Comm a = comm) (GetAncestors t pid)"

section \<open>Enrichment\<close>

text \<open>An event as it is streamed. Times are in nanoseconds since 1970.\<close>

record lineage_entry =
  le_PID :: u32
  le_Comm :: bytes
  le_Filename :: bytes

record security_event =
  se_ID :: bytes
  se_Timestamp :: int
  se_Hostname :: bytes
  se_EventType :: bytes
  se_CgroupID :: u64
  se_PID :: u32
  se_PPID :: u32
  se_UID :: u32
  se_GID :: u32
  se_Comm :: bytes
  se_Filename :: bytes
  se_RemoteAddr :: bytes
  se_RemotePort :: u16
  se_LocalPort :: u16
  se_Protocol :: bytes
  se_MountType :: bytes
  se_PtraceComm :: bytes
  se_Decision :: bytes
  se_Reason :: bytes
  se_PolicyRule :: bytes
  se_Cached :: bool
  se_Enforced :: bool
  se_AuditOnly :: bool
  se_LatencyUS :: int
  se_Lineage :: "lineage_entry list"
  se_Labels :: "(bytes \<times> bytes) list"

definition Enrich :: "tracker \<Rightarrow> security_event \<Rightarrow> security_event" where
  "Enrich t event =
     (let ancestors = GetAncestors t (se_PID event)
      in if ancestors = [] then event
         else event\<lparr>se_Lineage :=
                      map (\<lambda>a. \<lparr> le_PID = pi_PID a, le_Comm = pi_Comm a, le_Filename = pi_Filename a \<rparr>)
                        ancestors,
                    se_PPID := pi_PID (hd ancestors)\<rparr>)"

section \<open>Lemmas\<close>

text \<open>
  A path of the tree: every process is tracked and names the next one as its parent, up to a
  process without a parent.
\<close>

fun tree_path :: "process_map \<Rightarrow> u32 list \<Rightarrow> bool" where
  "tree_path ps [] \<longleftrightarrow> False"
| "tree_path ps [pid] \<longleftrightarrow> (case map_of ps pid of Some info \<Rightarrow> pi_PPID info = 0 | None \<Rightarrow> False)"
| "tree_path ps (pid # parent # pids) \<longleftrightarrow>
     (case map_of ps pid of Some info \<Rightarrow> pi_PPID info = parent | None \<Rightarrow> False) \<and> parent \<noteq> 0 \<and>
     tree_path ps (parent # pids)"

lemma ancestors_loop_path:
  "tree_path ps (pid # pids) \<Longrightarrow> distinct (pid # pids) \<Longrightarrow> set seen \<inter> set pids = {} \<Longrightarrow>
   map Some (ancestors_loop n ps seen pid) = map (map_of ps) (take n pids)"
proof (induction n arbitrary: seen pid pids)
  case (Suc n)
  show ?case
  proof (cases pids)
    case Nil
    then show ?thesis
      using Suc.prems(1) by (auto split: option.splits)
  next
    case (Cons parent rest)
    have "map_of ps parent \<noteq> None"
      using Suc.prems(1) Cons by (cases rest) (auto split: option.splits)
    then show ?thesis
      using Suc.prems Suc.IH [of parent rest "pid # seen"] Cons by (auto split: option.splits)
  qed
qed simp

text \<open>The ancestors of a process are its path to the root, cut at the depth limit.\<close>

lemma GetAncestors_path:
  "tree_path (tr_processes t) (pid # pids) \<Longrightarrow> distinct (pid # pids) \<Longrightarrow>
   map Some (GetAncestors t pid) = map (GetProcess t) (take (nat (tr_maxDepth t)) pids)"
  using ancestors_loop_path [of "tr_processes t" pid pids "[]"]
  by (simp add: GetAncestors_def GetProcess_def [abs_def])

definition orphans :: "tracker \<Rightarrow> bool" where
  "orphans t \<longleftrightarrow> (\<forall>info \<in> snd ` set (tr_processes t). pi_PPID info = 0)"

lemma orphans_GetAncestors: "orphans t \<Longrightarrow> GetAncestors t pid = []"
  unfolding GetAncestors_def orphans_def
  by (cases "nat (tr_maxDepth t)") (auto split: option.split dest!: map_of_SomeD)

lemma AList_delete_subset: "set (AList.delete k m) \<subseteq> set m"
  by (auto simp: AList.delete_eq)

lemma AList_update_subset: "set (AList.update k v m) \<subseteq> insert (k, v) (set m)"
  by (induction m) auto

lemma orphans_RecordExec:
  assumes "orphans t"
  shows "orphans (RecordExec order now pid 0 uid gid comm filename t)"
proof -
  let ?t = "if tr_maxSize t \<le> int (length (tr_processes t)) then evict_process order t else t"
  define info where "info = \<lparr> pi_PID = pid, pi_PPID = 0, pi_Comm = comm, pi_Filename = filename,
      pi_UID = uid, pi_GID = gid, pi_StartTime = now \<rparr>"
  have sub: "set (tr_processes ?t) \<subseteq> set (tr_processes t)"
    by (auto simp: evict_process_def split: option.split dest: AList_delete_subset [THEN subsetD])
  have upd: "tr_processes (RecordExec order now pid 0 uid gid comm filename t) =
      AList.update pid info (tr_processes ?t)"
    by (simp add: RecordExec_def Let_def info_def)
  have "set (tr_processes (RecordExec order now pid 0 uid gid comm filename t)) \<subseteq>
      insert (pid, info) (set (tr_processes t))"
    unfolding upd by (rule order_trans [OF AList_update_subset insert_mono [OF sub]])
  moreover have "pi_PPID info = 0"
    by (simp add: info_def)
  ultimately show ?thesis
    using assms unfolding orphans_def by fastforce
qed

end
