(* ===== verification/Enforcer_Filters.thy ===== *)
theory Enforcer_Filters
  imports Api_Types Net_Address
begin

text \<open>
  The checks of the enforcer that come before the policy: the network filter with its blocklist
  and rate limit, \<open>internal/enforcer/netfilter.go\<close>, and the sandbox manager, \<open>sandbox.go\<close>.
  \<open>now\<close> is \<open>time.Now()\<close>.
\<close>

section \<open>Network filter\<close>

record conn_window =
  cw_count :: int
  cw_resetAt :: int

record net_filter =
  nf_blocklists :: "ip_net list"
  nf_rateLimit :: int
  nf_window :: int
  nf_connCounts :: "(u32 \<times> conn_window) list"

text \<open>A network, or a single address with the full mask of its family.\<close>

definition parse_block :: "bytes \<Rightarrow> ip_net option" where
  "parse_block cidr =
     (case ParseCIDR cidr of
        Some ipnet \<Rightarrow> Some ipnet
      | None \<Rightarrow>
          (case ParseIP cidr of
             None \<Rightarrow> None
           | Some ip \<Rightarrow>
               Some \<lparr> in_IP = ip,
                      in_Mask = (if To4 ip = None then CIDRMask 128 128 else CIDRMask 32 32) \<rparr>))"

datatype filter_error = InvalidCIDR bytes | ProfileNotFound bytes

definition AddCIDR :: "bytes \<Rightarrow> net_filter \<Rightarrow> filter_error + net_filter" where
  "AddCIDR cidr nf =
     (case parse_block cidr of
        None \<Rightarrow> Inl (InvalidCIDR cidr)
      | Some ipnet \<Rightarrow> Inr (nf\<lparr>nf_blocklists := nf_blocklists nf @ [ipnet]\<rparr>))"

fun add_blocks :: "bytes list \<Rightarrow> net_filter \<Rightarrow> filter_error + net_filter" where
  "add_blocks [] nf = Inr nf"
| "add_blocks (cidr # cidrs) nf =
     (case parse_block cidr of
        None \<Rightarrow> Inl (InvalidCIDR cidr)
      | Some ipnet \<Rightarrow> add_blocks cidrs (nf\<lparr>nf_blocklists := nf_blocklists nf @ [ipnet]\<rparr>))"

definition NewNetFilter :: "bytes list \<Rightarrow> int \<Rightarrow> int \<Rightarrow> filter_error + net_filter" where
  "NewNetFilter cidrs rateLimit window =
     add_blocks cidrs
       \<lparr> nf_blocklists = [], nf_rateLimit = rateLimit,
         nf_window = (if window \<le> 0 then 60000000000 else window), nf_connCounts = [] \<rparr>"

definition IsBlocked :: "net_filter \<Rightarrow> bytes \<Rightarrow> bool" where
  "IsBlocked nf addr =
     (case (case ParseIP addr of
              Some ip \<Rightarrow> Some ip
            | None \<Rightarrow> (case split_host addr of None \<Rightarrow> None | Some host \<Rightarrow> ParseIP host)) of
        None \<Rightarrow> False
      | Some ip \<Rightarrow> list_ex (\<lambda>block. Contains block ip) (nf_blocklists nf))"

definition CheckRateLimit :: "int \<Rightarrow> u32 \<Rightarrow> net_filter \<Rightarrow> bool \<times> net_filter" where
  "CheckRateLimit now pid nf =
     (if nf_rateLimit nf \<le> 0 then (False, nf)
      else
        let fresh = (False, nf\<lparr>nf_connCounts :=
                       AList.update pid \<lparr> cw_count = 1, cw_resetAt = now + nf_window nf \<rparr> (nf_connCounts nf)\<rparr>)
        in case map_of (nf_connCounts nf) pid of
             None \<Rightarrow> fresh
           | Some w \<Rightarrow>
               if cw_resetAt w < now then fresh
               else let w = w\<lparr>cw_count := cw_count w + 1\<rparr>
                    in (nf_rateLimit nf < cw_count w,
                        nf\<lparr>nf_connCounts := AList.update pid w (nf_connCounts nf)\<rparr>))"

fun remove_block :: "bytes \<Rightarrow> ip_net list \<Rightarrow> ip_net list" where
  "remove_block cidr [] = []"
| "remove_block cidr (block # blocks) =
     (if IPNet_String block = cidr then blocks else block # remove_block cidr blocks)"

definition RemoveCIDR :: "bytes \<Rightarrow> net_filter \<Rightarrow> net_filter" where
  "RemoveCIDR cidr nf = nf\<lparr>nf_blocklists := remove_block cidr (nf_blocklists nf)\<rparr>"

definition BlocklistSize :: "net_filter \<Rightarrow> nat" where
  "BlocklistSize nf = length (nf_blocklists nf)"

definition CleanupStale :: "int \<Rightarrow> net_filter \<Rightarrow> net_filter" where
  "CleanupStale now nf =
     nf\<lparr>nf_connCounts := filter (\<lambda>(pid, w). \<not> cw_resetAt w < now) (nf_connCounts nf)\<rparr>"

section \<open>Sandbox\<close>

record sandbox_profile =
  sp_Name :: bytes
  sp_DenyNetwork :: bool
  sp_ReadOnlyFS :: bool
  sp_AllowedSyscalls :: "bytes list"
  sp_BlockedSyscalls :: "bytes list"
  sp_MaxOpenFiles :: int
  sp_MaxProcesses :: int
  sp_MaxMemoryMB :: int
  sp_IsolatePID :: bool
  sp_DropCaps :: "bytes list"

record sandbox_manager =
  sm_profiles :: "(bytes \<times> sandbox_profile) list"
  sm_applied :: "(u32 \<times> sandbox_profile) list"

definition RegisterProfile :: "sandbox_profile \<Rightarrow> sandbox_manager \<Rightarrow> sandbox_manager" where
  "RegisterProfile p sm = sm\<lparr>sm_profiles := AList.update (sp_Name p) p (sm_profiles sm)\<rparr>"

definition NewSandboxManager :: "sandbox_profile list \<Rightarrow> sandbox_manager" where
  "NewSandboxManager profiles =
     \<lparr> sm_profiles = fold (\<lambda>p. AList.update (sp_Name p) p) profiles [], sm_applied = [] \<rparr>"

definition GetProfile :: "bytes \<Rightarrow> sandbox_manager \<Rightarrow> sandbox_profile option" where
  "GetProfile name sm = map_of (sm_profiles sm) name"

definition ApplySandbox :: "u32 \<Rightarrow> bytes \<Rightarrow> sandbox_manager \<Rightarrow> filter_error + sandbox_manager" where
  "ApplySandbox pid profileName sm =
     (case map_of (sm_profiles sm) profileName of
        None \<Rightarrow> Inl (ProfileNotFound profileName)
      | Some p \<Rightarrow> Inr (sm\<lparr>sm_applied := AList.update pid p (sm_applied sm)\<rparr>))"

definition IsSandboxed :: "u32 \<Rightarrow> sandbox_manager \<Rightarrow> sandbox_profile option" where
  "IsSandboxed pid sm = map_of (sm_applied sm) pid"

definition ReleaseSandbox :: "u32 \<Rightarrow> sandbox_manager \<Rightarrow> sandbox_manager" where
  "ReleaseSandbox pid sm = sm\<lparr>sm_applied := AList.delete pid (sm_applied sm)\<rparr>"

definition SandboxedCount :: "sandbox_manager \<Rightarrow> nat" where
  "SandboxedCount sm = length (sm_applied sm)"

definition CheckViolation :: "u32 \<Rightarrow> bytes \<Rightarrow> sandbox_manager \<Rightarrow> reason option" where
  "CheckViolation pid act sm =
     (case map_of (sm_applied sm) pid of
        None \<Rightarrow> None
      | Some profile \<Rightarrow>
          if act = ascii ''network'' \<and> sp_DenyNetwork profile then Some (SandboxNetwork (sp_Name profile))
          else if act = ascii ''write'' \<and> sp_ReadOnlyFS profile then Some (SandboxReadOnly (sp_Name profile))
          else if act \<in> set (sp_BlockedSyscalls profile) then Some (SandboxSyscall (sp_Name profile) act)
          else None)"

definition plain_profile :: "string \<Rightarrow> sandbox_profile" where
  "plain_profile name =
     \<lparr> sp_Name = ascii name, sp_DenyNetwork = False, sp_ReadOnlyFS = False, sp_AllowedSyscalls = [],
       sp_BlockedSyscalls = [], sp_MaxOpenFiles = 0, sp_MaxProcesses = 0, sp_MaxMemoryMB = 0,
       sp_IsolatePID = False, sp_DropCaps = [] \<rparr>"

definition DefaultProfiles :: "sandbox_profile list" where
  "DefaultProfiles =
     [(plain_profile ''strict'')\<lparr>sp_DenyNetwork := True, sp_ReadOnlyFS := True, sp_IsolatePID := True,
                                  sp_DropCaps := [ascii ''ALL'']\<rparr>,
      (plain_profile ''network-deny'')\<lparr>sp_DenyNetwork := True\<rparr>,
      (plain_profile ''readonly'')\<lparr>sp_ReadOnlyFS := True\<rparr>,
      (plain_profile ''limited'')\<lparr>sp_MaxOpenFiles := 64, sp_MaxProcesses := 16, sp_MaxMemoryMB := 256,
        sp_BlockedSyscalls := map ascii [''ptrace'', ''mount'', ''reboot'', ''kexec_load'']\<rparr>]"

section \<open>Blocklist\<close>

lemma parse_block_dotted:
  assumes "length bs = 4" and "n \<le> 32"
  shows "parse_block (dotted bs @ 47 # print_nat 10 n) =
    Some \<lparr> in_IP = map2 (AND) bs (CIDRMask n 32), in_Mask = CIDRMask n 32 \<rparr>"
  using ParseCIDR_dotted [OF assms] by (simp add: parse_block_def)

lemma length_CIDRMask [simp]: "length (CIDRMask n bits) = bits div 8"
  by (simp add: CIDRMask_def)

lemma masked_again: "map2 (AND) (map2 (AND) bs m) m = map2 (AND) bs (m :: bytes)"
  by (induction bs m rule: list_induct2') (simp_all add: ac_simps)

lemma Contains_v4:
  assumes "length bs = 4" and "length e = 4"
  shows "Contains \<lparr> in_IP = map2 (AND) bs (CIDRMask n 32), in_Mask = CIDRMask n 32 \<rparr> (v4_prefix @ e) \<longleftrightarrow>
    take n (addr_bits bs) = take n (addr_bits e)"
  using masked_prefix [of bs 4 e n] assms
  by (simp add: Contains_def networkNumberAndMask_def masked_again Let_def)

lemma IsBlocked_dotted:
  "length e = 4 \<Longrightarrow> IsBlocked nf (dotted e) \<longleftrightarrow> (\<exists>b \<in> set (nf_blocklists nf). Contains b (v4_prefix @ e))"
  by (simp add: IsBlocked_def ParseIP_dotted list_ex_iff)

section \<open>Rate limit\<close>

text \<open>The answers that one process gets in a sequence of connections of any processes.\<close>

fun rate_answers :: "u32 \<Rightarrow> (int \<times> u32) list \<Rightarrow> net_filter \<Rightarrow> bool list" where
  "rate_answers pid [] nf = []"
| "rate_answers pid ((now, p) # calls) nf =
     (case CheckRateLimit now p nf of
        (over, nf) \<Rightarrow> (if p = pid then [over] else []) @ rate_answers pid calls nf)"

lemma CheckRateLimit_frame:
  "nf_rateLimit (snd (CheckRateLimit now p nf)) = nf_rateLimit nf \<and>
   nf_window (snd (CheckRateLimit now p nf)) = nf_window nf \<and>
   (p \<noteq> pid \<longrightarrow> map_of (nf_connCounts (snd (CheckRateLimit now p nf))) pid = map_of (nf_connCounts nf) pid)"
  by (simp add: CheckRateLimit_def Let_def AList.update_conv split: option.split)

lemma rate_answers_open:
  assumes "0 < nf_rateLimit nf" and "map_of (nf_connCounts nf) pid = Some w"
    and "\<forall>(t, p) \<in> set calls. t \<le> cw_resetAt w"
  shows "rate_answers pid calls nf =
    map (\<lambda>k. nf_rateLimit nf < cw_count w + int k) [1..<Suc (length (filter (\<lambda>(t, p). p = pid) calls))]"
  using assms
proof (induction calls arbitrary: nf w)
  case (Cons call calls)
  obtain t p where call: "call = (t, p)" by fastforce
  let ?nf = "snd (CheckRateLimit t p nf)"
  show ?case
  proof (cases "p = pid")
    case True
    let ?w = "w\<lparr>cw_count := cw_count w + 1\<rparr>"
    have step: "CheckRateLimit t pid nf =
        (nf_rateLimit nf < cw_count ?w, nf\<lparr>nf_connCounts := AList.update pid ?w (nf_connCounts nf)\<rparr>)"
      using Cons.prems call by (simp add: CheckRateLimit_def Let_def)
    have "map (\<lambda>k. nf_rateLimit nf < cw_count w + int k) [1..<Suc (Suc n)] =
        (nf_rateLimit nf < cw_count w + 1) # map (\<lambda>k. nf_rateLimit nf < cw_count w + 1 + int k) [1..<Suc n]" for n
    proof -
      have "[1..<Suc (Suc n)] = 1 # map Suc [1..<Suc n]"
        by (simp add: upt_conv_Cons map_Suc_upt del: upt_Suc)
      then show ?thesis by (simp add: comp_def add.assoc del: upt_Suc)
    qed
    then show ?thesis
      using Cons.IH [of "snd (CheckRateLimit t pid nf)" ?w] Cons.prems True call
      by (simp add: step AList.update_conv del: upt_Suc)
  next
    case False
    then show ?thesis
      using Cons.IH [of ?nf w] Cons.prems call CheckRateLimit_frame [of t p nf pid]
      by (simp add: case_prod_unfold)
  qed
qed simp

text \<open>
  In a window that a process opens, its first \<open>rateLimit\<close> connections pass and the others do not,
  whatever other processes do.
\<close>

lemma rate_answers_window:
  assumes "0 < nf_rateLimit nf"
    and "\<forall>w. map_of (nf_connCounts nf) pid = Some w \<longrightarrow> cw_resetAt w < t0"
    and "\<forall>(t, p) \<in> set calls. t \<le> t0 + nf_window nf"
  shows "rate_answers pid ((t0, pid) # calls) nf =
    map (\<lambda>k. nf_rateLimit nf \<le> int k) [0..<Suc (length (filter (\<lambda>(t, p). p = pid) calls))]"
proof -
  let ?w = "\<lparr> cw_count = 1, cw_resetAt = t0 + nf_window nf \<rparr>"
  let ?nf = "nf\<lparr>nf_connCounts := AList.update pid ?w (nf_connCounts nf)\<rparr>"
  have "CheckRateLimit t0 pid nf = (False, ?nf)"
    using assms(1,2) by (auto simp: CheckRateLimit_def Let_def split: option.split)
  moreover have "rate_answers pid calls ?nf = map (\<lambda>k. nf_rateLimit nf < 1 + int k)
      [1..<Suc (length (filter (\<lambda>(t, p). p = pid) calls))]"
    using rate_answers_open [of ?nf pid ?w calls] assms(1,3) by (simp add: AList.update_conv)
  moreover have "[0..<Suc n] = 0 # [1..<Suc n]" for n
    by (simp add: upt_conv_Cons del: upt_Suc)
  moreover have "nf_rateLimit nf < 1 + int k \<longleftrightarrow> nf_rateLimit nf \<le> int k" for k
    by linarith
  ultimately show ?thesis
    using assms(1) by (simp del: upt_Suc)
qed

section \<open>Removing networks\<close>

lemma mask_ones_CIDRMask: "n \<le> 32 \<Longrightarrow> mask_ones (CIDRMask n 32) = n"
proof -
  have "list_all (\<lambda>n. mask_ones (CIDRMask n 32) = n) [0..<33]"
    by code_simp
  then show "n \<le> 32 \<Longrightarrow> mask_ones (CIDRMask n 32) = n"
    by (simp add: list_all_iff del: upt_rec_numeral)
qed

lemma IPNet_String_v4:
  "length bs = 4 \<Longrightarrow> n \<le> 32 \<Longrightarrow>
   IPNet_String \<lparr> in_IP = bs, in_Mask = CIDRMask n 32 \<rparr> = dotted bs @ 47 # print_nat 10 n"
  by (simp add: IPNet_String_def networkNumberAndMask_def Let_def mask_ones_CIDRMask IP_String_def ascii_def)

lemma remove_block_append:
  "\<forall>b \<in> set blocks. IPNet_String b \<noteq> cidr \<Longrightarrow> remove_block cidr (blocks @ [b]) =
     blocks @ (if IPNet_String b = cidr then [] else [b])"
  by (induction blocks) auto

end
