(* ===== verification/Wasm_Policy.thy ===== *)
theory Wasm_Policy
  imports Api_Types "HOL-Library.List_Lexorder"
begin

text \<open>
  The evaluation of a policy, \<open>internal/wasm\<close>: the encoding of an event for the policy module
  (\<open>policy.go\<close>), the host functions that the module can call (\<open>hostcallback.go\<close>), the pool of
  module instances (\<open>pool.go\<close>) and the evaluator (\<open>context.go\<close>). The WebAssembly engine is a
  parameter: a record of what it answers, over instances of any type. Errors are their texts.
\<close>

section \<open>Engine\<close>

text \<open>
  \<open>wz_call\<close> gets the event that the context carries, the function and its arguments; it returns
  the error or the one result that the functions of the policy interface have.
\<close>

record 'i wasm_engine =
  wz_instantiate :: "nat \<Rightarrow> bytes + 'i"
  wz_exports :: "'i \<Rightarrow> string \<Rightarrow> bool"
  wz_call :: "api_event option \<Rightarrow> 'i \<Rightarrow> string \<Rightarrow> u64 list \<Rightarrow> (bytes + u64) \<times> 'i"
  wz_write :: "'i \<Rightarrow> u32 \<Rightarrow> bytes \<Rightarrow> 'i option"
  wz_read :: "'i \<Rightarrow> u32 \<Rightarrow> u32 \<Rightarrow> bytes option"

section \<open>Binary event\<close>

definition eventStructSize :: nat where "eventStructSize = 256"

definition copyStringToBuffer :: "nat \<Rightarrow> nat \<Rightarrow> bytes \<Rightarrow> bytes \<Rightarrow> bytes" where
  "copyStringToBuffer off len s buf = (if s = [] then buf else store off (take len s) buf)"

definition process_filename :: "api_event \<Rightarrow> bytes" where
  "process_filename event =
     (case ae_Process event of Some p \<Rightarrow> pe_Filename p | None \<Rightarrow> ae_Filename event)"

definition writeEventBinary :: "bytes \<Rightarrow> api_event \<Rightarrow> bytes" where
  "writeEventBinary buf event =
     (let buf = replicate (length buf) 0;
          buf = store 0 (le_bytes 4 (ae_PID event)) buf;
          buf = store 4 (le_bytes 4 (ae_UID event)) buf;
          buf = store 8 (le_bytes 4 (ae_GID event)) buf;
          buf = store 12 [of_int (GetType event)] buf;
          buf = copyStringToBuffer 13 64 (ae_Comm event) buf
      in if GetType event = EventTypeProcess then
           copyStringToBuffer 77 128 (process_filename event) buf
         else if GetType event = EventTypeFile then
           (case ae_File event of
              Some f \<Rightarrow>
                copyStringToBuffer 213 32 (fe_Operation f)
                  (store 205 (le_bytes 4 (fe_Flags f))
                    (copyStringToBuffer 77 128 (fe_Path f) buf))
            | None \<Rightarrow>
                copyStringToBuffer 213 32 (ascii ''open'')
                  (copyStringToBuffer 77 128 (ae_Filename event) buf))
         else if GetType event = EventTypeNetwork then
           (case ae_Network event of
              Some n \<Rightarrow>
                copyStringToBuffer 213 32 (ne_Protocol n)
                  (store 211 (le_bytes 2 (ne_LocalPort n))
                    (store 209 (le_bytes 2 (ne_RemotePort n))
                      (copyStringToBuffer 77 128 (ne_RemoteAddr n) buf)))
            | None \<Rightarrow> buf)
         else buf)"

section \<open>JSON event\<close>

text \<open>The number of bytes of the UTF-8 character at the front, 0 where there is none.\<close>

definition continues :: "byte \<Rightarrow> bool" where
  "continues b \<longleftrightarrow> 0x80 \<le> b \<and> b \<le> 0xBF"

fun utf8_length :: "bytes \<Rightarrow> nat" where
  "utf8_length [] = 0"
| "utf8_length (a # bs) =
     (if a < 0x80 then 1
      else if 0xC2 \<le> a \<and> a \<le> 0xDF then
        (case bs of b # _ \<Rightarrow> if continues b then 2 else 0 | _ \<Rightarrow> 0)
      else if 0xE0 \<le> a \<and> a \<le> 0xEF then
        (case bs of
           b # c # _ \<Rightarrow>
             if continues b \<and> continues c \<and> (a = 0xE0 \<longrightarrow> 0xA0 \<le> b) \<and> (a = 0xED \<longrightarrow> b \<le> 0x9F) then 3
             else 0
         | _ \<Rightarrow> 0)
      else if 0xF0 \<le> a \<and> a \<le> 0xF4 then
        (case bs of
           b # c # d # _ \<Rightarrow>
             if continues b \<and> continues c \<and> continues d \<and> (a = 0xF0 \<longrightarrow> 0x90 \<le> b) \<and>
                (a = 0xF4 \<longrightarrow> b \<le> 0x8F)
             then 4 else 0
         | _ \<Rightarrow> 0)
      else 0)"

declare utf8_length.simps [simp del]

definition json_hex :: "byte \<Rightarrow> byte" where
  "json_hex n = (if n < 10 then 48 + n else 87 + n)"

definition json_ascii :: "byte \<Rightarrow> bytes" where
  "json_ascii b =
     (if b = 0x22 \<or> b = 0x5C then [0x5C, b]
      else if b = 8 then [0x5C, 0x62]
      else if b = 12 then [0x5C, 0x66]
      else if b = 10 then [0x5C, 0x6E]
      else if b = 13 then [0x5C, 0x72]
      else if b = 9 then [0x5C, 0x74]
      else if b < 0x20 \<or> b \<in> {0x3C, 0x3E, 0x26} then
        [0x5C] @ ascii ''u00'' @ [json_hex (drop_bit 4 b), json_hex (b AND 15)]
      else [b])"

text \<open>
  The characters of a string in \<open>encoding/json\<close>: HTML characters and the line separators U+2028
  and U+2029 are escaped, a byte that is not UTF-8 is replaced by U+FFFD.
\<close>

fun json_chars :: "bytes \<Rightarrow> bytes" where
  "json_chars [] = []"
| "json_chars (b # bs) =
     (if b < 0x80 then json_ascii b @ json_chars bs
      else let n = utf8_length (b # bs)
           in if n = 0 then [0x5C] @ ascii ''ufffd'' @ json_chars bs
              else (if take n (b # bs) = [0xE2, 0x80, 0xA8] then [0x5C] @ ascii ''u2028''
                    else if take n (b # bs) = [0xE2, 0x80, 0xA9] then [0x5C] @ ascii ''u2029''
                    else take n (b # bs)) @ json_chars (drop (n - 1) bs))"

datatype json_value = JNum nat | JStr bytes

definition json_text :: "json_value \<Rightarrow> bytes" where
  "json_text v = (case v of JNum n \<Rightarrow> print_nat 10 n | JStr s \<Rightarrow> [0x22] @ json_chars s @ [0x22])"

text \<open>\<open>json.Marshal\<close> of a map: the keys in order.\<close>

definition json_marshal :: "(bytes \<times> json_value) list \<Rightarrow> bytes" where
  "json_marshal m =
     ascii ''{'' @
     joined 44 (map (\<lambda>(k, v). json_text (JStr k) @ ascii '':'' @ json_text v) (sort_key fst m)) @
     ascii ''}''"

definition marshalEventForWASM :: "api_event \<Rightarrow> bytes" where
  "marshalEventForWASM event =
     (let m = [(ascii ''pid'', JNum (unat (ae_PID event))), (ascii ''uid'', JNum (unat (ae_UID event))),
               (ascii ''gid'', JNum (unat (ae_GID event))), (ascii ''comm'', JStr (ae_Comm event))]
      in json_marshal (m @
           (if GetType event = EventTypeProcess then
              [(ascii ''type'', JStr (ascii ''PROCESS'')),
               (ascii ''filename'', JStr (process_filename event))]
            else if GetType event = EventTypeFile then
              (ascii ''type'', JStr (ascii ''FILE'')) #
              (case ae_File event of
                 Some f \<Rightarrow>
                   [(ascii ''operation'', JStr (fe_Operation f)), (ascii ''path'', JStr (fe_Path f)),
                    (ascii ''flags'', JNum (unat (fe_Flags f)))]
               | None \<Rightarrow>
                   [(ascii ''operation'', JStr (ascii ''open'')),
                    (ascii ''path'', JStr (ae_Filename event)), (ascii ''flags'', JNum 0)])
            else if GetType event = EventTypeNetwork then
              (ascii ''type'', JStr (ascii ''NETWORK'')) #
              (case ae_Network event of
                 Some n \<Rightarrow>
                   [(ascii ''operation'', JStr (ne_Operation n)), (ascii ''protocol'', JStr (ne_Protocol n)),
                    (ascii ''remote_addr'', JStr (ne_RemoteAddr n)),
                    (ascii ''remote_port'', JNum (unat (ne_RemotePort n))),
                    (ascii ''local_port'', JNum (unat (ne_LocalPort n)))]
               | None \<Rightarrow>
                   [(ascii ''operation'', JStr (ascii ''connect'')), (ascii ''protocol'', JStr (ascii ''tcp'')),
                    (ascii ''remote_addr'', JStr []), (ascii ''remote_port'', JNum 0),
                    (ascii ''local_port'', JNum 0)])
            else
              [(ascii ''type'', JStr (ascii ''PROCESS'')), (ascii ''filename'', JStr (ae_Filename event))])))"

section \<open>Host functions\<close>

definition hostGetFieldU32 :: "api_event option \<Rightarrow> u32 \<Rightarrow> u32" where
  "hostGetFieldU32 ctx fieldID =
     (case ctx of
        None \<Rightarrow> 0
      | Some event \<Rightarrow>
          if fieldID = 0 then ae_PID event
          else if fieldID = 1 then ae_UID event
          else if fieldID = 2 then ae_GID event
          else if fieldID = 3 then (case ae_File event of Some f \<Rightarrow> fe_Flags f | None \<Rightarrow> 0)
          else if fieldID = 4 then (case ae_Network event of Some n \<Rightarrow> ucast (ne_RemotePort n) | None \<Rightarrow> 0)
          else if fieldID = 5 then (case ae_Network event of Some n \<Rightarrow> ucast (ne_LocalPort n) | None \<Rightarrow> 0)
          else 0)"

definition getEventPath :: "api_event \<Rightarrow> bytes" where
  "getEventPath event =
     (let process = (case ae_Process event of Some p \<Rightarrow> pe_Filename p | None \<Rightarrow> []);
          file = (case ae_File event of Some f \<Rightarrow> fe_Path f | None \<Rightarrow> []);
          network = (case ae_Network event of Some n \<Rightarrow> ne_RemoteAddr n | None \<Rightarrow> [])
      in if process \<noteq> [] then process
         else if file \<noteq> [] then file
         else if network \<noteq> [] then network
         else ae_Filename event)"

definition getEventOperation :: "api_event \<Rightarrow> bytes" where
  "getEventOperation event =
     (case ae_File event of
        Some f \<Rightarrow> fe_Operation f
      | None \<Rightarrow> (case ae_Network event of Some n \<Rightarrow> ne_Operation n | None \<Rightarrow> []))"

text \<open>\<open>mem\<close> is the write to the module's memory; the result is the number of bytes written.\<close>

definition hostGetFieldStr ::
  "('m \<Rightarrow> u32 \<Rightarrow> bytes \<Rightarrow> 'm option) \<Rightarrow> api_event option \<Rightarrow> u32 \<Rightarrow> u32 \<Rightarrow> u32 \<Rightarrow> 'm \<Rightarrow> u32 \<times> 'm" where
  "hostGetFieldStr mem ctx fieldID bufPtr bufLen m =
     (case ctx of
        None \<Rightarrow> (0, m)
      | Some event \<Rightarrow>
          let val = (if fieldID = 10 then ae_Comm event
                     else if fieldID = 11 then getEventPath event
                     else if fieldID = 12 then getEventOperation event
                     else if fieldID = 13 then
                       (case ae_Network event of Some n \<Rightarrow> ne_Protocol n | None \<Rightarrow> [])
                     else if fieldID = 14 then
                       (case ae_Network event of Some n \<Rightarrow> ne_RemoteAddr n | None \<Rightarrow> [])
                     else []);
              data = (if bufLen < of_nat (length val) then take (unat bufLen) val else val)
          in if val = [] then (0, m)
             else case mem m bufPtr data of
                    None \<Rightarrow> (0, m)
                  | Some m' \<Rightarrow> (of_nat (length data), m'))"

section \<open>Policy instances\<close>

record 'i policy =
  po_instance :: 'i
  po_eventBufPtr :: u32
  po_useBinaryABI :: bool

definition action_of :: "u64 \<Rightarrow> int" where
  "action_of r = sint (ucast r :: u32)"

definition evaluateBinary ::
  "'i wasm_engine \<Rightarrow> api_event \<Rightarrow> 'i policy \<Rightarrow> (bytes + int) \<times> 'i policy" where
  "evaluateBinary w event p =
     (let buf = writeEventBinary (replicate eventStructSize 0) event
      in case wz_write w (po_instance p) (po_eventBufPtr p) buf of
           None \<Rightarrow> (Inl (ascii ''failed to write event to WASM memory''), p)
         | Some i \<Rightarrow>
             (case wz_call w (Some event) i ''evaluate_event'' [ucast (po_eventBufPtr p)] of
                (Inl err, i) \<Rightarrow> (Inl (ascii ''evaluate_event failed: '' @ err), p\<lparr>po_instance := i\<rparr>)
              | (Inr r, i) \<Rightarrow> (Inr (action_of r), p\<lparr>po_instance := i\<rparr>)))"

text \<open>The deferred call of \<open>free\<close>; its result is ignored.\<close>

definition free_after :: "'i wasm_engine \<Rightarrow> api_event option \<Rightarrow> u32 \<Rightarrow> u64 \<Rightarrow> 'i \<Rightarrow> 'i" where
  "free_after w ctx ptr len i =
     (if wz_exports w i ''free'' then snd (wz_call w ctx i ''free'' [ucast ptr, len]) else i)"

definition evaluateJSON ::
  "'i wasm_engine \<Rightarrow> api_event \<Rightarrow> 'i policy \<Rightarrow> (bytes + int) \<times> 'i policy" where
  "evaluateJSON w event p =
     (let eventJSON = marshalEventForWASM event; len = of_nat (length eventJSON); ctx = Some event
      in if \<not> wz_exports w (po_instance p) ''malloc'' then (Inl (ascii ''malloc function not found''), p)
         else case wz_call w ctx (po_instance p) ''malloc'' [len] of
                (Inl err, i) \<Rightarrow> (Inl (ascii ''malloc failed: '' @ err), p\<lparr>po_instance := i\<rparr>)
              | (Inr r, i) \<Rightarrow>
                  let ptr = ucast r;
                      (res, i) =
                        (case wz_write w i ptr eventJSON of
                           None \<Rightarrow> (Inl (ascii ''failed to write event to WASM memory''), i)
                         | Some i \<Rightarrow>
                             if \<not> wz_exports w i ''evaluate_syscall'' then
                               (Inl (ascii ''evaluate_syscall function not found''), i)
                             else case wz_call w ctx i ''evaluate_syscall'' [ucast ptr, len] of
                                    (Inl err, i) \<Rightarrow> (Inl (ascii ''evaluate_syscall failed: '' @ err), i)
                                  | (Inr r, i) \<Rightarrow> (Inr (action_of r), i))
                  in (res, p\<lparr>po_instance := free_after w ctx ptr len i\<rparr>))"

definition Policy_Evaluate ::
  "'i wasm_engine \<Rightarrow> api_event \<Rightarrow> 'i policy \<Rightarrow> (bytes + int) \<times> 'i policy" where
  "Policy_Evaluate w event p = (if po_useBinaryABI p then evaluateBinary w event p else evaluateJSON w event p)"

definition GetMatchedRule :: "'i wasm_engine \<Rightarrow> 'i policy \<Rightarrow> bytes \<times> 'i policy" where
  "GetMatchedRule w p =
     (let i = po_instance p
      in if \<not> wz_exports w i ''get_last_matched_rule'' \<or> \<not> wz_exports w i ''malloc'' then ([], p)
         else case wz_call w None i ''malloc'' [512] of
                (Inl err, i) \<Rightarrow> ([], p\<lparr>po_instance := i\<rparr>)
              | (Inr r, i) \<Rightarrow>
                  let bufPtr = ucast r;
                      (text, i) =
                        (case wz_call w None i ''get_last_matched_rule'' [ucast bufPtr, 512] of
                           (Inl err, i) \<Rightarrow> ([], i)
                         | (Inr written, i) \<Rightarrow>
                             if (ucast written :: u32) = 0 then ([], i)
                             else case wz_read w i bufPtr (ucast written) of
                                    None \<Rightarrow> ([], i)
                                  | Some data \<Rightarrow> (data, i))
                  in (text, p\<lparr>po_instance := free_after w None bufPtr 512 i\<rparr>))"

section \<open>Layout of the binary event\<close>

text \<open>The record that the comment of \<open>policy.go\<close> describes: strings are cut and padded with zeros.\<close>

definition padded :: "nat \<Rightarrow> bytes \<Rightarrow> bytes" where
  "padded n s = take n s @ replicate (n - length s) 0"

record policy_view =
  pv_pid :: u32
  pv_uid :: u32
  pv_gid :: u32
  pv_type :: byte
  pv_comm :: bytes
  pv_primary :: bytes
  pv_flags :: u32
  pv_remote_port :: u16
  pv_local_port :: u16
  pv_secondary :: bytes

definition event_record :: "policy_view \<Rightarrow> bytes" where
  "event_record v =
     le_bytes 4 (pv_pid v) @ le_bytes 4 (pv_uid v) @ le_bytes 4 (pv_gid v) @ [pv_type v] @
     padded 64 (pv_comm v) @ padded 128 (pv_primary v) @ le_bytes 4 (pv_flags v) @
     le_bytes 2 (pv_remote_port v) @ le_bytes 2 (pv_local_port v) @ padded 32 (pv_secondary v) @
     replicate 11 0"

definition view_of :: "api_event \<Rightarrow> policy_view" where
  "view_of event =
     (let v = \<lparr> pv_pid = ae_PID event, pv_uid = ae_UID event, pv_gid = ae_GID event,
                pv_type = of_int (GetType event), pv_comm = ae_Comm event, pv_primary = [], pv_flags = 0,
                pv_remote_port = 0, pv_local_port = 0, pv_secondary = [] \<rparr>
      in if GetType event = EventTypeProcess then v\<lparr>pv_primary := process_filename event\<rparr>
         else if GetType event = EventTypeFile then
           (case ae_File event of
              Some f \<Rightarrow> v\<lparr>pv_primary := fe_Path f, pv_flags := fe_Flags f, pv_secondary := fe_Operation f\<rparr>
            | None \<Rightarrow> v\<lparr>pv_primary := ae_Filename event, pv_secondary := ascii ''open''\<rparr>)
         else if GetType event = EventTypeNetwork then
           (case ae_Network event of
              Some n \<Rightarrow> v\<lparr>pv_primary := ne_RemoteAddr n, pv_remote_port := ne_RemotePort n,
                         pv_local_port := ne_LocalPort n, pv_secondary := ne_Protocol n\<rparr>
            | None \<Rightarrow> v)
         else v)"

lemma length_padded [simp]: "length (padded n s) = n"
  by (simp add: padded_def)

lemma padded_Nil [simp]: "padded n [] = replicate n 0"
  by (simp add: padded_def)

lemma le_bytes_zero [simp]: "le_bytes n 0 = replicate n 0"
  by (simp add: le_bytes_def map_replicate_const)

lemma store_record:
  "store 0 (le_bytes 4 x) (event_record v) = event_record (v\<lparr>pv_pid := x\<rparr>)"
  "store 4 (le_bytes 4 x) (event_record v) = event_record (v\<lparr>pv_uid := x\<rparr>)"
  "store 8 (le_bytes 4 x) (event_record v) = event_record (v\<lparr>pv_gid := x\<rparr>)"
  "store 12 [b] (event_record v) = event_record (v\<lparr>pv_type := b\<rparr>)"
  "store 205 (le_bytes 4 x) (event_record v) = event_record (v\<lparr>pv_flags := x\<rparr>)"
  "store 209 (le_bytes 2 y) (event_record v) = event_record (v\<lparr>pv_remote_port := y\<rparr>)"
  "store 211 (le_bytes 2 y) (event_record v) = event_record (v\<lparr>pv_local_port := y\<rparr>)"
  by (simp_all add: event_record_def store_def)

lemma copy_block:
  "length a = off \<Longrightarrow> copyStringToBuffer off n s (a @ replicate n 0 @ b) = a @ padded n s @ b"
  by (simp add: copyStringToBuffer_def store_def padded_def drop_replicate min_def)

lemma copy_record:
  "pv_comm v = [] \<Longrightarrow> copyStringToBuffer 13 64 s (event_record v) = event_record (v\<lparr>pv_comm := s\<rparr>)"
  "pv_primary v = [] \<Longrightarrow> copyStringToBuffer 77 128 s (event_record v) = event_record (v\<lparr>pv_primary := s\<rparr>)"
  "pv_secondary v = [] \<Longrightarrow> copyStringToBuffer 213 32 s (event_record v) = event_record (v\<lparr>pv_secondary := s\<rparr>)"
  using copy_block [of "le_bytes 4 (pv_pid v) @ le_bytes 4 (pv_uid v) @ le_bytes 4 (pv_gid v) @ [pv_type v]" 13 64 s]
    copy_block [of "le_bytes 4 (pv_pid v) @ le_bytes 4 (pv_uid v) @ le_bytes 4 (pv_gid v) @ [pv_type v] @
      padded 64 (pv_comm v)" 77 128 s]
    copy_block [of "le_bytes 4 (pv_pid v) @ le_bytes 4 (pv_uid v) @ le_bytes 4 (pv_gid v) @ [pv_type v] @
      padded 64 (pv_comm v) @ padded 128 (pv_primary v) @ le_bytes 4 (pv_flags v) @
      le_bytes 2 (pv_remote_port v) @ le_bytes 2 (pv_local_port v)" 213 32 s]
  by (simp_all add: event_record_def)

lemma blank_record:
  "replicate eventStructSize 0 =
     event_record \<lparr> pv_pid = 0, pv_uid = 0, pv_gid = 0, pv_type = 0, pv_comm = [], pv_primary = [],
       pv_flags = 0, pv_remote_port = 0, pv_local_port = 0, pv_secondary = [] \<rparr>"
  by (simp add: event_record_def eventStructSize_def replicate_add [symmetric] flip: replicate_Suc)

lemma writeEventBinary_record:
  "writeEventBinary (replicate eventStructSize 0) event = event_record (view_of event)"
  unfolding writeEventBinary_def Let_def length_replicate
  unfolding blank_record view_of_def Let_def
  by (simp add: store_record copy_record split: option.split)

end
