(* ===== verification/Wasm_Pool.thy ===== *)
theory Wasm_Pool
  imports Wasm_Policy
begin

text \<open>
  The pool of policy instances, \<open>internal/wasm/pool.go\<close>, a buffered Go channel, and the evaluator
  over it, \<open>context.go\<close>. A receive from an open empty channel waits; a receive from a closed one
  gives nil; a send to a closed channel and a second \<open>close\<close> panic.
\<close>

section \<open>Pool\<close>

record 'i pool =
  pl_instances :: "'i policy list"
  pl_closed :: bool
  pl_size :: nat
  pl_counter :: nat

definition instantiate :: "'i wasm_engine \<Rightarrow> nat \<Rightarrow> bytes + 'i policy" where
  "instantiate w n =
     (case wz_instantiate w n of
        Inl err \<Rightarrow> Inl err
      | Inr inst \<Rightarrow>
          if \<not> wz_exports w inst ''evaluate_event'' then
            Inr \<lparr> po_instance = inst, po_eventBufPtr = 0, po_useBinaryABI = False \<rparr>
          else if \<not> wz_exports w inst ''malloc'' then Inl (ascii ''binary ABI module missing malloc export'')
          else case wz_call w None inst ''malloc'' [of_nat eventStructSize] of
                 (Inl err, inst) \<Rightarrow> Inl (ascii ''malloc for event buffer: '' @ err)
               | (Inr r, inst) \<Rightarrow>
                   Inr \<lparr> po_instance = inst, po_eventBufPtr = ucast r, po_useBinaryABI = True \<rparr>)"

fun fill_pool :: "'i wasm_engine \<Rightarrow> nat \<Rightarrow> 'i pool \<Rightarrow> bytes + 'i pool" where
  "fill_pool w 0 p = Inr p"
| "fill_pool w (Suc k) p =
     (case instantiate w (Suc (pl_counter p)) of
        Inl err \<Rightarrow>
          Inl (ascii ''instantiate pool member '' @ print_nat 10 (length (pl_instances p)) @ ascii '': '' @ err)
      | Inr pol \<Rightarrow>
          fill_pool w k (p\<lparr>pl_instances := pl_instances p @ [pol], pl_counter := Suc (pl_counter p)\<rparr>))"

text \<open>\<open>compiled\<close> says whether the runtime has a module.\<close>

definition NewPool :: "'i wasm_engine \<Rightarrow> bool \<Rightarrow> int \<Rightarrow> bytes + 'i pool" where
  "NewPool w compiled poolSize =
     (let poolSize = (if poolSize \<le> 0 then 1 else nat poolSize)
      in if \<not> compiled then Inl (ascii ''runtime has no compiled module'')
         else fill_pool w poolSize \<lparr> pl_instances = [], pl_closed = False, pl_size = poolSize, pl_counter = 0 \<rparr>)"

text \<open>\<open>cancelled\<close> is the branch of the select that sees a cancelled context, with its error.\<close>

definition Pool_Get :: "bytes option \<Rightarrow> 'i pool \<Rightarrow> ((bytes + 'i policy option) \<times> 'i pool) outcome" where
  "Pool_Get cancelled p =
     (case cancelled of
        Some err \<Rightarrow> Returned (Inl err, p)
      | None \<Rightarrow>
          (case pl_instances p of
             pol # pols \<Rightarrow> Returned (Inr (Some pol), p\<lparr>pl_instances := pols\<rparr>)
           | [] \<Rightarrow> if pl_closed p then Returned (Inr None, p) else Blocked))"

definition Pool_Put :: "'i policy option \<Rightarrow> 'i pool \<Rightarrow> 'i pool outcome" where
  "Pool_Put policy p =
     (case policy of
        None \<Rightarrow> Returned p
      | Some pol \<Rightarrow>
          if pl_closed p then Panicked
          else if length (pl_instances p) < pl_size p
               then Returned (p\<lparr>pl_instances := pl_instances p @ [pol]\<rparr>)
               else Returned p)"

definition Pool_Close :: "'i pool \<Rightarrow> 'i pool outcome" where
  "Pool_Close p =
     (if pl_closed p then Panicked else Returned (p\<lparr>pl_instances := [], pl_closed := True\<rparr>))"

section \<open>Evaluator\<close>

definition ActionAuditDeny :: int where "ActionAuditDeny = 3"

definition buildReason :: "int \<Rightarrow> api_event \<Rightarrow> bytes" where
  "buildReason act event =
     (if act = ActionAllow then ascii ''Policy allows execution''
      else if act = ActionDeny then
        ascii ''Policy denies: '' @ ae_Filename event @ ascii '' by UID '' @ print_nat 10 (unat (ae_UID event))
      else if act = ActionLog then ascii ''Policy requires logging''
      else ascii ''Unknown action'')"

text \<open>\<open>start\<close> and \<open>stop\<close> are the two readings of the clock.\<close>

definition Evaluate ::
  "'i wasm_engine \<Rightarrow> bytes option \<Rightarrow> int \<Rightarrow> int \<Rightarrow> api_event \<Rightarrow> 'i pool \<Rightarrow>
   ((bytes + action_result) \<times> 'i pool) outcome" where
  "Evaluate w cancelled start stop event pool =
     (case Pool_Get cancelled pool of
        Panicked \<Rightarrow> Panicked
      | Blocked \<Rightarrow> Blocked
      | Returned (Inl err, pool) \<Rightarrow> Returned (Inl (ascii ''get policy from pool: '' @ err), pool)
      | Returned (Inr None, pool) \<Rightarrow> Panicked
      | Returned (Inr (Some policy), pool) \<Rightarrow>
          let (res, policy) =
                (case Policy_Evaluate w event policy of
                   (Inl err, policy) \<Rightarrow> (Inl err, policy)
                 | (Inr act, policy) \<Rightarrow>
                     let audit_only = (act = ActionAuditDeny);
                         act = (if audit_only then ActionDeny else act);
                         (matched, policy) = GetMatchedRule w policy
                     in (Inr \<lparr> ar_Action = act,
                               ar_Reason = ReasonText (if matched = [] then buildReason act event else matched),
                               ar_Timestamp = start, ar_Cached = False, ar_Latency = stop - start,
                               ar_Audit = audit_only \<rparr>, policy))
          in case Pool_Put (Some policy) pool of
               Panicked \<Rightarrow> Panicked
             | Blocked \<Rightarrow> Blocked
             | Returned pool \<Rightarrow> Returned (res, pool))"

definition PolicyEvaluator_Close :: "'i pool \<Rightarrow> 'i pool outcome" where
  "PolicyEvaluator_Close pool = Pool_Close pool"

section \<open>Lemmas\<close>

text \<open>A pool at rest: open, and every instance in the channel.\<close>

definition pool_ready :: "'i pool \<Rightarrow> bool" where
  "pool_ready p \<longleftrightarrow> \<not> pl_closed p \<and> pl_instances p \<noteq> [] \<and> length (pl_instances p) = pl_size p"

lemma fill_pool_ready:
  "fill_pool w k p = Inr p' \<Longrightarrow> length (pl_instances p) + k = pl_size p \<Longrightarrow> \<not> pl_closed p \<Longrightarrow>
   length (pl_instances p') = pl_size p \<and> pl_size p' = pl_size p \<and> \<not> pl_closed p'"
  by (induction w k p rule: fill_pool.induct) (auto split: sum.splits)

lemma NewPool_ready: "NewPool w compiled poolSize = Inr p \<Longrightarrow> pool_ready p"
  using fill_pool_ready [of w "if poolSize \<le> 0 then 1 else nat poolSize"
      "\<lparr> pl_instances = [], pl_closed = False, pl_size = if poolSize \<le> 0 then 1 else nat poolSize, pl_counter = 0 \<rparr>" p]
  by (auto simp: NewPool_def pool_ready_def Let_def split: if_splits)

text \<open>What the policy decides, when it does.\<close>

definition decides :: "'i wasm_engine \<Rightarrow> 'i pool \<Rightarrow> api_event \<Rightarrow> (bytes + int)" where
  "decides w pool event = fst (Policy_Evaluate w event (hd (pl_instances pool)))"

definition answers ::
  "'i wasm_engine \<Rightarrow> bytes option \<Rightarrow> 'i pool \<Rightarrow> api_event \<Rightarrow> bytes + action_result \<Rightarrow> bool" where
  "answers w cancelled pool event res \<longleftrightarrow>
     (case cancelled of
        Some err \<Rightarrow> res = Inl (ascii ''get policy from pool: '' @ err)
      | None \<Rightarrow>
          (case decides w pool event of
             Inl err \<Rightarrow> res = Inl err
           | Inr act \<Rightarrow> (\<exists>result. res = Inr result \<and> \<not> ar_Cached result \<and>
               ar_Action result = (if act = ActionAuditDeny then ActionDeny else act) \<and>
               ar_Audit result = (act = ActionAuditDeny))))"

lemma Evaluate_ready:
  assumes "pool_ready pool"
  shows "\<exists>res pool'. Evaluate w cancelled start stop event pool = Returned (res, pool') \<and>
    pool_ready pool' \<and> answers w cancelled pool event res"
proof (cases cancelled)
  case None
  obtain p ps where ps: "pl_instances pool = p # ps"
    using assms by (cases "pl_instances pool") (auto simp: pool_ready_def)
  obtain r p' where r: "Policy_Evaluate w event p = (r, p')" by fastforce
  obtain m p'' where m: "GetMatchedRule w p' = (m, p'')" by fastforce
  show ?thesis
    using assms ps r m None
    by (cases r) (auto simp: answers_def Evaluate_def Pool_Get_def Pool_Put_def pool_ready_def decides_def Let_def)
next
  case (Some err)
  then show ?thesis
    using assms by (simp add: answers_def Evaluate_def Pool_Get_def)
qed

end
