(* ===== verification/Enforcer.thy ===== *)
theory Enforcer
  imports Decision_Cache Lineage Enforcer_Filters Wasm_Pool
begin

text \<open>
  The enforcer, \<open>internal/enforcer/enforcer.go\<close> and \<open>actions.go\<close>: what happens to an event from
  the platform, the reload of the policy, the statistics and the shutdown. Pools and results are
  shared through pointers, so they live in stores and the enforcer holds addresses. What an event
  meets at run time (clock readings, the order of map iterations, a cancelled context) is a record
  of inputs; what the enforcer does to the outside is a list of effects in their order.
\<close>

section \<open>Action handler\<close>

datatype effect =
    TerminateProcess u32
  | LogEvent api_event action_result
  | LogDenial api_event action_result
  | LogError bytes
  | RecordEvent bytes
  | RecordCacheHit
  | RecordCacheMiss
  | RecordLatency int
  | RecordProcessingError
  | RecordAuditDenied
  | Emit api_event action_result
  | UpdateCacheSize nat

record action_handler =
  ah_allowed :: u64
  ah_denied :: u64
  ah_logged :: u64
  ah_auditDenied :: u64
  ah_auditMode :: bool

definition NewActionHandler :: "bool \<Rightarrow> action_handler" where
  "NewActionHandler auditMode =
     \<lparr> ah_allowed = 0, ah_denied = 0, ah_logged = 0, ah_auditDenied = 0, ah_auditMode = auditMode \<rparr>"

text \<open>\<open>terminateProcess\<close> may fail, which is only logged.\<close>

definition handleDeny :: "api_event \<Rightarrow> effect list" where
  "handleDeny event = (if ae_PID event = 0 then [] else [TerminateProcess (ae_PID event)])"

text \<open>The result is passed by pointer; the changed result is returned.\<close>

definition Enforce ::
  "api_event \<Rightarrow> action_result \<Rightarrow> action_handler \<Rightarrow>
   bytes option \<times> effect list \<times> action_result \<times> action_handler" where
  "Enforce event result h =
     (if ar_Action result = ActionAllow then
        (None, [], result, h\<lparr>ah_allowed := ah_allowed h + 1\<rparr>)
      else if ar_Action result = ActionDeny then
        (if ah_auditMode h \<or> ar_Audit result then
           (None, [], result\<lparr>ar_Audit := True\<rparr>,
            h\<lparr>ah_auditDenied := ah_auditDenied h + 1, ah_logged := ah_logged h + 1\<rparr>)
         else (None, handleDeny event, result, h\<lparr>ah_denied := ah_denied h + 1\<rparr>))
      else if ar_Action result = ActionLog then
        (None, [], result, h\<lparr>ah_logged := ah_logged h + 1\<rparr>)
      else (Some (ascii ''unknown action: '' @ Action_String (ar_Action result)), [], result, h))"

section \<open>State\<close>

record ('i, 'm) enforcer =
  en_pools :: "'i pool list"
  en_evaluator :: nat
  en_pool :: nat
  en_results :: result_store
  en_cache :: decision_cache
  en_handler :: action_handler
  en_policyMap :: "'m option"
  en_pipeline :: bool
  en_lineage :: tracker
  en_netFilter :: "net_filter option"
  en_sandbox :: "sandbox_manager option"
  en_learningMode :: bool

record inputs =
  in_visit_processes :: "process_map \<Rightarrow> process_map"
  in_visit_entries :: range_order
  in_exec_time :: int
  in_rate_time :: int
  in_result_time :: int
  in_get_time :: int
  in_cancelled :: "bytes option"
  in_eval_start :: int
  in_eval_stop :: int
  in_put_time :: int

type_synonym ('e, 'm) rule_writer = "'m \<Rightarrow> u64 \<Rightarrow> u8 \<Rightarrow> bytes \<Rightarrow> u8 \<Rightarrow> bool \<Rightarrow> 'e option \<times> 'm"

section \<open>Handling an event\<close>

definition plain_result :: "int \<Rightarrow> reason \<Rightarrow> int \<Rightarrow> action_result" where
  "plain_result act reason now =
     \<lparr> ar_Action = act, ar_Reason = reason, ar_Timestamp = now, ar_Cached = False, ar_Latency = 0,
       ar_Audit = False \<rparr>"

definition emit_event :: "('i, 'm) enforcer \<Rightarrow> api_event \<Rightarrow> action_result \<Rightarrow> effect list" where
  "emit_event st event result = (if en_pipeline st then [Emit event result] else [])"

definition record_exec :: "inputs \<Rightarrow> api_event \<Rightarrow> ('i, 'm) enforcer \<Rightarrow> ('i, 'm) enforcer" where
  "record_exec inp event st =
     (if GetType event = EventTypeProcess then
        st\<lparr>en_lineage :=
             RecordExec (in_visit_processes inp) (in_exec_time inp) (ae_PID event) 0 (ae_UID event)
               (ae_GID event) (ae_Comm event) (process_filename event) (en_lineage st)\<rparr>
      else st)"

definition check_network ::
  "inputs \<Rightarrow> api_event \<Rightarrow> ('i, 'm) enforcer \<Rightarrow> reason option \<times> ('i, 'm) enforcer" where
  "check_network inp event st =
     (case en_netFilter st of
        None \<Rightarrow> (None, st)
      | Some nf \<Rightarrow>
          if GetType event \<noteq> EventTypeNetwork then (None, st)
          else
            let remoteAddr = (case ae_Network event of Some n \<Rightarrow> ne_RemoteAddr n | None \<Rightarrow> [])
            in if remoteAddr \<noteq> [] \<and> IsBlocked nf remoteAddr then (Some (NetworkBlocked remoteAddr), st)
               else
                 let (over, nf) = CheckRateLimit (in_rate_time inp) (ae_PID event) nf
                 in (if over then Some (RateLimitExceeded (ae_PID event)) else None,
                     st\<lparr>en_netFilter := Some nf\<rparr>))"

definition eventTypeToSandboxAction :: "api_event \<Rightarrow> bytes" where
  "eventTypeToSandboxAction event =
     (if GetType event = EventTypeNetwork then ascii ''network''
      else if GetType event = EventTypeFile then ascii ''write''
      else [])"

definition check_sandbox :: "api_event \<Rightarrow> ('i, 'm) enforcer \<Rightarrow> reason option" where
  "check_sandbox event st =
     (case en_sandbox st of
        None \<Rightarrow> None
      | Some sm \<Rightarrow>
          let act = eventTypeToSandboxAction event
          in if act = [] then None else CheckViolation (ae_PID event) act sm)"

text \<open>A denial of the network filter or of the sandbox: neither cached nor made a rule.\<close>

definition deny_event ::
  "inputs \<Rightarrow> api_event \<Rightarrow> reason \<Rightarrow> ('i, 'm) enforcer \<Rightarrow> effect list \<times> ('i, 'm) enforcer" where
  "deny_event inp event reason st =
     (let (err, effs, result, h) =
            Enforce event (plain_result ActionDeny reason (in_result_time inp)) (en_handler st)
      in (effs @ [LogEvent event result, RecordEvent (Action_String (ar_Action result))] @
            emit_event st event result,
          st\<lparr>en_handler := h\<rparr>))"

definition learn_event ::
  "inputs \<Rightarrow> api_event \<Rightarrow> ('i, 'm) enforcer \<Rightarrow> effect list \<times> ('i, 'm) enforcer" where
  "learn_event inp event st =
     (let result = plain_result ActionAllow LearningMode (in_result_time inp)
      in ([LogEvent event result, RecordEvent (Action_String (ar_Action result))] @
            emit_event st event result, st))"

definition replay_event ::
  "api_event \<Rightarrow> action_result \<Rightarrow> ('i, 'm) enforcer \<Rightarrow> effect list \<times> ('i, 'm) enforcer" where
  "replay_event event result st =
     (let (err, effs, result, h) = Enforce event result (en_handler st)
      in ([RecordCacheHit] @ effs @
            [LogEvent event result, RecordEvent (Action_String (ar_Action result)),
             RecordLatency (ar_Latency result)] @ emit_event st event result,
          st\<lparr>en_handler := h\<rparr>))"

text \<open>
  The decision on a cache miss, once the policy has answered: the result is stored and cached, made
  a rule, enforced (which may set its audit flag) and reported.
\<close>

definition settle_event ::
  "('e, 'm) rule_writer \<Rightarrow> inputs \<Rightarrow> api_event \<Rightarrow> bytes + action_result \<Rightarrow> ('i, 'm) enforcer \<Rightarrow>
   effect list \<times> ('i, 'm) enforcer" where
  "settle_event set_rule inp event res st =
     (let (errs, result) =
            (case res of
               Inr result \<Rightarrow> ([], result)
             | Inl err \<Rightarrow>
                 ([LogError err, RecordProcessingError],
                  plain_result ActionDeny (EvaluationError err) (in_result_time inp)));
          addr = length (en_results st);
          cache = Put (in_visit_entries inp) (in_put_time inp) event addr (en_cache st);
          policyMap =
            (if ae_LSMEvent event then en_policyMap st
             else map_option (syncToPolicyMap set_rule event (ar_Action result) (ar_Audit result))
                    (en_policyMap st));
          (err, effs, result, h) = Enforce event result (en_handler st)
      in ([RecordCacheMiss] @ errs @ effs @ [LogEvent event result] @
            (if ar_Action result = ActionDeny \<and> \<not> ar_Audit result then [LogDenial event result] else []) @
            [RecordEvent (Action_String (ar_Action result)), RecordLatency (ar_Latency result)] @
            (if ar_Audit result then [RecordAuditDenied] else []) @
            emit_event st event result @ [UpdateCacheSize (cs_Size (cache_Stats cache))],
          st\<lparr>en_results := en_results st @ [result], en_cache := cache, en_policyMap := policyMap,
             en_handler := h\<rparr>))"

definition handleEvent ::
  "'i wasm_engine \<Rightarrow> ('e, 'm) rule_writer \<Rightarrow> inputs \<Rightarrow> api_event \<Rightarrow> ('i, 'm) enforcer \<Rightarrow>
   (effect list \<times> ('i, 'm) enforcer) outcome" where
  "handleEvent w set_rule inp event st =
     (let st = record_exec inp event st;
          (blocked, st) = check_network inp event st
      in case blocked of
           Some reason \<Rightarrow> Returned (deny_event inp event reason st)
         | None \<Rightarrow>
             (case check_sandbox event st of
                Some reason \<Rightarrow> Returned (deny_event inp event reason st)
              | None \<Rightarrow>
                  if en_learningMode st then Returned (learn_event inp event st)
                  else
                    let (hit, cache) = Get (en_results st) (in_get_time inp) event (en_cache st);
                        st = st\<lparr>en_cache := cache\<rparr>
                    in case hit of
                         Some result \<Rightarrow> Returned (replay_event event result st)
                       | None \<Rightarrow>
                           (case Evaluate w (in_cancelled inp) (in_eval_start inp) (in_eval_stop inp) event
                                   (en_pools st ! en_evaluator st) of
                              Panicked \<Rightarrow> Panicked
                            | Blocked \<Rightarrow> Blocked
                            | Returned (res, pool) \<Rightarrow>
                                Returned (settle_event set_rule inp event res
                                  (st\<lparr>en_pools := (en_pools st)[en_evaluator st := pool]\<rparr>)))))"

text \<open>The event loop over the events that arrive, each with its inputs.\<close>

fun eventLoop ::
  "'i wasm_engine \<Rightarrow> ('e, 'm) rule_writer \<Rightarrow> (inputs \<times> api_event) list \<Rightarrow> ('i, 'm) enforcer \<Rightarrow>
   (effect list \<times> ('i, 'm) enforcer) outcome" where
  "eventLoop w set_rule [] st = Returned ([], st)"
| "eventLoop w set_rule ((inp, event) # events) st =
     (case handleEvent w set_rule inp event st of
        Panicked \<Rightarrow> Panicked
      | Blocked \<Rightarrow> Blocked
      | Returned (effs, st) \<Rightarrow>
          (case eventLoop w set_rule events st of
             Panicked \<Rightarrow> Panicked
           | Blocked \<Rightarrow> Blocked
           | Returned (effs', st) \<Rightarrow> Returned (effs @ effs', st)))"

section \<open>Statistics\<close>

record enforcement_stats =
  es_Allowed :: u64
  es_Denied :: u64
  es_Logged :: u64
  es_AuditDenied :: u64
  es_CacheHits :: u64
  es_CacheMisses :: u64

definition GetStats :: "('i, 'm) enforcer \<Rightarrow> enforcement_stats" where
  "GetStats st =
     (let h = en_handler st; hits = cs_TotalHits (cache_Stats (en_cache st))
      in \<lparr> es_Allowed = ah_allowed h, es_Denied = ah_denied h, es_Logged = ah_logged h,
           es_AuditDenied = ah_auditDenied h, es_CacheHits = hits,
           es_CacheMisses = ah_allowed h + ah_denied h + ah_logged h - hits \<rparr>)"

section \<open>Reload and shutdown\<close>

text \<open>The pools that an enforcer closes one after the other, by address.\<close>

fun close_pools :: "nat list \<Rightarrow> 'i pool list \<Rightarrow> 'i pool list outcome" where
  "close_pools [] pools = Returned pools"
| "close_pools (a # as) pools =
     (case Pool_Close (pools ! a) of
        Panicked \<Rightarrow> Panicked
      | Blocked \<Rightarrow> Blocked
      | Returned pool \<Rightarrow> close_pools as (pools[a := pool]))"

text \<open>
  \<open>yaml\<close> says whether the policy file is YAML; \<open>runtime_err\<close> and \<open>load_err\<close> are the errors of the
  new runtime and of loading the file.
\<close>

definition ReloadPolicy ::
  "'i wasm_engine \<Rightarrow> bool \<Rightarrow> bytes option \<Rightarrow> bytes option \<Rightarrow> int \<Rightarrow> ('i, 'm) enforcer \<Rightarrow>
   (bytes option \<times> ('i, 'm) enforcer) outcome" where
  "ReloadPolicy w yaml runtime_err load_err numCPU st =
     (case runtime_err of
        Some err \<Rightarrow> Returned (Some (ascii ''create new runtime: '' @ err), st)
      | None \<Rightarrow>
          (case load_err of
             Some err \<Rightarrow>
               Returned (Some ((if yaml then ascii ''load new YAML policy: '' else ascii ''load new policy: '') @ err), st)
           | None \<Rightarrow>
               (case NewPool w True numCPU of
                  Inl err \<Rightarrow> Returned (Some (ascii ''create new policy pool: '' @ err), st)
                | Inr newPool \<Rightarrow>
                    let a = length (en_pools st);
                        old = [en_evaluator st, en_pool st];
                        st = st\<lparr>en_pools := en_pools st @ [newPool], en_evaluator := a, en_pool := a,
                                en_cache := cache_Clear (en_cache st)\<rparr>
                    in case close_pools old (en_pools st) of
                         Panicked \<Rightarrow> Panicked
                       | Blocked \<Rightarrow> Blocked
                       | Returned pools \<Rightarrow> Returned (None, st\<lparr>en_pools := pools\<rparr>))))"

definition Enforcer_Close :: "('i, 'm) enforcer \<Rightarrow> ('i, 'm) enforcer outcome" where
  "Enforcer_Close st =
     (case close_pools [en_evaluator st, en_pool st] (en_pools st) of
        Panicked \<Rightarrow> Panicked
      | Blocked \<Rightarrow> Blocked
      | Returned pools \<Rightarrow> Returned (st\<lparr>en_pools := pools\<rparr>))"

end
