(* ===== verification/Enforcer_Facts.thy ===== *)
theory Enforcer_Facts
  imports Enforcer
begin

text \<open>
  Facts about the enforcer that its properties share: what each path of \<open>handleEvent\<close> does, and
  the invariant that keeps the event loop running.
\<close>

section \<open>Paths\<close>

text \<open>The state and the verdict of the checks before the policy.\<close>

definition checked :: "inputs \<Rightarrow> api_event \<Rightarrow> ('i, 'm) enforcer \<Rightarrow> ('i, 'm) enforcer" where
  "checked inp event st = snd (check_network inp event (record_exec inp event st))"

definition early_denial :: "inputs \<Rightarrow> api_event \<Rightarrow> ('i, 'm) enforcer \<Rightarrow> reason option" where
  "early_denial inp event st =
     (case fst (check_network inp event (record_exec inp event st)) of
        Some reason \<Rightarrow> Some reason
      | None \<Rightarrow> check_sandbox event st)"

lemma checked_frame [simp]:
  "en_pools (checked inp event st) = en_pools st"
  "en_evaluator (checked inp event st) = en_evaluator st"
  "en_pool (checked inp event st) = en_pool st"
  "en_results (checked inp event st) = en_results st"
  "en_cache (checked inp event st) = en_cache st"
  "en_handler (checked inp event st) = en_handler st"
  "en_policyMap (checked inp event st) = en_policyMap st"
  "en_pipeline (checked inp event st) = en_pipeline st"
  "en_sandbox (checked inp event st) = en_sandbox st"
  "en_learningMode (checked inp event st) = en_learningMode st"
  by (auto simp: checked_def check_network_def record_exec_def Let_def split: option.splits prod.splits)

lemma checked_lineage [simp]: "en_lineage (checked inp event st) = en_lineage (record_exec inp event st)"
  by (auto simp: checked_def check_network_def Let_def split: option.splits prod.splits)

lemma check_sandbox_checked [simp]: "check_sandbox event (checked inp event st) = check_sandbox event st"
  by (simp add: check_sandbox_def)

text \<open>The four ways through \<open>handleEvent\<close>.\<close>

lemma handleEvent_paths:
  "handleEvent w set_rule inp event st =
     (case early_denial inp event st of
        Some reason \<Rightarrow> Returned (deny_event inp event reason (checked inp event st))
      | None \<Rightarrow>
          if en_learningMode st then Returned (learn_event inp event (checked inp event st))
          else case get_key (in_get_time inp) (makeKey event) (en_cache st) of
                 (Some a, cache) \<Rightarrow>
                   Returned (replay_event event ((en_results st ! a)\<lparr>ar_Cached := True\<rparr>)
                     ((checked inp event st)\<lparr>en_cache := cache\<rparr>))
               | (None, cache) \<Rightarrow>
                   (case Evaluate w (in_cancelled inp) (in_eval_start inp) (in_eval_stop inp) event
                           (en_pools st ! en_evaluator st) of
                      Panicked \<Rightarrow> Panicked
                    | Blocked \<Rightarrow> Blocked
                    | Returned (res, pool) \<Rightarrow>
                        Returned (settle_event set_rule inp event res
                          ((checked inp event st)\<lparr>en_cache := cache,
                             en_pools := (en_pools st)[en_evaluator st := pool]\<rparr>))))"
proof -
  obtain blocked where b: "check_network inp event (record_exec inp event st) = (blocked, checked inp event st)"
    by (metis checked_def prod.collapse)
  show ?thesis
    unfolding handleEvent_def Let_def b early_denial_def Get_def
    by (simp split: option.split prod.split outcome.split)
qed

lemma get_key_miss: "get_key now k c = (None, c') \<Longrightarrow> c' = c"
  by (auto simp: get_key_def split: option.splits if_splits)

section \<open>Invariant\<close>

definition wf_enforcer :: "('i, 'm) enforcer \<Rightarrow> bool" where
  "wf_enforcer st \<longleftrightarrow>
     en_evaluator st < length (en_pools st) \<and> en_pool st = en_evaluator st \<and>
     pool_ready (en_pools st ! en_evaluator st) \<and> wf_cache (en_cache st) \<and>
     (\<forall>e \<in> snd ` set (dc_entries (en_cache st)). ce_Result e < length (en_results st)) \<and>
     orphans (en_lineage st)"

lemma orphans_record_exec: "orphans (en_lineage st) \<Longrightarrow> orphans (en_lineage (record_exec inp event st))"
  by (simp add: record_exec_def orphans_RecordExec)

lemma AList_update_entries: "e \<in> snd ` set (AList.update k v m) \<Longrightarrow> e = v \<or> e \<in> snd ` set m"
  using AList_update_subset [of k v m] by force

lemma put_key_results:
  assumes "\<forall>e \<in> snd ` set (dc_entries c). ce_Result e < n"
  shows "\<forall>e \<in> snd ` set (dc_entries (put_key order t k n c)). ce_Result e < Suc n"
proof
  fix e assume e: "e \<in> snd ` set (dc_entries (put_key order t k n c))"
  let ?c = "if dc_maxSize c \<le> int (length (dc_entries c)) then evictOldest order c else c"
  have "set (dc_entries ?c) \<subseteq> set (dc_entries c)"
    by (auto simp: evictOldest_def Let_def dest: AList_delete_subset [THEN subsetD])
  moreover have "ce_Result e = n \<or> e \<in> snd ` set (dc_entries ?c)"
    using AList_update_entries e by (force simp: put_key_def Let_def)
  ultimately have "ce_Result e = n \<or> e \<in> snd ` set (dc_entries c)"
    by blast
  then show "ce_Result e < Suc n"
    using assms by (meson less_Suc_eq)
qed

lemma get_key_results:
  assumes "\<forall>e \<in> snd ` set (dc_entries c). ce_Result e < n"
  shows "\<forall>e \<in> snd ` set (dc_entries (snd (get_key now k c))). ce_Result e < n"
proof (cases "map_of (dc_entries c) k")
  case (Some e0)
  then have "ce_Result e0 < n"
    using assms by (force dest: map_of_SomeD)
  then show ?thesis
    using assms Some AList_update_subset [of k "e0\<lparr>ce_HitCount := ce_HitCount e0 + 1\<rparr>" "dc_entries c"]
    by (auto simp: get_key_def dest!: subsetD)
qed (simp add: assms get_key_def)

lemma wf_get_key: "wf_cache c \<Longrightarrow> wf_cache (snd (get_key now k c))"
  using wf_touch_key [of c now k] by (simp add: touch_key_def)

lemma event_frames:
  "\<exists>h. snd (deny_event inp event reason st) = st\<lparr>en_handler := h\<rparr>"
  "snd (learn_event inp event st) = st"
  "\<exists>h. snd (replay_event event result st) = st\<lparr>en_handler := h\<rparr>"
  by (auto simp: deny_event_def learn_event_def replay_event_def Let_def split: prod.split)

lemma event_fields [simp]:
  "en_cache (snd (deny_event inp event reason st)) = en_cache st"
  "en_results (snd (deny_event inp event reason st)) = en_results st"
  "en_lineage (snd (deny_event inp event reason st)) = en_lineage st"
  "en_cache (snd (replay_event event result st)) = en_cache st"
  "en_results (snd (replay_event event result st)) = en_results st"
  "en_lineage (snd (replay_event event result st)) = en_lineage st"
  using event_frames(1) [of inp event reason st] event_frames(3) [of event result st] by auto

text \<open>The result that a miss ends in, and its parts after enforcement.\<close>

definition answer :: "inputs \<Rightarrow> bytes + action_result \<Rightarrow> action_result" where
  "answer inp res =
     (case res of
        Inr result \<Rightarrow> result
      | Inl err \<Rightarrow> plain_result ActionDeny (EvaluationError err) (in_result_time inp))"

definition enforced :: "api_event \<Rightarrow> action_result \<Rightarrow> action_handler \<Rightarrow> action_result" where
  "enforced event result h = fst (snd (snd (Enforce event result h)))"

definition handled :: "api_event \<Rightarrow> action_result \<Rightarrow> action_handler \<Rightarrow> action_handler" where
  "handled event result h = snd (snd (snd (Enforce event result h)))"

lemma settle_event_state:
  "snd (settle_event set_rule inp event res st) =
     st\<lparr>en_results := en_results st @ [enforced event (answer inp res) (en_handler st)],
        en_cache := put_key (in_visit_entries inp) (in_put_time inp) (makeKey event)
          (length (en_results st)) (en_cache st),
        en_policyMap :=
          (if ae_LSMEvent event then en_policyMap st
           else map_option (syncToPolicyMap set_rule event (ar_Action (answer inp res))
             (ar_Audit (answer inp res))) (en_policyMap st)),
        en_handler := handled event (answer inp res) (en_handler st)\<rparr>"
  by (auto simp: settle_event_def answer_def enforced_def handled_def Put_def Let_def split: prod.split sum.split)

text \<open>From a good state every event is handled to the end, and the state stays good.\<close>

lemma wf_handler: "wf_enforcer (st\<lparr>en_handler := h\<rparr>) \<longleftrightarrow> wf_enforcer st"
  by (simp add: wf_enforcer_def)

lemma wf_checked: "wf_enforcer st \<Longrightarrow> wf_enforcer (checked inp event st)"
  using orphans_record_exec [of st inp event] by (simp add: wf_enforcer_def)

lemma wf_settle:
  assumes "wf_enforcer st" and "pool_ready pool" and "visits_all (in_visit_entries inp)"
  shows "wf_enforcer (snd (settle_event set_rule inp event res
    (st\<lparr>en_pools := (en_pools st)[en_evaluator st := pool]\<rparr>)))"
proof -
  show ?thesis
    using assms wf_put_key [OF assms(3)] put_key_results [of "en_cache st" "length (en_results st)"]
    by (simp add: wf_enforcer_def settle_event_state)
qed

lemma handleEvent_returns:
  assumes "wf_enforcer st" and "visits_all (in_visit_entries inp)"
  shows "\<exists>x. handleEvent w set_rule inp event st = Returned x \<and> wf_enforcer (snd x)"
proof (cases "early_denial inp event st")
  case (Some reason)
  then show ?thesis
    using wf_checked [OF assms(1), of inp event] event_frames(1) [of inp event reason "checked inp event st"]
    by (auto simp: handleEvent_paths wf_handler simp del: split_paired_Ex)
next
  case policy: None
  obtain hit cache where get: "get_key (in_get_time inp) (makeKey event) (en_cache st) = (hit, cache)"
    by fastforce
  let ?st = "(checked inp event st)\<lparr>en_cache := cache\<rparr>"
  have old: "wf_cache (en_cache st)"
      "\<forall>e \<in> snd ` set (dc_entries (en_cache st)). ce_Result e < length (en_results st)"
    using assms(1) unfolding wf_enforcer_def by blast+
  have wf: "wf_enforcer ?st"
    using wf_checked [OF assms(1), of inp event] wf_get_key [OF old(1)] get_key_results [OF old(2)] get
    unfolding wf_enforcer_def by (simp, metis snd_conv)
  obtain res pool where ev: "Evaluate w (in_cancelled inp) (in_eval_start inp) (in_eval_stop inp) event
      (en_pools st ! en_evaluator st) = Returned (res, pool)" and ready: "pool_ready pool"
    using Evaluate_ready [of "en_pools st ! en_evaluator st" w "in_cancelled inp" "in_eval_start inp"
        "in_eval_stop inp" event] assms(1)
    unfolding wf_enforcer_def by blast
  have "wf_enforcer (snd (learn_event inp event (checked inp event st)))"
    using wf_checked [OF assms(1)] by (simp add: event_frames(2))
  moreover have "wf_enforcer (snd (replay_event event result ?st))" for result
    using wf event_frames(3) [of event result ?st] by (auto simp: wf_handler)
  moreover have "wf_enforcer (snd (settle_event set_rule inp event res
      ((checked inp event st)\<lparr>en_cache := cache, en_pools := (en_pools st)[en_evaluator st := pool]\<rparr>)))"
    using wf_settle [OF wf ready assms(2)] by simp
  ultimately show ?thesis
    using policy get ev by (cases hit) (simp_all add: handleEvent_paths del: split_paired_Ex)
qed

lemma eventLoop_returns:
  assumes "wf_enforcer st" and "\<forall>(inp, event) \<in> set events. visits_all (in_visit_entries inp)"
  shows "\<exists>x. eventLoop w set_rule events st = Returned x \<and> wf_enforcer (snd x)"
  using assms
proof (induction events arbitrary: st)
  case (Cons ie events)
  obtain inp event where ie: "ie = (inp, event)" by fastforce
  obtain effs st' where h: "handleEvent w set_rule inp event st = Returned (effs, st')" "wf_enforcer st'"
    using handleEvent_returns [OF Cons.prems(1), of inp w set_rule event] Cons.prems(2) ie by auto
  then show ?case
    using Cons.IH [OF h(2)] Cons.prems(2) ie by auto
qed simp

section \<open>Enforcement\<close>

lemma action_distinct [simp]:
  "ActionDeny \<noteq> ActionAllow" "ActionAllow \<noteq> ActionDeny" "ActionLog \<noteq> ActionDeny" "ActionDeny \<noteq> ActionLog"
  "ActionLog \<noteq> ActionAllow" "ActionAllow \<noteq> ActionLog"
  by (simp_all add: ActionAllow_def ActionDeny_def ActionLog_def)

lemma enforced_fields [simp]:
  "ar_Action (enforced event result h) = ar_Action result"
  "ar_Audit (enforced event result h) \<longleftrightarrow> ar_Audit result \<or> (ar_Action result = ActionDeny \<and> ah_auditMode h)"
  "ar_Cached (enforced event result h) = ar_Cached result"
  by (auto simp: enforced_def Enforce_def)

lemma handled_mode [simp]: "ah_auditMode (handled event result h) = ah_auditMode h"
  by (simp add: handled_def Enforce_def)

text \<open>Who is terminated: the process of a denied event, unless the denial is for audit only.\<close>

definition kills :: "api_event \<Rightarrow> action_result \<Rightarrow> action_handler \<Rightarrow> bool" where
  "kills event result h \<longleftrightarrow>
     ar_Action result = ActionDeny \<and> \<not> ah_auditMode h \<and> \<not> ar_Audit result \<and> ae_PID event \<noteq> 0"

lemma Enforce_effects:
  "fst (snd (Enforce event result h)) = (if kills event result h then [TerminateProcess (ae_PID event)] else [])"
  by (simp add: Enforce_def kills_def handleDeny_def ActionAllow_def ActionDeny_def)

lemma deny_kills:
  "TerminateProcess pid \<in> set (fst (deny_event inp event reason st)) \<longleftrightarrow>
     pid = ae_PID event \<and> pid \<noteq> 0 \<and> \<not> ah_auditMode (en_handler st)"
  by (auto simp: deny_event_def emit_event_def Enforce_def handleDeny_def plain_result_def)

lemma learn_kills: "TerminateProcess pid \<notin> set (fst (learn_event inp event st))"
  by (simp add: learn_event_def emit_event_def Let_def)

lemma replay_kills:
  "TerminateProcess pid \<in> set (fst (replay_event event result st)) \<longleftrightarrow>
     pid = ae_PID event \<and> kills event result (en_handler st)"
  using Enforce_effects [of event result "en_handler st"]
  by (auto simp: replay_event_def emit_event_def split: prod.split)

lemma settle_effects:
  "fst (settle_event set_rule inp event res st) =
     (let result = enforced event (answer inp res) (en_handler st);
          cache = Put (in_visit_entries inp) (in_put_time inp) event (length (en_results st)) (en_cache st)
      in [RecordCacheMiss] @ (case res of Inr _ \<Rightarrow> [] | Inl err \<Rightarrow> [LogError err, RecordProcessingError]) @
         (if kills event (answer inp res) (en_handler st) then [TerminateProcess (ae_PID event)] else []) @
         [LogEvent event result] @
         (if ar_Action result = ActionDeny \<and> \<not> ar_Audit result then [LogDenial event result] else []) @
         [RecordEvent (Action_String (ar_Action result)), RecordLatency (ar_Latency result)] @
         (if ar_Audit result then [RecordAuditDenied] else []) @
         emit_event st event result @ [UpdateCacheSize (cs_Size (cache_Stats cache))])"
proof -
  obtain err effs result h where e: "Enforce event (answer inp res) (en_handler st) = (err, effs, result, h)"
    by (metis prod.collapse)
  then have "result = enforced event (answer inp res) (en_handler st)"
      and "effs = (if kills event (answer inp res) (en_handler st) then [TerminateProcess (ae_PID event)] else [])"
    using Enforce_effects [of event "answer inp res" "en_handler st"] by (simp_all add: enforced_def)
  moreover have "(case res of Inr result \<Rightarrow> ([], result)
      | Inl err \<Rightarrow> ([LogError err, RecordProcessingError],
          plain_result ActionDeny (EvaluationError err) (in_result_time inp))) =
      ((case res of Inr _ \<Rightarrow> [] | Inl err \<Rightarrow> [LogError err, RecordProcessingError]), answer inp res)"
    by (simp add: answer_def split: sum.split)
  ultimately show ?thesis
    unfolding settle_event_def by (simp only: Let_def prod.case e fst_conv)
qed

lemma settle_kills:
  "TerminateProcess pid \<in> set (fst (settle_event set_rule inp event res st)) \<longleftrightarrow>
     pid = ae_PID event \<and> kills event (answer inp res) (en_handler st)"
  by (auto simp: settle_effects emit_event_def Let_def split: sum.split)

lemma event_handler_mode:
  "ah_auditMode (en_handler (snd (deny_event inp event reason st))) = ah_auditMode (en_handler st)"
  "ah_auditMode (en_handler (snd (replay_event event result st))) = ah_auditMode (en_handler st)"
  using handled_mode [unfolded handled_def]
  by (auto simp: deny_event_def replay_event_def Let_def split: prod.split)
    (metis snd_conv)+

section \<open>Misses and hits\<close>

definition misses :: "inputs \<Rightarrow> api_event \<Rightarrow> ('i, 'm) enforcer \<Rightarrow> bool" where
  "misses inp event st \<longleftrightarrow>
     early_denial inp event st = None \<and> \<not> en_learningMode st \<and>
     fst (get_key (in_get_time inp) (makeKey event) (en_cache st)) = None"

text \<open>What a miss does, with the policy's answer.\<close>

lemma handleEvent_miss:
  assumes "wf_enforcer st" and "misses inp event st"
  shows "\<exists>res pool. pool_ready pool \<and>
    handleEvent w set_rule inp event st =
      Returned (settle_event set_rule inp event res
        ((checked inp event st)\<lparr>en_pools := (en_pools st)[en_evaluator st := pool]\<rparr>)) \<and>
    answers w (in_cancelled inp) (en_pools st ! en_evaluator st) event res"
proof -
  have get: "get_key (in_get_time inp) (makeKey event) (en_cache st) = (None, en_cache st)"
    using assms(2) get_key_miss unfolding misses_def by (metis prod.collapse)
  have same: "(checked inp event st)\<lparr>en_cache := en_cache st, en_pools := pools\<rparr> =
      (checked inp event st)\<lparr>en_pools := pools\<rparr>" for pools
    by (rule enforcer.equality) simp_all
  have ready: "pool_ready (en_pools st ! en_evaluator st)"
    using assms(1) by (simp add: wf_enforcer_def)
  obtain res pool where "Evaluate w (in_cancelled inp) (in_eval_start inp) (in_eval_stop inp) event
        (en_pools st ! en_evaluator st) = Returned (res, pool)" and "pool_ready pool"
      and "answers w (in_cancelled inp) (en_pools st ! en_evaluator st) event res"
    using Evaluate_ready [OF ready] by blast
  then show ?thesis
    using assms(2) get unfolding misses_def
    by (intro exI [of _ res] exI [of _ pool]) (simp add: handleEvent_paths same)
qed

lemma handleEvent_hit:
  assumes "early_denial inp event st = None" and "\<not> en_learningMode st"
    and "fst (get_key (in_get_time inp) (makeKey event) (en_cache st)) = Some a"
  shows "handleEvent w set_rule inp event st =
    Returned (replay_event event ((en_results st ! a)\<lparr>ar_Cached := True\<rparr>)
      ((checked inp event st)\<lparr>en_cache := touch_key (in_get_time inp) (makeKey event) (en_cache st)\<rparr>))"
  using assms by (auto simp: handleEvent_paths touch_key_def split: prod.splits)

section \<open>Sequences of events\<close>

lemma eventLoop_append:
  "eventLoop w set_rule (xs @ ys) st =
     (case eventLoop w set_rule xs st of
        Panicked \<Rightarrow> Panicked
      | Blocked \<Rightarrow> Blocked
      | Returned (effs, st) \<Rightarrow>
          (case eventLoop w set_rule ys st of
             Panicked \<Rightarrow> Panicked
           | Blocked \<Rightarrow> Blocked
           | Returned (effs', st) \<Rightarrow> Returned (effs @ effs', st)))"
  by (induction w set_rule xs st rule: eventLoop.induct) (auto split: outcome.splits prod.splits)

lemma eventLoop_Cons:
  assumes "eventLoop w set_rule ((inp, event) # events) st = Returned (effs, st')"
  obtains effs1 st1 effs2 where "handleEvent w set_rule inp event st = Returned (effs1, st1)"
    and "eventLoop w set_rule events st1 = Returned (effs2, st')" and "effs = effs1 @ effs2"
  using assms by (auto split: outcome.splits prod.splits)

lemma handleEvent_Returned:
  assumes "handleEvent w set_rule inp event st = Returned x"
  obtains (denied) reason where "early_denial inp event st = Some reason"
      "x = deny_event inp event reason (checked inp event st)"
  | (learnt) "early_denial inp event st = None" "en_learningMode st"
      "x = learn_event inp event (checked inp event st)"
  | (hit) a where "early_denial inp event st = None" "\<not> en_learningMode st"
      "fst (get_key (in_get_time inp) (makeKey event) (en_cache st)) = Some a"
      "x = replay_event event ((en_results st ! a)\<lparr>ar_Cached := True\<rparr>)
        ((checked inp event st)\<lparr>en_cache := touch_key (in_get_time inp) (makeKey event) (en_cache st)\<rparr>)"
  | (missed) res pool where "misses inp event st"
      "x = settle_event set_rule inp event res
        ((checked inp event st)\<lparr>en_cache := touch_key (in_get_time inp) (makeKey event) (en_cache st),
          en_pools := (en_pools st)[en_evaluator st := pool]\<rparr>)"
  using assms unfolding handleEvent_paths misses_def touch_key_def
  by (auto split: option.splits prod.splits outcome.splits if_splits)

lemma handleEvent_mode:
  "handleEvent w set_rule inp event st = Returned x \<Longrightarrow>
   ah_auditMode (en_handler (snd x)) = ah_auditMode (en_handler st)"
  by (erule handleEvent_Returned)
    (auto simp: event_handler_mode event_frames(2) settle_event_state)

lemma handleEvent_audit:
  "handleEvent w set_rule inp event st = Returned x \<Longrightarrow> ah_auditMode (en_handler st) \<Longrightarrow>
   TerminateProcess pid \<notin> set (fst x)"
  by (erule handleEvent_Returned)
    (auto simp: deny_kills learn_kills replay_kills settle_kills kills_def)

lemma eventLoop_audit:
  "eventLoop w set_rule events st = Returned (effs, st') \<Longrightarrow> ah_auditMode (en_handler st) \<Longrightarrow>
   TerminateProcess pid \<notin> set effs"
proof (induction events arbitrary: st effs)
  case (Cons ie events)
  obtain inp event where ie: "ie = (inp, event)" by fastforce
  obtain effs1 st1 effs2 where "handleEvent w set_rule inp event st = Returned (effs1, st1)"
      "eventLoop w set_rule events st1 = Returned (effs2, st')" "effs = effs1 @ effs2"
    using eventLoop_Cons Cons.prems(1) unfolding ie by metis
  then show ?case
    using Cons.IH Cons.prems(2) handleEvent_audit [of w set_rule inp event st "(effs1, st1)" pid]
      handleEvent_mode [of w set_rule inp event st "(effs1, st1)"] by auto
qed simp

section \<open>Where cached decisions come from\<close>

text \<open>The cache operations of an event and of a sequence of events.\<close>

definition event_ops :: "inputs \<Rightarrow> api_event \<Rightarrow> ('i, 'm) enforcer \<Rightarrow> range_order cache_op list" where
  "event_ops inp event st =
     (if early_denial inp event st \<noteq> None \<or> en_learningMode st then []
      else OpTouch (in_get_time inp) (makeKey event) #
        (if misses inp event st
         then [OpPut (in_visit_entries inp) (in_put_time inp) (makeKey event) (length (en_results st))]
         else []))"

fun loop_ops ::
  "'i wasm_engine \<Rightarrow> ('e, 'm) rule_writer \<Rightarrow> (inputs \<times> api_event) list \<Rightarrow> ('i, 'm) enforcer \<Rightarrow>
   range_order cache_op list" where
  "loop_ops w set_rule [] st = []"
| "loop_ops w set_rule ((inp, event) # events) st =
     event_ops inp event st @
     (case handleEvent w set_rule inp event st of
        Returned (effs, st') \<Rightarrow> loop_ops w set_rule events st'
      | _ \<Rightarrow> [])"

abbreviation run_cache :: "range_order cache_op list \<Rightarrow> decision_cache \<Rightarrow> decision_cache" where
  "run_cache \<equiv> cache_run put_key touch_key cache_Clear"

lemma cache_run_append: "cache_run put touch clear (xs @ ys) c = cache_run put touch clear ys (cache_run put touch clear xs c)"
  by (induction put touch clear xs c rule: cache_run.induct) auto

lemma last_put_append: "last_put (xs @ ys) k found = last_put ys k (last_put xs k found)"
  by (induction xs k found rule: last_put.induct) auto

lemma handleEvent_cache:
  "handleEvent w set_rule inp event st = Returned x \<Longrightarrow>
   en_cache (snd x) = run_cache (event_ops inp event st) (en_cache st)"
  by (erule handleEvent_Returned)
    (auto simp: event_ops_def misses_def event_frames(2) settle_event_state)

lemma handleEvent_results:
  "handleEvent w set_rule inp event st = Returned x \<Longrightarrow>
   (if misses inp event st
    then \<exists>r. en_results (snd x) = en_results st @ [r] \<and> LogEvent event r \<in> set (fst x) \<and>
           RecordCacheMiss \<in> set (fst x)
    else en_results (snd x) = en_results st)"
  by (erule handleEvent_Returned)
    (auto simp: misses_def event_frames(2) settle_event_state settle_effects Let_def)

lemma eventLoop_cache:
  "eventLoop w set_rule events st = Returned (effs, st') \<Longrightarrow>
   en_cache st' = run_cache (loop_ops w set_rule events st) (en_cache st) \<and>
   (\<exists>rs. en_results st' = en_results st @ rs)"
proof (induction events arbitrary: st effs)
  case (Cons ie events)
  obtain inp event where ie: "ie = (inp, event)" by fastforce
  obtain effs1 st1 effs2 where h: "handleEvent w set_rule inp event st = Returned (effs1, st1)"
      and l: "eventLoop w set_rule events st1 = Returned (effs2, st')"
    using eventLoop_Cons Cons.prems(1) unfolding ie by metis
  have "\<exists>rs. en_results st1 = en_results st @ rs"
    using handleEvent_results [OF h] by (auto split: if_splits)
  then show ?case
    using Cons.IH [OF l] handleEvent_cache [OF h] h by (auto simp: ie cache_run_append)
qed simp

text \<open>A stored decision that the cache still answers with was made for an event of the sequence.\<close>

lemma last_put_loop:
  assumes "eventLoop w set_rule events st = Returned (effs, st')"
    and "last_put (loop_ops w set_rule events st) k found = Some (a, t)"
  shows "found = Some (a, t) \<or>
    (\<exists>pre inp event post effs0 st0. events = pre @ (inp, event) # post \<and>
       eventLoop w set_rule pre st = Returned (effs0, st0) \<and> misses inp event st0 \<and>
       makeKey event = k \<and> a = length (en_results st0) \<and> t = in_put_time inp)"
  using assms
proof (induction events arbitrary: st effs found)
  case (Cons ie events)
  obtain inp event where ie: "ie = (inp, event)" by fastforce
  obtain effs1 st1 effs2 where h: "handleEvent w set_rule inp event st = Returned (effs1, st1)"
      and l: "eventLoop w set_rule events st1 = Returned (effs2, st')"
    using eventLoop_Cons Cons.prems(1) unfolding ie by metis
  let ?found = "last_put (event_ops inp event st) k found"
  have "last_put (loop_ops w set_rule events st1) k ?found = Some (a, t)"
    using Cons.prems(2) h by (simp add: ie last_put_append)
  from Cons.IH [OF l this] show ?case
  proof (elim disjE exE conjE)
    assume f: "?found = Some (a, t)"
    show ?thesis
    proof (cases "misses inp event st \<and> makeKey event = k")
      case True
      then have "a = length (en_results st) \<and> t = in_put_time inp"
        using f by (auto simp: event_ops_def misses_def)
      then show ?thesis
        using True ie by (intro disjI2 exI [of _ "[]"] exI [of _ inp] exI [of _ event] exI [of _ events]) simp
    next
      case False
      then show ?thesis
        using f by (auto simp: event_ops_def split: if_splits)
    qed
  next
    fix pre inp1 event1 post effs0 st0
    assume *: "events = pre @ (inp1, event1) # post" "eventLoop w set_rule pre st1 = Returned (effs0, st0)"
      "misses inp1 event1 st0" "makeKey event1 = k" "a = length (en_results st0)" "t = in_put_time inp1"
    show ?thesis
      using * h ie
      by (intro disjI2 exI [of _ "ie # pre"] exI [of _ inp1] exI [of _ event1] exI [of _ post]) simp
  qed
qed simp

end
