(* ===== verification/System_Properties.thy ===== *)
theory System_Properties
  imports Lsm_System
begin

text \<open>
  What the manager and the programs guarantee together: reachable states are well formed, a
  refusal goes back to a deny rule that userspace installed, events are read once and in order,
  and the manager's operations have the effect on the programs that they are meant to have.
\<close>

section \<open>Executions\<close>

lemma exec_wf:
  assumes "lsm_exec boot as st"
  shows "wf_state st \<and> (\<forall>r \<in> set (lsm_events st). length r = 328)"
  using assms
  by (rule lsm_exec_invariant [where I = "\<lambda>as st. wf_state st \<and> (\<forall>r \<in> set (lsm_events st). length r = 328)"])
    (simp add: boot_wf, simp add: boot_def, metis step_wf step_record_sizes)

lemma exec_accounted:
  assumes "lsm_exec boot as st"
  shows "wf_state st \<and> accounted (written as) st \<and>
    (is_enforce_enabled st \<longrightarrow> Managed (OpSetEnforce True) \<in> set as)"
  using assms
proof (rule lsm_exec_invariant)
  show "wf_state boot \<and> accounted (written []) boot \<and>
    (is_enforce_enabled boot \<longrightarrow> Managed (OpSetEnforce True) \<in> set [])"
    by (simp add: boot_wf)
      (simp add: boot_def accounted_def bpf_map_lookup_elem_def is_enforce_enabled_def array_lookup_elem_def)
next
  fix as st a st'
  assume "wf_state st \<and> accounted (written as) st \<and>
      (is_enforce_enabled st \<longrightarrow> Managed (OpSetEnforce True) \<in> set as)"
    and "lsm_step st a st'"
  then show "wf_state st' \<and> accounted (written (as @ [a])) st' \<and>
      (is_enforce_enabled st' \<longrightarrow> Managed (OpSetEnforce True) \<in> set (as @ [a]))"
    using step_wf step_accounted step_enforce by (metis Un_iff list.set_intros(1) set_append)
qed

lemma run_code:
  assumes "hook_request h c = Some rq" and "\<not> should_skip_cgroup st (bpf_get_current_cgroup_id h)"
  shows "fst (run_hook h st c) =
    (case matching_rule st (bpf_get_current_cgroup_id h) (hook_event_type c) (rq_hash rq) of
       Some (key, val) \<Rightarrow> if action val = ACTION_DENY \<and> is_enforce_enabled st then - 1 else 0
     | None \<Rightarrow> 0)"
  using hook_spec(1) [OF assms(1), of st] assms(2) by (simp add: decide_matching split: option.split)

lemma refusal_rule:
  assumes "earlier_code c = 0" and "fst (run_hook h st c) = - 1"
  obtains rq key val where "hook_request h c = Some rq"
    and "matching_rule st (bpf_get_current_cgroup_id h) (hook_event_type c) (rq_hash rq) = Some (key, val)"
    and "action val = ACTION_DENY" and "is_enforce_enabled st"
proof (cases "hook_request h c")
  case None
  then show ?thesis using assms hook_no_request [OF None, of st] by simp
next
  case (Some rq)
  have "\<not> should_skip_cgroup st (bpf_get_current_cgroup_id h)"
    using assms(2) hook_spec(1) [OF Some, of st] by (auto simp: decide_skipped)
  then show ?thesis
    using that run_code [OF Some, of st] assms(2) Some by (auto split: option.splits if_splits)
qed

lemma matching_rule_lookup:
  "matching_rule st cgid etype hash = Some (key, val) \<Longrightarrow>
   bpf_map_lookup_elem (policy_map st) key = Some val \<and>
   key \<in> {rule_key cgid etype hash, rule_key 0 etype hash}"
  by (auto simp: matching_rule_def split: option.splits)

lemma SetRule_boot:
  "SetRule boot cgid etype pattern act log =
     (None, boot\<lparr>policy_map := [(rule_key cgid etype (HashPattern pattern), rule_value act log)]\<rparr>)"
  by (simp add: SetRule_def put_rule_def boot_def bpf_map_update_elem_def POLICY_MAP_MAX_ENTRIES_def
      rule_key_def Let_def)

lemma SetEnforce_frame [simp]:
  "policy_map (SetEnforce st b) = policy_map st"
  "lsm_cgroup_filter (SetEnforce st b) = lsm_cgroup_filter st"
  by (simp_all add: SetEnforce_def Let_def)

text \<open>
  An execution for the witnesses: userspace denies \<open>/bin/sh\<close> to cgroup 7 and switches enforcement
  on.
\<close>

definition demo_ops :: "lsm_action list" where
  "demo_ops = [Managed (OpSetRule 7 EVENT_TYPE_EXEC (cstr demo_name) ACTION_DENY False),
               Managed (OpSetEnforce True)]"

definition demo_ruled :: lsm_state where
  "demo_ruled = SetEnforce (snd (SetRule boot 7 EVENT_TYPE_EXEC (cstr demo_name) ACTION_DENY False)) True"

lemma demo_ops_exec: "lsm_exec boot demo_ops demo_ruled"
proof -
  have "lsm_exec boot ([] @ [Managed (OpSetRule 7 EVENT_TYPE_EXEC (cstr demo_name) ACTION_DENY False)])
      (snd (SetRule boot 7 EVENT_TYPE_EXEC (cstr demo_name) ACTION_DENY False))"
    using extend [OF start managed] by (metis manager_run.simps(1))
  from extend [OF this managed, of "OpSetEnforce True"] show ?thesis
    by (simp add: demo_ops_def demo_ruled_def)
qed

lemma demo_name_facts:
  "cstr demo_name = [47, 98, 105, 110, 47, 115, 104]" "length demo_name = 64"
  "fnv1a_hash demo_name 8 = HashPattern (cstr demo_name)"
proof -
  show name: "cstr demo_name = [47, 98, 105, 110, 47, 115, 104]"
    by (simp add: demo_name_def cstr_def)
  have "hashed_prefix demo_name 8 = [47, 98, 105, 110, 47, 115, 104]"
    by (simp add: hashed_prefix_def demo_name_def cstr_def)
  moreover show "length demo_name = 64"
    by (simp add: demo_name_def)
  ultimately show "fnv1a_hash demo_name 8 = HashPattern (cstr demo_name)"
    using fnv1a_hash_ascii [of demo_name 8] by (simp add: name HashPattern_def)
qed

lemma demo_ruled_state:
  "demo_ruled = \<lparr> policy_map = [(rule_key 7 EVENT_TYPE_EXEC (fnv1a_hash demo_name 8), rule_value ACTION_DENY False)],
     lsm_events = [], lsm_cgroup_filter = [], lsm_enforce = [1] \<rparr>"
  unfolding demo_ruled_def SetRule_boot by (simp add: demo_name_facts SetEnforce_def boot_def)

lemma demo_ruled_refuses: "fst (run_hook demo demo_ruled demo_exec) = - 1"
  using run_code [OF demo_exec_request, of demo_ruled]
  by (simp add: demo_fields demo_ruled_state should_skip_cgroup_def matching_rule_def
      bpf_map_lookup_elem_def is_enforce_enabled_def array_lookup_elem_def rule_value_def
      demo_exec_def)



text \<open>
  C4. Nothing is refused out of thin air: when a program refuses a call in a reachable state,
  userspace wrote, earlier in the execution, a deny rule for that event type and hash and for the
  task's cgroup or for all of them, and switched enforcement on.
\<close>

theorem refusal_was_ordered:
  assumes "lsm_exec boot as st" and "earlier_code c = 0" and "fst (run_hook h st c) = - 1"
  shows "\<exists>rq cg v. hook_request h c = Some rq \<and> cg \<in> {bpf_get_current_cgroup_id h, 0} \<and>
     (rule_key cg (hook_event_type c) (rq_hash rq), v) \<in> written as \<and> action v = ACTION_DENY \<and>
     Managed (OpSetEnforce True) \<in> set as"
proof -
  obtain rq key val where rq: "hook_request h c = Some rq"
    and m: "matching_rule st (bpf_get_current_cgroup_id h) (hook_event_type c) (rq_hash rq) = Some (key, val)"
    and deny: "action val = ACTION_DENY" and "is_enforce_enabled st"
    using refusal_rule [OF assms(2,3)] .
  then have on: "Managed (OpSetEnforce True) \<in> set as"
    using exec_accounted [OF assms(1)] by blast
  obtain v where "(key, v) \<in> written as" and "action v = ACTION_DENY"
    using exec_accounted [OF assms(1)] matching_rule_lookup [OF m] deny
    unfolding accounted_def by metis
  then show ?thesis
    using rq on matching_rule_lookup [OF m] by blast
qed

theorem refusal_was_ordered_witness: "Managed (OpSetEnforce True) \<in> set demo_ops"
  using refusal_was_ordered [OF demo_ops_exec _ demo_ruled_refuses] by (auto simp: demo_exec_def)

text \<open>
  The ring buffer is a queue: in every execution the records that were read, followed by
  those still queued, are the records that the programs submitted, in order.
\<close>

lemma events_read_in_order:
  assumes "lsm_exec boot as st"
  shows "concat (map read_off as) @ lsm_events st = concat (map produced as)"
  using assms
proof (rule lsm_exec_invariant)
  fix as st a st'
  assume "concat (map read_off as) @ lsm_events st = concat (map produced as)" and "lsm_step st a st'"
  then show "concat (map read_off (as @ [a])) @ lsm_events st' = concat (map produced (as @ [a]))"
    by (cases a) (auto elim!: lsm_step_cases simp: manager_frame)
qed (simp add: boot_def)

lemma drain_exec:
  "lsm_events st = xs @ ys \<Longrightarrow> lsm_exec st (map Consumed xs) (st\<lparr>lsm_events := ys\<rparr>)"
proof (induction xs arbitrary: ys rule: rev_induct)
  case Nil
  then have "st\<lparr>lsm_events := ys\<rparr> = st" by simp
  then show ?case using start [of st] by simp
next
  case (snoc x xs)
  have "lsm_exec st (map Consumed xs) (st\<lparr>lsm_events := x # ys\<rparr>)"
    using snoc by simp
  moreover have "lsm_step (st\<lparr>lsm_events := x # ys\<rparr>) (Consumed x) (st\<lparr>lsm_events := ys\<rparr>)"
    using consumed [of "st\<lparr>lsm_events := x # ys\<rparr>" x ys] by simp
  ultimately show ?case
    using extend by fastforce
qed

text \<open>
  No call gets stuck and no event is lost: every hook call is a step of the system, and a
  reader that keeps reading gets exactly the queued records and leaves the queue empty.
\<close>

lemma served_and_drained:
  assumes "bpf_helpers h"
  shows "(\<exists>code rs st'. lsm_step st (Hooked h c code rs) st') \<and>
    lsm_exec st (map Consumed (lsm_events st)) (st\<lparr>lsm_events := []\<rparr>)"
  using hook_step_exists [OF assms] drain_exec [of st "lsm_events st" "[]"] by simp

section \<open>Manager operations\<close>

lemma filter_set:
  assumes "wf_state st" and "SetLSMCgroupFilter st ids = (None, st')"
  shows "should_skip_cgroup st' cgid \<longleftrightarrow> ids \<noteq> [] \<and> cgid \<noteq> 0 \<and> cgid \<notin> set ids"
proof -
  have wf: "wf_map LSM_CGROUP_FILTER_MAX_ENTRIES (lsm_cgroup_filter st)"
    using assms(1) by (simp add: wf_state_def)
  have "fill_filter (lsm_cgroup_filter st) ids = (None, lsm_cgroup_filter st')"
    using assms(2) by (auto simp: SetLSMCgroupFilter_def split: prod.splits)
  from fill_filter_dom [OF wf this]
  have "k \<in> dom (bpf_map_lookup_elem (lsm_cgroup_filter st')) \<longleftrightarrow> ids \<noteq> [] \<and> (k = 0 \<or> k \<in> set ids)" for k
    by simp
  then have "bpf_map_lookup_elem (lsm_cgroup_filter st') k = None \<longleftrightarrow> ids = [] \<or> k \<noteq> 0 \<and> k \<notin> set ids" for k
    using domIff [of k "bpf_map_lookup_elem (lsm_cgroup_filter st')"] by blast
  from this [of cgid] this [of 0] show ?thesis
    by (cases "bpf_map_lookup_elem (lsm_cgroup_filter st') cgid";
        cases "bpf_map_lookup_elem (lsm_cgroup_filter st') 0")
      (auto simp: should_skip_cgroup_def)
qed

lemma filter_fits:
  assumes "wf_state st" and "card (insert 0 (set ids)) \<le> LSM_CGROUP_FILTER_MAX_ENTRIES"
  shows "fst (SetLSMCgroupFilter st ids) = None"
proof -
  have wf: "wf_map LSM_CGROUP_FILTER_MAX_ENTRIES (lsm_cgroup_filter st)"
    using assms(1) by (simp add: wf_state_def)
  then show ?thesis
    using fill_filter_fits [OF wf assms(2)] by (auto simp: SetLSMCgroupFilter_def split: prod.split)
qed



text \<open>
  Clearing a filter terminates: deleting each key while iterating ends with the empty map as
  soon as there are as many steps as entries, the iterator then finds no further key, and more
  steps change nothing.
\<close>

lemma filter_clearing_ends:
  fixes m :: "(u64, u8) bpf_map"
  assumes "wf_map LSM_CGROUP_FILTER_MAX_ENTRIES m" and "length m \<le> n"
  shows "clear_iterating n m None = [] \<and>
    bpf_map_get_next_key (clear_iterating n m None) prev = None \<and>
    clear_iterating (Suc LSM_CGROUP_FILTER_MAX_ENTRIES) m None = clear_iterating n m None"
proof -
  have "clear_iterating k m None = []" if "length m \<le> k" for k
    using that by (intro clear_iterating_empty) simp_all
  moreover have "length m \<le> Suc LSM_CGROUP_FILTER_MAX_ENTRIES"
    using assms(1) by (simp add: wf_map_def)
  moreover have "bpf_map_get_next_key ([] :: (u64, u8) bpf_map) prev = None"
    by (simp add: bpf_map_get_next_key_def split: option.split)
  ultimately show ?thesis
    using assms(2) by (simp only: simp_thms)
qed

lemma SetRule_lookup:
  assumes "wf_state st" and "SetRule st cgid etype pattern act log = (None, st')"
  shows "bpf_map_lookup_elem (policy_map st') =
    (bpf_map_lookup_elem (policy_map st))(rule_key cgid etype (HashPattern pattern) \<mapsto> rule_value act log)"
  using put_rule_lookup [OF assms(1)] assms(2) by (simp add: SetRule_def rule_key_def Let_def)

text \<open>A deny rule for a short path, in effect: the execution of that path is refused.\<close>

lemma deny_lookup_refuses:
  assumes "bpf_helpers h" and "is_enforce_enabled st"
    and "\<not> should_skip_cgroup st (bpf_get_current_cgroup_id h)"
    and "bpf_map_lookup_elem (policy_map st)
      (rule_key (bpf_get_current_cgroup_id h) EVENT_TYPE_EXEC (HashPattern pattern)) =
      Some (rule_value ACTION_DENY log)"
    and "hook_request h (BprmCheck bprm 0) = Some rq" and "rq_name rq = Some name"
    and "cstr name = pattern" and "length pattern \<le> 16" and "\<forall>b \<in> set pattern. b < 128"
  shows "fst (run_hook h st (BprmCheck bprm 0)) = - 1"
proof -
  let ?cg = "bpf_get_current_cgroup_id h"
  have "rq_hash rq = foldl (\<lambda>h b. fnv_mix h (scast b)) FNV_OFFSET pattern"
    using name_request_hash [OF assms(1), of EVENT_TYPE_EXEC] assms(5-8) by (simp add: exec_request_def)
  then have hash: "rq_hash rq = HashPattern pattern"
    using foldl_signed_ascii [OF assms(9)] by (simp add: HashPattern_def fnv1a32_def)
  have "matching_rule st ?cg EVENT_TYPE_EXEC (rq_hash rq) =
      Some (rule_key ?cg EVENT_TYPE_EXEC (HashPattern pattern), rule_value ACTION_DENY log)"
    using assms(4) by (simp add: matching_rule_def hash)
  then show ?thesis
    using run_code [OF assms(5,3)] assms(2) by (simp add: rule_value_def)
qed

text \<open>
  A deny rule takes effect: after \<open>SetRule\<close> for a path of at most 16 seven-bit characters and
  with enforcement on, an execution of exactly that path by a task of the rule's cgroup that the
  filter does not skip is refused.
\<close>

lemma deny_rule_takes_effect:
  assumes "bpf_helpers h" and "wf_state st"
    and "SetRule st (bpf_get_current_cgroup_id h) EVENT_TYPE_EXEC pattern ACTION_DENY log = (None, st')"
    and "\<not> should_skip_cgroup st' (bpf_get_current_cgroup_id h)"
    and "hook_request h (BprmCheck bprm 0) = Some rq" and "rq_name rq = Some name"
    and "cstr name = pattern" and "length pattern \<le> 16" and "\<forall>b \<in> set pattern. b < 128"
  shows "fst (run_hook h (SetEnforce st' True) (BprmCheck bprm 0)) = - 1"
proof (rule deny_lookup_refuses [OF assms(1) _ _ _ assms(5-9)])
  let ?cg = "bpf_get_current_cgroup_id h"
  show "bpf_map_lookup_elem (policy_map (SetEnforce st' True)) (rule_key ?cg EVENT_TYPE_EXEC (HashPattern pattern)) =
      Some (rule_value ACTION_DENY log)"
    using SetRule_lookup [OF assms(2,3)] by simp
  show "\<not> should_skip_cgroup (SetEnforce st' True) ?cg"
    using assms(4) by (simp add: should_skip_cgroup_def split: option.splits)
  have "wf_state st'"
    using put_rule_wf [OF assms(2)] assms(3) by (metis SetRule_def snd_conv)
  then show "is_enforce_enabled (SetEnforce st' True)"
    by (rule SetEnforce_enabled [THEN iffD2, OF _ TrueI])
qed

text \<open>
  A rule of a cgroup overrides the global rule: when the cgroup's own rule does not deny, the
  call is allowed even if the global rule denies it.
\<close>

lemma cgroup_rule_overrides_global:
  assumes "hook_request h c = Some rq"
    and "bpf_map_lookup_elem (policy_map st)
           (rule_key (bpf_get_current_cgroup_id h) (hook_event_type c) (rq_hash rq)) = Some val"
    and "action val \<noteq> ACTION_DENY"
  shows "fst (run_hook h st c) = 0"
proof (cases "should_skip_cgroup st (bpf_get_current_cgroup_id h)")
  case True
  then show ?thesis using hook_spec(1) [OF assms(1), of st] by (simp add: decide_skipped)
next
  case False
  then show ?thesis using run_code [OF assms(1) False] assms(2,3) by (simp add: matching_rule_def)
qed

text \<open>
  \<open>Clear\<close> leaves no rule behind: afterwards the map counts no entries and no call is refused.
\<close>

lemma clear_allows_everything:
  assumes "wf_state st"
  shows "Stats (snd (Clear st)) = 0 \<and> fst (run_hook h (snd (Clear st)) c) = earlier_code c"
proof -
  let ?st = "snd (Clear st)"
  have wf: "wf_map POLICY_MAP_MAX_ENTRIES (policy_map st)"
    using assms by (simp add: wf_state_def)
  have empty: "bpf_map_lookup_elem (policy_map ?st) = Map.empty"
    using bm.delete_all_keys [OF wf] by (simp add: Clear_def Let_def)
  then have "Stats ?st = 0"
    using bm.keys_dom [of POLICY_MAP_MAX_ENTRIES "policy_map ?st"] Clear_wf [OF assms]
    by (simp add: Stats_def wf_state_def)
  moreover have "fst (run_hook h ?st c) = earlier_code c"
  proof (cases "hook_request h c")
    case None
    then show ?thesis by (simp add: hook_no_request)
  next
    case (Some rq)
    have "matching_rule ?st cg ty hash = None" for cg ty hash
      using empty by (simp add: matching_rule_def)
    then show ?thesis
      using run_code [OF Some, of ?st] hook_spec(1) [OF Some, of ?st] request_not_refused [OF Some]
      by (cases "should_skip_cgroup ?st (bpf_get_current_cgroup_id h)") (simp_all add: decide_skipped)
  qed
  ultimately show ?thesis ..
qed

text \<open>
  A complete batch of decisions is the old policy overridden by the batch, the last decision
  for a key winning.
\<close>

lemma sync_installs_batch:
  assumes "wf_state st" and "SyncFromWASM st ds = (None, st')"
  shows "bpf_map_lookup_elem (policy_map st') =
    bpf_map_lookup_elem (policy_map st) ++ map_of (rev (map decision_entry ds))"
proof -
  have wf: "wf_map POLICY_MAP_MAX_ENTRIES (policy_map st)"
    using assms(1) by (simp add: wf_state_def)
  have "put_all (bpf_map_update_elem POLICY_MAP_MAX_ENTRIES) (policy_map st) (map decision_entry ds) =
      Inr (policy_map st')"
    using assms(2) by (auto simp: SyncFromWASM_def split: sum.splits)
  from bm.put_all_lookup [OF wf this] show ?thesis by simp
qed

section \<open>Agreement of the two sides\<close>

text \<open>The image of a key whose padding is clear.\<close>

lemma key_image:
  "store 12 [t] (store 8 (le_bytes 4 (h :: u32)) (store 0 (le_bytes 8 (c :: u64)) (replicate 16 0))) =
     (le_bytes 8 c @ le_bytes 4 h @ [t]) @ replicate 3 0"
proof -
  have "store 0 (le_bytes 8 c) (replicate 16 0) = le_bytes 8 c @ replicate 8 0"
    using store_append [of "[]" 0 "le_bytes 8 c" "replicate 16 0"] by simp
  moreover have "store 8 (le_bytes 4 h) (le_bytes 8 c @ replicate 8 0) =
      (le_bytes 8 c @ le_bytes 4 h) @ replicate 4 0"
    using store_append [of "le_bytes 8 c" 8 "le_bytes 4 h" "replicate 8 0"] by simp
  moreover have "store 12 [t] ((le_bytes 8 c @ le_bytes 4 h) @ replicate 4 0) =
      (le_bytes 8 c @ le_bytes 4 h @ [t]) @ replicate 3 0"
    using store_append [of "le_bytes 8 c @ le_bytes 4 h" 12 "[t]" "replicate 4 0"] by simp
  ultimately show ?thesis by simp
qed

lemma pad_image:
  "length a = 13 \<Longrightarrow> store 13 [0, 0, 0] (a @ replicate 3 0) = a @ replicate 3 0"
  "length a = 13 \<Longrightarrow> store 15 [0] (store 14 [0] (store 13 [0] (a @ replicate 3 0))) = a @ replicate 3 0"
proof -
  assume a: "length a = 13"
  have z: "replicate 3 (0 :: byte) = [0, 0, 0]" by (simp add: numeral_eq_Suc)
  show "store 13 [0, 0, 0] (a @ replicate 3 0) = a @ replicate 3 0"
    using store_append [OF a, of "[0, 0, 0]" "[0, 0, 0]"] by (simp add: z)
  show "store 15 [0] (store 14 [0] (store 13 [0] (a @ replicate 3 0))) = a @ replicate 3 0"
    using a by (simp add: z store_def)
qed

text \<open>
  A key that the manager writes has in memory the bytes of the C struct that the programs
  look up.
\<close>

lemma marshal_matches_c_layout:
  assumes "key_pad k = [0, 0, 0]"
  shows "MarshalBinary k = policy_key_bytes k"
  using assms
  by (simp add: MarshalBinary_def policy_key_bytes_def offset_simps key_image pad_image Let_def
      del: append_assoc)

lemma port_bytes:
  "(ucast (port AND 255 :: u16) :: u32) = ucast port AND 255"
  "(ucast (drop_bit 8 (port :: u16)) :: u32) = drop_bit 8 (ucast port)"
proof -
  show "(ucast (drop_bit 8 (port :: u16)) :: u32) = drop_bit 8 (ucast port)"
    by (rule bit_eqI) (auto simp: bit_simps dest: bit_imp_le_length)
qed (simp add: unsigned_and_eq)

text \<open>
  The endpoint hashes of the manager are those of the programs.
\<close>

lemma endpoint_hashes_agree:
  "HashIPv4Endpoint addr port = hash_ipv4_endpoint addr port \<and>
   HashIPv6Endpoint addr6 port = hash_ipv6_endpoint addr6 port \<and>
   HashPort port = hash_port port"
  by (simp only: HashIPv4Endpoint_def hash_ipv4_endpoint_def HashIPv6Endpoint_def
      hash_ipv6_endpoint_def HashPort_def hash_port_def Let_def port_bytes simp_thms)

text \<open>The hashes of \<open>/usr/bin/python3.11\<close> and of its first 16 bytes, round by round.\<close>

lemma python_hash_steps:
  "fnv_mix 2166136261 47 = 705468254"
  "fnv_mix 705468254 117 = 1557264561"
  "fnv_mix 1557264561 115 = 3767179622"
  "fnv_mix 3767179622 114 = 2385443452"
  "fnv_mix 2385443452 47 = 653529257"
  "fnv_mix 653529257 98 = 490106769"
  "fnv_mix 490106769 105 = 4105323368"
  "fnv_mix 4105323368 110 = 983532146"
  "fnv_mix 983532146 47 = 2786736231"
  "fnv_mix 2786736231 112 = 2454080565"
  "fnv_mix 2454080565 121 = 2427067300"
  "fnv_mix 2427067300 116 = 2345257072"
  "fnv_mix 2345257072 104 = 648412616"
  "fnv_mix 648412616 111 = 2119060965"
  "fnv_mix 2119060965 110 = 1615073745"
  "fnv_mix 1615073745 51 = 1831347910"
  "fnv_mix 1831347910 46 = 3191160632"
  "fnv_mix 3191160632 49 = 1993489195"
  "fnv_mix 1993489195 49 = 653461998"
  by (simp_all add: fnv_mix_def)

lemma python_hashes:
  "fnv1a32 [47, 117, 115, 114, 47, 98, 105, 110, 47, 112, 121, 116, 104, 111, 110, 51] = 1831347910"
  "fnv1a32 [47, 117, 115, 114, 47, 98, 105, 110, 47, 112, 121, 116, 104, 111, 110, 51, 46, 49, 49] = 653461998"
  by (simp_all add: fnv1a32_def FNV_OFFSET_def python_hash_steps)

text \<open>
  A rule for a longer path misses its own target: the rule that \<open>SetRule\<close> installs for
  \<open>/usr/bin/python3.11\<close> has another hash than the one the kernel computes for that path, which is
  the hash of the first 16 bytes, so with enforcement on the execution is allowed.
\<close>

lemma long_pattern_misses:
  "let (err, st) = SetRule boot 7 EVENT_TYPE_EXEC (cstr python311_name) ACTION_DENY False;
       st = SetEnforce st True
   in err = None \<and> is_enforce_enabled st \<and> fst (run_hook demo st demo_python311) = 0"
proof -
  let ?rule = "rule_key 7 EVENT_TYPE_EXEC (HashPattern (cstr python311_name))"
  let ?st = "SetEnforce (boot\<lparr>policy_map := [(?rule, rule_value ACTION_DENY False)]\<rparr>) True"
  have name: "cstr python311_name = [47, 117, 115, 114, 47, 98, 105, 110, 47, 112, 121, 116, 104, 111, 110, 51, 46, 49, 49]"
    by (simp add: python311_name_def cstr_def)
  have "hashed_prefix python311_name 20 = [47, 117, 115, 114, 47, 98, 105, 110, 47, 112, 121, 116, 104, 111, 110, 51]"
    by (simp add: hashed_prefix_def python311_name_def cstr_def)
  moreover have "16 \<le> length python311_name"
    by (simp add: python311_name_def)
  ultimately have "fnv1a_hash python311_name 20 = 1831347910"
    using fnv1a_hash_ascii [of python311_name 20] python_hashes(1) by simp
  moreover have "HashPattern (cstr python311_name) = 653461998"
    using python_hashes(2) by (simp add: HashPattern_def name)
  ultimately have "matching_rule ?st 7 EVENT_TYPE_EXEC (fnv1a_hash python311_name 20) = None"
    by (simp add: matching_rule_def rule_key_def bpf_map_lookup_elem_def)
  moreover have "\<not> should_skip_cgroup ?st 7"
    by (simp add: should_skip_cgroup_def boot_def bpf_map_lookup_elem_def)
  ultimately have "fst (run_hook demo ?st demo_python311) = 0"
    using run_code [OF demo_python311_request, of ?st] by (simp add: demo_fields demo_python311_def)
  moreover have "is_enforce_enabled ?st"
    by (simp add: SetEnforce_def boot_def is_enforce_enabled_def array_lookup_elem_def)
  ultimately show ?thesis
    by (simp add: SetRule_boot)
qed

end
