(* ===== verification/Event_Properties.thy ===== *)
theory Event_Properties
  imports Lsm_Properties Go_Events
begin

text \<open>
  The event path from the kernel to userspace: what a program submits is what the reader's
  \<open>Event\<close> says, for the three tracepoint programs and for the LSM programs.
\<close>

section \<open>Tracepoint programs\<close>

lemma demo_ctx_args:
  "ctx_arg (demo_ctx a b c d) 0 = a" "ctx_arg (demo_ctx a b c d) (Suc 0) = b"
  "ctx_arg (demo_ctx a b c d) 2 = c" "ctx_arg (demo_ctx a b c d) 3 = d"
  by (simp_all add: ctx_arg_def demo_ctx_def offset_simps load_def)

lemma demo_reserve: "bpf_ringbuf_reserve demo [] n = Some (replicate n 0)"
  by (simp add: demo_fields)

lemma load_zeros: "off + n \<le> m \<Longrightarrow> load off n (replicate m 0) = replicate n 0"
  by (simp add: load_def)

text \<open>
  The tracepoint programs only observe: whatever happens they return 0 and leave their
  filter alone, and they submit nothing for a filtered cgroup.
\<close>

lemma monitors_only_observe:
  assumes "bpf_helpers h" and "run \<in> {sys_enter_execve, sys_enter_openat, sys_enter_connect}"
  shows "fst (run h st ctx) = 0 \<and> cgroup_filter (snd (run h st ctx)) = cgroup_filter st \<and>
    (filtered (cgroup_filter st) (bpf_get_current_cgroup_id h) \<longrightarrow> snd (run h st ctx) = st)"
  using assms tpx.code tpo.code tpc.code tpx.frame tpo.frame tpc.frame tpx.dropped tpo.dropped
    tpc.dropped
  by auto

text \<open>
  An execution that the execve monitor reports arrives in userspace with the task's ids, its
  command name, its cgroup and the path up to its NUL.
\<close>

lemma execve_delivered:
  assumes "bpf_helpers h" and "\<not> filtered (cgroup_filter st) (bpf_get_current_cgroup_id h)"
    and "bpf_ringbuf_reserve h (events st) (size_of struct_execve_event) = Some buf"
  shows "\<exists>r. events (snd (sys_enter_execve h st ctx)) = events st @ [r] \<and>
    readEvent boot EventKindProcess r =
    Some \<lparr> Kind = EventKindProcess, PID = ucast (drop_bit 32 (bpf_get_current_pid_tgid h)),
           UID = ucast (bpf_get_current_uid_gid h),
           GID = ucast (drop_bit 32 (bpf_get_current_uid_gid h)),
           Comm = cstr (bpf_get_current_comm h (load 12 16 buf)),
           Filename = cstr (snd (bpf_probe_read_user_str h (load 28 256 buf) (ctx_arg ctx 0))),
           Flags = 0, Mode = 0, RemoteAddr = NoAddr, RemotePort = 0, Family = 0,
           Timestamp = bootTimeToWallClock boot (bpf_ktime_get_ns h),
           CgroupID = bpf_get_current_cgroup_id h \<rparr>"
  using assms(3) tpx.submitted [OF assms(1,2)]
    readEvent_execve [OF assms(1) bpf_helpers.reserve_length [OF assms(1)]]
  by (simp add: offset_simps)

text \<open>
  An open that the openat monitor reports arrives with its path, flags and mode (the low 32
  bits of the arguments).
\<close>

lemma openat_event_delivered:
  assumes "bpf_helpers h" and "\<not> filtered (cgroup_filter st) (bpf_get_current_cgroup_id h)"
    and "bpf_ringbuf_reserve h (events st) (size_of struct_file_event) = Some buf"
  shows "\<exists>r. events (snd (sys_enter_openat h st ctx)) = events st @ [r] \<and>
    readEvent boot EventKindFile r =
    Some \<lparr> Kind = EventKindFile, PID = ucast (drop_bit 32 (bpf_get_current_pid_tgid h)),
           UID = ucast (bpf_get_current_uid_gid h),
           GID = ucast (drop_bit 32 (bpf_get_current_uid_gid h)),
           Comm = cstr (bpf_get_current_comm h (load 12 16 buf)),
           Filename = cstr (snd (bpf_probe_read_user_str h (load 28 256 buf) (ctx_arg ctx 1))),
           Flags = ucast (ctx_arg ctx 2), Mode = ucast (ctx_arg ctx 3),
           RemoteAddr = NoAddr, RemotePort = 0, Family = 0,
           Timestamp = bootTimeToWallClock boot (bpf_ktime_get_ns h),
           CgroupID = bpf_get_current_cgroup_id h \<rparr>"
  using assms(3) tpo.submitted [OF assms(1,2)]
    readEvent_openat [OF assms(1) bpf_helpers.reserve_length [OF assms(1)]]
  by (simp add: offset_simps)

text \<open>
  A connection to an IPv4 endpoint that the connect monitor reports arrives with the port in
  host order, but with the four address bytes in reverse: the address 10.0.0.1 is reported as
  1.0.0.10.
\<close>

lemma connect_v4_delivered:
  assumes "bpf_helpers h" and "\<not> filtered (cgroup_filter st) (bpf_get_current_cgroup_id h)"
    and "bpf_ringbuf_reserve h (events st) (size_of struct_network_event) = Some buf"
    and "user_family h (ctx_arg ctx 1) = AF_INET"
    and "bpf_probe_read_user h (load 32 4 buf) (ctx_arg ctx 1 + 4) = (0, [a, b, c, d])"
    and "bpf_probe_read_user h (load 30 2 buf) (ctx_arg ctx 1 + 2) = (0, [p, q])"
  shows "\<exists>r ev. events (snd (sys_enter_connect h st ctx)) = events st @ [r] \<and>
    readEvent boot EventKindNetwork r = Some ev \<and> Family ev = 2 \<and>
    RemotePort ev = be_word [p, q] \<and> RemoteAddr ev = IPv4Text [d, c, b, a]"
  using assms(3-6) tpc.submitted [OF assms(1,2)]
    readEvent_connect [OF assms(1) bpf_helpers.reserve_length [OF assms(1)]] ntohs_bytes [of p q]
  by (simp add: offset_simps AF_INET_def)

text \<open>
  An IPv6 connection that the connect monitor reports arrives with its address bytes in
  order and the port in host order.
\<close>

lemma connect_v6_delivered:
  assumes "bpf_helpers h" and "\<not> filtered (cgroup_filter st) (bpf_get_current_cgroup_id h)"
    and "bpf_ringbuf_reserve h (events st) (size_of struct_network_event) = Some buf"
    and "user_family h (ctx_arg ctx 1) = AF_INET6"
    and "bpf_probe_read_user h (load 36 16 buf) (ctx_arg ctx 1 + 8) = (0, v6)"
    and "bpf_probe_read_user h (load 30 2 buf) (ctx_arg ctx 1 + 2) = (0, [p, q])"
  shows "\<exists>r ev. events (snd (sys_enter_connect h st ctx)) = events st @ [r] \<and>
    readEvent boot EventKindNetwork r = Some ev \<and> Family ev = 10 \<and>
    RemotePort ev = be_word [p, q] \<and> RemoteAddr ev = IPv6Text v6"
  using assms(3-6) tpc.submitted [OF assms(1,2)]
    readEvent_connect [OF assms(1) bpf_helpers.reserve_length [OF assms(1)]] ntohs_bytes [of p q]
  by (simp add: offset_simps AF_INET_def AF_INET6_def)

section \<open>LSM programs\<close>

text \<open>
  C20. A decision of the LSM programs on a named object arrives in userspace with the task, its
  cgroup, the kind of the hook and the whole name that was read.
\<close>

theorem lsm_event_delivered:
  assumes "bpf_helpers h" and "hook_request h c = Some rq"
    and "bpf_ringbuf_reserve h (lsm_events st) (size_of struct_warmor_event) = Some buf"
    and "verdict_event (decide (abs_state st) (bpf_get_current_cgroup_id h) (hook_event_type c)
           (rq_hash rq)) = Some d"
    and "rq_name rq = Some name" and "0 \<in> set name" and "length name \<le> 256" and "0 < rq_len rq"
  shows "\<exists>r ev. lsm_events (snd (run_hook h st c)) = lsm_events st @ [r] \<and>
    ReadLSMEvent boot r = Some ev \<and>
    PID ev = ucast (drop_bit 32 (bpf_get_current_pid_tgid h)) \<and>
    UID ev = ucast (bpf_get_current_uid_gid h) \<and>
    CgroupID ev = bpf_get_current_cgroup_id h \<and> Filename ev = cstr name \<and>
    Kind ev = (if hook_event_type c \<in> {EVENT_TYPE_FILE, EVENT_TYPE_MOUNT} then EventKindFile
               else if hook_event_type c \<in> {EVENT_TYPE_NETWORK, EVENT_TYPE_BIND, EVENT_TYPE_LISTEN}
               then EventKindNetwork else EventKindProcess)"
proof -
  have res: "bpf_ringbuf_reserve h (lsm_events st) 328 = Some buf"
    using assms(3) by (simp add: offset_simps)
  have len: "length buf = 328"
    using bpf_helpers.reserve_length [OF assms(1) res] .
  obtain r where r: "lsm_events (snd (run_hook h st c)) = lsm_events st @ [r]" "length r = 328"
      and w: "ev_pid (warmor_event_of r) = ucast (drop_bit 32 (bpf_get_current_pid_tgid h))"
      "ev_uid (warmor_event_of r) = ucast (bpf_get_current_uid_gid h)"
      "ev_cgroup_id (warmor_event_of r) = bpf_get_current_cgroup_id h"
      "ev_event_type (warmor_event_of r) = hook_event_type c"
      "cstr (ev_filename (warmor_event_of r)) = cstr name"
    using hook_record [OF assms(1,2) res assms(4)] record_name [OF assms(1) len assms(5-8)]
    by (metis (no_types, lifting) warmor_event.select_convs)
  obtain ev where ev: "ReadLSMEvent boot r = Some ev"
    using ReadLSMEvent_members(1) [OF r(2)] by blast
  show ?thesis
    using r(1) ev ReadLSMEvent_members(2,3) [OF r(2) ev] w by auto
qed

theorem lsm_event_delivered_witness:
  "\<exists>r ev. lsm_events (snd (run_hook demo demo_state demo_exec)) = [r] \<and>
     ReadLSMEvent 0 r = Some ev \<and> PID ev = 42 \<and> CgroupID ev = 7 \<and>
     Filename ev = [47, 98, 105, 110, 47, 115, 104] \<and> Kind ev = EventKindProcess"
proof -
  have "verdict_event (decide (abs_state demo_state) 7 EVENT_TYPE_EXEC (fnv1a_hash demo_name 8)) = Some 1"
    by (simp add: decide_matching demo_match ACTION_DENY_def)
  moreover have "lsm_events demo_state = []" and "hook_event_type demo_exec = EVENT_TYPE_EXEC"
    by (simp_all add: demo_state_def demo_exec_def)
  moreover have "0 \<in> set demo_name" and "length demo_name = 64"
    and "cstr demo_name = [47, 98, 105, 110, 47, 115, 104]"
    by (simp_all add: demo_name_def cstr_def)
  moreover have "ucast (drop_bit 32 (bpf_get_current_pid_tgid demo)) = (42 :: u32)"
    by (simp add: demo_def mem_helpers_def)
  ultimately show ?thesis
    using lsm_event_delivered [OF demo_helpers demo_exec_request, of demo_state "replicate 328 0" 1 demo_name 0]
    by (auto simp: demo_fields offset_simps event_type_defs)
qed

text \<open>
  A decision on an IPv4 endpoint arrives with the address in order but with the port still in
  network byte order (port 443 is reported as 47873); an endpoint whose address is 0.0.0.0 is
  reported as IPv6.
\<close>

lemma lsm_network_event_delivered:
  assumes "bpf_helpers h" and "hook_request h c = Some rq"
    and "bpf_ringbuf_reserve h (lsm_events st) (size_of struct_warmor_event) = Some buf"
    and "verdict_event (decide (abs_state st) (bpf_get_current_cgroup_id h) (hook_event_type c)
           (rq_hash rq)) = Some d"
    and "hook_event_type c \<in> {EVENT_TYPE_NETWORK, EVENT_TYPE_BIND}"
  shows "\<exists>r ev. lsm_events (snd (run_hook h st c)) = lsm_events st @ [r] \<and>
    ReadLSMEvent boot r = Some ev \<and> Kind ev = EventKindNetwork \<and> RemotePort ev = rq_port rq \<and>
    (if rq_v4 rq \<noteq> 0 then RemoteAddr ev = IPv4Text (le_bytes 4 (rq_v4 rq)) \<and> Family ev = 2
     else RemoteAddr ev = IPv6Text (v6_bytes (rq_v6 rq)) \<and> Family ev = 10)"
proof -
  have res: "bpf_ringbuf_reserve h (lsm_events st) 328 = Some buf"
    using assms(3) by (simp add: offset_simps)
  obtain r where r: "lsm_events (snd (run_hook h st c)) = lsm_events st @ [r]" "length r = 328"
      and w: "ev_event_type (warmor_event_of r) = hook_event_type c"
      "ev_remote_port (warmor_event_of r) = rq_port rq"
      "ev_remote_addr_v4 (warmor_event_of r) = rq_v4 rq"
      "ev_remote_addr_v6 (warmor_event_of r) = v6_bytes (rq_v6 rq)"
    using hook_record [OF assms(1,2) res assms(4)]
    by (metis (no_types, lifting) warmor_event.select_convs)
  obtain ev where ev: "ReadLSMEvent boot r = Some ev"
    using ReadLSMEvent_members(1) [OF r(2)] by blast
  have "Kind ev = EventKindNetwork"
    using ReadLSMEvent_members(3) [OF r(2) ev] w(1) assms(5) by (auto simp: event_type_defs)
  then show ?thesis
    using r(1) ev ReadLSMEvent_members(4) [OF r(2) ev] w assms(5) by auto
qed

end
