(* ===== verification/Enforcer_Properties.thy ===== *)
theory Enforcer_Properties
  imports Enforcer_Facts Linux_Platform System_Properties Event_Properties
begin

text \<open>
  The properties of the enforcer and of its composition with the kernel programs: from a system
  call through the monitors, the policy and the rule that it becomes to the next system call.
\<close>

section \<open>A demo enforcer\<close>

text \<open>
  A policy that always gives the same answer, in a pool of one instance, behind an enforcer with an
  empty cache.
\<close>

definition demo_engine :: "u64 \<Rightarrow> unit wasm_engine" where
  "demo_engine verdict =
     \<lparr> wz_instantiate = (\<lambda>n. Inr ()), wz_exports = (\<lambda>i f. f = ''evaluate_event'' \<or> f = ''malloc''),
       wz_call = (\<lambda>ctx i f args. (Inr (if f = ''evaluate_event'' then verdict else 0), i)),
       wz_write = (\<lambda>i ptr bs. Some i), wz_read = (\<lambda>i ptr len. None) \<rparr>"

definition demo_pool :: "unit pool" where
  "demo_pool =
     \<lparr> pl_instances = [\<lparr> po_instance = (), po_eventBufPtr = 0, po_useBinaryABI = True \<rparr>],
       pl_closed = False, pl_size = 1, pl_counter = 1 \<rparr>"

definition demo_enforcer :: "bool \<Rightarrow> 'm option \<Rightarrow> (unit, 'm) enforcer" where
  "demo_enforcer auditMode policyMap =
     \<lparr> en_pools = [demo_pool], en_evaluator = 0, en_pool = 0, en_results = [],
       en_cache = NewDecisionCache 10000 300000000000, en_handler = NewActionHandler auditMode,
       en_policyMap = policyMap, en_pipeline = False, en_lineage = NewTracker 0 0,
       en_netFilter = None, en_sandbox = Some (NewSandboxManager DefaultProfiles),
       en_learningMode = False \<rparr>"

definition demo_inputs :: "int \<Rightarrow> inputs" where
  "demo_inputs now =
     \<lparr> in_visit_processes = id, in_visit_entries = id, in_exec_time = now, in_rate_time = now,
       in_result_time = now, in_get_time = now, in_cancelled = None, in_eval_start = now,
       in_eval_stop = now, in_put_time = now \<rparr>"

lemma visits_all_id [simp]: "visits_all id"
  by (simp add: visits_all_def)

lemma demo_enforcer_wf [simp]: "wf_enforcer (demo_enforcer auditMode policyMap)"
  by (simp add: wf_enforcer_def demo_enforcer_def demo_pool_def pool_ready_def NewDecisionCache_def wf_cache_def
      NewTracker_def orphans_def)

lemma demo_decides [simp]: "decides (demo_engine verdict) demo_pool event = Inr (action_of verdict)"
  by (simp add: decides_def demo_pool_def Policy_Evaluate_def evaluateBinary_def demo_engine_def Let_def)

lemma demo_misses [simp]: "misses (demo_inputs now) event (demo_enforcer auditMode policyMap)"
  by (simp add: misses_def early_denial_def check_network_def check_sandbox_def demo_enforcer_def demo_inputs_def
      record_exec_def get_key_def NewDecisionCache_def NewSandboxManager_def CheckViolation_def Let_def)

lemma demo_enforcer_fields [simp]:
  "en_policyMap (demo_enforcer auditMode policyMap) = policyMap"
  "en_pools (demo_enforcer auditMode policyMap) ! en_evaluator (demo_enforcer auditMode policyMap) = demo_pool"
  "ah_auditMode (en_handler (demo_enforcer auditMode policyMap)) = auditMode"
  "in_cancelled (demo_inputs now) = None" "in_visit_entries (demo_inputs now) = id"
  "in_get_time (demo_inputs now) = now" "in_put_time (demo_inputs now) = now"
  by (simp_all add: demo_enforcer_def demo_inputs_def NewActionHandler_def)

text \<open>Executions of \<open>/bin/sh\<close> and maps in which enforcement is on.\<close>

definition sh_path :: bytes where
  "sh_path = [47, 98, 105, 110, 47, 115, 104]"

definition demo_sh :: event where
  "demo_sh =
     \<lparr> Kind = EventKindProcess, PID = 42, UID = 0, GID = 0, Comm = [65], Filename = sh_path, Flags = 0,
       Mode = 0, RemoteAddr = NoAddr, RemotePort = 0, Family = 0, Timestamp = 5, CgroupID = 7 \<rparr>"

definition demo_maps :: lsm_state where
  "demo_maps = SetEnforce boot True"

lemma demo_maps_facts [simp]:
  "wf_state demo_maps" "is_enforce_enabled demo_maps" "\<not> should_skip_cgroup demo_maps cg"
  "fst (SetRule demo_maps cg etype pattern act log) = None"
  using boot_wf
  by (simp_all add: demo_maps_def SetEnforce_wf SetEnforce_enabled)
    (simp_all add: SetEnforce_def boot_def should_skip_cgroup_def bpf_map_lookup_elem_def SetRule_def put_rule_def
      bpf_map_update_elem_def POLICY_MAP_MAX_ENTRIES_def Let_def)

lemma demo_sh_request:
  "hook_request demo (BprmCheck 4096 0) = Some (the (hook_request demo demo_exec))"
  "rq_name (the (hook_request demo demo_exec)) = Some demo_name" "cstr demo_name = sh_path"
  using demo_exec_request by (simp_all add: demo_exec_def demo_name_facts sh_path_def)

lemma sh_path_facts [simp]: "sh_path \<noteq> []" "length sh_path \<le> 16" "\<forall>b \<in> set sh_path. b < 128"
  by (simp_all add: sh_path_def)

section \<open>The event loop\<close>



section \<open>From a denial to a kernel rule\<close>

lemma event_type_distinct [simp]:
  "EventTypeFile \<noteq> EventTypeProcess" "EventTypeNetwork \<noteq> EventTypeProcess" "EventTypeNetwork \<noteq> EventTypeFile"
  "EventTypeProcess \<noteq> EventTypeFile" "EventTypeProcess \<noteq> EventTypeNetwork" "EventTypeFile \<noteq> EventTypeNetwork"
  by (simp_all add: EventTypeProcess_def EventTypeFile_def EventTypeNetwork_def)

lemma GetType_process [simp]: "GetType (monitorProcessEvents ev) = EventTypeProcess"
  by (simp add: monitorProcessEvents_def linux_event_def linux_base_def GetType_def EventTypeProcess_def)

lemma GetType_file [simp]: "GetType (monitorFileEvents ev) = EventTypeFile"
  by (simp add: monitorFileEvents_def linux_event_def GetType_def EventTypeFile_def)

lemma GetType_network [simp]: "GetType (monitorNetworkEvents ev) = EventTypeNetwork"
  by (simp add: monitorNetworkEvents_def linux_event_def GetType_def EventTypeNetwork_def)

lemma monitor_event_fields [simp]:
  "ae_PID (monitorProcessEvents ev) = PID ev" "ae_LSMEvent (monitorProcessEvents ev) = False"
  "ae_PID (monitorFileEvents ev) = PID ev" "ae_LSMEvent (monitorFileEvents ev) = False"
  "ae_PID (monitorNetworkEvents ev) = PID ev" "ae_LSMEvent (monitorNetworkEvents ev) = False"
  by (simp_all add: monitorProcessEvents_def monitorFileEvents_def monitorNetworkEvents_def linux_event_def)

lemma sync_process:
  "Filename ev \<noteq> [] \<Longrightarrow>
   syncToPolicyMap SetRule (monitorProcessEvents ev) ActionDeny aud maps =
     snd (SetRule maps (CgroupID ev) EVENT_TYPE_EXEC (Filename ev) ACTION_DENY aud)"
  by (simp add: syncToPolicyMap_def) (simp add: monitorProcessEvents_def linux_event_def EVENT_TYPE_EXEC_def ACTION_DENY_def)

text \<open>A denial that the policy gives, for audit or not, becomes a deny rule.\<close>

lemma denial_becomes_rule:
  assumes "wf_enforcer st" and "misses inp (monitorProcessEvents ev) st" and "in_cancelled inp = None"
    and "decides w (en_pools st ! en_evaluator st) (monitorProcessEvents ev) = Inr act"
    and "act = ActionDeny \<or> act = ActionAuditDeny" and "en_policyMap st = Some maps" and "Filename ev \<noteq> []"
  shows "\<exists>effs st'. handleEvent w SetRule inp (monitorProcessEvents ev) st = Returned (effs, st') \<and>
    (\<forall>pid. TerminateProcess pid \<in> set effs \<longleftrightarrow>
       pid = PID ev \<and> pid \<noteq> 0 \<and> act = ActionDeny \<and> \<not> ah_auditMode (en_handler st)) \<and>
    en_policyMap st' = Some (snd (SetRule maps (CgroupID ev) EVENT_TYPE_EXEC (Filename ev) ACTION_DENY
      (act = ActionAuditDeny)))"
proof -
  let ?st = "\<lambda>pool. (checked inp (monitorProcessEvents ev) st)\<lparr>en_pools := (en_pools st)[en_evaluator st := pool]\<rparr>"
  obtain res pool where h: "handleEvent w SetRule inp (monitorProcessEvents ev) st =
      Returned (settle_event SetRule inp (monitorProcessEvents ev) res (?st pool))"
      and a: "answers w (in_cancelled inp) (en_pools st ! en_evaluator st) (monitorProcessEvents ev) res"
    using handleEvent_miss [OF assms(1,2), of w SetRule] by blast
  have deny: "ar_Action (answer inp res) = ActionDeny" "ar_Audit (answer inp res) \<longleftrightarrow> act = ActionAuditDeny"
    using a assms(3-5) by (auto simp: answers_def answer_def)
  have distinct: "ActionDeny \<noteq> ActionAuditDeny"
    by (simp add: ActionDeny_def ActionAuditDeny_def)
  let ?x = "settle_event SetRule inp (monitorProcessEvents ev) res (?st pool)"
  have "TerminateProcess pid \<in> set (fst ?x) \<longleftrightarrow>
      pid = PID ev \<and> pid \<noteq> 0 \<and> act = ActionDeny \<and> \<not> ah_auditMode (en_handler st)" for pid
    using assms(5) distinct by (auto simp: settle_kills kills_def deny)
  moreover have "en_policyMap (snd ?x) = Some (snd (SetRule maps (CgroupID ev) EVENT_TYPE_EXEC (Filename ev)
      ACTION_DENY (act = ActionAuditDeny)))"
    using assms(6,7) by (simp add: settle_event_state deny sync_process)
  ultimately show ?thesis
    using h by (intro exI [of _ "fst ?x"] exI [of _ "snd ?x"]) simp
qed

lemma ruled_exec_refused:
  assumes "bpf_helpers h" and "wf_state maps" and "is_enforce_enabled maps"
    and "\<not> should_skip_cgroup maps (bpf_get_current_cgroup_id h)"
    and "fst (SetRule maps (bpf_get_current_cgroup_id h) EVENT_TYPE_EXEC path ACTION_DENY log) = None"
    and "hook_request h (BprmCheck bprm 0) = Some rq" and "rq_name rq = Some name"
    and "cstr name = path" and "length path \<le> 16" and "\<forall>b \<in> set path. b < 128"
  shows "fst (run_hook h (snd (SetRule maps (bpf_get_current_cgroup_id h) EVENT_TYPE_EXEC path ACTION_DENY log))
    (BprmCheck bprm 0)) = - 1"
proof (rule deny_lookup_refuses [OF assms(1) _ _ _ assms(6-10)])
  let ?cg = "bpf_get_current_cgroup_id h"
  let ?maps = "snd (SetRule maps ?cg EVENT_TYPE_EXEC path ACTION_DENY log)"
  have set: "SetRule maps ?cg EVENT_TYPE_EXEC path ACTION_DENY log = (None, ?maps)"
    using assms(5) by (metis prod.collapse)
  have frame: "lsm_cgroup_filter ?maps = lsm_cgroup_filter maps" "lsm_enforce ?maps = lsm_enforce maps"
    using put_rule_frame set unfolding SetRule_def Let_def by metis+
  show "is_enforce_enabled ?maps"
    using assms(3) frame(2) by (simp add: is_enforce_enabled_def)
  show "\<not> should_skip_cgroup ?maps ?cg"
    using assms(4) unfolding should_skip_cgroup_def frame(1) .
  show "bpf_map_lookup_elem (policy_map ?maps) (rule_key ?cg EVENT_TYPE_EXEC (HashPattern path)) =
      Some (rule_value ACTION_DENY log)"
    using SetRule_lookup [OF assms(2) set] by simp
qed





text \<open>A rule under another hash than that of a call does not change its verdict.\<close>

lemma other_hash_no_effect:
  assumes "wf_state maps" and "hook_request h c = Some rq" and "rq_hash rq \<noteq> HashPattern pattern"
  shows "fst (run_hook h (snd (SetRule maps cgid etype pattern act log)) c) = fst (run_hook h maps c)"
proof -
  let ?maps = "snd (SetRule maps cgid etype pattern act log)" and ?cg = "bpf_get_current_cgroup_id h"
  obtain err where set: "SetRule maps cgid etype pattern act log = (err, ?maps)"
    by (metis prod.collapse)
  have frame: "lsm_cgroup_filter ?maps = lsm_cgroup_filter maps" "lsm_enforce ?maps = lsm_enforce maps"
      "err \<noteq> None \<Longrightarrow> ?maps = maps"
    using put_rule_frame set unfolding SetRule_def Let_def by metis+
  have look: "bpf_map_lookup_elem (policy_map ?maps) (rule_key cg et (rq_hash rq)) =
      bpf_map_lookup_elem (policy_map maps) (rule_key cg et (rq_hash rq))" for cg et
  proof (cases err)
    case None
    then show ?thesis
      using SetRule_lookup [OF assms(1)] set assms(3) by (auto simp: rule_key_def)
  qed (use frame(3) in simp)
  have "decide (abs_state ?maps) ?cg (hook_event_type c) (rq_hash rq) =
      decide (abs_state maps) ?cg (hook_event_type c) (rq_hash rq)"
    by (rule decide_agree) (simp_all add: abs_state_def look frame is_enforce_enabled_def)
  then show ?thesis
    using hook_spec(1) [OF assms(2)] by simp
qed



section \<open>Failures\<close>

lemma Get_key:
  "fst (Get results now event c) =
     map_option (\<lambda>a. (results ! a)\<lparr>ar_Cached := True\<rparr>) (fst (get_key now (makeKey event) c))"
  by (simp add: Get_def split: prod.split)

text \<open>What a miss leaves for the next event with the same key.\<close>

lemma miss_then_hit:
  assumes "t \<le> in_put_time inp + dc_ttl (en_cache st)" and "makeKey event' = makeKey event"
    and "st' = snd (settle_event set_rule inp event res st)"
  shows "fst (get_key t (makeKey event') (en_cache st')) = Some (length (en_results st))"
    and "en_results st' ! length (en_results st) = enforced event (answer inp res) (en_handler st)"
  using assms dcache.put_same [of "in_visit_entries inp" "in_put_time inp" "makeKey event" "length (en_results st)" "en_cache st"]
  by (simp_all add: settle_event_state get_key_lookup)

text \<open>
  C21. The enforcer fails closed: when the policy cannot be asked (the context is cancelled) or fails,
  the event is denied: the error is counted, the process is terminated unless the enforcer runs in
  audit mode, the denial becomes a rule (for an event that did not come from the LSM programs), and
  every event with the same key is denied from the cache until the entry expires.
\<close>

theorem evaluation_failure_denies:
  assumes "wf_enforcer st" and "misses inp event st"
    and "in_cancelled inp \<noteq> None \<or> (\<exists>err. decides w (en_pools st ! en_evaluator st) event = Inl err)"
  shows "\<exists>effs st'. handleEvent w set_rule inp event st = Returned (effs, st') \<and>
    RecordProcessingError \<in> set effs \<and>
    (TerminateProcess (ae_PID event) \<in> set effs \<longleftrightarrow> ae_PID event \<noteq> 0 \<and> \<not> ah_auditMode (en_handler st)) \<and>
    (\<not> ae_LSMEvent event \<longrightarrow>
       en_policyMap st' = map_option (syncToPolicyMap set_rule event ActionDeny False) (en_policyMap st)) \<and>
    (\<forall>event' t. makeKey event' = makeKey event \<and> t \<le> in_put_time inp + dc_ttl (en_cache st) \<longrightarrow>
       (\<exists>r. fst (Get (en_results st') t event' (en_cache st')) = Some r \<and> ar_Action r = ActionDeny))"
proof -
  let ?st = "\<lambda>pool. (checked inp event st)\<lparr>en_pools := (en_pools st)[en_evaluator st := pool]\<rparr>"
  obtain res pool where h: "handleEvent w set_rule inp event st =
      Returned (settle_event set_rule inp event res (?st pool))"
      and a: "answers w (in_cancelled inp) (en_pools st ! en_evaluator st) event res"
    using handleEvent_miss [OF assms(1,2), of w set_rule] by blast
  obtain err where res: "res = Inl err"
    using a assms(3) by (auto simp: answers_def split: option.splits)
  let ?x = "settle_event set_rule inp event res (?st pool)"
  have deny: "ar_Action (answer inp res) = ActionDeny" "\<not> ar_Audit (answer inp res)"
    by (simp_all add: res answer_def plain_result_def)
  have "RecordProcessingError \<in> set (fst ?x)"
    by (simp add: settle_effects res Let_def)
  moreover have "TerminateProcess (ae_PID event) \<in> set (fst ?x) \<longleftrightarrow>
      ae_PID event \<noteq> 0 \<and> \<not> ah_auditMode (en_handler st)"
    by (auto simp: settle_kills kills_def deny)
  moreover have "\<not> ae_LSMEvent event \<longrightarrow>
      en_policyMap (snd ?x) = map_option (syncToPolicyMap set_rule event ActionDeny False) (en_policyMap st)"
    by (simp add: settle_event_state deny)
  moreover have "\<exists>r. fst (Get (en_results (snd ?x)) t event' (en_cache (snd ?x))) = Some r \<and> ar_Action r = ActionDeny"
    if "makeKey event' = makeKey event" and "t \<le> in_put_time inp + dc_ttl (en_cache st)" for event' t
    using miss_then_hit [of t inp "?st pool" event' event _ set_rule res] that
    by (simp add: Get_key deny)
  ultimately show ?thesis
    using h by (intro exI [of _ "fst ?x"] exI [of _ "snd ?x"]) simp
qed

theorem evaluation_failure_denies_witness:
  "\<exists>effs st'. handleEvent (demo_engine 0) SetRule ((demo_inputs 0)\<lparr>in_cancelled := Some []\<rparr>)
      (monitorProcessEvents demo_sh) (demo_enforcer False (Some demo_maps)) = Returned (effs, st') \<and>
    TerminateProcess 42 \<in> set effs"
proof -
  have "misses ((demo_inputs 0)\<lparr>in_cancelled := Some []\<rparr>) (monitorProcessEvents demo_sh) (demo_enforcer False (Some demo_maps))"
    using demo_misses [of 0 "monitorProcessEvents demo_sh" False "Some demo_maps"]
    by (simp add: misses_def early_denial_def check_network_def record_exec_def demo_enforcer_def)
  then show ?thesis
    using evaluation_failure_denies [of "demo_enforcer False (Some demo_maps)" "(demo_inputs 0)\<lparr>in_cancelled := Some []\<rparr>"
        "monitorProcessEvents demo_sh" "demo_engine 0" SetRule]
    by (auto simp: demo_sh_def)
qed

text \<open>
  An answer that is no known action fails open: the process is not terminated, no counter moves,
  and the kernel gets an allow rule for the path.
\<close>

lemma unknown_action_allows:
  assumes "wf_enforcer st" and "misses inp (monitorProcessEvents ev) st" and "in_cancelled inp = None"
    and "decides w (en_pools st ! en_evaluator st) (monitorProcessEvents ev) = Inr act"
    and "act \<notin> {ActionAllow, ActionDeny, ActionLog, ActionAuditDeny}"
    and "en_policyMap st = Some maps" and "Filename ev \<noteq> []"
  shows "\<exists>effs st'. handleEvent w SetRule inp (monitorProcessEvents ev) st = Returned (effs, st') \<and>
    (\<forall>pid. TerminateProcess pid \<notin> set effs) \<and> en_handler st' = en_handler st \<and>
    en_policyMap st' = Some (snd (SetRule maps (CgroupID ev) EVENT_TYPE_EXEC (Filename ev) ACTION_ALLOW False))"
proof -
  let ?st = "\<lambda>pool. (checked inp (monitorProcessEvents ev) st)\<lparr>en_pools := (en_pools st)[en_evaluator st := pool]\<rparr>"
  obtain res pool where h: "handleEvent w SetRule inp (monitorProcessEvents ev) st =
      Returned (settle_event SetRule inp (monitorProcessEvents ev) res (?st pool))"
      and a: "answers w (in_cancelled inp) (en_pools st ! en_evaluator st) (monitorProcessEvents ev) res"
    using handleEvent_miss [OF assms(1,2), of w SetRule] by blast
  let ?x = "settle_event SetRule inp (monitorProcessEvents ev) res (?st pool)"
  have act: "ar_Action (answer inp res) = act" "\<not> ar_Audit (answer inp res)"
    using a assms(3-5) by (auto simp: answers_def answer_def)
  have "TerminateProcess pid \<notin> set (fst ?x)" for pid
    using assms(5) by (simp add: settle_kills kills_def act)
  moreover have "en_handler (snd ?x) = en_handler st"
    using assms(5) by (simp add: settle_event_state handled_def Enforce_def act)
  moreover have "syncToPolicyMap SetRule (monitorProcessEvents ev) act False maps =
      snd (SetRule maps (CgroupID ev) EVENT_TYPE_EXEC (Filename ev) ACTION_ALLOW False)"
    using assms(5,7)
    by (simp add: syncToPolicyMap_def) (simp add: monitorProcessEvents_def linux_event_def EVENT_TYPE_EXEC_def ACTION_ALLOW_def)
  then have "en_policyMap (snd ?x) =
      Some (snd (SetRule maps (CgroupID ev) EVENT_TYPE_EXEC (Filename ev) ACTION_ALLOW False))"
    using assms(6) by (simp add: settle_event_state act)
  ultimately show ?thesis
    using h by (intro exI [of _ "fst ?x"] exI [of _ "snd ?x"]) simp
qed

text \<open>
  C22. In audit mode the enforcer terminates no process, whatever events arrive and whatever the
  policy, the network filter and the sandbox say.
\<close>

theorem audit_mode_never_kills:
  assumes "eventLoop w set_rule arrivals st = Returned (effs, st')" and "ah_auditMode (en_handler st)"
  shows "TerminateProcess pid \<notin> set effs"
  using assms by (rule eventLoop_audit)

theorem audit_mode_never_kills_witness:
  "\<exists>effs st'. eventLoop (demo_engine 1) SetRule [(demo_inputs 0, monitorProcessEvents demo_sh)]
     (demo_enforcer True (Some demo_maps)) = Returned (effs, st') \<and> TerminateProcess 42 \<notin> set effs"
proof -
  obtain effs st' where "eventLoop (demo_engine 1) SetRule [(demo_inputs 0, monitorProcessEvents demo_sh)]
     (demo_enforcer True (Some demo_maps)) = Returned (effs, st')"
    using eventLoop_returns [of "demo_enforcer True (Some demo_maps)" "[(demo_inputs 0, monitorProcessEvents demo_sh)]"
        "demo_engine 1" SetRule] by auto
  moreover from this have "TerminateProcess 42 \<notin> set effs"
    by (rule audit_mode_never_kills) simp
  ultimately show ?thesis by blast
qed

section \<open>Cached decisions\<close>

text \<open>
  C7. A cached decision is one that was made: when the enforcer, having handled any sequence of
  events since it started with an empty cache, answers an event from the cache, the answer is the
  decision that it logged for an earlier event of the sequence, made by the policy on a miss, with
  the same kind, PID, UID and digest, and not older than the time to live.
\<close>

theorem cached_decision_was_made:
  assumes "dc_entries (en_cache st) = []" and "eventLoop w set_rule arrivals st = Returned (effs, st')"
    and "fst (Get (en_results st') now event (en_cache st')) = Some result"
  shows "\<exists>pre inp e post effs0 st0 effs1 st1 r. arrivals = pre @ (inp, e) # post \<and>
    eventLoop w set_rule pre st = Returned (effs0, st0) \<and>
    handleEvent w set_rule inp e st0 = Returned (effs1, st1) \<and>
    RecordCacheMiss \<in> set effs1 \<and> LogEvent e r \<in> set effs1 \<and> result = r\<lparr>ar_Cached := True\<rparr> \<and>
    EventType_String (GetType e) = EventType_String (GetType event) \<and> ae_PID e = ae_PID event \<and>
    ae_UID e = ae_UID event \<and> take 8 (sha256 (hashed_text e)) = take 8 (sha256 (hashed_text event)) \<and>
    now \<le> in_put_time inp + dc_ttl (en_cache st)"
proof -
  let ?ops = "loop_ops w set_rule arrivals st"
  have cache: "en_cache st' = run_cache ?ops (en_cache st)"
    using eventLoop_cache [OF assms(2)] by blast
  obtain a where a: "fst (get_key now (makeKey event) (en_cache st')) = Some a"
      "result = (en_results st' ! a)\<lparr>ar_Cached := True\<rparr>"
    using assms(3) by (auto simp: Get_key)
  then obtain x where x: "lookup_entry (en_cache st') (makeKey event) = Some (a, x)" "now \<le> x"
    by (auto simp: get_key_lookup split: option.splits if_splits)
  then obtain t where t: "last_put ?ops (makeKey event) None = Some (a, t)" "x = t + dc_ttl (en_cache st)"
    using dcache.provenance [of ?ops "en_cache st" "makeKey event" a x None] assms(1) cache
    by (auto simp: lookup_entry_def)
  then obtain pre inp e post effs0 st0 where m: "arrivals = pre @ (inp, e) # post"
      "eventLoop w set_rule pre st = Returned (effs0, st0)" "misses inp e st0" "makeKey e = makeKey event"
      "a = length (en_results st0)" "t = in_put_time inp"
    using last_put_loop [OF assms(2)] by fastforce
  then obtain effs1 st1 effs2 where h: "handleEvent w set_rule inp e st0 = Returned (effs1, st1)"
      "eventLoop w set_rule post st1 = Returned (effs2, st')"
    using assms(2) by (auto simp: eventLoop_append split: outcome.splits prod.splits)
  obtain r where "en_results st1 = en_results st0 @ [r]" "LogEvent e r \<in> set effs1" "RecordCacheMiss \<in> set effs1"
    using handleEvent_results [OF h(1)] m(3) by auto
  moreover from this have "en_results st' ! a = r"
    using eventLoop_cache [OF h(2)] m(5) by (auto simp: nth_append)
  ultimately show ?thesis
    using m h(1) x(2) t(2) a(2) makeKey_inject [OF m(4)] by blast
qed

lemma demo_enforcer_cache:
  "dc_entries (en_cache (demo_enforcer auditMode policyMap)) = []"
  "dc_ttl (en_cache (demo_enforcer auditMode policyMap)) = 300000000000"
  by (simp_all add: demo_enforcer_def NewDecisionCache_def)

text \<open>The demo enforcer after one event, and its cache for later events with that key.\<close>

lemma demo_handled:
  "\<exists>effs st' r. handleEvent (demo_engine verdict) SetRule (demo_inputs 0) event (demo_enforcer auditMode policyMap) =
       Returned (effs, st') \<and> wf_enforcer st' \<and>
     (\<forall>event' t. makeKey event' = makeKey event \<and> t \<le> 300000000000 \<longrightarrow>
        fst (Get (en_results st') t event' (en_cache st')) = Some (r\<lparr>ar_Cached := True\<rparr>)) \<and>
     ar_Action r = (if action_of verdict = ActionAuditDeny then ActionDeny else action_of verdict) \<and>
     \<not> ar_Cached r \<and> (\<forall>inp event. early_denial inp event st' = None)"
proof -
  let ?st = "demo_enforcer auditMode policyMap"
  let ?st1 = "\<lambda>pool. (checked (demo_inputs 0) event ?st)\<lparr>en_pools := (en_pools ?st)[en_evaluator ?st := pool]\<rparr>"
  obtain res pool where h: "handleEvent (demo_engine verdict) SetRule (demo_inputs 0) event ?st =
      Returned (settle_event SetRule (demo_inputs 0) event res (?st1 pool))"
      and a: "answers (demo_engine verdict) (in_cancelled (demo_inputs 0)) (en_pools ?st ! en_evaluator ?st) event res"
    using handleEvent_miss [OF demo_enforcer_wf demo_misses, of "demo_engine verdict" SetRule] by blast
  let ?x = "settle_event SetRule (demo_inputs 0) event res (?st1 pool)"
  let ?r = "enforced event (answer (demo_inputs 0) res) (en_handler ?st)"
  have "wf_enforcer (snd ?x)"
    using handleEvent_returns [of ?st "demo_inputs 0" "demo_engine verdict" SetRule event] h by auto
  moreover have "fst (Get (en_results (snd ?x)) t event' (en_cache (snd ?x))) = Some (?r\<lparr>ar_Cached := True\<rparr>)"
    if "makeKey event' = makeKey event" and "t \<le> 300000000000" for event' t
    using miss_then_hit [of t "demo_inputs 0" "?st1 pool" event' event _ SetRule res] that
    by (simp add: Get_key demo_enforcer_cache)
  moreover have "ar_Action ?r = (if action_of verdict = ActionAuditDeny then ActionDeny else action_of verdict)"
      and "\<not> ar_Cached ?r"
    using a by (auto simp: answers_def answer_def)
  moreover have "en_netFilter (snd ?x) = None" and "en_sandbox (snd ?x) = Some (NewSandboxManager DefaultProfiles)"
    by (simp_all add: settle_event_state)
      (simp_all add: demo_enforcer_def checked_def check_network_def record_exec_def)
  then have "early_denial inp event (snd ?x) = None" for inp event
    by (simp add: early_denial_def check_network_def check_sandbox_def record_exec_def NewSandboxManager_def
        CheckViolation_def Let_def)
  ultimately show ?thesis
    using h by (intro exI [of _ "fst ?x"] exI [of _ "snd ?x"] exI [of _ ?r]) simp
qed

theorem cached_decision_was_made_witness:
  "\<exists>effs st' result r. eventLoop (demo_engine 1) SetRule [(demo_inputs 0, monitorProcessEvents demo_sh)]
       (demo_enforcer False (Some demo_maps)) = Returned (effs, st') \<and>
     fst (Get (en_results st') 5 (monitorProcessEvents demo_sh) (en_cache st')) = Some result \<and>
     LogEvent (monitorProcessEvents demo_sh) r \<in> set effs \<and> result = r\<lparr>ar_Cached := True\<rparr>"
proof -
  let ?e = "monitorProcessEvents demo_sh" and ?st = "demo_enforcer False (Some demo_maps)"
  obtain effs st' result where h: "handleEvent (demo_engine 1) SetRule (demo_inputs 0) ?e ?st = Returned (effs, st')"
      and g: "fst (Get (en_results st') 5 ?e (en_cache st')) = Some result"
    using demo_handled [of 1 ?e False "Some demo_maps"] by force
  then have l: "eventLoop (demo_engine 1) SetRule [(demo_inputs 0, ?e)] ?st = Returned (effs, st')"
    by simp
  obtain r where "LogEvent ?e r \<in> set effs" and "result = r\<lparr>ar_Cached := True\<rparr>"
    using cached_decision_was_made [OF demo_enforcer_cache(1) l g] h by (auto simp: Cons_eq_append_conv)
  then show ?thesis
    using l g by blast
qed

lemma event_record_flags:
  "event_record (v\<lparr>pv_flags := x\<rparr>) = event_record v \<longleftrightarrow> x = pv_flags v"
  by (auto simp: event_record_def dest: arg_cong [where f = "le_word :: bytes \<Rightarrow> u32"])

text \<open>
  C33. The cache does not see what a policy sees: two opens of the same path by the same process that
  differ in their flags have different records for the policy but one cache key, so once the policy
  has allowed the first, the second (a write, say) passes without the policy being asked, until the
  entry expires.
\<close>

theorem write_gets_decision_on_read:
  assumes "wf_enforcer st" and "misses inp (monitorFileEvents ev) st" and "in_cancelled inp = None"
    and "decides w (en_pools st ! en_evaluator st) (monitorFileEvents ev) = Inr ActionAllow"
    and "handleEvent w set_rule inp (monitorFileEvents ev) st = Returned (effs, st')"
    and "flags \<noteq> Flags ev" and "second = monitorFileEvents (ev\<lparr>Flags := flags\<rparr>)"
    and "early_denial inp' second st' = None" and "in_get_time inp' \<le> in_put_time inp + dc_ttl (en_cache st)"
  shows "writeEventBinary (replicate eventStructSize 0) second \<noteq>
      writeEventBinary (replicate eventStructSize 0) (monitorFileEvents ev) \<and>
    (\<exists>effs' st'' r. handleEvent w' set_rule inp' second st' = Returned (effs', st'') \<and>
      RecordCacheHit \<in> set effs' \<and> LogEvent second r \<in> set effs' \<and> ar_Action r = ActionAllow \<and>
      (\<forall>pid. TerminateProcess pid \<notin> set effs'))"
proof
  have "view_of second = (view_of (monitorFileEvents ev))\<lparr>pv_flags := flags\<rparr>"
    by (simp add: view_of_def assms(7) Let_def) (simp add: monitorFileEvents_def linux_event_def)
  moreover have "pv_flags (view_of (monitorFileEvents ev)) = Flags ev"
    by (simp add: view_of_def Let_def) (simp add: monitorFileEvents_def linux_event_def)
  ultimately show "writeEventBinary (replicate eventStructSize 0) second \<noteq>
      writeEventBinary (replicate eventStructSize 0) (monitorFileEvents ev)"
    using assms(6) by (simp add: writeEventBinary_record event_record_flags)
next
  let ?st = "\<lambda>pool. (checked inp (monitorFileEvents ev) st)\<lparr>en_pools := (en_pools st)[en_evaluator st := pool]\<rparr>"
  obtain res pool where st': "st' = snd (settle_event set_rule inp (monitorFileEvents ev) res (?st pool))"
      and a: "answers w (in_cancelled inp) (en_pools st ! en_evaluator st) (monitorFileEvents ev) res"
    using handleEvent_miss [OF assms(1,2), of w set_rule] assms(5) by (metis outcome.inject(1) snd_conv)
  have key: "makeKey second = makeKey (monitorFileEvents ev)"
    by (rule makeKey_cong)
      (simp_all add: assms(7) hashed_text_def, simp_all add: monitorFileEvents_def linux_event_def)
  have allow: "ar_Action (answer inp res) = ActionAllow"
    using a assms(3,4) by (auto simp: answers_def answer_def ActionAllow_def ActionAuditDeny_def)
  have learning: "\<not> en_learningMode st'"
    using assms(2) by (simp add: st' settle_event_state misses_def)
  let ?a = "length (en_results st)"
  have hit: "fst (get_key (in_get_time inp') (makeKey second) (en_cache st')) = Some ?a"
      "en_results st' ! ?a = enforced (monitorFileEvents ev) (answer inp res) (en_handler st)"
    using miss_then_hit [OF _ key st', of "in_get_time inp'"] assms(9) by simp_all
  let ?r = "(en_results st' ! ?a)\<lparr>ar_Cached := True\<rparr>"
  let ?st' = "(checked inp' second st')\<lparr>en_cache := touch_key (in_get_time inp') (makeKey second) (en_cache st')\<rparr>"
  have h: "handleEvent w' set_rule inp' second st' = Returned (replay_event second ?r ?st')"
    using handleEvent_hit [OF assms(8) learning hit(1)] .
  have r: "ar_Action ?r = ActionAllow"
    by (simp add: hit(2) allow)
  have "RecordCacheHit \<in> set (fst (replay_event second ?r ?st'))" and "LogEvent second ?r \<in> set (fst (replay_event second ?r ?st'))"
    using r by (simp_all add: replay_event_def Enforce_def)
  moreover have "TerminateProcess pid \<notin> set (fst (replay_event second ?r ?st'))" for pid
    using r by (simp add: replay_kills kills_def)
  ultimately show "\<exists>effs' st'' r. handleEvent w' set_rule inp' second st' = Returned (effs', st'') \<and>
      RecordCacheHit \<in> set effs' \<and> LogEvent second r \<in> set effs' \<and> ar_Action r = ActionAllow \<and>
      (\<forall>pid. TerminateProcess pid \<notin> set effs')"
    using h r by (intro exI [of _ "fst (replay_event second ?r ?st')"] exI [of _ "snd (replay_event second ?r ?st')"]
        exI [of _ ?r]) simp
qed

theorem write_gets_decision_on_read_witness:
  "\<exists>effs st' effs' st'' r.
     handleEvent (demo_engine 0) SetRule (demo_inputs 0) (monitorFileEvents demo_sh)
       (demo_enforcer False (Some demo_maps)) = Returned (effs, st') \<and>
     handleEvent (demo_engine 1) SetRule (demo_inputs 9) (monitorFileEvents (demo_sh\<lparr>Flags := 1\<rparr>)) st' =
       Returned (effs', st'') \<and>
     LogEvent (monitorFileEvents (demo_sh\<lparr>Flags := 1\<rparr>)) r \<in> set effs' \<and> ar_Action r = ActionAllow"
proof -
  let ?st = "demo_enforcer False (Some demo_maps)" and ?second = "monitorFileEvents (demo_sh\<lparr>Flags := 1\<rparr>)"
  obtain effs st' where h: "handleEvent (demo_engine 0) SetRule (demo_inputs 0) (monitorFileEvents demo_sh) ?st =
      Returned (effs, st')" and e: "\<forall>inp event. early_denial inp event st' = None"
    using demo_handled [of 0 "monitorFileEvents demo_sh" False "Some demo_maps"] by blast
  have "\<exists>effs' st'' r. handleEvent (demo_engine 1) SetRule (demo_inputs 9) ?second st' = Returned (effs', st'') \<and>
      LogEvent ?second r \<in> set effs' \<and> ar_Action r = ActionAllow"
    using write_gets_decision_on_read [OF demo_enforcer_wf demo_misses _ _ h _ refl, of 1 "demo_inputs 9" "demo_engine 1"] e
    by (auto simp: demo_enforcer_cache action_of_def ActionAllow_def demo_sh_def)
  then show ?thesis
    using h by blast
qed

section \<open>Reload and shutdown\<close>

text \<open>
  C31. A reload that finds a good policy crashes the daemon, and so does the shutdown: the evaluator
  and the enforcer hold the same pool, each of them closes it, and closing a closed channel panics.
  A reload that fails earlier changes nothing.
\<close>

theorem reload_and_close_panic:
  assumes "wf_enforcer st" and "NewPool w True numCPU = Inr newPool"
  shows "ReloadPolicy w yaml None None numCPU st = Panicked \<and> Enforcer_Close st = Panicked \<and>
    (\<forall>runtime_err load_err. runtime_err \<noteq> None \<or> load_err \<noteq> None \<longrightarrow>
       (\<exists>err. ReloadPolicy w yaml runtime_err load_err numCPU st = Returned (Some err, st)))"
proof -
  have a: "en_evaluator st < length (en_pools st)" "\<not> pl_closed (en_pools st ! en_evaluator st)"
      "en_pool st = en_evaluator st"
    using assms(1) by (simp_all add: wf_enforcer_def pool_ready_def)
  then have "close_pools [en_evaluator st, en_pool st] (en_pools st @ pools) = Panicked" for pools
    by (simp add: Pool_Close_def nth_append list_update_append)
  from this [of "[newPool]"] this [of "[]"] show ?thesis
    using assms(2) by (auto simp: ReloadPolicy_def Enforcer_Close_def Let_def split: option.splits)
qed

theorem reload_and_close_panic_witness:
  "ReloadPolicy (demo_engine 0) False None None 1 (demo_enforcer False (None :: lsm_state option)) = Panicked"
proof -
  have "\<exists>pool. NewPool (demo_engine 0) True 1 = Inr pool"
    by (simp add: NewPool_def instantiate_def demo_engine_def)
  then show ?thesis
    using reload_and_close_panic [of "demo_enforcer False (None :: lsm_state option)" "demo_engine 0" 1 _ False] by auto
qed

section \<open>Lineage\<close>

text \<open>
  The enforcer never attaches a lineage to an event: it records every execution with the parent
  0, so whatever happened, no process has ancestors and the enricher leaves events as they are.
\<close>

lemma lineage_never_attached:
  assumes "wf_enforcer st" and "\<forall>(inp, event) \<in> set arrivals. visits_all (in_visit_entries inp)"
    and "eventLoop w set_rule arrivals st = Returned (effs, st')"
  shows "GetAncestors (en_lineage st') pid = [] \<and> Enrich (en_lineage st') se = se"
proof -
  have "orphans (en_lineage st')"
    using eventLoop_returns [OF assms(1,2), of w set_rule] assms(3) by (simp add: wf_enforcer_def)
  then show ?thesis
    using orphans_GetAncestors by (simp add: Enrich_def)
qed

section \<open>Sandbox\<close>

text \<open>
  C34. A process in a read-only sandbox is terminated for opening any file, also for reading and also
  while the enforcer is learning: every open counts as a write, whatever its flags are.
\<close>

theorem sandbox_kills_readers:
  assumes "en_sandbox st = Some sm" and "IsSandboxed (PID ev) sm = Some profile" and "sp_ReadOnlyFS profile"
    and "PID ev \<noteq> 0" and "\<not> ah_auditMode (en_handler st)"
  shows "\<exists>effs st'. handleEvent w set_rule inp (monitorFileEvents (ev\<lparr>Flags := flags\<rparr>)) st = Returned (effs, st') \<and>
    TerminateProcess (PID ev) \<in> set effs"
proof -
  let ?e = "monitorFileEvents (ev\<lparr>Flags := flags\<rparr>)"
  have "early_denial inp ?e st = Some (SandboxReadOnly (sp_Name profile))"
    using assms(1-3)
    by (auto simp: early_denial_def check_network_def record_exec_def check_sandbox_def eventTypeToSandboxAction_def
        CheckViolation_def IsSandboxed_def ascii_def split: option.split)
  then have "handleEvent w set_rule inp ?e st =
      Returned (deny_event inp ?e (SandboxReadOnly (sp_Name profile)) (checked inp ?e st))"
    by (simp add: handleEvent_paths)
  moreover have "TerminateProcess (PID ev) \<in>
      set (fst (deny_event inp ?e (SandboxReadOnly (sp_Name profile)) (checked inp ?e st)))"
    using assms(4,5) by (simp add: deny_kills)
  ultimately show ?thesis
    by (metis prod.collapse)
qed

theorem sandbox_kills_readers_witness:
  "\<exists>sm effs st'. ApplySandbox 42 (ascii ''readonly'') (NewSandboxManager DefaultProfiles) = Inr sm \<and>
     handleEvent (demo_engine 0) SetRule (demo_inputs 0) (monitorFileEvents (demo_sh\<lparr>Flags := 0\<rparr>))
       ((demo_enforcer False (Some demo_maps))\<lparr>en_sandbox := Some sm, en_learningMode := True\<rparr>) =
       Returned (effs, st') \<and> TerminateProcess 42 \<in> set effs"
proof -
  obtain sm profile where "ApplySandbox 42 (ascii ''readonly'') (NewSandboxManager DefaultProfiles) = Inr sm"
      and "IsSandboxed 42 sm = Some profile" and "sp_ReadOnlyFS profile"
    by (simp add: ApplySandbox_def NewSandboxManager_def DefaultProfiles_def plain_profile_def IsSandboxed_def ascii_def)
  then show ?thesis
    using sandbox_kills_readers [of "(demo_enforcer False (Some demo_maps))\<lparr>en_sandbox := Some sm, en_learningMode := True\<rparr>"
        sm demo_sh profile "demo_engine 0" SetRule "demo_inputs 0" 0]
    by (auto simp: demo_sh_def)
qed

end
