(* ===== verification/Platform_Properties.thy ===== *)
theory Platform_Properties
  imports Enforcer_Properties
begin

text \<open>
  The properties of the network filter, of the record that a policy sees, and of the loading of the
  Linux platform.
\<close>

section \<open>Blocklist\<close>

lemma AddCIDR_dotted:
  "length bs = 4 \<Longrightarrow> n \<le> 32 \<Longrightarrow>
   AddCIDR (dotted bs @ 47 # print_nat 10 n) nf =
     Inr (nf\<lparr>nf_blocklists := nf_blocklists nf @
            [\<lparr> in_IP = map2 (AND) bs (CIDRMask n 32), in_Mask = CIDRMask n 32 \<rparr>]\<rparr>)"
  by (simp add: AddCIDR_def parse_block_dotted)

text \<open>
  C13. A blocked network blocks its addresses: after adding \<open>a.b.c.d/n\<close> to the blocklist exactly the
  addresses that were blocked before and those that agree with \<open>a.b.c.d\<close> in the first \<open>n\<close> bits are
  blocked.
\<close>

theorem cidr_blocks_prefix:
  assumes "length bs = 4" and "n \<le> 32" and "length e = 4"
  shows "\<exists>nf'. AddCIDR (dotted bs @ 47 # print_nat 10 n) nf = Inr nf' \<and>
    (IsBlocked nf' (dotted e) \<longleftrightarrow> IsBlocked nf (dotted e) \<or> take n (addr_bits bs) = take n (addr_bits e))"
  using assms by (auto simp: AddCIDR_dotted IsBlocked_dotted Contains_v4)

definition demo_filter :: net_filter where
  "demo_filter = \<lparr> nf_blocklists = [], nf_rateLimit = 0, nf_window = 0, nf_connCounts = [] \<rparr>"

theorem cidr_blocks_prefix_witness:
  "\<exists>nf'. AddCIDR (dotted [10, 1, 2, 3] @ 47 # print_nat 10 8) demo_filter = Inr nf' \<and>
     IsBlocked nf' (dotted [10, 0, 0, 1])"
  using cidr_blocks_prefix [of "[10, 1, 2, 3]" 8 "[10, 0, 0, 1]" demo_filter]
  by (auto simp: addr_bits_def)

lemma IPNet_String_not_dotted: "IPNet_String b \<noteq> dotted bs"
proof
  assume eq: "IPNet_String b = dotted bs"
  have "47 \<in> set (IPNet_String b) \<or> 60 \<in> set (IPNet_String b)"
    by (auto simp: IPNet_String_def ascii_def split: option.split)
  then show False
    using eq dotted_no_slash [of bs] dotted_chars [of 60 bs] by auto
qed

lemma remove_block_address: "remove_block (dotted bs) blocks = blocks"
  by (induction blocks) (simp_all add: IPNet_String_not_dotted)

lemma parse_block_address:
  "length bs = 4 \<Longrightarrow>
   parse_block (dotted bs) = Some \<lparr> in_IP = v4_prefix @ bs, in_Mask = CIDRMask 32 32 \<rparr>"
  by (simp add: parse_block_def ParseCIDR_def dotted_no_slash ParseIP_dotted)

text \<open>
  Removing undoes adding for a network that is written with zero host bits, as the filter prints
  it; an address without a prefix length can be added to the blocklist but never removed by the
  text it was added with.
\<close>

lemma cidr_removal:
  assumes "length bs = 4" and "n \<le> 32" and "map2 (AND) bs (CIDRMask n 32) = bs"
    and "text = dotted bs @ 47 # print_nat 10 n" and "\<forall>b \<in> set (nf_blocklists nf). IPNet_String b \<noteq> text"
  shows "(\<exists>nf'. AddCIDR text nf = Inr nf' \<and> RemoveCIDR text nf' = nf) \<and>
    (\<exists>nf'. AddCIDR (dotted bs) nf = Inr nf' \<and> RemoveCIDR (dotted bs) nf' = nf' \<and> IsBlocked nf' (dotted bs))"
proof
  show "\<exists>nf'. AddCIDR text nf = Inr nf' \<and> RemoveCIDR text nf' = nf"
    using assms by (simp add: AddCIDR_dotted RemoveCIDR_def remove_block_append IPNet_String_v4)
  show "\<exists>nf'. AddCIDR (dotted bs) nf = Inr nf' \<and> RemoveCIDR (dotted bs) nf' = nf' \<and>
      IsBlocked nf' (dotted bs)"
    using assms(1)
    by (simp add: AddCIDR_def parse_block_address RemoveCIDR_def remove_block_address IsBlocked_dotted
        Contains_def networkNumberAndMask_def Let_def)
qed

section \<open>Rate limit\<close>

text \<open>
  C23. The rate limit counts per process and window: in the window that a connection of a process
  opens, the first \<open>rateLimit\<close> connections of that process pass and all further ones are over the
  limit, whatever connections of other processes come in between.
\<close>

theorem rate_limit_per_window:
  assumes "0 < nf_rateLimit nf"
    and "\<forall>w. map_of (nf_connCounts nf) pid = Some w \<longrightarrow> cw_resetAt w < t0"
    and "\<forall>(t, p) \<in> set calls. t \<le> t0 + nf_window nf"
  shows "rate_answers pid ((t0, pid) # calls) nf =
    map (\<lambda>k. nf_rateLimit nf \<le> int k) [0..<Suc (length (filter (\<lambda>(t, p). p = pid) calls))]"
  using assms by (rule rate_answers_window)

theorem rate_limit_per_window_witness:
  "\<exists>nf. NewNetFilter [] 2 0 = Inr nf \<and>
     rate_answers 7 [(0, 7), (1, 9), (2, 7), (3, 7), (4, 9)] nf = [False, False, True]"
proof -
  obtain nf where nf: "NewNetFilter [] 2 0 = Inr nf" "nf_rateLimit nf = 2" "nf_window nf = 60000000000"
      "nf_connCounts nf = []"
    by (simp add: NewNetFilter_def)
  then show ?thesis
    using rate_limit_per_window [of nf 7 0 "[(1, 9), (2, 7), (3, 7), (4, 9)]"] by (simp add: upt_rec)
qed

section \<open>The network filter and the connect monitor\<close>



section \<open>What a policy sees\<close>


section \<open>Loading the platform\<close>

lemma loader_Load_closes:
  assumes "loader_Load m = Returned (Inr l, t)"
  shows "loader_Close l t = Returned {}"
proof -
  have "ta_memlock m"
    using assms by (auto simp: loader_Load_def split: if_splits)
  then show ?thesis
    using assms
    by (auto simp: loader_Load_outcome loader_Close_def loader_resources_def Let_def list_all_iff
        split: option.splits load_step.splits if_splits)
qed

lemma linux_Load_lsm:
  assumes "linux_Load cfg m = Returned (Inr p, held)"
  obtains ids p0 t where "load_lsm cfg m ids p0 t = Returned (Inr p, held)" and "lp_maps p0 = boot"
    and "lp_lsmLoader p0 = None" and "loader_Load (lm_tracer m) = Returned (Inr (lp_ebpfLoader p0), t)"
  using assms
  by (auto simp: linux_Load_def fail_closing_def Let_def split: outcome.splits sum.splits option.splits
      if_splits prod.splits)

lemma SetLSMCgroupFilter_enforce: "is_enforce_enabled (snd (SetLSMCgroupFilter st ids)) = is_enforce_enabled st"
  by (rule is_enforce_enabled_frame) (simp add: SetLSMCgroupFilter_def split: prod.split)


definition demo_tracer :: "(string \<Rightarrow> bool) \<Rightarrow> tracer" where
  "demo_tracer attached =
     \<lparr> ta_memlock = True, ta_loads = (\<lambda>_. True), ta_attaches = attached, ta_reads = (\<lambda>_. True) \<rparr>"

lemma demo_tracer_loads:
  "loader_Load (demo_tracer (\<lambda>_. True)) =
     (let l = \<lparr> ld_objs = monitors, ld_links = monitors, ld_readers = monitors \<rparr>
      in Returned (Inr l, loader_resources l))"
  by (subst loader_Load_outcome) (simp_all add: demo_tracer_def load_steps_def monitors_def step_works_def)

definition demo_platform_machine :: linux_machine where
  "demo_platform_machine =
     \<lparr> lm_tracer = demo_tracer (\<lambda>_. True), lm_statx = (\<lambda>_. Inl []), lm_isDir = (\<lambda>_. False), lm_walk = (\<lambda>_. []),
       lm_lsm = machine_with (socket_hooks @ security_list_options),
       lm_enforce_ok = True \<rparr>"

lemma demo_lsm_loads:
  obtains l held where "LoadLSM (machine_with (socket_hooks @ security_list_options)) = (Inr (Some l), held)"
proof -
  let ?m = "machine_with (socket_hooks @ security_list_options)"
  obtain result held where run: "LoadLSM ?m = (result, held)" by fastforce
  have "memlock_removed ?m" and "btf_present ?m" and "reader_opens ?m"
    and "list_all (\<lambda>p. loads ?m (fst p) \<and> attaches ?m p) lsm_attachments"
    using all_fit_with_sockets by (simp_all add: machine_with_def list_all_iff)
  then obtain l where "result = Inr (Some l)"
    using LoadLSM_outcome [OF run] machine_with_supported by blast
  then show thesis
    using run that by simp
qed

definition demo_config :: linux_config where
  "demo_config = \<lparr> lc_CgroupFilter = [], lc_LSMEnforce = True, lc_RequireLSM = True, lc_SkipLSM = False \<rparr>"




end
