(* ===== verification/Runtime_Properties.thy ===== *)
theory Runtime_Properties
  imports Linux_Readers Esf_Client Platform_Properties
begin

text \<open>
  The properties of the running platforms: the readers of the Linux platform, its automatic cgroup
  filter, and the macOS client.
\<close>

section \<open>Readers\<close>

lemma linux_Start_inv:
  "run_inv off (map rd_source (pr_readers (linux_Start p capacity))) [] (linux_Start p capacity)"
  by (auto simp: run_inv_def linux_Start_def act_lists reader_inv_live in_hand_def nth_append nth_Cons')

text \<open>
  C11. The platform delivers what the kernel reports: however the readers, the kernel and the
  enforcer interleave, what a reader has delivered are the readings of the samples of its ring
  buffer in their order, up to what it has in hand, what is still in the buffer and at most one
  event that it gave up when it was stopped; and the enforcer consumes what was delivered, in that
  order, from a channel that stays within its capacity.
\<close>

theorem readers_deliver_in_order:
  assumes "run_exec off (linux_Start p capacity) acts s" and "i < length (pr_readers (linux_Start p capacity))"
  shows "delivered acts = consumptions acts @ pr_eventChan s \<and> length (pr_eventChan s) \<le> pr_capacity s \<and>
    (\<exists>lost. readings off (rd_source (pr_readers s ! i)) (arrivals_of i acts) =
       deliveries_of i acts @ in_hand (pr_readers s ! i) @ lost @
       readings off (rd_source (pr_readers s ! i)) (rd_ring (pr_readers s ! i)) \<and>
       (lost = [] \<or> rd_state (pr_readers s ! i) = Exited \<and> length lost = 1))"
  using run_inv_exec [OF assms(1) linux_Start_inv] assms(2) by (simp add: run_inv_def reader_inv_def)

text \<open>A platform without LSM programs, whose first reader waits for a sample.\<close>

definition demo_platform :: linux_platform where
  "demo_platform =
     \<lparr> lp_ebpfLoader = \<lparr> ld_objs = monitors, ld_links = monitors, ld_readers = monitors \<rparr>,
       lp_filters = replicate 3 (Some []), lp_lsmLoader = None, lp_lsmEnabled = False, lp_maps = boot \<rparr>"

definition demo_waiting :: platform_run where
  "demo_waiting = set_reader 0 (\<lambda>rd. rd\<lparr>rd_state := Reading\<rparr>) (linux_Start demo_platform 1024)"

lemma demo_run_facts:
  "length (pr_readers (linux_Start demo_platform 1024)) = 3"
  "pr_readers demo_waiting ! 0 = \<lparr> rd_source = FromMonitor EventKindProcess, rd_state = Reading, rd_ring = [] \<rparr>"
  "length (pr_readers demo_waiting) = 3" "\<not> pr_closed demo_waiting" "\<not> pr_stopped demo_waiting"
  by (simp_all add: demo_waiting_def set_reader_def linux_Start_def demo_platform_def)

lemma demo_starts: "run_exec off (linux_Start demo_platform 1024) [Ran 0] demo_waiting"
proof -
  have "run_step off (linux_Start demo_platform 1024) (Ran 0)
      (set_reader 0 (\<lambda>rd. rd\<lparr>rd_state := if stopping (linux_Start demo_platform 1024) then Exited else Reading\<rparr>)
        (linux_Start demo_platform 1024))"
    by (rule check) (simp_all add: linux_Start_def)
  moreover have "\<not> stopping (linux_Start demo_platform 1024)"
    by (simp add: stopping_def linux_Start_def)
  ultimately show ?thesis
    using run_more [OF run_none] by (fastforce simp: demo_waiting_def)
qed

lemma demo_stops: "run_exec off demo_waiting [StopBegun] (demo_waiting\<lparr>pr_stopped := True\<rparr>)"
  using run_more [OF run_none stop_begun, of demo_waiting] by (simp add: stop_begin_def demo_run_facts)

text \<open>One sample on its way from the ring buffer to the enforcer.\<close>

lemma demo_sample_delivered:
  assumes "read_sample off (FromMonitor EventKindProcess) r = Some e"
  obtains s where "run_exec off (linux_Start demo_platform 1024)
      [Ran 0, Arrived 0 r, Ran 0, Delivered 0 e, Consumed e] s"
proof -
  define s1 where "s1 = set_reader 0 (\<lambda>rd. rd\<lparr>rd_ring := rd_ring rd @ [r]\<rparr>) demo_waiting"
  have one: "pr_readers s1 ! 0 = \<lparr> rd_source = FromMonitor EventKindProcess, rd_state = Reading, rd_ring = [r] \<rparr>"
    "length (pr_readers s1) = 3" "pr_eventChan s1 = []" "pr_capacity s1 = 1024"
    by (simp_all add: s1_def set_reader_def demo_run_facts) (simp_all add: demo_waiting_def set_reader_def linux_Start_def)
  have start: "run_exec off (linux_Start demo_platform 1024) ([Ran 0] @ [Arrived 0 r]) s1"
    unfolding s1_def by (rule run_more [OF demo_starts arrived]) (simp add: demo_run_facts)
  obtain s2 where s2: "run_step off s1 (Ran 0) s2" "rd_state (pr_readers s2 ! 0) = Sending e"
      "length (pr_readers s2) = 3" "pr_eventChan s2 = []" "pr_capacity s2 = 1024"
    using read [of 0 s1 r "[]" off] assms one by (auto simp: set_reader_def)
  obtain s3 where s3: "run_step off s2 (Delivered 0 e) s3" "pr_eventChan s3 = [e]"
    using send [of 0 s2 e off] s2 by simp
  obtain s where "run_step off s3 (Consumed e) s"
    using consumed [of s3 e "[]" off] s3 by simp
  then show ?thesis
    using that run_more [OF run_more [OF run_more [OF start s2(1)] s3(1)]] by (simp, blast)
qed

theorem readers_deliver_in_order_witness:
  "\<exists>e s. run_exec 0 (linux_Start demo_platform 1024)
      [Ran 0, Arrived 0 (replicate 400 0), Ran 0, Delivered 0 e, Consumed e] s \<and> pr_eventChan s = []"
proof -
  obtain e where "read_sample 0 (FromMonitor EventKindProcess) (replicate 400 0) = Some e"
    by (simp add: read_sample_def readEvent_def ExecveEvent_def)
  then obtain s where run: "run_exec 0 (linux_Start demo_platform 1024)
      [Ran 0, Arrived 0 (replicate 400 0), Ran 0, Delivered 0 e, Consumed e] s"
    by (rule demo_sample_delivered)
  have "pr_eventChan s = []"
    using readers_deliver_in_order [OF run, of 0] by (simp add: demo_run_facts act_lists)
  then show ?thesis
    using run by blast
qed

lemma steps_left_bound: "steps_left s \<le> 3 * length (pr_readers s)"
proof -
  have "remaining st \<le> 3" for st
    by (cases st) simp_all
  then have "sum_list (map (\<lambda>rd. remaining (rd_state rd)) rds) \<le> 3 * length rds" for rds :: "reader list"
    by (induction rds) (auto simp: add_mono)
  then show ?thesis
    by (simp add: steps_left_def)
qed



text \<open>
  C37. But \<open>Stop\<close> waits for the kernel: a reader that waits for a sample goes on waiting, also after
  the stop, until a sample arrives or its ring buffer is closed, and until then \<open>Stop\<close> does not
  return; closing the ring buffers comes only after \<open>Stop\<close>.
\<close>

theorem stop_waits_for_sample:
  assumes "run_exec off s acts s'" and "i < length (pr_readers s)" and "waits s (pr_readers s ! i)"
    and "\<forall>r. Arrived i r \<notin> set acts" and "ReadersClosed \<notin> set acts"
  shows "\<not> stop_done s'"
  using waiting_exec [OF assms] by (auto simp: stop_done_def waits_def list_all_length)

theorem stop_waits_for_sample_witness: "\<not> stop_done (demo_waiting\<lparr>pr_stopped := True\<rparr>)"
  using stop_waits_for_sample [OF demo_stops, of 0] by (simp add: waits_def demo_run_facts)

section \<open>Automatic cgroup filter\<close>

lemma hook_skipped:
  assumes "should_skip_cgroup st (bpf_get_current_cgroup_id h)" and "earlier_code c = 0"
  shows "fst (run_hook h st c) = 0 \<and> lsm_events (snd (run_hook h st c)) = lsm_events st"
proof (cases "hook_request h c")
  case None
  then show ?thesis
    using hook_no_request [OF None, of st] assms(2) by simp
next
  case (Some rq)
  then show ?thesis
    using hook_spec(1,2) [OF Some, of st] assms(1) by (simp add: decide_skipped submitted_def)
qed

text \<open>
  C38. The automatic filter does not see every pod: it takes the directories with \<open>pod\<close> in their name
  and those of containerd, so the tasks of a container whose own directory is named otherwise (by
  another container runtime) are never refused and never reported by the LSM programs, whatever
  rules are written.
\<close>

theorem auto_filter_skips_other_runtimes:
  assumes "lc_CgroupFilter cfg = [''auto'']" and "linux_Load cfg m = Returned (Inr p, held)"
    and "lp_lsmLoader p \<noteq> None"
    and "DiscoverPodCgroups (lm_statx m) (lm_isDir m) (lm_walk m) ''/sys/fs/cgroup'' = Inr ids"
    and "card (insert 0 (set ids)) \<le> LSM_CGROUP_FILTER_MAX_ENTRIES"
    and "bpf_get_current_cgroup_id h \<noteq> 0"
    and "\<forall>baseDir e. e \<in> set (lm_walk m baseDir) \<and> lm_statx m (we_path e) = Inr (bpf_get_current_cgroup_id h) \<longrightarrow>
      \<not> pod_entry baseDir e"
    and "earlier_code c = 0"
  shows "fst (run_hook h ((lp_maps p)\<lparr>policy_map := ruleset\<rparr>) c) = 0 \<and>
    lsm_events (snd (run_hook h ((lp_maps p)\<lparr>policy_map := ruleset\<rparr>) c)) = lsm_events (lp_maps p)"
proof -
  obtain base where base: "ids = concat (map (\<lambda>e. if pod_entry base e
      then (case ResolveCgroupID (lm_statx m) (we_path e) of Inl _ \<Rightarrow> [] | Inr ident \<Rightarrow> [ident]) else [])
      (lm_walk m base))" and ne: "ids \<noteq> []"
    using assms(4) by (auto simp: DiscoverPodCgroups_def Let_def split: option.splits if_splits)
  have notin: "bpf_get_current_cgroup_id h \<notin> set ids"
    using assms(7) by (auto simp: base ResolveCgroupID_def split: sum.splits if_splits)
  obtain p0 t where p0: "load_lsm cfg m ids p0 t = Returned (Inr p, held)" "lp_maps p0 = boot"
      "lp_lsmLoader p0 = None"
    using assms(1,2,4)
    by (auto simp: linux_Load_def fail_closing_def filter_ids_def Let_def split: outcome.splits sum.splits option.splits
        if_splits prod.splits)
  define maps where "maps = (if lm_enforce_ok m then SetEnforce boot (lc_LSMEnforce cfg) else boot)"
  have wf: "wf_state maps"
    using boot_wf SetEnforce_wf by (simp add: maps_def)
  have "lp_maps p = snd (SetLSMCgroupFilter maps ids)"
    using p0 assms(3) ne
    by (auto simp: maps_def load_lsm_def fail_closing_def Let_def
        split: sum.splits option.splits outcome.splits prod.splits if_splits)
  moreover obtain maps' where maps': "SetLSMCgroupFilter maps ids = (None, maps')"
    using filter_fits [OF wf assms(5)] by (metis prod.collapse)
  ultimately have "should_skip_cgroup (lp_maps p) (bpf_get_current_cgroup_id h)"
    using filter_set [OF wf maps'] assms(6) ne notin by simp
  then have "should_skip_cgroup ((lp_maps p)\<lparr>policy_map := ruleset\<rparr>) (bpf_get_current_cgroup_id h)"
    by (simp add: should_skip_cgroup_def split: option.splits)
  then show ?thesis
    using hook_skipped [OF _ assms(8)] by fastforce
qed

text \<open>A node whose only pod directory has inode 100, with a container directory of inode 7 in it.\<close>

definition demo_node :: linux_machine where
  "demo_node =
     \<lparr> lm_tracer = demo_tracer (\<lambda>_. True),
       lm_statx = (\<lambda>path. if path = ''/pod1'' then Inr 100 else Inr 7), lm_isDir = (\<lambda>_. True),
       lm_walk = (\<lambda>_. [\<lparr> we_path = ''/pod1'', we_name = ''pod1'', we_isDir = True, we_error = False \<rparr>,
                       \<lparr> we_path = ''/pod1/crio-1'', we_name = ''crio-1'', we_isDir = True, we_error = False \<rparr>]),
       lm_lsm = machine_with (socket_hooks @ security_list_options), lm_enforce_ok = True \<rparr>"

lemma demo_node_ids:
  "DiscoverPodCgroups (lm_statx demo_node) (lm_isDir demo_node) (lm_walk demo_node) ''/sys/fs/cgroup'' = Inr [100]"
  by (simp add: DiscoverPodCgroups_def demo_node_def pod_entry_def has_pod_def ResolveCgroupID_def upt_rec)

lemma demo_monitors_filtered:
  obtains filters where "SetCgroupFilter (replicate 3 (Some [])) [100] = (None, filters)"
proof -
  have "clear_iterating n [] None = ([] :: (u64, u8) bpf_map)" for n
    by (cases n) (simp_all add: bpf_map_get_next_key_def)
  then have "fill_filter [] [100] = (None, [(0, 1), (100, 1)])"
    by (simp add: fill_filter_def bpf_map_update_elem_def LSM_CGROUP_FILTER_MAX_ENTRIES_def Let_def)
  then show ?thesis
    using that by (simp add: numeral_3_eq_3)
qed

theorem auto_filter_skips_other_runtimes_witness:
  "\<exists>p held. linux_Load (demo_config\<lparr>lc_CgroupFilter := [''auto'']\<rparr>) demo_node = Returned (Inr p, held) \<and>
     fst (run_hook demo ((lp_maps p)\<lparr>policy_map := policy_map demo_state\<rparr>) demo_exec) = 0"
proof -
  let ?cfg = "demo_config\<lparr>lc_CgroupFilter := [''auto'']\<rparr>"
  obtain l held where l: "LoadLSM (lm_lsm demo_node) = (Inr (Some l), held)"
    by (rule demo_lsm_loads) (simp add: demo_node_def)
  obtain filters where filters: "SetCgroupFilter (replicate 3 (Some [])) [100] = (None, filters)"
    by (rule demo_monitors_filtered)
  have facts: "lm_tracer demo_node = demo_tracer (\<lambda>_. True)" "lm_enforce_ok demo_node"
    "filter_ids demo_node [''auto''] = Inr [100]"
    by (simp_all add: demo_node_def filter_ids_def demo_node_ids [unfolded demo_node_def, simplified])
  obtain p h where run: "linux_Load ?cfg demo_node = Returned (Inr p, h)" and some: "lp_lsmLoader p \<noteq> None"
    by (simp add: linux_Load_def demo_config_def facts demo_tracer_loads load_lsm_def l Let_def filters)
  show ?thesis
    using auto_filter_skips_other_runtimes [OF _ run some demo_node_ids, of demo demo_exec "policy_map demo_state"] run
    by (auto simp: demo_config_def demo_node_def demo_fields demo_exec_def pod_entry_def has_pod_def
        LSM_CGROUP_FILTER_MAX_ENTRIES_def)
qed

section \<open>macOS\<close>


definition demo_content :: "es_message \<Rightarrow> es_content" where
  "demo_content msg =
     \<lparr> ms_event_type = AUTH_EXEC, ms_process = \<lparr> ep_audit_token = 42, ep_executable = None \<rparr>, ms_time = 0,
       ms_open_file = None, ms_create_existing = None, ms_write_target = None, ms_unlink_target = None,
       ms_connect_address = SockOther \<rparr>"


text \<open>
  C39. A macOS client cannot be restarted: its stop channel stays closed, so after a stop and a
  successful start the handler may give up any message (an authorisation request then stays
  unanswered), and the next stop panics.
\<close>

theorem esf_restart_panics:
  assumes "ef_running c" and "esf_Stop api c = Returned c'" and "esf_Start api c' = (None, c'')"
  shows "esf_goEventHandler api numer denom True content message c'' = c'' \<and> esf_Stop api c'' = Panicked"
proof -
  have "ef_stopClosed c'"
    using assms(1,2) by (auto simp: esf_Stop_def Let_def split: if_splits option.splits)
  then have "ef_stopClosed c''" and "ef_running c''"
    using assms(3) by (auto simp: esf_Start_def Let_def split: if_splits prod.splits)
  then show ?thesis
    by (simp add: esf_goEventHandler_def esf_handleEvent_def try_send_def esf_Stop_def Let_def split: option.split)
qed

theorem esf_restart_panics_witness:
  "\<exists>c c'. esf_Stop demo_es (snd (esf_Start demo_es (NewClient 1024 5))) = Returned c \<and>
     esf_Start demo_es c = (None, c') \<and> esf_Stop demo_es c' = Panicked"
proof -
  let ?c = "snd (esf_Start demo_es (NewClient 1024 5))"
  obtain c c' where run: "esf_Stop demo_es ?c = Returned c" "esf_Start demo_es c = (None, c')"
    by (simp add: esf_Start_def esf_Stop_def NewClient_def demo_es_def)
  show ?thesis
    using esf_restart_panics [OF _ run, of 1 1 demo_content None] run
    by (auto simp: esf_Start_def NewClient_def demo_es_def)
qed

end
