(* ===== verification/Streaming.thy ===== *)
theory Streaming
  imports Lineage "HOL-Library.Signed_Division"
begin

text \<open>
  The stream of decisions to the outside: the pipeline of \<open>internal/streaming/pipeline.go\<close>, the
  text of an event for log collectors in \<open>siem.go\<close>, and the sinks that post batches to a web
  server or hand CEF lines to a writer (\<open>sink.go\<close>, \<open>siem.go\<close>). Clock readings, random
  identifiers and the answers of servers and writers are arguments; what a sink sent is recorded
  in its state.
\<close>

section \<open>Texts\<close>

definition quote_char :: "byte \<Rightarrow> bytes" where
  "quote_char c =
     (if c = 34 \<or> c = 92 then [92, c]
      else case map_of [(7, 97), (8, 98), (9, 116), (10, 110), (11, 118), (12, 102), (13, 114)] c of
             Some e \<Rightarrow> [92, e]
           | None \<Rightarrow>
               if c < 32 \<or> c = 127
               then [92, 120] @ (if c < 16 then [48] else []) @ print_nat 16 (unat c)
               else [c])"

text \<open>\<open>%q\<close>, for strings without unprintable characters beyond the ASCII ones.\<close>

definition quoted :: "bytes \<Rightarrow> bytes" where
  "quoted s = 34 # concat (map quote_char s) @ [34]"

definition reason_text :: "reason \<Rightarrow> bytes" where
  "reason_text r =
     (case r of
        ReasonText s \<Rightarrow> s
      | NetworkBlocked addr \<Rightarrow> ascii ''network blocked: '' @ addr @ ascii '' in CIDR blocklist''
      | RateLimitExceeded pid \<Rightarrow> ascii ''rate limit exceeded for pid '' @ print_nat 10 (unat pid)
      | SandboxNetwork name \<Rightarrow> ascii ''sandbox '' @ quoted name @ ascii '': network access denied''
      | SandboxReadOnly name \<Rightarrow> ascii ''sandbox '' @ quoted name @ ascii '': filesystem is read-only''
      | SandboxSyscall name call \<Rightarrow>
          ascii ''sandbox '' @ quoted name @ ascii '': syscall '' @ call @ ascii '' blocked''
      | LearningMode \<Rightarrow> ascii ''learning mode''
      | EvaluationError err \<Rightarrow> ascii ''Evaluation error: '' @ err)"

definition print_int :: "int \<Rightarrow> bytes" where
  "print_int i = (if i < 0 then 45 # print_nat 10 (nat (- i)) else print_nat 10 (nat i))"

section \<open>Transformation\<close>

text \<open>The zero value of \<open>time.Time\<close>: the start of the year 1.\<close>

definition zero_time :: int where
  "zero_time = - 62135596800 * 10 ^ 9"

definition decision_text :: "int \<Rightarrow> bytes" where
  "decision_text act =
     (if act = ActionAllow then ascii ''allow''
      else if act = ActionDeny then ascii ''deny''
      else if act = ActionLog then ascii ''log''
      else [])"

definition transform ::
  "bytes \<Rightarrow> (bytes \<times> bytes) list \<Rightarrow> bytes \<Rightarrow> int \<Rightarrow> api_event \<Rightarrow> action_result option \<Rightarrow> security_event" where
  "transform hostname labels ident now event result =
     (let se = \<lparr> se_ID = ident,
                 se_Timestamp = (if ae_Timestamp event = zero_time then now else ae_Timestamp event),
                 se_Hostname = hostname, se_EventType = [], se_CgroupID = ae_CgroupID event,
                 se_PID = ae_PID event, se_PPID = 0, se_UID = ae_UID event, se_GID = ae_GID event,
                 se_Comm = ae_Comm event, se_Filename = ae_Filename event, se_RemoteAddr = [],
                 se_RemotePort = 0, se_LocalPort = 0, se_Protocol = [], se_MountType = [],
                 se_PtraceComm = [], se_Decision = [], se_Reason = [], se_PolicyRule = [],
                 se_Cached = False, se_Enforced = False, se_AuditOnly = False, se_LatencyUS = 0,
                 se_Lineage = [], se_Labels = labels \<rparr>;
          se = (if GetType event = EventTypeProcess then
                  (case ae_Process event of
                     Some p \<Rightarrow> se\<lparr>se_EventType := ascii ''exec'', se_Filename := pe_Filename p\<rparr>
                   | None \<Rightarrow> se\<lparr>se_EventType := ascii ''exec''\<rparr>)
                else if GetType event = EventTypeFile then
                  (case ae_File event of
                     Some f \<Rightarrow> se\<lparr>se_EventType := ascii ''file'', se_Filename := fe_Path f\<rparr>
                   | None \<Rightarrow> se\<lparr>se_EventType := ascii ''file''\<rparr>)
                else if GetType event = EventTypeNetwork then
                  (case ae_Network event of
                     Some n \<Rightarrow> se\<lparr>se_EventType := ascii ''network'', se_RemoteAddr := ne_RemoteAddr n,
                                  se_RemotePort := ne_RemotePort n, se_LocalPort := ne_LocalPort n,
                                  se_Protocol := ne_Protocol n\<rparr>
                   | None \<Rightarrow> se\<lparr>se_EventType := ascii ''network''\<rparr>)
                else se)
      in case result of
           None \<Rightarrow> se
         | Some r \<Rightarrow>
             se\<lparr>se_Decision := decision_text (ar_Action r), se_Reason := reason_text (ar_Reason r),
                se_Cached := ar_Cached r, se_AuditOnly := ar_Audit r,
                se_Enforced := (ar_Action r = ActionDeny \<and> \<not> ar_Audit r),
                se_LatencyUS := ar_Latency r sdiv 1000\<rparr>)"

section \<open>Common Event Format\<close>

definition CEFSeverity :: "bytes \<Rightarrow> nat" where
  "CEFSeverity decision =
     (if decision = ascii ''deny'' then 8
      else if decision = ascii ''log'' then 4
      else if decision = ascii ''allow'' then 1
      else 0)"

text \<open>\<open>strings.ReplaceAll\<close> of one character.\<close>

definition replace_all :: "byte \<Rightarrow> bytes \<Rightarrow> bytes \<Rightarrow> bytes" where
  "replace_all c new s = concat (map (\<lambda>d. if d = c then new else [d]) s)"

definition cefEscape :: "bytes \<Rightarrow> bytes" where
  "cefEscape s =
     (let s = replace_all 92 [92, 92] s;
          s = replace_all 124 [92, 124] s;
          s = replace_all 61 [92, 61] s
      in replace_all 10 [32] s)"

text \<open>\<open>strings.TrimSpace\<close>: the white space of Unicode in its encoding.\<close>

definition white_space :: "bytes list" where
  "white_space =
     [[9], [10], [11], [12], [13], [32], [0xC2, 0x85], [0xC2, 0xA0], [0xE1, 0x9A, 0x80]] @
     map (\<lambda>b. [0xE2, 0x80, b]) [0x80, 0x81, 0x82, 0x83, 0x84, 0x85, 0x86, 0x87, 0x88, 0x89, 0x8A, 0xA8, 0xA9, 0xAF] @
     [[0xE2, 0x81, 0x9F], [0xE3, 0x80, 0x80]]"

fun trim_with :: "bytes list \<Rightarrow> bytes \<Rightarrow> bytes" where
  "trim_with spaces s =
     (case find (\<lambda>w. take (length w) s = w) spaces of
        Some w \<Rightarrow> if w = [] \<or> s = [] then s else trim_with spaces (drop (length w) s)
      | None \<Rightarrow> s)"

declare trim_with.simps [simp del]

definition TrimSpace :: "bytes \<Rightarrow> bytes" where
  "TrimSpace s = rev (trim_with (map rev white_space) (rev (trim_with white_space s)))"

definition cef_extension :: "security_event \<Rightarrow> bytes" where
  "cef_extension event =
     ascii ''src='' @ se_Hostname event @ ascii '' '' @
     ascii ''dvcpid='' @ print_nat 10 (unat (se_PID event)) @ ascii '' '' @
     ascii ''duser='' @ print_nat 10 (unat (se_UID event)) @ ascii '' '' @
     ascii ''cs1='' @ se_Comm event @ ascii '' cs1Label=comm '' @
     (if se_Filename event \<noteq> [] then ascii ''filePath='' @ cefEscape (se_Filename event) @ ascii '' '' else []) @
     (if se_RemoteAddr event \<noteq> [] then ascii ''dst='' @ se_RemoteAddr event @ ascii '' '' else []) @
     (if 0 < se_RemotePort event then ascii ''dpt='' @ print_nat 10 (unat (se_RemotePort event)) @ ascii '' '' else []) @
     (if 0 < se_LocalPort event then ascii ''spt='' @ print_nat 10 (unat (se_LocalPort event)) @ ascii '' '' else []) @
     (if se_Protocol event \<noteq> [] then ascii ''proto='' @ se_Protocol event @ ascii '' '' else []) @
     (if se_Reason event \<noteq> [] then ascii ''msg='' @ cefEscape (se_Reason event) @ ascii '' '' else []) @
     ascii ''rt='' @ print_int (se_Timestamp event div 1000000)"

definition ToCEF :: "security_event \<Rightarrow> bytes" where
  "ToCEF event =
     ascii ''CEF:0|Warmor|warmor-agent|1.0|'' @ se_EventType event @ ascii ''|'' @
     se_EventType event @ ascii ''_'' @ se_Decision event @ ascii ''|'' @
     print_nat 10 (CEFSeverity (se_Decision event)) @ ascii ''|'' @ TrimSpace (cef_extension event)"

section \<open>Sinks\<close>

datatype post_answer = RequestInvalid | TransportFailed | Answered int

datatype sink_error = PostError post_answer | WriterFailed

text \<open>
  What a call of a sink meets: two clock readings, the answer of the server and whether the writer
  works.
\<close>

record sink_inputs =
  si_written_at :: int
  si_flushed_at :: int
  si_answer :: post_answer
  si_writer_ok :: bool

record webhook_sink =
  wh_batch :: "security_event list"
  wh_batchSize :: int
  wh_flushEvery :: int
  wh_lastFlush :: int
  wh_posts :: "(security_event list \<times> post_answer) list"

definition NewWebhookSink :: "int \<Rightarrow> int \<Rightarrow> int \<Rightarrow> webhook_sink" where
  "NewWebhookSink batchSize flushEvery now =
     \<lparr> wh_batch = [], wh_batchSize = (if batchSize \<le> 0 then 100 else batchSize),
       wh_flushEvery = (if flushEvery \<le> 0 then 5000000000 else flushEvery), wh_lastFlush = now,
       wh_posts = [] \<rparr>"

definition webhook_Flush :: "sink_inputs \<Rightarrow> webhook_sink \<Rightarrow> sink_error option \<times> webhook_sink" where
  "webhook_Flush i s =
     (if wh_batch s = [] then (None, s)
      else
        ((case si_answer i of
            Answered status \<Rightarrow> if 400 \<le> status then Some (PostError (si_answer i)) else None
          | failed \<Rightarrow> Some (PostError failed)),
         s\<lparr>wh_batch := [], wh_lastFlush := si_flushed_at i,
           wh_posts := wh_posts s @ [(wh_batch s, si_answer i)]\<rparr>))"

definition webhook_Write ::
  "sink_inputs \<Rightarrow> security_event \<Rightarrow> webhook_sink \<Rightarrow> sink_error option \<times> webhook_sink" where
  "webhook_Write i event s =
     (let s = s\<lparr>wh_batch := wh_batch s @ [event]\<rparr>
      in if wh_batchSize s \<le> int (length (wh_batch s)) \<or> wh_flushEvery s \<le> si_written_at i - wh_lastFlush s
         then webhook_Flush i s
         else (None, s))"

definition webhook_Close :: "sink_inputs \<Rightarrow> webhook_sink \<Rightarrow> sink_error option \<times> webhook_sink" where
  "webhook_Close i s = webhook_Flush i s"

record cef_sink =
  cf_lines :: "bytes list"

definition cef_Write :: "sink_inputs \<Rightarrow> security_event \<Rightarrow> cef_sink \<Rightarrow> sink_error option \<times> cef_sink" where
  "cef_Write i event s =
     (if si_writer_ok i then None else Some WriterFailed, s\<lparr>cf_lines := cf_lines s @ [ToCEF event]\<rparr>)"

datatype sink = WebhookSink webhook_sink | CEFSink cef_sink

definition sink_Write :: "sink_inputs \<Rightarrow> security_event \<Rightarrow> sink \<Rightarrow> sink_error option \<times> sink" where
  "sink_Write i event k =
     (case k of
        WebhookSink s \<Rightarrow> map_prod id WebhookSink (webhook_Write i event s)
      | CEFSink s \<Rightarrow> map_prod id CEFSink (cef_Write i event s))"

definition sink_Flush :: "sink_inputs \<Rightarrow> sink \<Rightarrow> sink_error option \<times> sink" where
  "sink_Flush i k =
     (case k of WebhookSink s \<Rightarrow> map_prod id WebhookSink (webhook_Flush i s) | CEFSink s \<Rightarrow> (None, k))"

definition sink_Close :: "sink_inputs \<Rightarrow> sink \<Rightarrow> sink_error option \<times> sink" where
  "sink_Close i k =
     (case k of WebhookSink s \<Rightarrow> map_prod id WebhookSink (webhook_Close i s) | CEFSink s \<Rightarrow> (None, k))"

section \<open>Pipeline\<close>

type_synonym event_pair = "api_event \<times> action_result option"

record 'k pipeline =
  pp_sinks :: "'k list"
  pp_hostname :: bytes
  pp_labels :: "(bytes \<times> bytes) list"
  pp_eventCh :: "event_pair list"
  pp_buffer :: nat
  pp_chClosed :: bool
  pp_closed :: bool
  pp_done :: bool
  pp_received :: u64
  pp_emitted :: u64
  pp_dropped :: u64
  pp_sinkErrors :: u64

definition NewPipeline :: "int \<Rightarrow> 'k list \<Rightarrow> bytes \<Rightarrow> (bytes \<times> bytes) list \<Rightarrow> 'k pipeline" where
  "NewPipeline bufferSize sinks hostname labels =
     \<lparr> pp_sinks = sinks, pp_hostname = hostname, pp_labels = labels, pp_eventCh = [],
       pp_buffer = (if bufferSize \<le> 0 then 4096 else nat bufferSize), pp_chClosed = False,
       pp_closed = False, pp_done = False, pp_received = 0, pp_emitted = 0, pp_dropped = 0,
       pp_sinkErrors = 0 \<rparr>"

text \<open>
  \<open>Emit\<close> is the check and the send; between them other goroutines run. A send on a closed channel
  panics.
\<close>

definition emit_check :: "'k pipeline \<Rightarrow> 'k pipeline option" where
  "emit_check p = (if pp_closed p then None else Some (p\<lparr>pp_received := pp_received p + 1\<rparr>))"

definition emit_send :: "event_pair \<Rightarrow> 'k pipeline \<Rightarrow> 'k pipeline outcome" where
  "emit_send pair p =
     (if pp_chClosed p then Panicked
      else if length (pp_eventCh p) < pp_buffer p then Returned (p\<lparr>pp_eventCh := pp_eventCh p @ [pair]\<rparr>)
      else Returned (p\<lparr>pp_dropped := pp_dropped p + 1\<rparr>))"

definition pipeline_Emit :: "event_pair \<Rightarrow> 'k pipeline \<Rightarrow> 'k pipeline outcome" where
  "pipeline_Emit pair p =
     (case emit_check p of None \<Rightarrow> Returned p | Some p \<Rightarrow> emit_send pair p)"

text \<open>A call of every sink in turn, with the errors.\<close>

definition error_list :: "'e option \<Rightarrow> 'e list" where
  "error_list err = (case err of None \<Rightarrow> [] | Some e \<Rightarrow> [e])"

fun each_sink :: "('in \<Rightarrow> 'k \<Rightarrow> 'e list \<times> 'k) \<Rightarrow> 'in list \<Rightarrow> 'k list \<Rightarrow> 'e list \<times> 'k list" where
  "each_sink f (i # ins) (k # ks) =
     (let (errs, k) = f i k; (errs', ks) = each_sink f ins ks in (errs @ errs', k # ks))"
| "each_sink f ins ks = ([], ks)"

definition process ::
  "('in \<Rightarrow> security_event \<Rightarrow> 'k \<Rightarrow> 'e option \<times> 'k) \<Rightarrow> 'in list \<Rightarrow> (security_event \<Rightarrow> security_event) list \<Rightarrow>
   bytes \<Rightarrow> int \<Rightarrow> event_pair \<Rightarrow> 'k pipeline \<Rightarrow> security_event \<times> 'k pipeline" where
  "process wr ins enrichers ident now pair p =
     (let se = transform (pp_hostname p) (pp_labels p) ident now (fst pair) (snd pair);
          se = fold (\<lambda>enrich se. enrich se) enrichers se;
          (errs, sinks) = each_sink (\<lambda>i k. map_prod error_list id (wr i se k)) ins (pp_sinks p)
      in (se, p\<lparr>pp_sinks := sinks, pp_sinkErrors := pp_sinkErrors p + of_nat (length errs),
                pp_emitted := pp_emitted p + 1\<rparr>))"

definition flush_tick :: "('in \<Rightarrow> 'k \<Rightarrow> 'e option \<times> 'k) \<Rightarrow> 'in list \<Rightarrow> 'k pipeline \<Rightarrow> 'k pipeline" where
  "flush_tick fl ins p =
     (let (errs, sinks) = each_sink (\<lambda>i k. map_prod error_list id (fl i k)) ins (pp_sinks p)
      in p\<lparr>pp_sinks := sinks, pp_sinkErrors := pp_sinkErrors p + of_nat (length errs)\<rparr>)"

text \<open>\<open>Close\<close> up to the wait for the loop, and after it.\<close>

definition close_begin :: "'k pipeline \<Rightarrow> 'k pipeline option" where
  "close_begin p = (if pp_closed p then None else Some (p\<lparr>pp_closed := True, pp_chClosed := True\<rparr>))"

definition close_end ::
  "('in \<Rightarrow> 'k \<Rightarrow> 'e option \<times> 'k) \<Rightarrow> ('in \<Rightarrow> 'k \<Rightarrow> 'e option \<times> 'k) \<Rightarrow> 'in list \<Rightarrow> 'k pipeline \<Rightarrow>
   'e list \<times> 'k pipeline" where
  "close_end fl cl ins p =
     (let (errs, sinks) =
            each_sink (\<lambda>i k. let (err, k) = fl i k; (err', k) = cl i k in (error_list err @ error_list err', k))
              ins (pp_sinks p)
      in (errs, p\<lparr>pp_sinks := sinks, pp_done := True\<rparr>))"

section \<open>Goroutines\<close>

text \<open>
  Producers, the loop and \<open>Close\<close> run side by side: \<open>sm_emitting\<close> are the calls of \<open>Emit\<close> that have
  passed the check and not yet sent. The labels say what happened.
\<close>

record 'k stream =
  sm_pipe :: "'k pipeline"
  sm_emitting :: "event_pair list"
  sm_looping :: bool
  sm_panicked :: bool

datatype stream_act =
    Enter event_pair
  | Ignored event_pair
  | Accepted event_pair
  | Dropped event_pair
  | Crashed event_pair
  | Processed event_pair security_event
  | Flushed
  | LoopEnded
  | CloseBegun "event_pair list"
  | CloseEnded

inductive stream_step ::
  "('in \<Rightarrow> security_event \<Rightarrow> 'k \<Rightarrow> 'e option \<times> 'k) \<Rightarrow> ('in \<Rightarrow> 'k \<Rightarrow> 'e option \<times> 'k) \<Rightarrow>
   ('in \<Rightarrow> 'k \<Rightarrow> 'e option \<times> 'k) \<Rightarrow> 'k stream \<Rightarrow> stream_act \<Rightarrow> 'k stream \<Rightarrow> bool"
  for wr fl cl where
  enter: "\<not> sm_panicked s \<Longrightarrow> emit_check (sm_pipe s) = Some p \<Longrightarrow>
    stream_step wr fl cl s (Enter pair) (s\<lparr>sm_pipe := p, sm_emitting := sm_emitting s @ [pair]\<rparr>)"
| ignored: "\<not> sm_panicked s \<Longrightarrow> emit_check (sm_pipe s) = None \<Longrightarrow> stream_step wr fl cl s (Ignored pair) s"
| sent: "\<not> sm_panicked s \<Longrightarrow> pair \<in> set (sm_emitting s) \<Longrightarrow> emit_send pair (sm_pipe s) = Returned p \<Longrightarrow>
    act = (if length (pp_eventCh (sm_pipe s)) < pp_buffer (sm_pipe s) then Accepted pair else Dropped pair) \<Longrightarrow>
    stream_step wr fl cl s act (s\<lparr>sm_pipe := p, sm_emitting := remove1 pair (sm_emitting s)\<rparr>)"
| crashed: "\<not> sm_panicked s \<Longrightarrow> pair \<in> set (sm_emitting s) \<Longrightarrow> emit_send pair (sm_pipe s) = Panicked \<Longrightarrow>
    stream_step wr fl cl s (Crashed pair) (s\<lparr>sm_panicked := True\<rparr>)"
| processed: "\<not> sm_panicked s \<Longrightarrow> sm_looping s \<Longrightarrow> pp_eventCh (sm_pipe s) = pair # pairs \<Longrightarrow>
    length ins = length (pp_sinks (sm_pipe s)) \<Longrightarrow>
    process wr ins enrichers ident now pair ((sm_pipe s)\<lparr>pp_eventCh := pairs\<rparr>) = (se, p) \<Longrightarrow>
    stream_step wr fl cl s (Processed pair se) (s\<lparr>sm_pipe := p\<rparr>)"
| flushed: "\<not> sm_panicked s \<Longrightarrow> sm_looping s \<Longrightarrow> length ins = length (pp_sinks (sm_pipe s)) \<Longrightarrow>
    stream_step wr fl cl s Flushed (s\<lparr>sm_pipe := flush_tick fl ins (sm_pipe s)\<rparr>)"
| loop_ended: "\<not> sm_panicked s \<Longrightarrow> sm_looping s \<Longrightarrow> pp_eventCh (sm_pipe s) = [] \<Longrightarrow> pp_chClosed (sm_pipe s) \<Longrightarrow>
    stream_step wr fl cl s LoopEnded (s\<lparr>sm_looping := False\<rparr>)"
| close_begun: "\<not> sm_panicked s \<Longrightarrow> close_begin (sm_pipe s) = Some p \<Longrightarrow>
    stream_step wr fl cl s (CloseBegun (sm_emitting s)) (s\<lparr>sm_pipe := p\<rparr>)"
| close_ended: "\<not> sm_panicked s \<Longrightarrow> pp_closed (sm_pipe s) \<Longrightarrow> \<not> sm_looping s \<Longrightarrow> \<not> pp_done (sm_pipe s) \<Longrightarrow>
    length ins = length (pp_sinks (sm_pipe s)) \<Longrightarrow>
    stream_step wr fl cl s CloseEnded (s\<lparr>sm_pipe := snd (close_end fl cl ins (sm_pipe s))\<rparr>)"

inductive stream_exec ::
  "('in \<Rightarrow> security_event \<Rightarrow> 'k \<Rightarrow> 'e option \<times> 'k) \<Rightarrow> ('in \<Rightarrow> 'k \<Rightarrow> 'e option \<times> 'k) \<Rightarrow>
   ('in \<Rightarrow> 'k \<Rightarrow> 'e option \<times> 'k) \<Rightarrow> 'k stream \<Rightarrow> stream_act list \<Rightarrow> 'k stream \<Rightarrow> bool"
  for wr fl cl where
  none: "stream_exec wr fl cl s [] s"
| more: "stream_exec wr fl cl s acts s' \<Longrightarrow> stream_step wr fl cl s' act s'' \<Longrightarrow>
    stream_exec wr fl cl s (acts @ [act]) s''"

definition streaming :: "'k pipeline \<Rightarrow> 'k stream" where
  "streaming p = \<lparr> sm_pipe = p, sm_emitting = [], sm_looping = True, sm_panicked = False \<rparr>"

definition accepted :: "stream_act list \<Rightarrow> event_pair list" where
  "accepted acts = concat (map (\<lambda>a. case a of Accepted pair \<Rightarrow> [pair] | _ \<Rightarrow> []) acts)"

definition reports :: "stream_act list \<Rightarrow> (event_pair \<times> security_event) list" where
  "reports acts = concat (map (\<lambda>a. case a of Processed pair se \<Rightarrow> [(pair, se)] | _ \<Rightarrow> []) acts)"

lemma each_sink_sinks:
  "length ins = length ks \<Longrightarrow> snd (each_sink f ins ks) = map2 (\<lambda>i k. snd (f i k)) ins ks"
  by (induction ins ks rule: list_induct2) (simp_all add: Let_def split_beta)

section \<open>What a sink promises\<close>

text \<open>
  A sink shows every event that it is given once and in order, whatever the outside answers.
\<close>

locale event_sink =
  fixes wr :: "'in \<Rightarrow> security_event \<Rightarrow> 'k \<Rightarrow> 'e option \<times> 'k"
    and fl :: "'in \<Rightarrow> 'k \<Rightarrow> 'e option \<times> 'k"
    and cl :: "'in \<Rightarrow> 'k \<Rightarrow> 'e option \<times> 'k"
    and seen :: "'k \<Rightarrow> 'o list"
    and shown :: "'k \<Rightarrow> security_event \<Rightarrow> 'o"
  assumes wr_seen: "seen (snd (wr i e k)) = seen k @ [shown k e]"
    and fl_seen: "seen (snd (fl i k)) = seen k"
    and cl_seen: "seen (snd (cl i k)) = seen k"
    and wr_shown: "shown (snd (wr i e k)) = shown k"
    and fl_shown: "shown (snd (fl i k)) = shown k"
    and cl_shown: "shown (snd (cl i k)) = shown k"
begin

definition follows :: "security_event list \<Rightarrow> 'k \<Rightarrow> 'k \<Rightarrow> bool" where
  "follows es k0 k \<longleftrightarrow> shown k = shown k0 \<and> seen k = seen k0 @ map (shown k0) es"

lemma each_write:
  "list_all2 (follows es) ks0 ks \<Longrightarrow> length ins = length ks \<Longrightarrow>
   list_all2 (follows (es @ [e])) ks0 (snd (each_sink (\<lambda>i k. map_prod error_list id (wr i e k)) ins ks))"
  by (auto simp: each_sink_sinks list_all2_conv_all_nth follows_def wr_seen wr_shown)

lemma each_other:
  assumes "\<And>i k. seen (snd (f i k)) = seen k" and "\<And>i k. shown (snd (f i k)) = shown k"
  shows "list_all2 (follows es) ks0 ks \<Longrightarrow> length ins = length ks \<Longrightarrow>
    list_all2 (follows es) ks0 (snd (each_sink f ins ks))"
  by (auto simp: each_sink_sinks list_all2_conv_all_nth follows_def assms)

text \<open>
  The invariant of the stream: no accepted event is lost or reordered, every sink shows the reports
  of the processed ones, the counters account for every call of \<open>Emit\<close>, and the loop ends only
  after the channel was closed and emptied.
\<close>

definition stream_inv :: "'k pipeline \<Rightarrow> stream_act list \<Rightarrow> 'k stream \<Rightarrow> bool" where
  "stream_inv p0 acts s \<longleftrightarrow>
     (let p = sm_pipe s
      in accepted acts = map fst (reports acts) @ pp_eventCh p \<and>
         list_all2 (follows (map snd (reports acts))) (pp_sinks p0) (pp_sinks p) \<and>
         pp_buffer p = pp_buffer p0 \<and> length (pp_eventCh p) \<le> pp_buffer p \<and>
         pp_received p = pp_emitted p + pp_dropped p + of_nat (length (pp_eventCh p)) +
           of_nat (length (sm_emitting s)) \<and>
         (\<not> sm_looping s \<longrightarrow> pp_chClosed p \<and> pp_eventCh p = []) \<and>
         (pp_done p \<longrightarrow> \<not> sm_looping s) \<and> (pp_closed p \<longleftrightarrow> pp_chClosed p) \<and>
         (pp_chClosed p \<longrightarrow> (\<exists>calls. CloseBegun calls \<in> set acts \<and> set (sm_emitting s) \<subseteq> set calls)) \<and>
         (sm_panicked s \<longrightarrow> (\<exists>calls. CloseBegun calls \<in> set acts \<and> calls \<noteq> [])))"

lemma stream_inv_step:
  assumes "stream_step wr fl cl s act s'" and "stream_inv p0 acts s"
  shows "stream_inv p0 (acts @ [act]) s'"
  using assms
proof (cases rule: stream_step.cases)
  case (enter p pair)
  then show ?thesis
    using assms(2) by (auto simp: stream_inv_def emit_check_def accepted_def reports_def Let_def split: if_splits)
next
  case (ignored pair)
  then show ?thesis
    using assms(2) by (auto simp: stream_inv_def accepted_def reports_def Let_def)
next
  case (sent pair p)
  have "length (sm_emitting s) = Suc (length (remove1 pair (sm_emitting s)))"
    using length_pos_if_in_set [OF sent(3)] sent(3) by (simp add: length_remove1)
  then show ?thesis
    using sent assms(2) set_remove1_subset [of pair "sm_emitting s"]
    by (auto simp: stream_inv_def emit_send_def accepted_def reports_def Let_def algebra_simps split: if_splits)
next
  case (crashed pair)
  then show ?thesis
    using assms(2) by (auto simp: stream_inv_def emit_send_def accepted_def reports_def Let_def split: if_splits)
next
  case (processed pair pairs ins enrichers ident now se p)
  then show ?thesis
    using assms(2) each_write [of "map snd (reports acts)" "pp_sinks p0" "pp_sinks (sm_pipe s)" ins se]
    by (auto simp: stream_inv_def process_def accepted_def reports_def Let_def algebra_simps split: prod.splits)
next
  case (flushed ins)
  have "list_all2 (follows es) (pp_sinks p0) (pp_sinks (sm_pipe s)) \<Longrightarrow>
      list_all2 (follows es) (pp_sinks p0) (pp_sinks (flush_tick fl ins (sm_pipe s)))" for es
    using each_other [of "\<lambda>i k. map_prod error_list id (fl i k)" es "pp_sinks p0" "pp_sinks (sm_pipe s)" ins] flushed
    by (simp add: flush_tick_def split_beta fl_seen fl_shown)
  then show ?thesis
    using assms(2) flushed
    by (auto simp: stream_inv_def flush_tick_def accepted_def reports_def Let_def split_beta)
next
  case loop_ended
  then show ?thesis
    using assms(2) by (auto simp: stream_inv_def accepted_def reports_def Let_def)
next
  case (close_begun p)
  then show ?thesis
    using assms(2) by (auto simp: stream_inv_def close_begin_def accepted_def reports_def Let_def split: if_splits)
next
  case (close_ended ins)
  have "list_all2 (follows es) (pp_sinks p0) (pp_sinks (sm_pipe s)) \<Longrightarrow>
      list_all2 (follows es) (pp_sinks p0) (pp_sinks (snd (close_end fl cl ins (sm_pipe s))))" for es
    using each_other [of "\<lambda>i k. let (err, k) = fl i k; (err', k) = cl i k in (error_list err @ error_list err', k)"
        es "pp_sinks p0" "pp_sinks (sm_pipe s)" ins] close_ended
    by (simp add: close_end_def split_beta fl_seen fl_shown cl_seen cl_shown Let_def)
  then show ?thesis
    using assms(2) close_ended
    by (auto simp: stream_inv_def close_end_def accepted_def reports_def Let_def split_beta)
qed

lemma stream_exec_inv:
  assumes "stream_exec wr fl cl (streaming (NewPipeline n sinks hostname labels)) acts s"
  shows "stream_inv (NewPipeline n sinks hostname labels) acts s"
  using assms
proof (induction "streaming (NewPipeline n sinks hostname labels)" acts s rule: stream_exec.induct)
  case none
  then show ?case
    by (simp add: stream_inv_def streaming_def NewPipeline_def accepted_def reports_def follows_def list_all2_refl)
next
  case (more acts s' act s'')
  then show ?case
    by (metis stream_inv_step)
qed

end

text \<open>What a sink has shown to the outside or will: posted and pending events, or lines.\<close>

datatype observation = SeenEvent security_event | SeenLine bytes

definition sink_seen :: "sink \<Rightarrow> observation list" where
  "sink_seen k =
     (case k of
        WebhookSink s \<Rightarrow> map SeenEvent (concat (map fst (wh_posts s)) @ wh_batch s)
      | CEFSink s \<Rightarrow> map SeenLine (cf_lines s))"

definition sink_shown :: "sink \<Rightarrow> security_event \<Rightarrow> observation" where
  "sink_shown k event = (case k of WebhookSink _ \<Rightarrow> SeenEvent event | CEFSink _ \<Rightarrow> SeenLine (ToCEF event))"

lemma webhook_Flush_seen:
  "concat (map fst (wh_posts (snd (webhook_Flush i s)))) @ wh_batch (snd (webhook_Flush i s)) =
   concat (map fst (wh_posts s)) @ wh_batch s"
  by (simp add: webhook_Flush_def)

interpretation outlet: event_sink sink_Write sink_Flush sink_Close sink_seen sink_shown
proof
  show "sink_seen (snd (sink_Write i e k)) = sink_seen k @ [sink_shown k e]" for i e k
    by (auto simp: sink_seen_def sink_shown_def sink_Write_def webhook_Write_def cef_Write_def Let_def
        webhook_Flush_def split: sink.split)
  show "sink_seen (snd (sink_Flush i k)) = sink_seen k" and "sink_seen (snd (sink_Close i k)) = sink_seen k" for i k
    using webhook_Flush_seen
    by (auto simp: sink_seen_def sink_Flush_def sink_Close_def webhook_Close_def simp flip: map_append split: sink.split)
qed (auto simp: fun_eq_iff sink_shown_def sink_Write_def sink_Flush_def sink_Close_def split: sink.split)

text \<open>A batch never outgrows its size.\<close>

lemma webhook_Write_bound:
  "int (length (wh_batch s)) < wh_batchSize s \<Longrightarrow>
   int (length (wh_batch (snd (webhook_Write i e s)))) < wh_batchSize (snd (webhook_Write i e s))"
  by (simp add: webhook_Write_def webhook_Flush_def Let_def)

section \<open>Lines\<close>

definition cef_char :: "byte \<Rightarrow> bytes" where
  "cef_char c = (if c \<in> {92, 124, 61} then [92, c] else if c = 10 then [32] else [c])"

lemma cefEscape_chars: "cefEscape s = concat (map cef_char s)"
  by (induction s) (simp_all add: cefEscape_def replace_all_def cef_char_def Let_def)

text \<open>Reading an escaped value back.\<close>

fun cef_read :: "bytes \<Rightarrow> bytes" where
  "cef_read (c # d # cs) = (if c = 92 then d # cef_read cs else c # cef_read (d # cs))"
| "cef_read cs = cs"

lemma cef_read_escaped: "cef_read (cefEscape s) = map (\<lambda>c. if c = 10 then 32 else c) s"
proof (induction s)
  case (Cons c s)
  have "cef_read (c # cs) = c # cef_read cs" if "c \<noteq> 92" for c cs
    using that by (cases cs) simp_all
  then show ?case
    using Cons by (simp add: cefEscape_chars cef_char_def)
qed (simp add: cefEscape_chars)

lemma cefEscape_no_newline: "10 \<notin> set (cefEscape s)"
  by (auto simp: cefEscape_chars cef_char_def)

lemma trim_with_none:
  assumes "\<forall>w \<in> set spaces. take (length w) s \<noteq> w"
  shows "trim_with spaces s = s"
proof -
  have "find (\<lambda>w. take (length w) s = w) spaces = None"
    using assms by (simp add: find_None_iff)
  then show ?thesis
    by (simp add: trim_with.simps)
qed

lemma take_eq_head: "take (length w) s = w \<Longrightarrow> w \<noteq> [] \<Longrightarrow> hd s = hd w"
  by (metis hd_take length_greater_0_conv)

lemma TrimSpace_id:
  assumes "s \<noteq> []" and "hd s \<notin> hd ` set white_space" and "last s \<notin> last ` set white_space"
  shows "TrimSpace s = s"
proof -
  have ne: "[] \<notin> set white_space"
    by (auto simp: white_space_def)
  have "trim_with white_space s = s"
  proof (rule trim_with_none, rule ballI, rule notI)
    fix w assume w: "w \<in> set white_space" "take (length w) s = w"
    then have "hd s = hd w"
      using ne by (metis take_eq_head)
    then show False
      using assms(2) w(1) by blast
  qed
  moreover have "trim_with (map rev white_space) (rev s) = rev s"
  proof (rule trim_with_none, rule ballI, rule notI)
    fix w assume w: "w \<in> set (map rev white_space)" "take (length w) (rev s) = w"
    then have "w \<noteq> []" and "last s = hd w"
      using ne take_eq_head [OF w(2)] assms(1) by (auto simp: hd_rev)
    then show False
      using assms(3) w(1) by (auto simp: hd_rev)
  qed
  ultimately show ?thesis
    by (simp add: TrimSpace_def)
qed

lemma print_nat_char: "c \<in> set (print_nat 10 n) \<Longrightarrow> unat c \<in> {48..57}"
  using print_nat_digits [of 10 c n] by (auto simp: unat_of_nat simp del: of_nat_add)

lemma print_int_chars: "print_int i \<noteq> []" "unat (last (print_int i)) \<in> {48..57}" "10 \<notin> set (print_int i)"
proof -
  have "unat (last (print_nat 10 n)) \<in> {48..57}" for n
    by (rule print_nat_char [of _ n]) simp
  then show "unat (last (print_int i)) \<in> {48..57}"
    by (simp add: print_int_def)
  have "10 \<notin> set (print_nat 10 n)" for n
    using print_nat_char [of 10 n] by auto
  then show "10 \<notin> set (print_int i)"
    by (simp add: print_int_def)
qed (simp add: print_int_def)

lemma TrimSpace_extension: "TrimSpace (cef_extension e) = cef_extension e"
proof (rule TrimSpace_id)
  show "cef_extension e \<noteq> []" and "hd (cef_extension e) \<notin> hd ` set white_space"
    by (simp_all add: cef_extension_def white_space_def ascii_def)
  have "last (cef_extension e) = last (print_int (se_Timestamp e div 1000000))"
    using print_int_chars(1) by (simp add: cef_extension_def)
  moreover have "unat c \<in> {48..57} \<Longrightarrow> c \<notin> last ` set white_space" for c
    by (auto simp: white_space_def)
  ultimately show "last (cef_extension e) \<notin> last ` set white_space"
    using print_int_chars(2) by simp
qed

text \<open>
  A line breaks exactly where a text that is not escaped has a line break.
\<close>

lemma ToCEF_newline:
  "10 \<in> set (ToCEF e) \<longleftrightarrow>
   10 \<in> set (se_Hostname e @ se_EventType e @ se_Decision e @ se_Comm e @ se_RemoteAddr e @ se_Protocol e)"
proof -
  have "10 \<notin> set (print_nat 10 n)" for n
    using print_nat_char [of 10 n] by auto
  then show ?thesis
    unfolding ToCEF_def TrimSpace_extension
    by (auto simp: cef_extension_def cefEscape_no_newline print_int_chars ascii_def)
qed

end
