(* ===== verification/Streaming_Properties.thy ===== *)
theory Streaming_Properties
  imports Streaming Enforcer_Properties
begin

text \<open>
  The properties of the stream: what arrives at the sinks, and that it says what the enforcer did.
\<close>

section \<open>Delivery\<close>

text \<open>
  C9. The stream loses nothing that it accepted: however calls of \<open>Emit\<close>, the loop, its timer and
  \<open>Close\<close> interleave, every sink has posted, written or still holds the reports of the processed
  events, each once and in the order in which the events were accepted; the queue stays within its
  buffer; every call is counted as emitted, dropped, queued or under way; when \<open>Close\<close> has returned
  nothing is queued; and a panic needs a call of \<open>Emit\<close> that was under way when \<open>Close\<close> began.
\<close>

theorem stream_ordered_and_accounted:
  assumes "stream_exec sink_Write sink_Flush sink_Close (streaming (NewPipeline n sinks hostname labels)) acts s"
  shows "accepted acts = map fst (reports acts) @ pp_eventCh (sm_pipe s) \<and>
    list_all2 (\<lambda>k0 k. sink_seen k = sink_seen k0 @ map (sink_shown k0) (map snd (reports acts)))
      sinks (pp_sinks (sm_pipe s)) \<and>
    length (pp_eventCh (sm_pipe s)) \<le> pp_buffer (NewPipeline n sinks hostname labels) \<and>
    pp_received (sm_pipe s) = pp_emitted (sm_pipe s) + pp_dropped (sm_pipe s) +
      of_nat (length (pp_eventCh (sm_pipe s))) + of_nat (length (sm_emitting s)) \<and>
    (pp_done (sm_pipe s) \<longrightarrow> pp_eventCh (sm_pipe s) = []) \<and>
    (sm_panicked s \<longrightarrow> (\<exists>calls. CloseBegun calls \<in> set acts \<and> calls \<noteq> []))"
proof -
  have inv: "outlet.stream_inv (NewPipeline n sinks hostname labels) acts s"
    using assms by (rule outlet.stream_exec_inv)
  have "list_all2 (\<lambda>k0 k. sink_seen k = sink_seen k0 @ map (sink_shown k0) (map snd (reports acts)))
      sinks (pp_sinks (sm_pipe s))"
    using inv
    by (auto simp: outlet.stream_inv_def outlet.follows_def Let_def NewPipeline_def elim!: list_all2_mono)
  then show ?thesis
    using inv by (simp add: outlet.stream_inv_def Let_def)
qed

lemma stream_exec_Cons:
  assumes "stream_step wr fl cl s act s'" and "stream_exec wr fl cl s' acts s''"
  shows "stream_exec wr fl cl s (act # acts) s''"
  using assms(2,1)
proof (induction rule: stream_exec.induct)
  case (none s')
  then show ?case
    using stream_exec.more [OF stream_exec.none] by fastforce
next
  case (more s' acts t act' t')
  then show ?case
    using stream_exec.more by fastforce
qed

theorem stream_ordered_and_accounted_witness:
  "\<exists>s se. stream_exec sink_Write sink_Flush sink_Close
      (streaming (NewPipeline 1 [CEFSink \<lparr>cf_lines = []\<rparr>] [] []))
      [Enter (monitorProcessEvents demo_sh, None), Accepted (monitorProcessEvents demo_sh, None),
       Processed (monitorProcessEvents demo_sh, None) se, CloseBegun [], LoopEnded, CloseEnded] s \<and>
    map sink_seen (pp_sinks (sm_pipe s)) = [[SeenLine (ToCEF se)]] \<and> pp_eventCh (sm_pipe s) = []"
proof -
  let ?pair = "(monitorProcessEvents demo_sh, None) :: event_pair"
  let ?s0 = "streaming (NewPipeline 1 [CEFSink \<lparr>cf_lines = []\<rparr>] [] [])"
  let ?i = "\<lparr>si_written_at = 0, si_flushed_at = 0, si_answer = TransportFailed, si_writer_ok = True\<rparr>"
  let ?step = "stream_step sink_Write sink_Flush sink_Close"
  define s1 where "s1 = ?s0\<lparr>sm_pipe := the (emit_check (sm_pipe ?s0)), sm_emitting := [?pair]\<rparr>"
  define s2 where "s2 = s1\<lparr>sm_pipe := (sm_pipe s1)\<lparr>pp_eventCh := [?pair]\<rparr>, sm_emitting := []\<rparr>"
  define x where "x = process sink_Write [?i] [] [] 0 ?pair ((sm_pipe s2)\<lparr>pp_eventCh := []\<rparr>)"
  define s3 where "s3 = s2\<lparr>sm_pipe := snd x\<rparr>"
  define s4 where "s4 = s3\<lparr>sm_pipe := the (close_begin (sm_pipe s3))\<rparr>"
  define s5 where "s5 = s4\<lparr>sm_looping := False\<rparr>"
  define s6 where "s6 = s5\<lparr>sm_pipe := snd (close_end sink_Flush sink_Close [?i] (sm_pipe s5))\<rparr>"
  note states = s1_def s2_def s3_def s4_def s5_def s6_def x_def streaming_def NewPipeline_def emit_check_def
    close_begin_def process_def close_end_def split_beta Let_def
  have st1: "?step ?s0 (Enter ?pair) s1"
    using stream_step.enter [of ?s0 _ sink_Write sink_Flush sink_Close ?pair] by (simp add: states)
  have st2: "?step s1 (Accepted ?pair) s2"
    using stream_step.sent [of s1 ?pair _ _ sink_Write sink_Flush sink_Close] by (simp add: states emit_send_def)
  have st3: "?step s2 (Processed ?pair (fst x)) s3"
    unfolding s3_def
  proof (rule stream_step.processed)
    show "process sink_Write [?i] [] [] 0 ?pair ((sm_pipe s2)\<lparr>pp_eventCh := []\<rparr>) = (fst x, snd x)"
      by (simp add: x_def)
  qed (simp_all add: s1_def s2_def streaming_def NewPipeline_def emit_check_def)
  have st4: "?step s3 (CloseBegun []) s4"
    using stream_step.close_begun [of s3 "the (close_begin (sm_pipe s3))" sink_Write sink_Flush sink_Close]
    by (simp add: states)
  have st5: "?step s4 LoopEnded s5"
    using stream_step.loop_ended [of s4 sink_Write sink_Flush sink_Close] by (simp add: states)
  have st6: "?step s5 CloseEnded s6"
    using stream_step.close_ended [of s5 "[?i]" sink_Write sink_Flush sink_Close] by (simp add: states)
  have run: "stream_exec sink_Write sink_Flush sink_Close ?s0
      [Enter ?pair, Accepted ?pair, Processed ?pair (fst x), CloseBegun [], LoopEnded, CloseEnded] s6"
    by (rule stream_exec_Cons [OF st1 stream_exec_Cons [OF st2 stream_exec_Cons [OF st3
        stream_exec_Cons [OF st4 stream_exec_Cons [OF st5 stream_exec_Cons [OF st6 stream_exec.none]]]]]])
  then show ?thesis
    using stream_ordered_and_accounted [OF run]
    by (intro exI [of _ s6] exI [of _ "fst x"] conjI run)
      (auto simp: reports_def accepted_def list_all2_Cons1 sink_seen_def sink_shown_def)
qed

section \<open>Reports\<close>

lemma enforced_report:
  assumes "ae_PID event \<noteq> 0"
  shows "kills event result h \<longleftrightarrow>
    ar_Action (enforced event result h) = ActionDeny \<and> \<not> ar_Audit (enforced event result h)"
  using assms
  by (auto simp: kills_def enforced_def Enforce_def ActionAllow_def ActionDeny_def ActionLog_def)

definition emitted :: "effect list \<Rightarrow> (api_event \<times> action_result) list" where
  "emitted effs = concat (map (\<lambda>e. case e of Emit event result \<Rightarrow> [(event, result)] | _ \<Rightarrow> []) effs)"

lemma transform_report:
  "se_Enforced (transform hostname labels ident now event (Some r)) \<longleftrightarrow> ar_Action r = ActionDeny \<and> \<not> ar_Audit r"
  "se_PID (transform hostname labels ident now event (Some r)) = ae_PID event"
  "se_Decision (transform hostname labels ident now event (Some r)) = decision_text (ar_Action r)"
  by (simp_all add: transform_def Let_def split: option.split)

text \<open>The reports of the four ways through the enforcer.\<close>

lemma emitted_paths:
  assumes "en_pipeline st"
  shows "emitted (fst (deny_event inp event reason st)) =
      [(event, enforced event (plain_result ActionDeny reason (in_result_time inp)) (en_handler st))]"
    and "emitted (fst (learn_event inp event st)) =
      [(event, plain_result ActionAllow LearningMode (in_result_time inp))]"
    and "emitted (fst (replay_event event result st)) = [(event, enforced event result (en_handler st))]"
    and "emitted (fst (settle_event set_rule inp event res st)) =
      [(event, enforced event (answer inp res) (en_handler st))]"
proof -
  have e: "emitted (fst (snd (Enforce event r h))) = []" for r h
    by (simp add: Enforce_effects emitted_def)
  show "emitted (fst (deny_event inp event reason st)) =
      [(event, enforced event (plain_result ActionDeny reason (in_result_time inp)) (en_handler st))]"
    using assms e [of "plain_result ActionDeny reason (in_result_time inp)" "en_handler st"]
    by (simp add: deny_event_def enforced_def emit_event_def emitted_def split: prod.split)
  show "emitted (fst (learn_event inp event st)) =
      [(event, plain_result ActionAllow LearningMode (in_result_time inp))]"
    using assms by (simp add: learn_event_def emit_event_def emitted_def Let_def)
  show "emitted (fst (replay_event event result st)) = [(event, enforced event result (en_handler st))]"
    using assms e [of result "en_handler st"]
    by (simp add: replay_event_def enforced_def emit_event_def emitted_def split: prod.split)
  show "emitted (fst (settle_event set_rule inp event res st)) =
      [(event, enforced event (answer inp res) (en_handler st))]"
    using assms by (cases res) (simp_all add: settle_effects emit_event_def emitted_def Let_def)
qed



section \<open>Lines\<close>

text \<open>
  C40. A process chooses whether its line in a log is one line: the line of an execution that the
  monitor reports breaks exactly if the command name has a line break, because the name is not
  escaped, while a path is, and can be read back up to its line breaks.
\<close>

theorem comm_breaks_log_lines:
  assumes "10 \<notin> set hostname"
  shows "(10 \<in> set (ToCEF (transform hostname labels ident now (monitorProcessEvents ev) result)) \<longleftrightarrow>
      10 \<in> set (Comm ev)) \<and>
    cef_read (cefEscape (Filename ev)) = map (\<lambda>c. if c = 10 then 32 else c) (Filename ev)"
proof -
  let ?e = "transform hostname labels ident now (monitorProcessEvents ev) result"
  have "10 \<notin> set (se_EventType ?e)" and "10 \<notin> set (se_Decision ?e)" and "se_Hostname ?e = hostname"
    and "se_Comm ?e = Comm ev" and "se_RemoteAddr ?e = []" and "se_Protocol ?e = []"
    by (simp_all add: transform_def monitorProcessEvents_def linux_event_def GetType_def EventTypeProcess_def
        linux_base_def decision_text_def ascii_def Let_def split: option.split)
  then show ?thesis
    using assms by (simp add: ToCEF_newline cef_read_escaped)
qed

theorem comm_breaks_log_lines_witness:
  "10 \<in> set (ToCEF (transform (ascii ''host'') [] [] 0 (monitorProcessEvents (demo_sh\<lparr>Comm := [115, 10, 104]\<rparr>)) None))"
  using comm_breaks_log_lines [of "ascii ''host''" "[]" "[]" 0 "demo_sh\<lparr>Comm := [115, 10, 104]\<rparr>" None]
  by (simp add: ascii_def)

end
