(* ===== verification/Vmlinux_Abi.thy ===== *)
theory Vmlinux_Abi
  imports Vmlinux_Net
begin

text \<open>
  The kernel's own declarations, in \<open>bpf/vmlinux.h\<close>, of structs that programs restate by hand:
  socket addresses and the records of the system call tracepoints.
\<close>

definition kern_in_addr :: ctype where
  "kern_in_addr = CStruct False [Field ''s_addr'' type___be32]"

definition kern_sockaddr_in :: ctype where
  "kern_sockaddr_in = CStruct False [
     Field ''sin_family'' type___kernel_sa_family_t,
     Field ''sin_port'' type___be16,
     Field ''sin_addr'' kern_in_addr,
     Field ''__pad'' (CArr c_char 8)]"

definition kern_sockaddr_in6 :: ctype where
  "kern_sockaddr_in6 = CStruct False [
     Field ''sin6_family'' c_short,
     Field ''sin6_port'' type___be16,
     Field ''sin6_flowinfo'' type___be32,
     Field ''sin6_addr'' struct_in6_addr,
     Field ''sin6_scope_id'' type___u32]"

definition kern_trace_entry :: ctype where
  "kern_trace_entry = CStruct False [
     Field ''type'' c_short,
     Field ''flags'' c_char,
     Field ''preempt_count'' c_char,
     Field ''pid'' c_int]"

definition kern_sys_enter :: ctype where
  "kern_sys_enter = CStruct False [
     Field ''ent'' kern_trace_entry,
     Field ''id'' c_long,
     Field ''args'' (CArr c_long 6),
     Field ''__data'' (CArr c_char 0)]"

definition kern_sys_exit :: ctype where
  "kern_sys_exit = CStruct False [
     Field ''ent'' kern_trace_entry,
     Field ''id'' c_long,
     Field ''ret'' c_long,
     Field ''__data'' (CArr c_char 0)]"

lemmas kern_defs =
  kern_in_addr_def kern_sockaddr_in_def kern_sockaddr_in6_def kern_trace_entry_def
  kern_sys_enter_def kern_sys_exit_def struct_in6_addr_def

end
