(* ===== verification/Abi_Properties.thy ===== *)
theory Abi_Properties
  imports Vmlinux_Abi Monitors Lsm_Hooks
begin

text \<open>
  The declarations that the programs rely on: field accesses on kernel structs, and structs that
  the programs declare themselves.
\<close>

text \<open>A struct as a program declares it, the kernel's declaration, and the members in use.\<close>

definition restated_structs :: "(ctype \<times> ctype \<times> string list) list" where
  "restated_structs =
     [(user_sockaddr_in, kern_sockaddr_in, [''sin_family'', ''sin_port'', ''sin_addr'']),
      (user_sockaddr_in6, kern_sockaddr_in6, [''sin6_family'', ''sin6_port'', ''sin6_addr'']),
      (struct_sockaddr_in, kern_sockaddr_in, [''sin_family'', ''sin_port'', ''sin_addr'']),
      (struct_sockaddr_in6, kern_sockaddr_in6, [''sin6_family'', ''sin6_port'', ''sin6_addr'']),
      (struct_trace_event_raw_sys_enter, kern_sys_enter, [''id'', ''args'']),
      (struct_trace_event_raw_sys_exit, kern_sys_exit, [''id'', ''ret''])]"

lemma restated_agree:
  "list_all (\<lambda>(mine, kernels, members).
       list_all (\<lambda>name. offset_of mine name = offset_of kernels name) members)
     restated_structs"
  by (simp add: restated_structs_def offset_of_def user_sockaddr_in_def user_sockaddr_in6_def
      user_in_addr_def user_in6_addr_def struct_sockaddr_in_def struct_sockaddr_in6_def
      struct_trace_event_raw_sys_enter_def struct_trace_event_raw_sys_exit_def kern_defs
      typedef_defs scan_simps cong: scan_congs)



end
