(* ===== verification/Win_Programs.thy ===== *)
theory Win_Programs
  imports Lsm_Common
begin

text \<open>
  The eBPF-for-Windows programs of \<open>internal/platform/etw/programs\<close>: the packed event structs and
  inline functions of \<open>warmor_common.h\<close> and the process, file and network monitors. A program
  looks its process up in a policy map keyed by PID, answers 0 to block and 1 to allow, and
  reports what it allows.
\<close>

section \<open>Structs\<close>

definition win_event_header :: ctype where
  "win_event_header = CStruct True [
     Field ''event_type'' type___u32,
     Field ''pid'' type___u32,
     Field ''tid'' type___u32,
     Field ''timestamp'' type___u64]"

definition win_process_event :: ctype where
  "win_process_event = CStruct True [
     Field ''hdr'' win_event_header,
     Field ''parent_pid'' type___u32,
     Field ''exit_code'' c_int,
     Field ''image_name'' (CArr c_char 256),
     Field ''cmd_line'' (CArr c_char 512)]"

definition win_file_event :: ctype where
  "win_file_event = CStruct True [
     Field ''hdr'' win_event_header,
     Field ''operation'' type___u32,
     Field ''flags'' type___u32,
     Field ''file_path'' (CArr c_char 512)]"

definition win_network_event :: ctype where
  "win_network_event = CStruct True [
     Field ''hdr'' win_event_header,
     Field ''protocol'' type___u32,
     Field ''operation'' type___u32,
     Field ''local_addr'' (CArr type___u8 16),
     Field ''remote_addr'' (CArr type___u8 16),
     Field ''local_port'' type___u16,
     Field ''remote_port'' type___u16,
     Field ''addr_family'' type___u16,
     Field ''_pad'' type___u16]"

text \<open>The sizes that the header asserts at compile time.\<close>

definition win_static_asserts :: "(ctype \<times> nat) list" where
  "win_static_asserts =
     [(win_event_header, 20), (win_process_event, 796), (win_file_event, 540), (win_network_event, 68)]"

lemma win_header_offsets [offset_simps]:
  "size_of win_event_header = 20"
  "offset_of win_event_header ''event_type'' = 0"
  "offset_of win_event_header ''pid'' = 4"
  "offset_of win_event_header ''tid'' = 8"
  "offset_of win_event_header ''timestamp'' = 12"
  by (simp_all add: size_of_def offset_of_def win_event_header_def typedef_defs scan_simps
      cong: scan_congs)

lemma win_process_offsets [offset_simps]:
  "size_of win_process_event = 796"
  "offset_of win_process_event ''hdr'' = 0"
  "offset_of win_process_event ''parent_pid'' = 20"
  "offset_of win_process_event ''exit_code'' = 24"
  "offset_of win_process_event ''image_name'' = 28"
  "offset_of win_process_event ''cmd_line'' = 284"
  by (simp_all add: size_of_def offset_of_def win_process_event_def win_event_header_def typedef_defs
      scan_simps cong: scan_congs)

lemma win_file_offsets [offset_simps]:
  "size_of win_file_event = 540"
  "offset_of win_file_event ''hdr'' = 0"
  "offset_of win_file_event ''operation'' = 20"
  "offset_of win_file_event ''flags'' = 24"
  "offset_of win_file_event ''file_path'' = 28"
  by (simp_all add: size_of_def offset_of_def win_file_event_def win_event_header_def typedef_defs
      scan_simps cong: scan_congs)

lemma win_network_offsets [offset_simps]:
  "size_of win_network_event = 68"
  "offset_of win_network_event ''hdr'' = 0"
  "offset_of win_network_event ''protocol'' = 20"
  "offset_of win_network_event ''operation'' = 24"
  "offset_of win_network_event ''local_addr'' = 28"
  "offset_of win_network_event ''remote_addr'' = 44"
  "offset_of win_network_event ''local_port'' = 60"
  "offset_of win_network_event ''remote_port'' = 62"
  "offset_of win_network_event ''addr_family'' = 64"
  "offset_of win_network_event ''_pad'' = 66"
  by (simp_all add: size_of_def offset_of_def win_network_event_def win_event_header_def typedef_defs
      scan_simps cong: scan_congs)

section \<open>Constants and maps\<close>

definition EVENT_PROCESS :: u32 where "EVENT_PROCESS = 1"
definition EVENT_FILE :: u32 where "EVENT_FILE = 2"
definition EVENT_NETWORK :: u32 where "EVENT_NETWORK = 3"
definition WIN_ACTION_DENY :: u8 where "WIN_ACTION_DENY = 1"
definition WIN_POLICY_MAX_ENTRIES :: nat where "WIN_POLICY_MAX_ENTRIES = 4096"

text \<open>The ids of the map types and helpers that the programs are compiled against.\<close>

definition win_map_types :: "(string \<times> nat) list" where
  "win_map_types = [(''BPF_MAP_TYPE_HASH'', 1), (''BPF_MAP_TYPE_RINGBUF'', 27)]"

definition win_helper_ids :: "(string \<times> nat) list" where
  "win_helper_ids =
     [(''BPF_FUNC_map_lookup_elem'', 1), (''BPF_FUNC_map_update_elem'', 2),
      (''BPF_FUNC_map_delete_elem'', 3), (''BPF_FUNC_ktime_get_ns'', 5),
      (''BPF_FUNC_get_current_pid_tgid'', 14), (''BPF_FUNC_get_current_comm'', 16),
      (''BPF_FUNC_ringbuf_reserve'', 131), (''BPF_FUNC_ringbuf_submit'', 132),
      (''BPF_FUNC_ringbuf_discard'', 133)]"

record win_state =
  win_events :: "bytes list"
  win_policy :: "(u32, u8) bpf_map"

section \<open>Inline helpers\<close>

definition fill_header :: "helpers \<Rightarrow> u32 \<Rightarrow> bytes \<Rightarrow> bytes" where
  "fill_header h etype hdr =
     (let off = offset_of win_event_header;
          pid_tgid = bpf_get_current_pid_tgid h;
          hdr = store (off ''event_type'') (le_bytes 4 etype) hdr;
          hdr = store (off ''pid'') (le_bytes 4 (ucast (drop_bit 32 pid_tgid) :: u32)) hdr;
          hdr = store (off ''tid'') (le_bytes 4 (ucast pid_tgid :: u32)) hdr
      in store (off ''timestamp'') (le_bytes 8 (bpf_ktime_get_ns h)) hdr)"

definition check_policy :: "win_state \<Rightarrow> u32 \<Rightarrow> bool" where
  "check_policy st pid =
     (case bpf_map_lookup_elem (win_policy st) pid of
        Some act \<Rightarrow> act = WIN_ACTION_DENY
      | None \<Rightarrow> False)"

section \<open>Process monitor\<close>

definition process_monitor :: "helpers \<Rightarrow> win_state \<Rightarrow> int \<times> win_state" where
  "process_monitor h st =
     (let off = offset_of win_process_event;
          pid_tgid = bpf_get_current_pid_tgid h;
          pid = ucast (drop_bit 32 pid_tgid)
      in if check_policy st pid then (0, st)
         else case bpf_ringbuf_reserve h (win_events st) (size_of win_process_event) of
                None \<Rightarrow> (1, st)
              | Some evt \<Rightarrow>
                  (let evt = modify (off ''hdr'') (size_of win_event_header) (fill_header h EVENT_PROCESS) evt;
                       evt = store (off ''parent_pid'') (le_bytes 4 (0 :: u32)) evt;
                       evt = store (off ''exit_code'') (le_bytes 4 (0 :: u32)) evt;
                       evt = modify (off ''image_name'') 256 (bpf_get_current_comm h) evt;
                       evt = store (off ''cmd_line'') (replicate 512 0) evt
                   in (1, st\<lparr>win_events := win_events st @ [evt]\<rparr>)))"

section \<open>File monitor\<close>

definition FILE_OP_OPEN :: u32 where "FILE_OP_OPEN = 0"
definition FILE_OP_READ :: u32 where "FILE_OP_READ = 1"
definition FILE_OP_WRITE :: u32 where "FILE_OP_WRITE = 2"
definition FILE_OP_CREATE :: u32 where "FILE_OP_CREATE = 3"
definition FILE_OP_DELETE :: u32 where "FILE_OP_DELETE = 4"

definition file_monitor :: "helpers \<Rightarrow> win_state \<Rightarrow> int \<times> win_state" where
  "file_monitor h st =
     (let off = offset_of win_file_event;
          pid_tgid = bpf_get_current_pid_tgid h;
          pid = ucast (drop_bit 32 pid_tgid)
      in if check_policy st pid then (0, st)
         else case bpf_ringbuf_reserve h (win_events st) (size_of win_file_event) of
                None \<Rightarrow> (1, st)
              | Some evt \<Rightarrow>
                  (let evt = modify (off ''hdr'') (size_of win_event_header) (fill_header h EVENT_FILE) evt;
                       evt = store (off ''operation'') (le_bytes 4 FILE_OP_OPEN) evt;
                       evt = store (off ''flags'') (le_bytes 4 (0 :: u32)) evt;
                       evt = store (off ''file_path'') (replicate 512 0) evt
                   in (1, st\<lparr>win_events := win_events st @ [evt]\<rparr>)))"

section \<open>Network monitor\<close>

definition NET_OP_CONNECT :: u32 where "NET_OP_CONNECT = 0"
definition NET_OP_ACCEPT :: u32 where "NET_OP_ACCEPT = 1"
definition NET_OP_SEND :: u32 where "NET_OP_SEND = 2"
definition NET_OP_RECV :: u32 where "NET_OP_RECV = 3"
definition NET_OP_CLOSE :: u32 where "NET_OP_CLOSE = 4"
definition PROTO_TCP :: u32 where "PROTO_TCP = 6"
definition PROTO_UDP :: u32 where "PROTO_UDP = 17"
definition WIN_AF_INET :: u32 where "WIN_AF_INET = 2"
definition WIN_AF_INET6 :: u32 where "WIN_AF_INET6 = 23"

record bpf_sock_ops =
  so_op :: u32
  so_family :: u32
  so_remote_ip4 :: u32
  so_local_ip4 :: u32
  so_remote_ip6 :: "u32 list"
  so_local_ip6 :: "u32 list"
  so_remote_port :: u32
  so_local_port :: u32
  so_protocol :: u32
  so_reply :: int

text \<open>\<open>memcpy\<close> of an array of four 32-bit words.\<close>

definition words_bytes :: "u32 list \<Rightarrow> bytes" where
  "words_bytes ws = concat (map (le_bytes 4) ws)"

definition network_monitor ::
  "helpers \<Rightarrow> win_state \<Rightarrow> bpf_sock_ops \<Rightarrow> int \<times> win_state \<times> bpf_sock_ops" where
  "network_monitor h st skops =
     (let off = offset_of win_network_event;
          pid_tgid = bpf_get_current_pid_tgid h;
          pid = ucast (drop_bit 32 pid_tgid)
      in if check_policy st pid then (0, st, skops\<lparr>so_reply := - 1\<rparr>)
         else case bpf_ringbuf_reserve h (win_events st) (size_of win_network_event) of
                None \<Rightarrow> (1, st, skops)
              | Some evt \<Rightarrow>
                  (let evt = modify (off ''hdr'') (size_of win_event_header) (fill_header h EVENT_NETWORK) evt;
                       evt = store (off ''protocol'') (le_bytes 4 (so_protocol skops)) evt;
                       operation =
                         (if so_op skops = 0 then NET_OP_CONNECT
                          else if so_op skops = 1 then NET_OP_ACCEPT
                          else if so_op skops = 2 then NET_OP_ACCEPT
                          else NET_OP_CONNECT);
                       evt = store (off ''operation'') (le_bytes 4 operation) evt;
                       evt = store (off ''addr_family'') (le_bytes 2 (ucast (so_family skops) :: u16)) evt;
                       evt = store (off ''_pad'') (le_bytes 2 (0 :: u16)) evt;
                       evt = store (off ''local_addr'') (replicate 16 0) evt;
                       evt = store (off ''remote_addr'') (replicate 16 0) evt;
                       evt =
                         (if so_family skops = WIN_AF_INET then
                            let evt = store (off ''local_addr'') (le_bytes 4 (so_local_ip4 skops)) evt
                            in store (off ''remote_addr'') (le_bytes 4 (so_remote_ip4 skops)) evt
                          else if so_family skops = WIN_AF_INET6 then
                            let evt = store (off ''local_addr'') (take 16 (words_bytes (so_local_ip6 skops))) evt
                            in store (off ''remote_addr'') (take 16 (words_bytes (so_remote_ip6 skops))) evt
                          else evt);
                       evt = store (off ''local_port'') (le_bytes 2 (ucast (so_local_port skops) :: u16)) evt;
                       evt = store (off ''remote_port'')
                               (le_bytes 2 (ucast (drop_bit 16 (so_remote_port skops)) :: u16)) evt
                   in (1, st\<lparr>win_events := win_events st @ [evt]\<rparr>, skops)))"

section \<open>What the programs have in common\<close>

text \<open>The 20 bytes of a filled header.\<close>

definition header_bytes :: "helpers \<Rightarrow> u32 \<Rightarrow> bytes" where
  "header_bytes h etype =
     le_bytes 4 etype @ le_bytes 4 (ucast (drop_bit 32 (bpf_get_current_pid_tgid h)) :: u32) @
     le_bytes 4 (ucast (bpf_get_current_pid_tgid h) :: u32) @ le_bytes 8 (bpf_ktime_get_ns h)"

definition current_pid :: "helpers \<Rightarrow> u32" where
  "current_pid h = ucast (drop_bit 32 (bpf_get_current_pid_tgid h))"

lemma length_header_bytes [simp]: "length (header_bytes h etype) = 20"
  by (simp add: header_bytes_def)

lemma fill_header_bytes:
  assumes "length hdr = 20"
  shows "fill_header h etype hdr = header_bytes h etype"
proof -
  have "store 0 (le_bytes 4 etype) hdr = le_bytes 4 etype @ drop 4 hdr"
    by (simp add: store_def)
  then show ?thesis
    using assms by (simp add: fill_header_def header_bytes_def offset_simps Let_def store_append del: append_assoc)
qed

text \<open>
  A program blocks exactly the processes that the policy denies, without a report; it allows all
  others, with a report when the ring buffer has room. The report starts with the header.
\<close>

locale win_monitor =
  fixes run :: "helpers \<Rightarrow> win_state \<Rightarrow> int \<times> win_state"
    and size :: nat
    and etype :: u32
    and fill :: "helpers \<Rightarrow> bytes \<Rightarrow> bytes"
  assumes run_fill:
      "bpf_helpers h \<Longrightarrow>
       run h st =
         (if check_policy st (current_pid h) then (0, st)
          else case bpf_ringbuf_reserve h (win_events st) size of
                 None \<Rightarrow> (1, st)
               | Some evt \<Rightarrow> (1, st\<lparr>win_events := win_events st @ [fill h evt]\<rparr>))"
    and fill_length: "bpf_helpers h \<Longrightarrow> length evt = size \<Longrightarrow> length (fill h evt) = size"
    and fill_head:
      "bpf_helpers h \<Longrightarrow> length evt = size \<Longrightarrow> load 0 20 (fill h evt) = header_bytes h etype"
begin

lemma verdict: "bpf_helpers h \<Longrightarrow> fst (run h st) = (if check_policy st (current_pid h) then 0 else 1)"
  by (simp add: run_fill split: option.split)

lemma policy_kept: "bpf_helpers h \<Longrightarrow> win_policy (snd (run h st)) = win_policy st"
  by (simp add: run_fill split: option.split)

lemma blocked: "bpf_helpers h \<Longrightarrow> check_policy st (current_pid h) \<Longrightarrow> snd (run h st) = st"
  by (simp add: run_fill)

lemma submitted:
  "bpf_helpers h \<Longrightarrow> \<not> check_policy st (current_pid h) \<Longrightarrow>
   bpf_ringbuf_reserve h (win_events st) size = Some evt \<Longrightarrow>
   run h st = (1, st\<lparr>win_events := win_events st @ [fill h evt]\<rparr>)"
  by (simp add: run_fill)

lemma reported:
  assumes "bpf_helpers h" and "win_events (snd (run h st)) = win_events st @ [r]"
  shows "length r = size" and "load 0 20 r = header_bytes h etype"
proof -
  obtain evt where "bpf_ringbuf_reserve h (win_events st) size = Some evt" and "r = fill h evt"
    using assms by (auto simp: run_fill split: if_splits option.splits)
  then show "length r = size" and "load 0 20 r = header_bytes h etype"
    using bpf_helpers.reserve_length [OF assms(1)] fill_length [OF assms(1)] fill_head [OF assms(1)]
    by auto
qed

end

section \<open>Every program follows the contract\<close>

definition win_process_fill :: "helpers \<Rightarrow> bytes \<Rightarrow> bytes" where
  "win_process_fill h evt =
     writes [(284, replicate 512 0), (28, bpf_get_current_comm h (load 28 256 evt)),
             (24, le_bytes 4 (0 :: u32)), (20, le_bytes 4 (0 :: u32)),
             (0, header_bytes h EVENT_PROCESS)] evt"

definition win_file_fill :: "helpers \<Rightarrow> bytes \<Rightarrow> bytes" where
  "win_file_fill h evt =
     writes [(28, replicate 512 0), (24, le_bytes 4 (0 :: u32)), (20, le_bytes 4 FILE_OP_OPEN),
             (0, header_bytes h EVENT_FILE)] evt"

definition sock_operation :: "bpf_sock_ops \<Rightarrow> u32" where
  "sock_operation skops = (if so_op skops \<in> {1, 2} then NET_OP_ACCEPT else NET_OP_CONNECT)"

definition sock_addr_writes :: "bpf_sock_ops \<Rightarrow> (nat \<times> bytes) list" where
  "sock_addr_writes skops =
     (if so_family skops = WIN_AF_INET
      then [(44, le_bytes 4 (so_remote_ip4 skops)), (28, le_bytes 4 (so_local_ip4 skops))]
      else if so_family skops = WIN_AF_INET6
      then [(44, take 16 (words_bytes (so_remote_ip6 skops))),
            (28, take 16 (words_bytes (so_local_ip6 skops)))]
      else [])"

definition win_network_fill :: "bpf_sock_ops \<Rightarrow> helpers \<Rightarrow> bytes \<Rightarrow> bytes" where
  "win_network_fill skops h evt =
     writes ((62, le_bytes 2 (ucast (drop_bit 16 (so_remote_port skops)) :: u16)) #
             (60, le_bytes 2 (ucast (so_local_port skops) :: u16)) #
             sock_addr_writes skops @
             [(44, replicate 16 0), (28, replicate 16 0), (66, le_bytes 2 (0 :: u16)),
              (64, le_bytes 2 (ucast (so_family skops) :: u16)),
              (24, le_bytes 4 (sock_operation skops)), (20, le_bytes 4 (so_protocol skops)),
              (0, header_bytes h EVENT_NETWORK)]) evt"

lemma modify_header:
  "20 \<le> length evt \<Longrightarrow>
   modify 0 20 (fill_header h etype) evt = writes [(0, header_bytes h etype)] evt"
  by (simp add: modify_def fill_header_bytes length_load write_simps)

lemmas win_fill_simps =
  Let_def offset_simps modify_header write_simps writes_fit_def length_load current_pid_def

lemma win_process_run:
  assumes "bpf_helpers h"
  shows "process_monitor h st =
    (if check_policy st (current_pid h) then (0, st)
     else case bpf_ringbuf_reserve h (win_events st) 796 of
            None \<Rightarrow> (1, st)
          | Some evt \<Rightarrow> (1, st\<lparr>win_events := win_events st @ [win_process_fill h evt]\<rparr>))"
  using bpf_helpers.reserve_length [OF assms, of "win_events st" 796]
  by (auto simp: process_monitor_def win_process_fill_def win_fill_simps
      bpf_helpers.comm_length [OF assms] split: option.split)

lemma win_file_run:
  assumes "bpf_helpers h"
  shows "file_monitor h st =
    (if check_policy st (current_pid h) then (0, st)
     else case bpf_ringbuf_reserve h (win_events st) 540 of
            None \<Rightarrow> (1, st)
          | Some evt \<Rightarrow> (1, st\<lparr>win_events := win_events st @ [win_file_fill h evt]\<rparr>))"
  using bpf_helpers.reserve_length [OF assms, of "win_events st" 540]
  by (auto simp: file_monitor_def win_file_fill_def win_fill_simps split: option.split)

lemma win_network_run:
  assumes "bpf_helpers h"
  shows "network_monitor h st skops =
    (if check_policy st (current_pid h) then (0, st, skops\<lparr>so_reply := - 1\<rparr>)
     else case bpf_ringbuf_reserve h (win_events st) 68 of
            None \<Rightarrow> (1, st, skops)
          | Some evt \<Rightarrow> (1, st\<lparr>win_events := win_events st @ [win_network_fill skops h evt]\<rparr>, skops))"
  using bpf_helpers.reserve_length [OF assms, of "win_events st" 68]
  by (auto simp: network_monitor_def win_network_fill_def sock_operation_def sock_addr_writes_def
      win_fill_simps split: option.split)

text \<open>The network program without the context that it changes.\<close>

definition run_network :: "bpf_sock_ops \<Rightarrow> helpers \<Rightarrow> win_state \<Rightarrow> int \<times> win_state" where
  "run_network skops h st =
     (case network_monitor h st skops of (code, st', skops') \<Rightarrow> (code, st'))"

lemma win_fits:
  assumes "bpf_helpers h"
  shows "length evt = 796 \<Longrightarrow> length (win_process_fill h evt) = 796 \<and>
           load 0 20 (win_process_fill h evt) = header_bytes h EVENT_PROCESS"
    and "length evt = 540 \<Longrightarrow> length (win_file_fill h evt) = 540 \<and>
           load 0 20 (win_file_fill h evt) = header_bytes h EVENT_FILE"
    and "length evt = 68 \<Longrightarrow> length (win_network_fill skops h evt) = 68 \<and>
           load 0 20 (win_network_fill skops h evt) = header_bytes h EVENT_NETWORK"
  by (simp_all add: win_process_fill_def win_file_fill_def win_network_fill_def sock_addr_writes_def
      length_writes load_writes writes_fit_def length_load min_le_iff_disj
      bpf_helpers.comm_length [OF assms])

interpretation wproc: win_monitor process_monitor 796 EVENT_PROCESS win_process_fill
  by unfold_locales (simp_all add: win_process_run win_fits)

interpretation wfile: win_monitor file_monitor 540 EVENT_FILE win_file_fill
  by unfold_locales (simp_all add: win_file_run win_fits)

interpretation wnet: win_monitor "run_network skops" 68 EVENT_NETWORK "win_network_fill skops" for skops
  by unfold_locales (simp_all add: run_network_def win_network_run win_fits split: option.split)

lemma network_reply:
  "bpf_helpers h \<Longrightarrow>
   snd (snd (network_monitor h st skops)) =
     (if check_policy st (current_pid h) then skops\<lparr>so_reply := - 1\<rparr> else skops)"
  by (simp add: win_network_run split: option.split)

text \<open>The members that the network program reports.\<close>

lemma win_network_members:
  assumes "length evt = 68"
  shows "load 20 4 (win_network_fill skops h evt) = le_bytes 4 (so_protocol skops)"
    and "load 24 4 (win_network_fill skops h evt) = le_bytes 4 (sock_operation skops)"
    and "load 60 2 (win_network_fill skops h evt) = le_bytes 2 (ucast (so_local_port skops) :: u16)"
    and "load 62 2 (win_network_fill skops h evt) =
           le_bytes 2 (ucast (drop_bit 16 (so_remote_port skops)) :: u16)"
    and "load 64 2 (win_network_fill skops h evt) = le_bytes 2 (ucast (so_family skops) :: u16)"
    and "so_family skops = WIN_AF_INET \<Longrightarrow>
           load 28 4 (win_network_fill skops h evt) = le_bytes 4 (so_local_ip4 skops)"
    and "so_family skops = WIN_AF_INET \<Longrightarrow>
           load 44 4 (win_network_fill skops h evt) = le_bytes 4 (so_remote_ip4 skops)"
  using assms
  by (simp_all add: win_network_fill_def sock_addr_writes_def load_writes writes_fit_def
      min_le_iff_disj)

end
