(* ===== verification/Win_Legacy.thy ===== *)
theory Win_Legacy
  imports Win_Programs
begin

text \<open>
  The programs of \<open>bpf-windows\<close>: process, file and network monitors that report every call and
  enforce nothing. Their structs are declared without packing, so the 64-bit time stamp of the
  header is aligned and every later member lies four bytes behind its packed counterpart.
\<close>

section \<open>Structs\<close>

definition legacy_event_header :: ctype where
  "legacy_event_header = CStruct False [
     Field ''event_type'' type___u32,
     Field ''pid'' type___u32,
     Field ''tid'' type___u32,
     Field ''timestamp'' type___u64]"

definition legacy_process_event :: ctype where
  "legacy_process_event = CStruct False [
     Field ''hdr'' legacy_event_header,
     Field ''parent_pid'' type___u32,
     Field ''exit_code'' c_int,
     Field ''image_name'' (CArr c_char 256),
     Field ''cmd_line'' (CArr c_char 512)]"

definition legacy_file_event :: ctype where
  "legacy_file_event = CStruct False [
     Field ''hdr'' legacy_event_header,
     Field ''operation'' type___u32,
     Field ''flags'' type___u32,
     Field ''file_path'' (CArr c_char 512)]"

definition legacy_network_event :: ctype where
  "legacy_network_event = CStruct False [
     Field ''hdr'' legacy_event_header,
     Field ''protocol'' type___u32,
     Field ''operation'' type___u32,
     Field ''local_addr'' (CArr type___u8 16),
     Field ''remote_addr'' (CArr type___u8 16),
     Field ''local_port'' type___u16,
     Field ''remote_port'' type___u16,
     Field ''addr_family'' type___u16,
     Field ''_pad'' type___u16]"

lemma legacy_header_offsets [offset_simps]:
  "size_of legacy_event_header = 24"
  "offset_of legacy_event_header ''event_type'' = 0"
  "offset_of legacy_event_header ''pid'' = 4"
  "offset_of legacy_event_header ''tid'' = 8"
  "offset_of legacy_event_header ''timestamp'' = 16"
  by (simp_all add: size_of_def offset_of_def legacy_event_header_def typedef_defs scan_simps
      cong: scan_congs)

lemma legacy_process_offsets [offset_simps]:
  "size_of legacy_process_event = 800"
  "offset_of legacy_process_event ''hdr'' = 0"
  "offset_of legacy_process_event ''parent_pid'' = 24"
  "offset_of legacy_process_event ''exit_code'' = 28"
  "offset_of legacy_process_event ''image_name'' = 32"
  "offset_of legacy_process_event ''cmd_line'' = 288"
  by (simp_all add: size_of_def offset_of_def legacy_process_event_def legacy_event_header_def
      typedef_defs scan_simps cong: scan_congs)

lemma legacy_file_offsets [offset_simps]:
  "size_of legacy_file_event = 544"
  "offset_of legacy_file_event ''hdr'' = 0"
  "offset_of legacy_file_event ''operation'' = 24"
  "offset_of legacy_file_event ''flags'' = 28"
  "offset_of legacy_file_event ''file_path'' = 32"
  by (simp_all add: size_of_def offset_of_def legacy_file_event_def legacy_event_header_def
      typedef_defs scan_simps cong: scan_congs)

lemma legacy_network_offsets [offset_simps]:
  "size_of legacy_network_event = 72"
  "offset_of legacy_network_event ''hdr'' = 0"
  "offset_of legacy_network_event ''protocol'' = 24"
  "offset_of legacy_network_event ''operation'' = 28"
  "offset_of legacy_network_event ''local_addr'' = 32"
  "offset_of legacy_network_event ''remote_addr'' = 48"
  "offset_of legacy_network_event ''local_port'' = 64"
  "offset_of legacy_network_event ''remote_port'' = 66"
  "offset_of legacy_network_event ''addr_family'' = 68"
  "offset_of legacy_network_event ''_pad'' = 70"
  by (simp_all add: size_of_def offset_of_def legacy_network_event_def legacy_event_header_def
      typedef_defs scan_simps cong: scan_congs)

section \<open>Programs\<close>

definition LEGACY_EVENT_TYPE_PROCESS :: u32 where "LEGACY_EVENT_TYPE_PROCESS = 1"
definition LEGACY_EVENT_TYPE_FILE :: u32 where "LEGACY_EVENT_TYPE_FILE = 2"
definition LEGACY_EVENT_TYPE_NETWORK :: u32 where "LEGACY_EVENT_TYPE_NETWORK = 3"

definition legacy_process_monitor :: "helpers \<Rightarrow> bytes list \<Rightarrow> int \<times> bytes list" where
  "legacy_process_monitor h evs =
     (let off = offset_of legacy_process_event; hdr = offset_of legacy_event_header
      in case bpf_ringbuf_reserve h evs (size_of legacy_process_event) of
           None \<Rightarrow> (0, evs)
         | Some evt \<Rightarrow>
             (let evt = store (off ''hdr'' + hdr ''event_type'') (le_bytes 4 LEGACY_EVENT_TYPE_PROCESS) evt;
                  evt = store (off ''hdr'' + hdr ''pid'')
                          (le_bytes 4 (ucast (drop_bit 32 (bpf_get_current_pid_tgid h)) :: u32)) evt;
                  evt = store (off ''hdr'' + hdr ''tid'') (le_bytes 4 (ucast (bpf_get_current_pid_tgid h) :: u32)) evt;
                  evt = store (off ''hdr'' + hdr ''timestamp'') (le_bytes 8 (bpf_ktime_get_ns h)) evt;
                  evt = store (off ''parent_pid'') (le_bytes 4 (0 :: u32)) evt;
                  evt = store (off ''exit_code'') (le_bytes 4 (0 :: u32)) evt;
                  evt = modify (off ''image_name'') 256 (bpf_get_current_comm h) evt;
                  evt = store (off ''cmd_line'') (replicate 512 0) evt
              in (0, evs @ [evt])))"

definition legacy_file_monitor :: "helpers \<Rightarrow> bytes list \<Rightarrow> int \<times> bytes list" where
  "legacy_file_monitor h evs =
     (let off = offset_of legacy_file_event; hdr = offset_of legacy_event_header
      in case bpf_ringbuf_reserve h evs (size_of legacy_file_event) of
           None \<Rightarrow> (0, evs)
         | Some evt \<Rightarrow>
             (let evt = store (off ''hdr'' + hdr ''event_type'') (le_bytes 4 LEGACY_EVENT_TYPE_FILE) evt;
                  evt = store (off ''hdr'' + hdr ''pid'')
                          (le_bytes 4 (ucast (drop_bit 32 (bpf_get_current_pid_tgid h)) :: u32)) evt;
                  evt = store (off ''hdr'' + hdr ''tid'') (le_bytes 4 (ucast (bpf_get_current_pid_tgid h) :: u32)) evt;
                  evt = store (off ''hdr'' + hdr ''timestamp'') (le_bytes 8 (bpf_ktime_get_ns h)) evt;
                  evt = store (off ''operation'') (le_bytes 4 (0 :: u32)) evt;
                  evt = store (off ''flags'') (le_bytes 4 (0 :: u32)) evt;
                  evt = store (off ''file_path'') (replicate 512 0) evt
              in (0, evs @ [evt])))"

definition legacy_network_monitor :: "helpers \<Rightarrow> bytes list \<Rightarrow> int \<times> bytes list" where
  "legacy_network_monitor h evs =
     (let off = offset_of legacy_network_event; hdr = offset_of legacy_event_header
      in case bpf_ringbuf_reserve h evs (size_of legacy_network_event) of
           None \<Rightarrow> (0, evs)
         | Some evt \<Rightarrow>
             (let evt = store (off ''hdr'' + hdr ''event_type'') (le_bytes 4 LEGACY_EVENT_TYPE_NETWORK) evt;
                  evt = store (off ''hdr'' + hdr ''pid'')
                          (le_bytes 4 (ucast (drop_bit 32 (bpf_get_current_pid_tgid h)) :: u32)) evt;
                  evt = store (off ''hdr'' + hdr ''tid'') (le_bytes 4 (ucast (bpf_get_current_pid_tgid h) :: u32)) evt;
                  evt = store (off ''hdr'' + hdr ''timestamp'') (le_bytes 8 (bpf_ktime_get_ns h)) evt;
                  evt = store (off ''protocol'') (le_bytes 4 (6 :: u32)) evt;
                  evt = store (off ''operation'') (le_bytes 4 (0 :: u32)) evt;
                  evt = store (off ''local_addr'') (replicate 16 0) evt;
                  evt = store (off ''remote_addr'') (replicate 16 0) evt;
                  evt = store (off ''local_port'') (le_bytes 2 (0 :: u16)) evt;
                  evt = store (off ''remote_port'') (le_bytes 2 (0 :: u16)) evt;
                  evt = store (off ''addr_family'') (le_bytes 2 (2 :: u16)) evt;
                  evt = store (off ''_pad'') (le_bytes 2 (0 :: u16)) evt
              in (0, evs @ [evt])))"

section \<open>What the programs have in common\<close>

text \<open>A program reports when there is room, and answers 0 in any case.\<close>

locale legacy_monitor =
  fixes run :: "helpers \<Rightarrow> bytes list \<Rightarrow> int \<times> bytes list"
    and size :: nat
    and fill :: "helpers \<Rightarrow> bytes \<Rightarrow> bytes"
  assumes run_fill:
      "bpf_helpers h \<Longrightarrow>
       run h evs = (case bpf_ringbuf_reserve h evs size of
                      None \<Rightarrow> (0, evs)
                    | Some evt \<Rightarrow> (0, evs @ [fill h evt]))"
    and fill_length: "bpf_helpers h \<Longrightarrow> length evt = size \<Longrightarrow> length (fill h evt) = size"
begin

lemma code: "bpf_helpers h \<Longrightarrow> fst (run h evs) = 0"
  by (simp add: run_fill split: option.split)

lemma reported:
  assumes "bpf_helpers h" and "snd (run h evs) = evs @ [r]"
  obtains evt where "length evt = size" and "r = fill h evt" and "length r = size"
proof -
  obtain evt where "bpf_ringbuf_reserve h evs size = Some evt" and r: "r = fill h evt"
    using assms by (auto simp: run_fill split: option.splits)
  then have "length evt = size"
    using bpf_helpers.reserve_length [OF assms(1)] by blast
  then show ?thesis
    using that r fill_length [OF assms(1)] by blast
qed

end

definition legacy_header_writes :: "helpers \<Rightarrow> u32 \<Rightarrow> (nat \<times> bytes) list" where
  "legacy_header_writes h etype =
     [(16, le_bytes 8 (bpf_ktime_get_ns h)),
      (8, le_bytes 4 (ucast (bpf_get_current_pid_tgid h) :: u32)),
      (4, le_bytes 4 (ucast (drop_bit 32 (bpf_get_current_pid_tgid h)) :: u32)),
      (0, le_bytes 4 etype)]"

definition legacy_process_fill :: "helpers \<Rightarrow> bytes \<Rightarrow> bytes" where
  "legacy_process_fill h evt =
     writes ((288, replicate 512 0) # (32, bpf_get_current_comm h (load 32 256 evt)) #
             (28, le_bytes 4 (0 :: u32)) # (24, le_bytes 4 (0 :: u32)) #
             legacy_header_writes h LEGACY_EVENT_TYPE_PROCESS) evt"

definition legacy_file_fill :: "helpers \<Rightarrow> bytes \<Rightarrow> bytes" where
  "legacy_file_fill h evt =
     writes ((32, replicate 512 0) # (28, le_bytes 4 (0 :: u32)) # (24, le_bytes 4 (0 :: u32)) #
             legacy_header_writes h LEGACY_EVENT_TYPE_FILE) evt"

definition legacy_network_fill :: "helpers \<Rightarrow> bytes \<Rightarrow> bytes" where
  "legacy_network_fill h evt =
     writes ((70, le_bytes 2 (0 :: u16)) # (68, le_bytes 2 (2 :: u16)) # (66, le_bytes 2 (0 :: u16)) #
             (64, le_bytes 2 (0 :: u16)) # (48, replicate 16 0) # (32, replicate 16 0) #
             (28, le_bytes 4 (0 :: u32)) # (24, le_bytes 4 (6 :: u32)) #
             legacy_header_writes h LEGACY_EVENT_TYPE_NETWORK) evt"

lemmas legacy_fill_defs =
  legacy_process_fill_def legacy_file_fill_def legacy_network_fill_def legacy_header_writes_def

lemma legacy_lengths:
  assumes "bpf_helpers h"
  shows "length evt = 800 \<Longrightarrow> length (legacy_process_fill h evt) = 800"
    and "length evt = 544 \<Longrightarrow> length (legacy_file_fill h evt) = 544"
    and "length evt = 72 \<Longrightarrow> length (legacy_network_fill h evt) = 72"
  by (simp_all add: legacy_fill_defs length_writes writes_fit_def length_load
      bpf_helpers.comm_length [OF assms])

interpretation lproc: legacy_monitor legacy_process_monitor 800 legacy_process_fill
proof
  fix h evs
  assume h: "bpf_helpers h"
  show "legacy_process_monitor h evs =
      (case bpf_ringbuf_reserve h evs 800 of
         None \<Rightarrow> (0, evs) | Some evt \<Rightarrow> (0, evs @ [legacy_process_fill h evt]))"
    using bpf_helpers.reserve_length [OF h, of evs 800]
    by (auto simp: legacy_process_monitor_def legacy_fill_defs win_fill_simps offset_simps
        bpf_helpers.comm_length [OF h] split: option.split)
qed (simp add: legacy_lengths)

interpretation lfile: legacy_monitor legacy_file_monitor 544 legacy_file_fill
proof
  fix h evs
  assume h: "bpf_helpers h"
  show "legacy_file_monitor h evs =
      (case bpf_ringbuf_reserve h evs 544 of
         None \<Rightarrow> (0, evs) | Some evt \<Rightarrow> (0, evs @ [legacy_file_fill h evt]))"
    by (auto simp: legacy_file_monitor_def legacy_fill_defs win_fill_simps offset_simps split: option.split)
qed (simp add: legacy_lengths)

interpretation lnet: legacy_monitor legacy_network_monitor 72 legacy_network_fill
proof
  fix h evs
  assume h: "bpf_helpers h"
  show "legacy_network_monitor h evs =
      (case bpf_ringbuf_reserve h evs 72 of
         None \<Rightarrow> (0, evs) | Some evt \<Rightarrow> (0, evs @ [legacy_network_fill h evt]))"
    by (auto simp: legacy_network_monitor_def legacy_fill_defs win_fill_simps offset_simps split: option.split)
qed (simp add: legacy_lengths)

end
