(* ===== verification/Etw_Decode.thy ===== *)
theory Etw_Decode
  imports Win_Legacy Api_Types
begin

text \<open>
  The userspace side on Windows, \<open>internal/platform/etw/ebpf_loader.go\<close> and
  \<open>ebpf_policy_map.go\<close>: parsing of ring buffer samples, delivery to the event channel, and the
  writer of the policy map. \<open>unsafe.Sizeof\<close> is that of the 64-bit platforms, where Go lays a
  struct out as C does without packing.
\<close>

section \<open>Event types\<close>

definition EBPFEventHeader :: ctype where
  "EBPFEventHeader = CStruct False [
     Field ''EventType'' type___u32,
     Field ''PID'' type___u32,
     Field ''TID'' type___u32,
     Field ''Timestamp'' type___u64]"

definition EBPFProcessEvent :: ctype where
  "EBPFProcessEvent = CStruct False [
     Field ''EBPFEventHeader'' EBPFEventHeader,
     Field ''ParentPID'' type___u32,
     Field ''ExitCode'' c_int,
     Field ''ImageName'' (CArr type___u8 256),
     Field ''CmdLine'' (CArr type___u8 512)]"

definition EBPFFileEvent :: ctype where
  "EBPFFileEvent = CStruct False [
     Field ''EBPFEventHeader'' EBPFEventHeader,
     Field ''Operation'' type___u32,
     Field ''Flags'' type___u32,
     Field ''FilePath'' (CArr type___u8 512)]"

definition EBPFNetworkEvent :: ctype where
  "EBPFNetworkEvent = CStruct False [
     Field ''EBPFEventHeader'' EBPFEventHeader,
     Field ''Protocol'' type___u32,
     Field ''Operation'' type___u32,
     Field ''LocalAddr'' (CArr type___u8 16),
     Field ''RemoteAddr'' (CArr type___u8 16),
     Field ''LocalPort'' type___u16,
     Field ''RemotePort'' type___u16,
     Field ''AddrFamily'' type___u16,
     Field ''_'' type___u16]"

abbreviation unsafe_Sizeof :: "ctype \<Rightarrow> nat" where "unsafe_Sizeof \<equiv> size_of"

lemma ebpf_sizes [offset_simps]:
  "size_of EBPFEventHeader = 24" "size_of EBPFProcessEvent = 800"
  "size_of EBPFFileEvent = 544" "size_of EBPFNetworkEvent = 72"
  by (simp_all add: size_of_def EBPFEventHeader_def EBPFProcessEvent_def EBPFFileEvent_def
      EBPFNetworkEvent_def typedef_defs scan_simps cong: scan_congs)

section \<open>Parsing\<close>

definition cStringFromBytes :: "bytes \<Rightarrow> bytes" where
  "cStringFromBytes b = takeWhile (\<lambda>c. c \<noteq> 0) b"

text \<open>
  Nanoseconds since 1970 in 64-bit arithmetic that wraps around; \<open>now\<close> is \<open>time.Now()\<close>.
\<close>

definition windowsTimestampToTime :: "int \<Rightarrow> u64 \<Rightarrow> int" where
  "windowsTimestampToTime now ts =
     (if ts = 0 then now else sint ((ts - 116444736000000000) * 100 :: u64))"

text \<open>An event and the base of its payload with type, PID and time set and zero values elsewhere.\<close>

definition new_event :: "int \<Rightarrow> u32 \<Rightarrow> int \<Rightarrow> api_event" where
  "new_event type pid ts =
     \<lparr> ae_PID = pid, ae_UID = 0, ae_GID = 0, ae_Comm = [], ae_Filename = [], ae_Timestamp = ts,
       ae_Type = type, ae_CgroupID = 0, ae_Process = None, ae_File = None, ae_Network = None,
       ae_LSMEvent = False \<rparr>"

definition new_base :: "int \<Rightarrow> u32 \<Rightarrow> int \<Rightarrow> base_event" where
  "new_base type pid ts =
     \<lparr> be_Type = type, be_PID = pid, be_UID = 0, be_GID = 0, be_Comm = [], be_Timestamp = ts,
       be_CgroupID = 0 \<rparr>"

definition parseProcessEvent :: "bytes \<Rightarrow> u32 \<Rightarrow> int \<Rightarrow> api_event" where
  "parseProcessEvent data pid ts =
     (let event = new_event EventTypeProcess pid ts
      in if unsafe_Sizeof EBPFProcessEvent \<le> length data then
           (let imageName = cStringFromBytes (load 28 256 data)
            in event\<lparr>ae_Comm := imageName, ae_Filename := imageName,
                     ae_Process := Some \<lparr> pe_Base = new_base EventTypeProcess pid ts,
                                          pe_Filename = imageName, pe_Args = [] \<rparr>\<rparr>)
         else event)"

definition file_operation_text :: "u32 \<Rightarrow> bytes" where
  "file_operation_text op =
     (if op = 0 then ascii ''open''
      else if op = 1 then ascii ''read''
      else if op = 2 then ascii ''write''
      else if op = 3 then ascii ''create''
      else if op = 4 then ascii ''delete''
      else numbered ''unknown'' op)"

definition parseFileEvent :: "bytes \<Rightarrow> u32 \<Rightarrow> int \<Rightarrow> api_event" where
  "parseFileEvent data pid ts =
     (let event = new_event EventTypeFile pid ts;
          fileEvent = \<lparr> fe_Base = new_base EventTypeFile pid ts, fe_Operation = [],
                        fe_Path = [], fe_Flags = 0, fe_Mode = 0 \<rparr>;
          fileEvent =
            (if unsafe_Sizeof EBPFFileEvent \<le> length data then
               fileEvent\<lparr>fe_Operation := file_operation_text (le_word (load 20 4 data)),
                         fe_Flags := le_word (load 24 4 data),
                         fe_Path := cStringFromBytes (load 28 512 data)\<rparr>
             else fileEvent)
      in event\<lparr>ae_File := Some fileEvent\<rparr>)"

definition protocol_text :: "u32 \<Rightarrow> bytes" where
  "protocol_text protocol =
     (if protocol = 6 then ascii ''tcp''
      else if protocol = 17 then ascii ''udp''
      else numbered ''proto'' protocol)"

definition net_operation_text :: "u32 \<Rightarrow> bytes" where
  "net_operation_text op =
     (if op = 0 then ascii ''connect''
      else if op = 1 then ascii ''accept''
      else if op = 2 then ascii ''send''
      else if op = 3 then ascii ''recv''
      else if op = 4 then ascii ''close''
      else numbered ''op'' op)"

definition be_words :: "bytes \<Rightarrow> u16 list" where
  "be_words bs = map (\<lambda>i. be_word (load (2 * i) 2 bs)) [0..<8]"

definition parseNetworkEvent :: "bytes \<Rightarrow> u32 \<Rightarrow> int \<Rightarrow> api_event" where
  "parseNetworkEvent data pid ts =
     (let event = new_event EventTypeNetwork pid ts;
          netEvent = \<lparr> ne_Base = new_base EventTypeNetwork pid ts, ne_Operation = [],
                       ne_Protocol = [], ne_RemoteAddr = [], ne_RemotePort = 0, ne_LocalAddr = [],
                       ne_LocalPort = 0, ne_DataSize = 0 \<rparr>;
          netEvent =
            (if unsafe_Sizeof EBPFNetworkEvent \<le> length data then
               (let addrFamily = (le_word (load 64 2 data) :: u16);
                    netEvent = netEvent\<lparr>ne_Protocol := protocol_text (le_word (load 20 4 data)),
                                        ne_Operation := net_operation_text (le_word (load 24 4 data)),
                                        ne_LocalPort := le_word (load 60 2 data),
                                        ne_RemotePort := le_word (load 62 2 data)\<rparr>
                in if addrFamily = 2 then
                     netEvent\<lparr>ne_LocalAddr := dotted (load 28 4 data),
                              ne_RemoteAddr := dotted (load 44 4 data)\<rparr>
                   else if addrFamily = 23 then
                     netEvent\<lparr>ne_LocalAddr := colons (be_words (load 28 16 data)),
                              ne_RemoteAddr := colons (be_words (load 44 16 data))\<rparr>
                   else netEvent)
             else netEvent)
      in event\<lparr>ae_Network := Some netEvent\<rparr>)"

definition parseEBPFEvent :: "int \<Rightarrow> bytes \<Rightarrow> api_event option" where
  "parseEBPFEvent now data =
     (if length data < unsafe_Sizeof EBPFEventHeader then None
      else let etype = (le_word (load 0 4 data) :: u32);
               pid = le_word (load 4 4 data);
               ts = windowsTimestampToTime now (le_word (load 12 8 data))
           in if etype = 1 then Some (parseProcessEvent data pid ts)
              else if etype = 2 then Some (parseFileEvent data pid ts)
              else if etype = 3 then Some (parseNetworkEvent data pid ts)
              else None)"

section \<open>Delivery\<close>

record etw_loader =
  eventChan :: "api_event list"
  eventsReceived :: u64
  eventsDropped :: u64
  parseErrors :: u64

text \<open>The callback for one sample (\<open>None\<close> is a NULL pointer); \<open>cap\<close> is the channel's capacity.\<close>

definition ringBufferCallback :: "nat \<Rightarrow> int \<Rightarrow> bytes option \<Rightarrow> etw_loader \<Rightarrow> etw_loader" where
  "ringBufferCallback cap now data l =
     (case data of
        None \<Rightarrow> l
      | Some buf \<Rightarrow>
          if length buf < unsafe_Sizeof EBPFEventHeader then l
          else let l = l\<lparr>eventsReceived := eventsReceived l + 1\<rparr>
               in case parseEBPFEvent now buf of
                    None \<Rightarrow> l\<lparr>parseErrors := parseErrors l + 1\<rparr>
                  | Some event \<Rightarrow>
                      if length (eventChan l) < cap then l\<lparr>eventChan := eventChan l @ [event]\<rparr>
                      else l\<lparr>eventsDropped := eventsDropped l + 1\<rparr>)"

section \<open>The policy map\<close>

datatype win_error = NotAvailable | UnknownEventType u8 | ApiMissing | MapError errno

text \<open>
  What the loader found: the descriptor of the policy map and whether the map functions of
  \<open>ebpfapi.dll\<close> resolve.
\<close>

record win_api =
  policyMapFd :: int
  update_found :: bool
  delete_found :: bool

definition updateMapEntry :: "win_api \<Rightarrow> win_state \<Rightarrow> u32 \<Rightarrow> u8 \<Rightarrow> win_error option \<times> win_state" where
  "updateMapEntry api st key val =
     (if \<not> update_found api then (Some ApiMissing, st)
      else case bpf_map_update_elem WIN_POLICY_MAX_ENTRIES (win_policy st) key val of
             Inl e \<Rightarrow> (Some (MapError e), st)
           | Inr m \<Rightarrow> (None, st\<lparr>win_policy := m\<rparr>))"

definition deleteMapEntry :: "win_api \<Rightarrow> win_state \<Rightarrow> u32 \<Rightarrow> win_error option \<times> win_state" where
  "deleteMapEntry api st key =
     (if \<not> delete_found api then (None, st)
      else case bpf_map_delete_elem (win_policy st) key of
             Inl e \<Rightarrow> (if e = ENOENT then None else Some (MapError e), st)
           | Inr m \<Rightarrow> (None, st\<lparr>win_policy := m\<rparr>))"

definition win_hashPattern :: "bytes \<Rightarrow> u32" where
  "win_hashPattern pattern = fnv1a32 pattern"

text \<open>\<open>SetRule\<close> of the Windows policy map; \<open>None\<close> is a missing loader.\<close>

definition win_SetRule ::
  "win_api option \<Rightarrow> win_state \<Rightarrow> u64 \<Rightarrow> u8 \<Rightarrow> bytes \<Rightarrow> u8 \<Rightarrow> bool \<Rightarrow> win_error option \<times> win_state" where
  "win_SetRule loader st cgroupID eventType pattern act audit_only =
     (case loader of
        None \<Rightarrow> (Some NotAvailable, st)
      | Some api \<Rightarrow>
          if policyMapFd api < 0 then (Some NotAvailable, st)
          else if audit_only then (None, st)
          else if eventType \<notin> {0, 1, 2} then (Some (UnknownEventType eventType), st)
          else let key = (if eventType = 1 then win_hashPattern pattern else ucast cgroupID)
               in if act = 0 then deleteMapEntry api st key else updateMapEntry api st key act)"

end
