(* ===== verification/Win_Properties.thy ===== *)
theory Win_Properties
  imports Etw_Decode Demo_Kernel Vmlinux_Enums
begin

text \<open>
  The Windows programs against their userspace: the verdicts of the programs, the records they
  submit as the Go parser reads them, and the rules that reach the policy map.
\<close>

section \<open>Reading headers\<close>

lemma load_load: "off + n \<le> m \<Longrightarrow> load off n (load 0 m bs) = load off n bs"
  by (simp add: load_def take_drop min_def)

lemma header_members:
  assumes "load 0 20 r = header_bytes h etype"
  shows "load 0 4 r = le_bytes 4 etype" and "load 4 4 r = le_bytes 4 (current_pid h)"
    and "load 12 8 r = le_bytes 8 (bpf_ktime_get_ns h)"
proof -
  have part: "load off n r = load off n (header_bytes h etype)" if "off + n \<le> 20" for off n
    using load_load [OF that, of r] assms by simp
  show "load 0 4 r = le_bytes 4 etype" and "load 4 4 r = le_bytes 4 (current_pid h)"
    and "load 12 8 r = le_bytes 8 (bpf_ktime_get_ns h)"
    by (simp_all add: part) (simp_all add: header_bytes_def current_pid_def load_def)
qed

text \<open>A record that is shorter than the struct of the Go side gives the bare event.\<close>

definition bare_event :: "u32 \<Rightarrow> u32 \<Rightarrow> int \<Rightarrow> api_event" where
  "bare_event etype pid ts =
     (if etype = 1 then new_event EventTypeProcess pid ts
      else if etype = 2 then
        (new_event EventTypeFile pid ts)
          \<lparr>ae_File := Some \<lparr> fe_Base = new_base EventTypeFile pid ts, fe_Operation = [],
                             fe_Path = [], fe_Flags = 0, fe_Mode = 0 \<rparr>\<rparr>
      else
        (new_event EventTypeNetwork pid ts)
          \<lparr>ae_Network := Some \<lparr> ne_Base = new_base EventTypeNetwork pid ts, ne_Operation = [],
                                ne_Protocol = [], ne_RemoteAddr = [], ne_RemotePort = 0,
                                ne_LocalAddr = [], ne_LocalPort = 0, ne_DataSize = 0 \<rparr>\<rparr>)"

lemma parse_bare:
  assumes "load 0 20 r = header_bytes h etype" and "24 \<le> length r"
    and "etype = 1 \<and> length r < 800 \<or> etype = 2 \<and> length r < 544 \<or> etype = 3 \<and> length r < 72"
  shows "parseEBPFEvent now r =
    Some (bare_event etype (current_pid h) (windowsTimestampToTime now (bpf_ktime_get_ns h)))"
proof -
  have head: "parseEBPFEvent now r =
      (let pid = current_pid h; ts = windowsTimestampToTime now (bpf_ktime_get_ns h)
       in if etype = 1 then Some (parseProcessEvent r pid ts)
          else if etype = 2 then Some (parseFileEvent r pid ts)
          else if etype = 3 then Some (parseNetworkEvent r pid ts) else None)"
    using assms(2) by (simp add: parseEBPFEvent_def header_members [OF assms(1)] offset_simps Let_def)
  consider "etype = 1" "length r < 800" | "etype = 2" "length r < 544" | "etype = 3" "length r < 72"
    using assms(3) by blast
  then show ?thesis
  proof cases
    case 1 then show ?thesis by (simp add: head bare_event_def parseProcessEvent_def offset_simps Let_def)
  next
    case 2 then show ?thesis by (simp add: head bare_event_def parseFileEvent_def offset_simps Let_def)
  next
    case 3 then show ?thesis by (simp add: head bare_event_def parseNetworkEvent_def offset_simps Let_def)
  qed
qed

lemma bare_not_synced:
  "etype \<in> {1, 2, 3} \<Longrightarrow> syncToPolicyMap set_rule (bare_event etype pid ts) result aud st = st"
  by (auto simp: syncToPolicyMap_def bare_event_def new_event_def new_base_def GetType_def EventTypeProcess_def
      EventTypeFile_def EventTypeNetwork_def)

lemma win_reports:
  assumes "bpf_helpers h" and "run \<in> {process_monitor, file_monitor} \<union> range run_network"
    and "win_events (snd (run h st)) = win_events st @ [r]"
  shows "\<exists>etype \<in> {1, 2, 3}. parseEBPFEvent now r =
    Some (bare_event etype (current_pid h) (windowsTimestampToTime now (bpf_ktime_get_ns h)))"
proof -
  consider "run = process_monitor" | "run = file_monitor" | skops where "run = run_network skops"
    using assms(2) by blast
  then show ?thesis
  proof cases
    case 1
    show ?thesis
      using wproc.reported [OF assms(1)] assms(3) 1 parse_bare [of r h 1 now]
      by (auto simp: EVENT_PROCESS_def)
  next
    case 2
    show ?thesis
      using wfile.reported [OF assms(1)] assms(3) 2 parse_bare [of r h 2 now]
      by (auto simp: EVENT_FILE_def)
  next
    case 3
    show ?thesis
      using wnet.reported [OF assms(1)] assms(3) 3 parse_bare [of r h 3 now]
      by (auto simp: EVENT_NETWORK_def)
  qed
qed

section \<open>Verdicts\<close>

text \<open>
  C24. The Windows programs block exactly the processes whose PID the policy map denies: a blocked
  call leaves no record, the network program also rejects the operation through the reply field,
  and no program changes the policy.
\<close>

theorem windows_blocks_denied_pids:
  fixes st :: win_state
  assumes "bpf_helpers h" and "run \<in> {process_monitor, file_monitor, run_network skops}"
  defines "denied \<equiv> bpf_map_lookup_elem (win_policy st) (current_pid h) = Some 1"
  shows "fst (run h st) = (if denied then 0 else 1) \<and>
    win_policy (snd (run h st)) = win_policy st \<and>
    (denied \<longrightarrow> snd (run h st) = st \<and>
      snd (snd (network_monitor h st skops)) = skops\<lparr>so_reply := - 1\<rparr>)"
proof -
  have d: "denied \<longleftrightarrow> check_policy st (current_pid h)"
    by (auto simp: denied_def check_policy_def WIN_ACTION_DENY_def split: option.split)
  show ?thesis
    using assms(2) wproc.verdict [OF assms(1)] wproc.policy_kept [OF assms(1)] wproc.blocked [OF assms(1)]
      wfile.verdict [OF assms(1)] wfile.policy_kept [OF assms(1)] wfile.blocked [OF assms(1)]
      wnet.verdict [OF assms(1)] wnet.policy_kept [OF assms(1)] wnet.blocked [OF assms(1)]
      network_reply [OF assms(1)]
    unfolding d by auto
qed

theorem windows_blocks_denied_pids_witness:
  "fst (file_monitor demo \<lparr>win_events = [], win_policy = [(42, 1)]\<rparr>) = 0 \<and>
   fst (file_monitor demo \<lparr>win_events = [], win_policy = [(43, 1)]\<rparr>) = 1"
proof -
  have "current_pid demo = 42"
    by (simp add: current_pid_def demo_def mem_helpers_def)
  then show ?thesis
    using windows_blocks_denied_pids [OF demo_helpers, of file_monitor undefined
        "\<lparr>win_events = [], win_policy = [(42, 1)]\<rparr>"]
      windows_blocks_denied_pids [OF demo_helpers, of file_monitor undefined
        "\<lparr>win_events = [], win_policy = [(43, 1)]\<rparr>"]
    by (simp add: bpf_map_lookup_elem_def)
qed

section \<open>Records and the parser\<close>

definition demo_api :: win_api where
  "demo_api = \<lparr> policyMapFd = 5, update_found = True, delete_found = True \<rparr>"

text \<open>
  C35. Denials never reach the Windows policy map: whatever a Windows program reports, the parser
  finds the record too short for its own struct and keeps only type, PID and time, and the
  enforcer's synchronisation of any decision on such an event changes nothing.
\<close>

theorem windows_decisions_not_installed:
  assumes "bpf_helpers h" and "run \<in> {process_monitor, file_monitor} \<union> range run_network"
    and "win_events (snd (run h st)) = win_events st @ [r]"
  shows "\<exists>ev. parseEBPFEvent now r = Some ev \<and> ae_PID ev = current_pid h \<and>
    ae_Comm ev = [] \<and> ae_Filename ev = [] \<and>
    syncToPolicyMap (win_SetRule loader) ev ActionDeny aud st' = st'"
proof -
  obtain etype where e: "etype \<in> {1, 2, 3}" and p: "parseEBPFEvent now r =
      Some (bare_event etype (current_pid h) (windowsTimestampToTime now (bpf_ktime_get_ns h)))"
    using win_reports [OF assms] by blast
  show ?thesis
    using p bare_not_synced [OF e] e by (auto simp: bare_event_def new_event_def)
qed

theorem windows_decisions_not_installed_witness:
  "\<exists>r ev. win_events (snd (process_monitor demo \<lparr>win_events = [], win_policy = []\<rparr>)) = [r] \<and>
     parseEBPFEvent 0 r = Some ev \<and> ae_PID ev = 42 \<and> ae_Filename ev = [] \<and>
     syncToPolicyMap (win_SetRule (Some demo_api)) ev ActionDeny False
       \<lparr>win_events = [], win_policy = []\<rparr> = \<lparr>win_events = [], win_policy = []\<rparr>"
proof -
  let ?st = "\<lparr>win_events = [], win_policy = []\<rparr>"
  have pid: "current_pid demo = 42"
    by (simp add: current_pid_def demo_def mem_helpers_def)
  obtain r where r: "win_events (snd (process_monitor demo ?st)) = [r]"
    by (simp add: win_process_run [OF demo_helpers] check_policy_def bpf_map_lookup_elem_def demo_fields)
  then show ?thesis
    using windows_decisions_not_installed [OF demo_helpers, of process_monitor ?st r 0 "Some demo_api" False ?st]
      pid by auto
qed

text \<open>
  The programs of \<open>bpf-windows\<close> enforce nothing, and the image name of a process is lost on
  the way to userspace: their unpacked record is long enough for the parser, which then reads the
  name four bytes too early, at the exit code, and finds an empty string.
\<close>

lemma legacy_process_name_lost:
  assumes "bpf_helpers h" and "snd (legacy_process_monitor h evs) = evs @ [r]"
  shows "fst (legacy_process_monitor h evs) = 0 \<and>
    load 32 256 r \<in> range (bpf_get_current_comm h) \<and>
    (\<exists>ev. parseEBPFEvent now r = Some ev \<and> ae_PID ev = current_pid h \<and> ae_Filename ev = [] \<and>
       map_option pe_Filename (ae_Process ev) = Some [])"
proof -
  obtain evt where evt: "length evt = 800" and r: "r = legacy_process_fill h evt" "length r = 800"
    using lproc.reported [OF assms] by blast
  note mem = r(1) evt legacy_process_fill_def legacy_header_writes_def load_writes writes_fit_def
    length_load bpf_helpers.comm_length [OF assms(1)]
  have "load 0 4 r = le_bytes 4 (1 :: u32)" and pid: "load 4 4 r = le_bytes 4 (current_pid h)"
    and name: "load 32 256 r = bpf_get_current_comm h (load 32 256 evt)"
    and exit: "load 28 4 r = le_bytes 4 (0 :: u32)"
    by (simp_all add: mem LEGACY_EVENT_TYPE_PROCESS_def current_pid_def)
  moreover have "cStringFromBytes (load 28 256 r) = []"
  proof -
    have "load 28 256 r = le_bytes 4 (0 :: u32) @ load 32 252 r"
      using load_split [of 28 4 252 r] exit by simp
    moreover have "le_bytes 4 (0 :: u32) = [0, 0, 0, 0]"
      by (simp add: le_bytes_def upt_conv_Cons)
    ultimately show ?thesis by (simp add: cStringFromBytes_def)
  qed
  ultimately show ?thesis
    using r(2) lproc.code [OF assms(1)]
    by (simp add: parseEBPFEvent_def parseProcessEvent_def new_event_def offset_simps Let_def)
qed

section \<open>Time stamps\<close>

lemma wrap_u64: "(word_of_int k :: u64) = word_of_int (k - 18446744073709551616)"
  by (simp only: word_of_int_eq_iff take_bit_eq_mod) simp

lemma sint_u64: "0 \<le> k \<Longrightarrow> k < 9223372036854775808 \<Longrightarrow> sint (word_of_int k :: u64) = k"
  by (simp add: int_word_sint)

text \<open>
  The kernel's time stamp is nanoseconds since boot, the parser takes it for a count of 100 ns
  ticks since 1601: for every stamp of the first 280 days after boot the subtraction of the epoch
  underflows, the product wraps around, and the result lies after the year 2185 and runs a hundred
  times too fast.
\<close>

lemma windows_time_wraps:
  assumes "0 < uint ts" and "uint ts < 24211015631452242"
  shows "windowsTimestampToTime now ts = 6802270473709551616 + 100 * uint ts"
proof -
  let ?k = "6802270473709551616 + 100 * uint ts"
  have ts: "ts \<noteq> 0"
    using assms(1) by auto
  have "(ts - 116444736000000000) * 100 = word_of_int (?k - 18446744073709551616)"
    by (simp add: algebra_simps)
  also have "\<dots> = word_of_int ?k"
    by (simp only: wrap_u64 [symmetric])
  finally have "(ts - 116444736000000000) * 100 = word_of_int ?k" .
  moreover have "sint (word_of_int ?k :: u64) = ?k"
    by (rule sint_u64) (use assms(2) in simp_all)
  ultimately show ?thesis
    using ts by (simp only: windowsTimestampToTime_def if_False)
qed

section \<open>Delivery\<close>

text \<open>The samples that are counted: those that are long enough for a header.\<close>

definition counted_samples :: "bytes option list \<Rightarrow> bytes list" where
  "counted_samples samples =
     concat (map (\<lambda>d. case d of
                        Some buf \<Rightarrow> if length buf < unsafe_Sizeof EBPFEventHeader then [] else [buf]
                      | None \<Rightarrow> []) samples)"

definition unaccounted :: "etw_loader \<Rightarrow> u64" where
  "unaccounted l =
     eventsReceived l - (of_nat (length (eventChan l)) + eventsDropped l + parseErrors l)"

lemma callback_account:
  "eventsReceived (ringBufferCallback cap now d l) = eventsReceived l + of_nat (length (counted_samples [d]))"
  "unaccounted (ringBufferCallback cap now d l) = unaccounted l"
  by (auto simp: ringBufferCallback_def unaccounted_def counted_samples_def Let_def algebra_simps
      split: option.split)

lemma callback_chan:
  "\<exists>evs. eventChan (ringBufferCallback cap now d l) = eventChan l @ evs \<and>
     (length (eventChan l) \<le> cap \<longrightarrow> length (eventChan l @ evs) \<le> cap)"
  by (auto simp: ringBufferCallback_def Let_def split: option.split)

text \<open>
  C26. No sample disappears unaccounted: over any sequence of callbacks the count of received
  samples grows by the number of samples with a whole header; the difference between that count
  and the events in the channel plus those counted as dropped plus those counted as unparsable
  (in 64-bit arithmetic) stays what it was, 0 from the start; and the channel never exceeds its
  capacity.
\<close>

theorem etw_samples_accounted:
  assumes "length (eventChan l) \<le> cap" and "l' = fold (ringBufferCallback cap now) samples l"
  shows "eventsReceived l' = eventsReceived l + of_nat (length (counted_samples samples)) \<and>
    unaccounted l' = unaccounted l \<and> length (eventChan l') \<le> cap"
  using assms(1) unfolding assms(2)
proof (induction samples arbitrary: l)
  case (Cons d samples)
  let ?l = "ringBufferCallback cap now d l"
  have "length (eventChan ?l) \<le> cap"
    using callback_chan [of cap now d l] Cons.prems by auto
  then show ?case
    using Cons.IH [of ?l] callback_account [of cap now d l]
    by (simp add: counted_samples_def algebra_simps)
qed (simp add: counted_samples_def)

theorem etw_samples_accounted_witness:
  "eventsReceived (fold (ringBufferCallback 1 0) [None, Some (replicate 24 0), Some [1]]
     \<lparr> eventChan = [], eventsReceived = 0, eventsDropped = 0, parseErrors = 0 \<rparr>) = 1"
  using etw_samples_accounted [OF _ refl, of "\<lparr> eventChan = [], eventsReceived = 0, eventsDropped = 0, parseErrors = 0 \<rparr>"
      1 0 "[None, Some (replicate 24 0), Some [1]]"]
  by (simp add: counted_samples_def offset_simps)

section \<open>Rules\<close>

definition win_rule_key :: "u64 \<Rightarrow> u8 \<Rightarrow> bytes \<Rightarrow> u32" where
  "win_rule_key cgroupID eventType pattern =
     (if eventType = 1 then win_hashPattern pattern else ucast cgroupID)"



section \<open>Layouts\<close>

lemma win_ids_known:
  "list_all (\<lambda>(name, id). map_of enum_bpf_map_type name = Some (int id)) win_map_types"
  "list_all (\<lambda>(name, id). map_of enum_bpf_func_id name = Some (int id)) win_helper_ids"
  by code_simp+

text \<open>
  The static assertions of \<open>warmor_common.h\<close> hold, and its map types and helper ids are those
  of the enumerations in \<open>vmlinux.h\<close>. Nevertheless no packed struct has the size of its Go
  counterpart, which is the size of the unpacked struct of \<open>bpf-windows\<close>.
\<close>

lemma windows_layouts:
  "list_all (\<lambda>(t, n). size_of t = n) win_static_asserts \<and>
   list_all (\<lambda>(name, id). map_of enum_bpf_map_type name = Some (int id)) win_map_types \<and>
   list_all (\<lambda>(name, id). map_of enum_bpf_func_id name = Some (int id)) win_helper_ids \<and>
   list_all2 (\<lambda>c go. size_of c = unsafe_Sizeof go)
     [legacy_event_header, legacy_process_event, legacy_file_event, legacy_network_event]
     [EBPFEventHeader, EBPFProcessEvent, EBPFFileEvent, EBPFNetworkEvent] \<and>
   list_all2 (\<lambda>c go. size_of c + 4 = unsafe_Sizeof go)
     [win_event_header, win_process_event, win_file_event, win_network_event]
     [EBPFEventHeader, EBPFProcessEvent, EBPFFileEvent, EBPFNetworkEvent]"
  using win_ids_known by (simp add: win_static_asserts_def offset_simps)

end
