(* ===== verification/Spec2Isabelle.thy ===== *)
theory Spec2Isabelle
  imports Runtime_Properties Streaming_Properties Abi_Properties Win_Properties
begin

text \<open>
  \<^bold>\<open>Warmor\<close> observes and restricts what the processes of a machine do. Its parts, as modelled
  here, are

  \<^item> the LSM programs (\<open>bpf/lsm_*.bpf.c\<close> over \<open>bpf/warmor_lsm.h\<close>): seven BPF programs at the
    kernel's security hooks that hash what the call is about (a name, an endpoint, a port, a PID),
    look the hash up in the policy map, count the match, report the decision through a ring buffer
    and refuse the call when a deny rule matches and enforcement is on;
  \<^item> the tracepoint monitors (\<open>bpf/{execve,openat,connect}_monitor.bpf.c\<close>), which only report;
  \<^item> the Linux platform (\<open>internal/ebpf\<close>, \<open>internal/platform/linux.go\<close>): the loaders of the
    programs, the goroutines that turn ring buffer samples into events, the manager of the policy
    map, the enforce switch and the cgroup filters;
  \<^item> the enforcer (\<open>internal/enforcer\<close>) with what it asks about an event: the process tree
    (\<open>internal/lineage\<close>), the network filter, the sandboxes, the decision cache (\<open>internal/cache\<close>)
    and the WASM policy behind a pool of instances (\<open>internal/wasm\<close>). A denial terminates the
    process and becomes a rule of the policy map;
  \<^item> the stream of decisions (\<open>internal/streaming\<close>): a queue, a loop and sinks;
  \<^item> the Windows programs (\<open>internal/platform/etw/programs\<close> and the older \<open>bpf-windows\<close>) with
    their parser and rule writer (\<open>internal/platform/etw/ebpf_loader.go\<close>, \<open>ebpf_policy_map.go\<close>);
  \<^item> the macOS platform: the C bridge and the client of the Endpoint Security framework
    (\<open>internal/platform/esf\<close>, \<open>internal/platform/darwin.go\<close>).

  The programs and userspace share maps: userspace writes rules, the programs read them and write
  hit counts; the programs append records to a ring buffer, the readers consume them and send
  events to the enforcer, which decides, acts, writes rules and emits to the stream.
\<close>

section \<open>Theories\<close>

text \<open>
  Kernel side:

  \<^item> \<open>Warmor_Prelude\<close>: byte buffers (\<open>load\<close>, \<open>store\<close>, the normal form \<open>writes\<close> of a record that is
    filled member by member), little-endian words, C strings, association lists.
  \<^item> \<open>C_Layout\<close>: C types with size, alignment and member offsets (padding, packed structs, unions,
    bit fields). \<open>Vmlinux_*\<close>: the declarations of \<open>bpf/vmlinux.h\<close> that the programs reach through
    their field accesses, transcribed as such types, and the enumerations of the BPF interface.
    \<open>Kernel_Access\<close> walks a field access through these declarations and yields its offset;
    \<open>Vmlinux_Abi\<close> has the kernel's declarations of structs that programs restate by hand, and
    \<open>Abi_Properties\<close> compares them.
  \<^item> \<open>Bpf_Runtime\<close>: the helpers as a record of functions (\<open>helpers\<close>) with their documented laws
    (locale \<open>bpf_helpers\<close>), a concrete memory that satisfies the laws (\<open>mem_helpers\<close>), and bounded
    hash maps (locale \<open>bpf_map\<close>, interpreted on the association list operations).
  \<^item> \<open>Lsm_Common\<close>: \<open>warmor_lsm.h\<close>, that is constants, structs, maps (\<open>lsm_state\<close>) and every inline
    function. \<open>Lsm_Contract\<close>: what a program owes to its policy, as an abstract decision
    procedure (\<open>decide\<close>) and the locale \<open>lsm_hook\<close>. \<open>Lsm_Hooks\<close>: the seven programs
    (\<open>lsm_exec_check\<close> and so on), each interpreted in \<open>lsm_hook\<close>; \<open>run_hook\<close> dispatches a call.
    \<open>Lsm_Properties\<close>: refinement, safety, counting and event contents. \<open>Demo_Kernel\<close>: a small
    kernel memory for concrete runs.
  \<^item> \<open>Monitors\<close>: the tracepoint programs and their structs (locale \<open>monitor\<close>).
  \<^item> \<open>Vmlinux_Hooks\<close>: the kernel's table of security hooks and where the programs attach.

  Userspace on Linux:

  \<^item> \<open>Go_Events\<close>: the Go structs, \<open>binary.Read\<close> and the conversions. \<open>Event_Properties\<close>: what the
    kernel submits is what userspace reads.
  \<^item> \<open>Policy_Manager\<close>: \<open>policy_map.go\<close> and the cgroup filters. \<open>Lsm_System\<close>: kernel programs and
    manager as a step relation (\<open>lsm_step\<close>) over hook calls, manager operations and reads, in any
    order. \<open>System_Properties\<close>: invariants and effects along executions.
  \<^item> \<open>Lsm_Loader\<close>: \<open>LoadLSM\<close>, \<open>IsLSMSupported\<close> and \<open>Close\<close> of \<open>lsm_loader.go\<close>; the seven unrolled
    load-and-attach steps are one recursion over the list of programs. \<open>Linux_Platform\<close>: the
    loader of the monitors (\<open>loader.go\<close>), the cgroups (\<open>cgroup.go\<close>), and \<open>Load\<close>, \<open>Close\<close> and the
    conversion of events of \<open>linux.go\<close>; \<open>Platform_Properties\<close>. \<open>Linux_Readers\<close>: \<open>Start\<close>, \<open>Stop\<close>
    and the reader goroutines as a step relation (\<open>run_step\<close>) with a termination measure.
  \<^item> \<open>Go_Strings\<close>, \<open>Net_Address\<close>, \<open>Sha256\<close>: what the sources use of the Go library to print and
    read numbers and addresses and to hash. \<open>Api_Types\<close>: \<open>pkg/api/types.go\<close>, and
    \<open>syncToPolicyMap\<close> of the enforcer.
  \<^item> \<open>Decision_Cache\<close>: the cache, with results as shared objects; locale \<open>ttl_store\<close> is the
    contract of a store with expiry. \<open>Lineage\<close>: the process tree and the enrichment of events.
    \<open>Enforcer_Filters\<close>: \<open>netfilter.go\<close> and \<open>sandbox.go\<close>. \<open>Wasm_Policy\<close>: the encodings of an event
    for a policy, the host functions and both ways of evaluation; \<open>Wasm_Pool\<close>: the pool as a Go
    channel and the evaluator.
  \<^item> \<open>Enforcer\<close>: \<open>handleEvent\<close> with all its paths, the event loop, statistics, reload and closing.
    \<open>Enforcer_Facts\<close>: what each path does. \<open>Enforcer_Properties\<close>: the properties of the enforcer
    and of its composition with monitors and LSM programs.
  \<^item> \<open>Streaming\<close>: the pipeline as a step relation (\<open>stream_step\<close>) of callers, loop, timer and
    \<open>Close\<close>; locale \<open>event_sink\<close> is what the pipeline relies on, interpreted on the webhook and CEF
    sinks. \<open>Streaming_Properties\<close>.

  Other systems:

  \<^item> \<open>Win_Programs\<close> (locale \<open>win_monitor\<close>), \<open>Win_Legacy\<close> (locale \<open>legacy_monitor\<close>), \<open>Etw_Decode\<close>
    (parser, channel, rule writer) and \<open>Win_Properties\<close>.
  \<^item> \<open>Esf_Bridge\<close>: the bridge, its calls as a step relation, and its properties. \<open>Esf_Client\<close>: the
    client and the platform. \<open>Runtime_Properties\<close>: readers, automatic filter and macOS client.
\<close>

section \<open>Correspondence\<close>

text \<open>
  Structs whose bytes matter are layouts of \<open>C_Layout\<close> and byte lists; structs that are only
  passed around are records. Machine words have their width. A ring buffer is the list of
  submitted records, a NULL pointer is \<open>None\<close> or address 0, a Go \<open>error\<close> is a value. A program is
  a function from the helpers' answers, the maps and its context to its return code and the new
  maps. Memory that a program reads does not change while it runs, and a program runs to its end
  before the next step of the system; the hit counter is then an ordinary increment modulo \<open>2 ^ 32\<close>.
  Reserved memory and stack buffers have arbitrary contents until they are written.

  A Go function that may panic or wait returns an \<open>outcome\<close>. Where goroutines meet (readers,
  stream) the model is a step relation and every interleaving is an execution; elsewhere a call
  runs to its end. What a function takes from outside (clock readings, the order of a map
  iteration, answers of the network) comes from a record of inputs, what it does to the outside
  (terminating a process, emitting to the stream) is a list of effects. Objects behind pointers
  that are shared, the results in the decision cache, are addresses of a store.

  Third-party code is a parameter: the BPF helpers (argument \<open>h\<close>, laws in \<open>bpf_helpers\<close>), the
  relocation of field accesses (\<open>core_offset\<close>), the machine that loads and attaches programs and
  its file system (\<open>machine\<close>, \<open>tracer\<close>, \<open>linux_machine\<close>), the WASM engine (\<open>wasm_engine\<close>), the
  Endpoint Security functions and messages (\<open>es_api\<close>, \<open>es_content\<close>) and whether the Windows map
  functions resolve (\<open>win_api\<close>). Every property with hypotheses has a witness on a concrete
  instance.
\<close>

section \<open>What is shown\<close>

text \<open>
  \<^item> Linux decisions: each program refines the abstract decision (C1), refuses exactly what an
    enforced deny rule matches (C5), reports what it decided (C16), and is not influenced by other
    cgroups or event types (C18); the name hash is FNV-1a of the first 16 bytes (C17). In all
    reachable states the maps are well formed (C10) and no call is refused without a rule that
    userspace wrote (C4). The cgroup filter selects what it lists (C19).
  \<^item> Kernel types: the field accesses of the programs type-check, stay inside their structs, and
    restated structs agree (C6).
  \<^item> From system call to system call: a denied execution is refused the next time (C2), in audit
    mode too (C28); the rules for denied opens and connections miss (C29).
  \<^item> The enforcer handles every sequence of events without a panic or a wait (C3), returns from the
    cache only what was decided (C7) although opening for writing shares the decision on reading
    (C33), denies when the policy fails (C21), and terminates nothing in audit mode (C22). The
    policy sees the event (C14). Reload and close panic (C31); a read-only sandbox kills readers
    (C34).
  \<^item> The network filter blocks exactly the listed networks (C13), but is asked for reversed addresses
    (C30), and limits each process by itself (C23).
  \<^item> The Linux platform: a required LSM is active when loading succeeds (C8); the outcomes of
    loading the monitors (C32); the readers deliver in order (C11, C20), their shutdown ends (C12)
    once no reader waits for a sample (C37); the automatic filter misses containers (C38).
  \<^item> The stream delivers what it accepts, once and in order, and accounts for the rest (C9); a report
    says what was done (C15); a command name may break a log line (C40).
  \<^item> Windows: verdicts (C24), rules (C25), accounting (C26), and that records are not understood by
    the parser, so that no decision is installed (C35).
  \<^item> macOS: the global client of the bridge is live (C27); the client allows everything (C36) and
    cannot be restarted (C39).

  Further lemmas of the property theories hold what these build on: counting of matches, effects of
  each manager operation, delivery of each kind of event, all-or-nothing loading, removal of
  networks, layouts and clock conversions on Windows.
\<close>

section \<open>Bounds\<close>

text \<open>
  Loops of the sources are total functions by structure or by a termination measure.
  \<open>clear_iterating\<close> models the iteration over a map with deletion; its step bound is one more than
  the capacity of the map, after which the iterator of the library gives up, and
  \<open>filter_clearing_ends\<close> shows that it is never reached. The step relations have no bound;
  \<open>steps_left\<close> measures the shutdown of the readers. Map capacities are those of the sources (65536
  rules, 1024 filter entries, 4096 Windows rules); the capacities of channels, pools, caches and
  batches are arguments.
\<close>

section \<open>Not modelled\<close>

text \<open>
  \<^item> The rest of \<open>bpf/vmlinux.h\<close>: generated declarations that no program uses.
  \<^item> The WASM engine and its configuration (\<open>internal/wasm/runtime.go\<close>), and the generated loaders.
  \<^item> \<open>New\<close> and \<open>Start\<close> of the enforcer, which read the configuration and start goroutines; metrics,
    console and log output.
  \<^item> The standard output, file and syslog sinks: text handed to the system.
  \<^item> On Windows loading, attaching and polling through the DLL, and the system calls of a sandbox:
    I/O on kernel objects.
  \<^item> \<open>GetPIDCgroupID\<close>, which only a test calls.
  \<^item> The command line tools, servers and the analysis packages behind them: I/O, HTTP and text
    processing on top of the parts above.
\<close>

end
